(* ===== verification/Prelude.thy ===== *)
theory Prelude
  imports Main "HOL-Library.Char_ord" "HOL-Library.List_Lexorder" "HOL-Library.Multiset"
    "HOL-Library.Word"
begin

text \<open>
  Shared vocabulary of the development: the pieces of the Go language and of its standard
  library that the operator uses (byte strings, \<open>strings.Split\<close>, \<open>strings.Join\<close>,
  \<open>strings.TrimSpace\<close>, \<open>strings.ToLower\<close>, decimal printing and parsing, 32- and
  64-bit signed arithmetic, durations), and generic lemmas on them.

  A Go string is a byte sequence, so it is a \<open>char list\<close> here. The character classes of
  \<open>strings.ToLower\<close> and \<open>strings.TrimSpace\<close> are the ASCII ones: bytes from 128 on are
  left alone, so on text outside ASCII the two functions are only approximated.
\<close>

named_theorems go_simps \<open>evaluation of the standard library functions\<close>

section \<open>Signed machine integers\<close>

text \<open>Go's \<open>int32\<close> and \<open>int64\<close>: a mathematical integer reduced to two's complement.\<close>

definition wrap32 :: "int \<Rightarrow> int" where
  "wrap32 i = (i + 2 ^ 31) mod 2 ^ 32 - 2 ^ 31"

definition wrap64 :: "int \<Rightarrow> int" where
  "wrap64 i = (i + 2 ^ 63) mod 2 ^ 64 - 2 ^ 63"

definition is_int32 :: "int \<Rightarrow> bool" where
  "is_int32 i \<longleftrightarrow> - (2 ^ 31) \<le> i \<and> i < 2 ^ 31"

definition is_int64 :: "int \<Rightarrow> bool" where
  "is_int64 i \<longleftrightarrow> - (2 ^ 63) \<le> i \<and> i < 2 ^ 63"

lemma wrap32_id [simp]: "is_int32 i \<Longrightarrow> wrap32 i = i"
  by (simp add: wrap32_def is_int32_def)

lemma wrap64_id [simp]: "is_int64 i \<Longrightarrow> wrap64 i = i"
  by (simp add: wrap64_def is_int64_def)

lemma wrap32_range [simp]: "is_int32 (wrap32 i)"
proof -
  have "0 \<le> (i + 2 ^ 31) mod 2 ^ 32" and "(i + 2 ^ 31) mod 2 ^ 32 < (2 ^ 32 :: int)"
    by simp_all
  then show ?thesis by (simp add: wrap32_def is_int32_def)
qed

lemma wrap64_range [simp]: "is_int64 (wrap64 i)"
proof -
  have "0 \<le> (i + 2 ^ 63) mod 2 ^ 64" and "(i + 2 ^ 63) mod 2 ^ 64 < (2 ^ 64 :: int)"
    by simp_all
  then show ?thesis by (simp add: wrap64_def is_int64_def)
qed

section \<open>Time\<close>

text \<open>
  Instants (\<open>time.Time\<close>, \<open>metav1.Time\<close>) are integers counting nanoseconds; a
  \<open>time.Duration\<close> is an \<open>int64\<close> of nanoseconds. \<open>time.Since\<close> saturates at the
  bounds of the type, multiplication by a unit wraps.
\<close>

abbreviation second :: int where "second \<equiv> 1000000000"

abbreviation minute :: int where "minute \<equiv> 60 * second"

definition time_Since :: "int \<Rightarrow> int \<Rightarrow> int" where
  "time_Since now t = max (- (2 ^ 63)) (min (2 ^ 63 - 1) (now - t))"

definition seconds_dur :: "int \<Rightarrow> int" where
  "seconds_dur n = wrap64 (n * second)"

lemma time_Since_small [simp]: "is_int64 (now - t) \<Longrightarrow> time_Since now t = now - t"
  by (auto simp: time_Since_def is_int64_def)

lemma wrap64_high:
  assumes "2 ^ 63 \<le> x" and "x < 2 ^ 63 + 2 ^ 64"
  shows "wrap64 x = x - 2 ^ 64"
proof -
  have "(x + 2 ^ 63) mod 2 ^ 64 = (x + 2 ^ 63 - 2 ^ 64) mod 2 ^ 64"
    by (rule minus_mod_self2 [symmetric])
  also have "\<dots> = x + 2 ^ 63 - 2 ^ 64"
    using assms by (intro mod_pos_pos_trivial) simp_all
  finally show ?thesis by (simp add: wrap64_def)
qed

lemma seconds_dur_small [simp]: "0 \<le> n \<Longrightarrow> n \<le> 9223372036 \<Longrightarrow> seconds_dur n = n * second"
  unfolding seconds_dur_def by (intro wrap64_id) (simp add: is_int64_def)

lemma time_Since_mono: "now \<le> now' \<Longrightarrow> time_Since now t \<le> time_Since now' t"
  by (auto simp: time_Since_def)

lemma time_Since_less_iff:
  "is_int64 d \<Longrightarrow> (time_Since now t < d) = (now - t < d \<and> - (2 ^ 63) < d)"
  by (auto simp: time_Since_def is_int64_def)

section \<open>Strings\<close>

abbreviation newline_char :: char where "newline_char \<equiv> CHR 0x0A"

definition is_space :: "char \<Rightarrow> bool" where
  "is_space c \<longleftrightarrow> c \<in> {CHR 0x09, CHR 0x0A, CHR 0x0B, CHR 0x0C, CHR 0x0D, CHR '' ''}"

definition TrimSpace :: "string \<Rightarrow> string" where
  "TrimSpace s = rev (dropWhile is_space (rev (dropWhile is_space s)))"

definition lower_char :: "char \<Rightarrow> char" where
  "lower_char c = (if CHR ''A'' \<le> c \<and> c \<le> CHR ''Z'' then char_of (of_char c + 32 :: nat) else c)"

definition ToLower :: "string \<Rightarrow> string" where
  "ToLower s = map lower_char s"

definition HasSuffix :: "string \<Rightarrow> string \<Rightarrow> bool" where
  "HasSuffix s suf \<longleftrightarrow> length suf \<le> length s \<and> drop (length s - length suf) s = suf"

definition TrimSuffix :: "string \<Rightarrow> string \<Rightarrow> string" where
  "TrimSuffix s suf = (if HasSuffix s suf then take (length s - length suf) s else s)"

definition TrimPrefix :: "string \<Rightarrow> string \<Rightarrow> string" where
  "TrimPrefix s pre = (if take (length pre) s = pre then drop (length pre) s else s)"

text \<open>\<open>strings.Split\<close> and \<open>strings.Join\<close>, for the one-byte separators the code uses.\<close>

fun Split :: "string \<Rightarrow> char \<Rightarrow> string list" where
  "Split [] sep = [[]]"
| "Split (c # cs) sep =
     (if c = sep then [] # Split cs sep
      else (case Split cs sep of [] \<Rightarrow> [[c]] | w # ws \<Rightarrow> (c # w) # ws))"

fun Join :: "string list \<Rightarrow> char \<Rightarrow> string" where
  "Join [] sep = []"
| "Join [w] sep = w"
| "Join (w # v # ws) sep = w @ [sep] @ Join (v # ws) sep"

lemma takeWhile_none:
  assumes "c \<notin> set a" shows "takeWhile (\<lambda>x. x \<noteq> c) a = a" and "dropWhile (\<lambda>x. x \<noteq> c) a = []"
  using assms by (induction a) auto

lemma takeWhile_upto:
  assumes "c \<notin> set a"
  shows "takeWhile (\<lambda>x. x \<noteq> c) (a @ c # b) = a" and "dropWhile (\<lambda>x. x \<noteq> c) (a @ c # b) = c # b"
  using assms by (induction a) auto

lemma Split_nonempty [simp]: "Split s sep \<noteq> []"
  by (induction s) (auto split: list.splits)

lemma Split_no_sep: "sep \<notin> set s \<Longrightarrow> Split s sep = [s]"
  by (induction s) auto

lemma Split_append_sep:
  "sep \<notin> set w \<Longrightarrow> Split (w @ sep # rest) sep = w # Split rest sep"
  by (induction w) auto

lemma Split_Join:
  assumes "ws \<noteq> []" and "\<forall>w \<in> set ws. sep \<notin> set w"
  shows "Split (Join ws sep) sep = ws"
  using assms by (induction ws sep rule: Join.induct) (auto simp: Split_no_sep Split_append_sep)

lemma set_Join: "set (Join ws sep) \<subseteq> \<Union> (set ` set ws) \<union> {sep}"
  by (induction ws sep rule: Join.induct) auto

lemma Join_Split: "Join (Split s sep) sep = s"
proof (induction s)
  case (Cons c cs)
  obtain w ws where "Split cs sep = w # ws" by (cases "Split cs sep") auto
  with Cons show ?case by (cases ws) auto
qed simp

lemma Split_elems_no_sep: "w \<in> set (Split s sep) \<Longrightarrow> sep \<notin> set w"
proof (induction s arbitrary: w)
  case (Cons c cs)
  then show ?case by (cases "Split cs sep") (auto split: if_splits)
qed simp

lemma dropWhile_stop: "(xs \<noteq> [] \<Longrightarrow> \<not> P (hd xs)) \<Longrightarrow> dropWhile P xs = xs"
  by (cases xs) auto

lemma TrimSpace_id:
  assumes "\<forall>c \<in> set s. \<not> is_space c" shows "TrimSpace s = s"
proof -
  have "dropWhile is_space s = s" using assms by (intro dropWhile_stop) auto
  moreover have "dropWhile is_space (rev s) = rev s"
    using assms by (intro dropWhile_stop) (metis hd_in_set set_rev)
  ultimately show ?thesis by (simp add: TrimSpace_def)
qed

lemma dropWhile_space: "\<forall>c \<in> set l. is_space c \<Longrightarrow> dropWhile is_space (l @ s) = dropWhile is_space s"
  by (induction l) auto

lemma TrimSpace_surround:
  assumes "\<forall>c \<in> set l. is_space c" and "\<forall>c \<in> set r. is_space c"
    and "\<forall>c \<in> set s. \<not> is_space c"
  shows "TrimSpace (l @ s @ r) = s"
proof (cases "s = []")
  case True
  with assms show ?thesis by (simp add: TrimSpace_def dropWhile_space) (metis set_dropWhileD)
next
  case False
  then have "dropWhile is_space (s @ r) = s @ r"
    using assms(3) by (intro dropWhile_stop) (auto simp: hd_append)
  moreover have "dropWhile is_space (rev s) = rev s"
    using assms(3) False by (intro dropWhile_stop) (metis hd_in_set rev_is_Nil_conv set_rev)
  ultimately show ?thesis
    using assms(1,2) by (simp add: TrimSpace_def dropWhile_space)
qed

lemma lower_space: "is_space c \<Longrightarrow> lower_char c = c"
  by (auto simp: is_space_def lower_char_def less_eq_char_def)

lemma ToLower_append: "ToLower (s @ t) = ToLower s @ ToLower t"
  by (simp add: ToLower_def)

lemma ToLower_same: "\<forall>c \<in> set s. lower_char c = c \<Longrightarrow> ToLower s = s"
  by (simp add: ToLower_def map_idI)

lemma TrimSpace_Nil [simp]: "TrimSpace [] = []"
  by (simp add: TrimSpace_def)

lemma HasSuffix_append [simp]: "HasSuffix (s @ suf) suf"
  by (simp add: HasSuffix_def)

lemma TrimSuffix_append [simp]: "TrimSuffix (s @ suf) suf = s"
  by (simp add: TrimSuffix_def)

lemma HasSuffix_char: "HasSuffix s [c] \<longleftrightarrow> s \<noteq> [] \<and> last s = c"
proof (cases s rule: rev_cases)
  case (snoc xs x)
  then show ?thesis by (simp add: HasSuffix_def)
qed (simp add: HasSuffix_def)

text \<open>\<open>filepath.Clean\<close> and \<open>filepath.Join\<close> on a slash-separated system.\<close>

definition clean_step :: "bool \<Rightarrow> string list \<Rightarrow> string \<Rightarrow> string list" where
  "clean_step rooted stack seg =
     (if seg = [] \<or> seg = ''.'' then stack
      else if seg = ''..'' then
        (case stack of
           [] \<Rightarrow> if rooted then [] else [''..'']
         | x # xs \<Rightarrow> if x = ''..'' then ''..'' # stack else xs)
      else seg # stack)"

definition Clean :: "string \<Rightarrow> string" where
  "Clean s =
     (if s = [] then ''.''
      else let rooted = (hd s = CHR ''/'');
               body = Join (rev (foldl (clean_step rooted) [] (Split s (CHR ''/'')))) (CHR ''/'')
           in if rooted then CHR ''/'' # body else if body = [] then ''.'' else body)"

definition filepath_Join :: "string list \<Rightarrow> string" where
  "filepath_Join elems =
     (case dropWhile (\<lambda>e. e = []) elems of
        [] \<Rightarrow> [] | es \<Rightarrow> Clean (Join es (CHR ''/'')))"

text \<open>\<open>hex.EncodeToString\<close> of a list of bytes.\<close>

definition hex_digit :: "nat \<Rightarrow> char" where
  "hex_digit n = ''0123456789abcdef'' ! n"

definition EncodeToString :: "nat list \<Rightarrow> string" where
  "EncodeToString bs = concat (map (\<lambda>b. [hex_digit (b div 16 mod 16), hex_digit (b mod 16)]) bs)"

section \<open>Decimal numbers\<close>

definition digit_char :: "nat \<Rightarrow> char" where
  "digit_char d = char_of (48 + d)"

definition is_digit :: "char \<Rightarrow> bool" where
  "is_digit c \<longleftrightarrow> 48 \<le> (of_char c :: nat) \<and> (of_char c :: nat) \<le> 57"

definition digit_val :: "char \<Rightarrow> nat" where
  "digit_val c = of_char c - 48"

fun show_nat :: "nat \<Rightarrow> string" where
  "show_nat n = (if n < 10 then [digit_char n] else show_nat (n div 10) @ [digit_char (n mod 10)])"

declare show_nat.simps [simp del]

text \<open>The verb \<open>%d\<close> of package \<open>fmt\<close>.\<close>

definition show_int :: "int \<Rightarrow> string" where
  "show_int i = (if i < 0 then CHR ''-'' # show_nat (nat (- i)) else show_nat (nat i))"

definition digits_val :: "string \<Rightarrow> nat" where
  "digits_val s = foldl (\<lambda>v c. 10 * v + digit_val c) 0 s"

text \<open>
  \<open>strconv.ParseInt(s, 10, 64)\<close>: an optional sign, at least one digit, nothing else, and a
  value in range; every other input is an error.
\<close>

definition ParseInt :: "string \<Rightarrow> int option" where
  "ParseInt s =
     (let neg = (s \<noteq> [] \<and> hd s = CHR ''-'');
          ds = (if s \<noteq> [] \<and> (hd s = CHR ''-'' \<or> hd s = CHR ''+'') then tl s else s)
      in if ds = [] \<or> \<not> list_all is_digit ds then None
         else let v = (if neg then - int (digits_val ds) else int (digits_val ds))
              in if is_int64 v then Some v else None)"

lemma of_char_digit_char: "d < 10 \<Longrightarrow> (of_char (digit_char d) :: nat) = 48 + d"
  by (simp add: digit_char_def)

lemma is_digit_digit_char [simp]: "d < 10 \<Longrightarrow> is_digit (digit_char d)"
  by (simp add: is_digit_def of_char_digit_char)

lemma digit_val_digit_char [simp]: "d < 10 \<Longrightarrow> digit_val (digit_char d) = d"
  by (simp add: digit_val_def of_char_digit_char)

lemma show_nat_nonempty [simp]: "show_nat n \<noteq> []"
  by (subst show_nat.simps) simp

lemma show_nat_digits [simp]: "list_all is_digit (show_nat n)"
proof (induction n rule: show_nat.induct)
  case (1 n)
  then show ?case by (subst show_nat.simps) auto
qed

lemma digits_val_snoc: "digits_val (s @ [c]) = 10 * digits_val s + digit_val c"
  by (simp add: digits_val_def)

lemma digits_val_show_nat [simp]: "digits_val (show_nat n) = n"
proof (induction n rule: show_nat.induct)
  case (1 n)
  show ?case
  proof (cases "n < 10")
    case True
    then show ?thesis by (subst show_nat.simps) (simp add: digits_val_def)
  next
    case False
    with 1 show ?thesis by (subst show_nat.simps) (simp add: digits_val_snoc)
  qed
qed

lemma show_nat_inject [simp]: "show_nat m = show_nat n \<longleftrightarrow> m = n"
  by (metis digits_val_show_nat)

lemma show_nat_all_digits: "c \<in> set (show_nat n) \<Longrightarrow> is_digit c"
  using show_nat_digits [of n] by (simp add: list_all_iff)

lemma not_is_digit [simp]:
  "\<not> is_digit (CHR ''-'')" "\<not> is_digit (CHR ''+'')" "\<not> is_digit (CHR '','')"
  "\<not> is_digit (CHR '':'')" "\<not> is_digit (CHR ''g'')" "\<not> is_digit (CHR ''m'')"
  "\<not> is_digit (CHR ''k'')" "\<not> is_digit newline_char"
  by (simp_all add: is_digit_def)

lemma digit_not_space: "is_digit c \<Longrightarrow> \<not> is_space c"
  by (auto simp: is_digit_def is_space_def)

lemma digit_lower: "is_digit c \<Longrightarrow> lower_char c = c"
  by (auto simp: is_digit_def lower_char_def less_eq_char_def)

lemma show_int_chars: "c \<in> set (show_int i) \<Longrightarrow> is_digit c \<or> c = CHR ''-''"
  by (auto simp: show_int_def dest: show_nat_all_digits split: if_splits)

lemma ParseInt_digits:
  assumes "ds \<noteq> []" and "list_all is_digit ds"
  shows "ParseInt ds = (if int (digits_val ds) < 2 ^ 63 then Some (int (digits_val ds)) else None)"
proof -
  obtain c cs where ds: "ds = c # cs" using assms(1) by (cases ds) auto
  with assms(2) have "is_digit c" by simp
  then have "c \<noteq> CHR ''-''" and "c \<noteq> CHR ''+''" by auto
  with assms ds show ?thesis by (simp add: ParseInt_def Let_def is_int64_def)
qed

lemma ParseInt_show_nat:
  "ParseInt (show_nat n) = (if int n < 2 ^ 63 then Some (int n) else None)"
  by (simp add: ParseInt_digits)

lemma show_nat_lower [simp]: "ToLower (show_nat n) = show_nat n"
  by (intro ToLower_same ballI) (auto dest: show_nat_all_digits digit_lower)

lemma show_nat_last: "is_digit (last (show_nat n))"
  using last_in_set [OF show_nat_nonempty] by (rule show_nat_all_digits)

lemma ParseInt_range: "ParseInt s = Some v \<Longrightarrow> is_int64 v"
  by (auto simp: ParseInt_def Let_def split: if_splits)

lemmas [go_simps] = ToLower_def lower_char_def TrimSpace_def is_space_def HasSuffix_char
  TrimSuffix_def HasSuffix_def TrimPrefix_def ParseInt_def digits_val_def digit_val_def
  is_digit_def wrap64_def wrap32_def is_int64_def is_int32_def less_eq_char_def Let_def

end
