(* ===== verification/ApiTypes.thy ===== *)
theory ApiTypes
  imports Prelude
begin

text \<open>
  The custom resources of \<open>api/v1alpha1\<close>, one record per Go struct, with a prefix per struct
  because Isabelle's field names are global. Slices and maps whose order the program can observe
  are lists; a pointer is an \<open>option\<close>; \<open>int32\<close> and \<open>int64\<close> fields are integers in
  the range of their type. Of \<open>metav1.ObjectMeta\<close> the fields the controllers read or write
  are kept.
\<close>

section \<open>Object metadata\<close>

record OwnerReference =
  or_UID :: string
  or_Controller :: bool

record ObjectMeta =
  om_Name :: string
  om_Namespace :: string
  om_UID :: string
  om_Labels :: "(string \<times> string) list"
  om_CreationTimestamp :: int
  om_DeletionTimestamp :: "int option"
  om_Finalizers :: "string list"
  om_OwnerReferences :: "OwnerReference list"

record LabelSelector =
  ls_MatchLabels :: "(string \<times> string) list"
  ls_MatchExpressions :: "(string \<times> string \<times> string list) list"

record TypeMeta =
  tym_Kind :: string
  tym_APIVersion :: string

record ListMeta =
  lm_ResourceVersion :: string
  lm_Continue :: string
  lm_RemainingItemCount :: "int option"

record Condition =
  cnd_Type :: string
  cnd_Status :: string
  cnd_ObservedGeneration :: int
  cnd_LastTransitionTime :: int
  cnd_Reason :: string
  cnd_Message :: string

record ObjectKey =
  key_Namespace :: string
  key_Name :: string

section \<open>container.go\<close>

record HealthCheckConfig =
  hcc_Test :: "string list"
  hcc_Interval :: string
  hcc_Timeout :: string
  hcc_Retries :: int

record ResourceRequirements =
  rr_CPULimit :: string
  rr_MemoryLimit :: string

record SecretKeySelector =
  sks_Name :: string
  sks_Key :: string

record EnvVarSource =
  evs_SecretKeyRef :: "SecretKeySelector option"

record EnvVar =
  ev_Name :: string
  ev_Value :: string
  ev_ValueFrom :: "EnvVarSource option"

record SecretVolume =
  sv_SecretName :: string
  sv_MountPath :: string

record ServicePort =
  sp_Port :: int
  sp_TargetPort :: int
  sp_Name :: string

record VolumeMount =
  vm_HostPath :: string
  vm_ContainerPath :: string
  vm_ReadOnly :: bool

record DockerContainerSpec =
  dcs_Image :: string
  dcs_ContainerName :: string
  dcs_Ports :: "string list"
  dcs_Command :: "string list"
  dcs_Env :: "string list"
  dcs_RestartPolicy :: string
  dcs_DockerHostRef :: string
  dcs_ImagePullSecret :: string
  dcs_VolumeMounts :: "VolumeMount list"
  dcs_Services :: "ServicePort list"
  dcs_NetworkMode :: string
  dcs_EnvVars :: "EnvVar list"
  dcs_SecretVolumes :: "SecretVolume list"
  dcs_HealthCheck :: "HealthCheckConfig option"
  dcs_Resources :: "ResourceRequirements option"

record DockerContainerStatus =
  dct_ID :: string
  dct_State :: string
  dct_Health :: string
  dct_IPv4 :: string

record DockerContainer =
  dc_Meta :: ObjectMeta
  dc_Spec :: DockerContainerSpec
  dc_Status :: DockerContainerStatus

section \<open>host.go\<close>

record DockerHostSpec =
  dhs_HostURL :: string
  dhs_TLSSecretName :: string

record DockerHostStatus =
  dht_Phase :: string
  dht_Message :: string

record DockerHost =
  dh_Meta :: ObjectMeta
  dh_Spec :: DockerHostSpec
  dh_Status :: DockerHostStatus

section \<open>service.go\<close>

record DockerServiceSpec =
  dss_ContainerRef :: string
  dss_Selector :: "LabelSelector option"
  dss_Ports :: "ServicePort list"
  dss_NetworkMode :: string

record DockerServiceStatus =
  dst_Phase :: string
  dst_TunnelClients :: int
  dst_TunnelServerURL :: string
  dst_Message :: string

record DockerService =
  ds_Meta :: ObjectMeta
  ds_Spec :: DockerServiceSpec
  ds_Status :: DockerServiceStatus

section \<open>job\_types.go\<close>

type_synonym DockerJobPhase = string

definition JobPhasePending :: DockerJobPhase where "JobPhasePending = ''Pending''"
definition JobPhaseRunning :: DockerJobPhase where "JobPhaseRunning = ''Running''"
definition JobPhaseSucceeded :: DockerJobPhase where "JobPhaseSucceeded = ''Succeeded''"
definition JobPhaseFailed :: DockerJobPhase where "JobPhaseFailed = ''Failed''"

lemmas job_phase_defs = JobPhasePending_def JobPhaseRunning_def JobPhaseSucceeded_def
  JobPhaseFailed_def

record DockerJobSpec =
  djs_Image :: string
  djs_ContainerName :: string
  djs_Command :: "string list"
  djs_Args :: "string list"
  djs_Env :: "string list"
  djs_EnvVars :: "EnvVar list"
  djs_VolumeMounts :: "VolumeMount list"
  djs_SecretVolumes :: "SecretVolume list"
  djs_DockerHostRef :: string
  djs_ImagePullSecret :: string
  djs_RestartPolicy :: string
  djs_BackoffLimit :: int
  djs_ActiveDeadlineSeconds :: "int option"
  djs_TTLSecondsAfterFinished :: "int option"
  djs_Resources :: "ResourceRequirements option"

record DockerJobStatus =
  djt_Phase :: DockerJobPhase
  djt_ContainerID :: string
  djt_StartTime :: "int option"
  djt_CompletionTime :: "int option"
  djt_ExitCode :: "int option"
  djt_Attempts :: int
  djt_Message :: string

record DockerJob =
  dj_Meta :: ObjectMeta
  dj_Spec :: DockerJobSpec
  dj_Status :: DockerJobStatus

section \<open>deployment\_types.go\<close>

record TemplateMeta =
  tm_Labels :: "(string \<times> string) list"
  tm_Annotations :: "(string \<times> string) list"

record DockerContainerTemplate =
  dctpl_Metadata :: TemplateMeta
  dctpl_Spec :: DockerContainerSpec

record DockerDeploymentSpec =
  dds_Replicas :: "int option"
  dds_Selector :: "LabelSelector option"
  dds_Template :: DockerContainerTemplate

record DockerDeploymentStatus =
  ddt_AvailableReplicas :: int
  ddt_Conditions :: "Condition list"

record DockerDeployment =
  dd_Meta :: ObjectMeta
  dd_Spec :: DockerDeploymentSpec
  dd_Status :: DockerDeploymentStatus

end
