(* ===== verification/World.thy ===== *)
theory World
  imports ApiTypes "HOL-Library.State_Monad"
begin

text \<open>
  The boundary of the operator. The Kubernetes API server, the Docker daemons and the
  third-party packages the controllers call are not part of the program: they are the parameter
  \<open>api\<close> of every definition that uses them, one field per call, over an arbitrary world
  state \<open>'w\<close>. Nothing is assumed of them here, so whatever is proved over an arbitrary
  \<open>api\<close> holds for every behaviour of the cluster, failures and concurrent writers included.

  The program's own state is the client cache of the reconciler (a \<open>sync.Map\<close>). A ghost
  trace records the state-changing calls with their arguments and replies, in order; it is what
  ordering properties are stated on. Handlers run in the state monad and return \<open>error + 'a\<close>
  as Go returns \<open>(value, error)\<close>.
\<close>

named_theorems wp_simps \<open>weakest preconditions of the control structure\<close>
named_theorems emits_intros \<open>which events a piece of code can issue\<close>

section \<open>Errors\<close>

text \<open>
  \<open>apierrors.IsNotFound\<close> and \<open>dockerclient.IsErrNotFound\<close> distinguish the two
  not-found errors; \<open>Wrapf p e\<close> is \<open>fmt.Errorf("p%w", e)\<close>.
  \<open>GoPanic\<close> is a run-time panic: it ends the handler as an error does, and no handler recovers.
\<close>

datatype error = KNotFound string | DNotFound string | ErrMsg string | Wrapf string error | GoPanic string

fun error_Error :: "error \<Rightarrow> string" where
  "error_Error (KNotFound m) = m"
| "error_Error (DNotFound m) = m"
| "error_Error (ErrMsg m) = m"
| "error_Error (Wrapf p e) = p @ error_Error e"
| "error_Error (GoPanic m) = m"

fun IsNotFound :: "error \<Rightarrow> bool" where
  "IsNotFound (KNotFound m) = True"
| "IsNotFound (Wrapf p e) = IsNotFound e"
| "IsNotFound e = False"

fun IsErrNotFound :: "error \<Rightarrow> bool" where
  "IsErrNotFound (DNotFound m) = True"
| "IsErrNotFound (Wrapf p e) = IsErrNotFound e"
| "IsErrNotFound e = False"

section \<open>The types of the Docker client library\<close>

record Resources =
  res_NanoCPUs :: int
  res_Memory :: int

record HealthConfig =
  hth_Test :: "string list"
  hth_Interval :: int
  hth_Timeout :: int
  hth_Retries :: int

record PortBinding =
  pb_HostIP :: string
  pb_HostPort :: string

record Config =
  cfg_Image :: string
  cfg_Cmd :: "string list"
  cfg_Env :: "string list"
  cfg_Healthcheck :: "HealthConfig option"
  cfg_ExposedPorts :: "string set"

record HostConfig =
  hc_RestartPolicy :: string
  hc_PortBindings :: "string \<rightharpoonup> PortBinding list"
  hc_Binds :: "string list"
  hc_Resources :: Resources
  hc_NetworkMode :: string

record EndpointSettings =
  es_IPAddress :: string
  es_NetworkID :: string

text \<open>\<open>types.Container\<close>, an element of \<open>ContainerList\<close>; the networks are listed in
  the order in which Go's map iteration yields them.\<close>

record Container =
  ct_ID :: string
  ct_Names :: "string list"
  ct_Image :: string
  ct_State :: string
  ct_Networks :: "(string \<times> EndpointSettings) list option"

record ContainerState =
  cs_Status :: string
  cs_Running :: bool
  cs_ExitCode :: int
  cs_Health :: "string option"

record ContainerJSON =
  cj_ID :: string
  cj_Name :: string
  cj_State :: "ContainerState option"
  cj_HostConfig :: "HostConfig option"
  cj_Config :: "Config option"
  cj_Networks :: "(string \<times> EndpointSettings) list option"

record TarEntry =
  te_Name :: string
  te_Mode :: int
  te_Size :: int
  te_Data :: string

record AuthConfig =
  ac_Username :: string
  ac_Password :: string
  ac_ServerAddress :: string

record TLSConfig =
  tls_RootCAs :: string
  tls_Cert :: string
  tls_Key :: string

datatype ClientOpts =
    FromEnv
  | WithHost string "TLSConfig option"

type_synonym client = nat

section \<open>The types of the Kubernetes client library\<close>

record Secret =
  sec_Name :: string
  sec_Namespace :: string
  sec_Data :: "(string \<times> string) list"

record Result =
  RequeueAfter :: int

definition no_requeue :: Result where "no_requeue = \<lparr>RequeueAfter = 0\<rparr>"

definition requeue :: "int \<Rightarrow> Result" where "requeue d = \<lparr>RequeueAfter = d\<rparr>"

text \<open>The cluster objects of a tunnel server, with the fields the controllers set.\<close>

record SvcPort =
  svp_Name :: string
  svp_Port :: int
  svp_TargetPort :: int

record K8sService =
  ksv_Name :: string
  ksv_Namespace :: string
  ksv_Labels :: "(string \<times> string) list"
  ksv_Selector :: "(string \<times> string) list"
  ksv_Ports :: "SvcPort list"

record ConfigMap =
  cm_Name :: string
  cm_Namespace :: string
  cm_Data :: "(string \<times> string) list"

record K8sDeployment =
  dep_Name :: string
  dep_Namespace :: string
  dep_Labels :: "(string \<times> string) list"
  dep_Replicas :: int
  dep_Selector :: "(string \<times> string) list"
  dep_Image :: string
  dep_Command :: "string list"
  dep_Args :: "string list"
  dep_ContainerPorts :: "int list"
  dep_MountPath :: string
  dep_ConfigMap :: string

datatype OperationResult = OperationResultNone | OperationResultCreated | OperationResultUpdated

type_synonym ('w, 'a) call = "'w \<Rightarrow> (error + 'a) \<times> 'w"

section \<open>The interface\<close>

record 'w docker_api =
  api_ContainerList :: "client \<Rightarrow> ('w, Container list) call"
  api_ContainerInspect :: "client \<Rightarrow> string \<Rightarrow> ('w, ContainerJSON) call"
  api_ContainerCreate :: "client \<Rightarrow> Config \<Rightarrow> HostConfig \<Rightarrow> string \<Rightarrow> ('w, string) call"
  api_ContainerStart :: "client \<Rightarrow> string \<Rightarrow> ('w, unit) call"
  api_ContainerStop :: "client \<Rightarrow> string \<Rightarrow> int \<Rightarrow> ('w, unit) call"
  api_ContainerRemove :: "client \<Rightarrow> string \<Rightarrow> ('w, unit) call"
  api_CopyToContainer :: "client \<Rightarrow> string \<Rightarrow> string \<Rightarrow> TarEntry list \<Rightarrow> ('w, unit) call"
  api_ImagePull :: "client \<Rightarrow> string \<Rightarrow> string \<Rightarrow> ('w, unit) call"
  api_Ping :: "client \<Rightarrow> ('w, unit) call"
  api_Close :: "client \<Rightarrow> ('w, unit) call"
  api_NewClient :: "ClientOpts \<Rightarrow> ('w, client) call"

record 'w kube_api = "'w docker_api" +
  api_getDockerContainer :: "ObjectKey \<Rightarrow> ('w, DockerContainer) call"
  api_listDockerContainers :: "string \<Rightarrow> ('w, DockerContainer list) call"
  api_createDockerContainer :: "DockerContainer \<Rightarrow> ('w, unit) call"
  api_deleteDockerContainer :: "DockerContainer \<Rightarrow> ('w, unit) call"
  api_updateDockerContainer :: "DockerContainer \<Rightarrow> ('w, DockerContainer) call"
  api_statusDockerContainer :: "DockerContainer \<Rightarrow> ('w, DockerContainer) call"
  api_getDockerHost :: "ObjectKey \<Rightarrow> ('w, DockerHost) call"
  api_statusDockerHost :: "DockerHost \<Rightarrow> ('w, DockerHost) call"
  api_getDockerJob :: "ObjectKey \<Rightarrow> ('w, DockerJob) call"
  api_updateDockerJob :: "DockerJob \<Rightarrow> ('w, DockerJob) call"
  api_statusDockerJob :: "DockerJob \<Rightarrow> ('w, DockerJob) call"
  api_getDockerDeployment :: "ObjectKey \<Rightarrow> ('w, DockerDeployment) call"
  api_statusDockerDeployment :: "DockerDeployment \<Rightarrow> ('w, DockerDeployment) call"
  api_getSecret :: "ObjectKey \<Rightarrow> ('w, Secret) call"

text \<open>
  Library functions without effects, and the clock and random source of the process.
  \<open>lib_cpuNanos\<close> is \<open>int64(f * 1e9)\<close> for the floating-point number \<open>f\<close> that
  \<open>strconv.ParseFloat\<close> reads, \<open>None\<close> when it reports an error;
  \<open>lib_scanNanos\<close> the same for \<open>fmt.Sscanf(s, "%f", \<dots>)\<close>, which leaves zero on an error.
  \<open>lib_encodeAuth\<close> is the URL-safe base64 of the JSON encoding.
\<close>

record 'w api = "'w kube_api" +
  lib_ContainsFinalizer :: "ObjectMeta \<Rightarrow> string \<Rightarrow> bool"
  lib_AddFinalizer :: "ObjectMeta \<Rightarrow> string \<Rightarrow> ObjectMeta"
  lib_RemoveFinalizer :: "ObjectMeta \<Rightarrow> string \<Rightarrow> ObjectMeta"
  lib_IsControlledBy :: "ObjectMeta \<Rightarrow> ObjectMeta \<Rightarrow> bool"
  lib_SetControllerReference :: "ObjectMeta \<Rightarrow> ObjectMeta \<Rightarrow> error + ObjectMeta"
  lib_NewPort :: "string \<Rightarrow> string \<Rightarrow> error + string"
  lib_ParseDuration :: "string \<Rightarrow> int option"
  lib_cpuNanos :: "string \<Rightarrow> int option"
  lib_scanNanos :: "string \<Rightarrow> int"
  lib_encodeAuth :: "AuthConfig \<Rightarrow> error + string"
  lib_WriteHeader :: "TarEntry \<Rightarrow> error option"
  lib_AppendCertsFromPEM :: "string \<Rightarrow> bool"
  lib_X509KeyPair :: "string \<Rightarrow> string \<Rightarrow> error option"
  sys_Now :: "'w \<Rightarrow> int \<times> 'w"
  sys_Intn :: "nat \<Rightarrow> 'w \<Rightarrow> nat \<times> 'w"

section \<open>The state of a reconciler\<close>

datatype event =
    EvCreate client string Config HostConfig "error + string"
  | EvStart client string "error + unit"
  | EvStop client string int "error + unit"
  | EvRemove client string "error + unit"
  | EvCopy client string string "TarEntry list" "error + unit"
  | EvPull client string string "error + unit"
  | EvClose client
  | EvNewClient ClientOpts "error + client"
  | EvUpdateContainer DockerContainer "error + DockerContainer"
  | EvStatusContainer DockerContainer "error + DockerContainer"
  | EvCreateContainer DockerContainer "error + unit"
  | EvDeleteContainer DockerContainer "error + unit"
  | EvStatusHost DockerHost "error + DockerHost"
  | EvUpdateJob DockerJob "error + DockerJob"
  | EvStatusJob DockerJob "error + DockerJob"
  | EvStatusDeployment DockerDeployment "error + DockerDeployment"
  | EvUpdateService DockerService "error + DockerService"
  | EvStatusService DockerService "error + DockerService"
  | EvApplyService K8sService "error + OperationResult"
  | EvApplyConfigMap ConfigMap "error + OperationResult"
  | EvApplyDeployment K8sDeployment "error + OperationResult"
  | EvCreateSecret Secret "error + unit"
  | EvCreateService K8sService "error + unit"
  | EvCreateDeployment K8sDeployment "error + unit"
  | EvUpdateDeployment K8sDeployment "error + unit"
  | EvNetworkConnect client string string "error + unit"
  | EvPost string

record cachedClient =
  cc_client :: client
  cc_createdAt :: int

record 'w st =
  st_trace :: "event list"
  st_dockerClients :: "string \<rightharpoonup> cachedClient"
  st_world :: 'w

type_synonym ('w, 'a) io = "('w st, 'a) state"

definition invoke :: "('w \<Rightarrow> 'r \<times> 'w) \<Rightarrow> ('r \<Rightarrow> event list) \<Rightarrow> ('w, 'r) io" where
  "invoke f ev = State (\<lambda>s. case f (st_world s) of (r, w) \<Rightarrow>
     (r, s\<lparr>st_trace := st_trace s @ ev r, st_world := w\<rparr>))"

abbreviation query :: "('w \<Rightarrow> 'r \<times> 'w) \<Rightarrow> ('w, 'r) io" where
  "query f \<equiv> invoke f (\<lambda>_. [])"

abbreviation ret :: "'a \<Rightarrow> ('w, 'a) io" where "ret \<equiv> State_Monad.return"

text \<open>The idiom \<open>x, err := m; if err != nil { return err }; f(x)\<close>.\<close>

definition bindE :: "('w, error + 'a) io \<Rightarrow> ('a \<Rightarrow> ('w, error + 'b) io) \<Rightarrow> ('w, error + 'b) io" where
  "bindE m f = do { r \<leftarrow> m; case r of Inl e \<Rightarrow> ret (Inl e) | Inr x \<Rightarrow> f x }"

section \<open>Calls\<close>

text \<open>One wrapper per call, which records it in the trace; calls that only read record nothing.\<close>

definition ContainerList where
  "ContainerList api cli = query (api_ContainerList api cli)"
definition ContainerInspect where
  "ContainerInspect api cli cid = query (api_ContainerInspect api cli cid)"
definition ContainerCreate where
  "ContainerCreate api cli cfg hcfg nm =
     invoke (api_ContainerCreate api cli cfg hcfg nm) (\<lambda>r. [EvCreate cli nm cfg hcfg r])"
definition ContainerStart where
  "ContainerStart api cli cid = invoke (api_ContainerStart api cli cid) (\<lambda>r. [EvStart cli cid r])"
definition ContainerStop where
  "ContainerStop api cli cid t = invoke (api_ContainerStop api cli cid t) (\<lambda>r. [EvStop cli cid t r])"
definition ContainerRemove where
  "ContainerRemove api cli cid = invoke (api_ContainerRemove api cli cid) (\<lambda>r. [EvRemove cli cid r])"
definition CopyToContainer where
  "CopyToContainer api cli cid dst tar =
     invoke (api_CopyToContainer api cli cid dst tar) (\<lambda>r. [EvCopy cli cid dst tar r])"
definition ImagePull where
  "ImagePull api cli img auth = invoke (api_ImagePull api cli img auth) (\<lambda>r. [EvPull cli img auth r])"
definition Ping where
  "Ping api cli = query (api_Ping api cli)"
definition CloseClient where
  "CloseClient api cli = invoke (api_Close api cli) (\<lambda>r. [EvClose cli])"
definition NewClient where
  "NewClient api opts = invoke (api_NewClient api opts) (\<lambda>r. [EvNewClient opts r])"
definition getDockerContainer where
  "getDockerContainer api k = query (api_getDockerContainer api k)"
definition listDockerContainers where
  "listDockerContainers api ns = query (api_listDockerContainers api ns)"
definition createDockerContainer where
  "createDockerContainer api c = invoke (api_createDockerContainer api c) (\<lambda>r. [EvCreateContainer c r])"
definition deleteDockerContainer where
  "deleteDockerContainer api c = invoke (api_deleteDockerContainer api c) (\<lambda>r. [EvDeleteContainer c r])"
definition updateDockerContainer where
  "updateDockerContainer api c = invoke (api_updateDockerContainer api c) (\<lambda>r. [EvUpdateContainer c r])"
definition statusDockerContainer where
  "statusDockerContainer api c = invoke (api_statusDockerContainer api c) (\<lambda>r. [EvStatusContainer c r])"
definition getDockerHost where
  "getDockerHost api k = query (api_getDockerHost api k)"
definition statusDockerHost where
  "statusDockerHost api h = invoke (api_statusDockerHost api h) (\<lambda>r. [EvStatusHost h r])"
definition getDockerJob where
  "getDockerJob api k = query (api_getDockerJob api k)"
definition updateDockerJob where
  "updateDockerJob api j = invoke (api_updateDockerJob api j) (\<lambda>r. [EvUpdateJob j r])"
definition statusDockerJob where
  "statusDockerJob api j = invoke (api_statusDockerJob api j) (\<lambda>r. [EvStatusJob j r])"
definition getDockerDeployment where
  "getDockerDeployment api k = query (api_getDockerDeployment api k)"
definition statusDockerDeployment where
  "statusDockerDeployment api d =
     invoke (api_statusDockerDeployment api d) (\<lambda>r. [EvStatusDeployment d r])"
definition getSecret where
  "getSecret api k = query (api_getSecret api k)"
definition time_Now where
  "time_Now api = query (sys_Now api)"
definition rand_Intn where
  "rand_Intn api n = query (sys_Intn api n)"

lemmas call_defs = ContainerList_def ContainerInspect_def ContainerCreate_def ContainerStart_def
  ContainerStop_def ContainerRemove_def CopyToContainer_def ImagePull_def Ping_def
  CloseClient_def NewClient_def getDockerContainer_def listDockerContainers_def
  createDockerContainer_def deleteDockerContainer_def updateDockerContainer_def
  statusDockerContainer_def getDockerHost_def statusDockerHost_def getDockerJob_def
  updateDockerJob_def statusDockerJob_def getDockerDeployment_def statusDockerDeployment_def
  getSecret_def time_Now_def rand_Intn_def

text \<open>Access to the client cache.\<close>

definition cacheLoad :: "string \<Rightarrow> ('w, cachedClient option) io" where
  "cacheLoad k = State (\<lambda>s. (st_dockerClients s k, s))"

definition cacheStore :: "string \<Rightarrow> cachedClient \<Rightarrow> ('w, unit) io" where
  "cacheStore k c = State (\<lambda>s. ((), s\<lparr>st_dockerClients := (st_dockerClients s)(k \<mapsto> c)\<rparr>))"

definition cacheDelete :: "string \<Rightarrow> ('w, unit) io" where
  "cacheDelete k = State (\<lambda>s. ((), s\<lparr>st_dockerClients := (st_dockerClients s)(k := None)\<rparr>))"

section \<open>Weakest preconditions\<close>

definition wp :: "('w, 'a) io \<Rightarrow> ('a \<Rightarrow> 'w st \<Rightarrow> bool) \<Rightarrow> 'w st \<Rightarrow> bool" where
  "wp m Q s \<longleftrightarrow> (case run_state m s of (r, s') \<Rightarrow> Q r s')"

lemma wp_return [wp_simps]: "wp (ret x) Q s \<longleftrightarrow> Q x s"
  by (simp add: wp_def)

lemma wp_bind [wp_simps]: "wp (State_Monad.bind m f) Q s \<longleftrightarrow> wp m (\<lambda>r. wp (f r) Q) s"
  by (simp add: wp_def split: prod.splits)

lemma wp_bindE [wp_simps]:
  "wp (bindE m f) Q s \<longleftrightarrow> wp m (\<lambda>r. case r of Inl e \<Rightarrow> Q (Inl e) | Inr x \<Rightarrow> wp (f x) Q) s"
  by (auto simp: bindE_def wp_simps wp_def [of m] split: sum.splits prod.splits)

lemma wp_invoke:
  "wp (invoke f ev) Q s \<longleftrightarrow> (case f (st_world s) of (r, w) \<Rightarrow>
     Q r (s\<lparr>st_trace := st_trace s @ ev r, st_world := w\<rparr>))"
  by (simp add: wp_def invoke_def split: prod.splits)

lemma wp_invokeI:
  "(\<And>r w. Q r (s\<lparr>st_trace := st_trace s @ ev r, st_world := w\<rparr>)) \<Longrightarrow> wp (invoke f ev) Q s"
  by (simp add: wp_invoke split: prod.splits)

lemma wp_cacheLoad [wp_simps]: "wp (cacheLoad k) Q s \<longleftrightarrow> Q (st_dockerClients s k) s"
  by (simp add: wp_def cacheLoad_def)

lemma wp_cacheStore [wp_simps]:
  "wp (cacheStore k c) Q s \<longleftrightarrow> Q () (s\<lparr>st_dockerClients := (st_dockerClients s)(k \<mapsto> c)\<rparr>)"
  by (simp add: wp_def cacheStore_def)

lemma wp_cacheDelete [wp_simps]:
  "wp (cacheDelete k) Q s \<longleftrightarrow> Q () (s\<lparr>st_dockerClients := (st_dockerClients s)(k := None)\<rparr>)"
  by (simp add: wp_def cacheDelete_def)

lemma wp_mono: "wp m Q s \<Longrightarrow> (\<And>r s'. Q r s' \<Longrightarrow> Q' r s') \<Longrightarrow> wp m Q' s"
  by (auto simp: wp_def split: prod.splits)

lemma wp_conj: "wp m Q s \<Longrightarrow> wp m Q' s \<Longrightarrow> wp m (\<lambda>r s'. Q r s' \<and> Q' r s') s"
  by (auto simp: wp_def split: prod.splits)

lemma wp_runD: "wp m Q s \<Longrightarrow> run_state m s = (r, s') \<Longrightarrow> Q r s'"
  by (simp add: wp_def)

lemma wp_eq_iff: "wp m (\<lambda>r s'. r = a \<and> s' = b) s \<longleftrightarrow> run_state m s = (a, b)"
  by (auto simp: wp_def split: prod.splits)

lemma wpI: "(\<And>r s'. run_state m s = (r, s') \<Longrightarrow> Q r s') \<Longrightarrow> wp m Q s"
  by (auto simp: wp_def split: prod.splits)

section \<open>Events a piece of code can issue\<close>

text \<open>\<open>emits P m\<close>: every run of \<open>m\<close> extends the trace, by events satisfying \<open>P\<close>.\<close>

definition emits :: "(event \<Rightarrow> bool) \<Rightarrow> ('w, 'a) io \<Rightarrow> bool" where
  "emits P m \<longleftrightarrow> (\<forall>s. wp m (\<lambda>r s'. \<exists>es. st_trace s' = st_trace s @ es \<and> list_all P es) s)"

lemma emits_return [emits_intros]: "emits P (ret x)"
  by (simp add: emits_def wp_simps)

lemma emits_bind [emits_intros]:
  assumes "emits P m" and "\<And>r. emits P (f r)"
  shows "emits P (State_Monad.bind m f)"
  unfolding emits_def wp_bind
proof
  fix s
  show "wp m (\<lambda>r. wp (f r) (\<lambda>r s'. \<exists>es. st_trace s' = st_trace s @ es \<and> list_all P es)) s"
  proof (rule wp_mono [OF assms(1) [unfolded emits_def, rule_format]])
    fix r and s' :: "'a st"
    assume "\<exists>es. st_trace s' = st_trace s @ es \<and> list_all P es"
    then obtain es where s': "st_trace s' = st_trace s @ es" and es: "list_all P es" by blast
    from assms(2) [unfolded emits_def, rule_format, of r s']
    show "wp (f r) (\<lambda>r s'. \<exists>es. st_trace s' = st_trace s @ es \<and> list_all P es) s'"
      by (rule wp_mono) (use s' es in auto)
  qed
qed

lemma emits_bindE [emits_intros]:
  "emits P m \<Longrightarrow> (\<And>x. emits P (f x)) \<Longrightarrow> emits P (bindE m f)"
  unfolding bindE_def by (intro emits_intros) (auto intro: emits_intros split: sum.splits)

lemma emits_invoke: "(\<And>r. list_all P (ev r)) \<Longrightarrow> emits P (invoke f ev)"
  unfolding emits_def by (auto intro!: wp_invokeI)

lemma emits_cache [emits_intros]:
  "emits P (cacheLoad k)" "emits P (cacheStore k c)" "emits P (cacheDelete k)"
  by (simp_all add: emits_def wp_simps)

lemma emits_if [emits_intros]: "emits P m \<Longrightarrow> emits P m' \<Longrightarrow> emits P (if b then m else m')"
  by simp

lemma emits_case_sum [emits_intros]:
  "(\<And>e. emits P (f e)) \<Longrightarrow> (\<And>x. emits P (g x)) \<Longrightarrow> emits P (case r of Inl e \<Rightarrow> f e | Inr x \<Rightarrow> g x)"
  by (simp split: sum.splits)

lemma emits_case_option [emits_intros]:
  "emits P f \<Longrightarrow> (\<And>x. emits P (g x)) \<Longrightarrow> emits P (case r of None \<Rightarrow> f | Some x \<Rightarrow> g x)"
  by (simp split: option.splits)

lemma emits_let [emits_intros]: "emits P (f x) \<Longrightarrow> emits P (let y = x in f y)"
  by simp

lemma emits_mono: "emits P m \<Longrightarrow> (\<And>e. P e \<Longrightarrow> Q e) \<Longrightarrow> emits Q m"
  unfolding emits_def by (blast intro: wp_mono list.pred_mono_strong)

lemma emits_wpD:
  "emits P m \<Longrightarrow> wp m (\<lambda>r s'. \<exists>es. st_trace s' = st_trace s @ es \<and> list_all P es) s"
  by (simp add: emits_def)

lemma emits_runD:
  "emits P m \<Longrightarrow> run_state m s = (r, s') \<Longrightarrow> \<exists>es. st_trace s' = st_trace s @ es \<and> list_all P es"
  by (auto dest: wp_runD [OF emits_wpD])

text \<open>The calls that only read leave no trace.\<close>

lemmas query_defs = ContainerList_def ContainerInspect_def Ping_def getDockerContainer_def
  listDockerContainers_def getDockerHost_def getDockerJob_def getDockerDeployment_def
  getSecret_def time_Now_def rand_Intn_def

lemma emits_queries [emits_intros]:
  "emits P (ContainerList api cli)" "emits P (ContainerInspect api cli cid)" "emits P (Ping api cli)"
  "emits P (getDockerContainer api k)" "emits P (listDockerContainers api ns)"
  "emits P (getDockerHost api k)" "emits P (getDockerJob api k)"
  "emits P (getDockerDeployment api k)" "emits P (getSecret api k)"
  "emits P (time_Now api)" "emits P (rand_Intn api n)"
  by (simp_all add: query_defs emits_invoke)

lemma emits_calls [emits_intros]:
  "(\<And>r. P (EvCreate cli nm cfg hcfg r)) \<Longrightarrow> emits P (ContainerCreate api cli cfg hcfg nm)"
  "(\<And>r. P (EvStart cli cid r)) \<Longrightarrow> emits P (ContainerStart api cli cid)"
  "(\<And>r. P (EvStop cli cid t r)) \<Longrightarrow> emits P (ContainerStop api cli cid t)"
  "(\<And>r. P (EvRemove cli cid r)) \<Longrightarrow> emits P (ContainerRemove api cli cid)"
  "(\<And>r. P (EvCopy cli cid dst tar r)) \<Longrightarrow> emits P (CopyToContainer api cli cid dst tar)"
  "(\<And>r. P (EvPull cli img auth r)) \<Longrightarrow> emits P (ImagePull api cli img auth)"
  "P (EvClose cli) \<Longrightarrow> emits P (CloseClient api cli)"
  "(\<And>r. P (EvNewClient opts r)) \<Longrightarrow> emits P (NewClient api opts)"
  "(\<And>r. P (EvCreateContainer c r)) \<Longrightarrow> emits P (createDockerContainer api c)"
  "(\<And>r. P (EvDeleteContainer c r)) \<Longrightarrow> emits P (deleteDockerContainer api c)"
  "(\<And>r. P (EvUpdateContainer c r)) \<Longrightarrow> emits P (updateDockerContainer api c)"
  "(\<And>r. P (EvStatusContainer c r)) \<Longrightarrow> emits P (statusDockerContainer api c)"
  "(\<And>r. P (EvStatusHost h r)) \<Longrightarrow> emits P (statusDockerHost api h)"
  "(\<And>r. P (EvUpdateJob j r)) \<Longrightarrow> emits P (updateDockerJob api j)"
  "(\<And>r. P (EvStatusJob j r)) \<Longrightarrow> emits P (statusDockerJob api j)"
  "(\<And>r. P (EvStatusDeployment d r)) \<Longrightarrow> emits P (statusDockerDeployment api d)"
  by (simp_all add: call_defs emits_invoke)

text \<open>\<open>silent m\<close>: \<open>m\<close> only reads.\<close>

abbreviation silent :: "('w, 'a) io \<Rightarrow> bool" where
  "silent m \<equiv> emits (\<lambda>_. False) m"

lemma silent_trace: "silent m \<Longrightarrow> run_state m s = (r, s') \<Longrightarrow> st_trace s' = st_trace s"
  by (drule (1) emits_runD) (auto simp: list_all_iff)

lemma wp_silentI:
  "silent m \<Longrightarrow> (\<And>r s'. run_state m s = (r, s') \<Longrightarrow> st_trace s' = st_trace s \<Longrightarrow> Q r s') \<Longrightarrow> wp m Q s"
  by (rule wpI) (auto dest: silent_trace)

lemma wp_emitsI:
  "emits P m \<Longrightarrow> (\<And>r s' es. run_state m s = (r, s') \<Longrightarrow> st_trace s' = st_trace s @ es \<Longrightarrow> list_all P es \<Longrightarrow> Q r s') \<Longrightarrow> wp m Q s"
  by (rule wpI) (auto dest: emits_runD)

lemma silent_emits: "silent m \<Longrightarrow> emits P m"
  by (erule emits_mono) simp

lemma emits_bind_post:
  assumes "emits P m" and "\<And>s. wp m (\<lambda>r s'. I r) s" and "\<And>r. I r \<Longrightarrow> emits P (f r)"
  shows "emits P (State_Monad.bind m f)"
  unfolding emits_def wp_bind
proof
  fix s
  show "wp m (\<lambda>r. wp (f r) (\<lambda>r s'. \<exists>es. st_trace s' = st_trace s @ es \<and> list_all P es)) s"
  proof (rule wp_mono [OF wp_conj [OF emits_wpD [OF assms(1)] assms(2)]], elim conjE exE)
    fix r es and s' :: "'a st"
    assume "st_trace s' = st_trace s @ es" "list_all P es" "I r"
    then show "wp (f r) (\<lambda>r s'. \<exists>es. st_trace s' = st_trace s @ es \<and> list_all P es) s'"
      by (intro wp_mono [OF emits_wpD [OF assms(3)]]) auto
  qed
qed

text \<open>The events a run from \<open>s\<close> to \<open>s'\<close> added.\<close>

abbreviation new_events :: "'w st \<Rightarrow> 'w st \<Rightarrow> event list" where
  "new_events s s' \<equiv> drop (length (st_trace s)) (st_trace s')"

end
