(* ===== verification/MockClient.thy ===== *)
theory MockClient
  imports World
begin

text \<open>
  \<open>internal/controller/common/mock_client.go\<close>: the in-memory Docker daemon of the
  repository, and the interface \<open>docker_daemon\<close> it implements. The interface states what the
  container controller relies on: listing shows every container, a created container is listed
  under its name and keeps its configuration, starting makes it running, and no other call
  touches the containers. Its extension \<open>clean_daemon\<close> adds what the clean-up relies on: new
  containers have new identifiers, and a removal takes away the container it names. The lemmas about a controller that runs against a daemon are proved
  over the interface, and reach the mock through its interpretation.
\<close>

section \<open>The mock\<close>

record MockDockerClient =
  mk_Containers :: "Container list"
  mk_Created :: "string list"
  mk_Removed :: "string list"
  mk_Started :: "string list"
  mk_LastHostConfig :: "HostConfig option"
  mk_LastConfig :: "Config option"
  mk_LastPullOptions :: string
  mk_HealthStatus :: string

definition mock_ContainerList :: "MockDockerClient \<Rightarrow> (error + Container list) \<times> MockDockerClient" where
  "mock_ContainerList m = (Inr (mk_Containers m), m)"

text \<open>Names match with or without Docker's leading slash.\<close>

definition mock_name_match :: "string \<Rightarrow> Container \<Rightarrow> bool" where
  "mock_name_match q c \<longleftrightarrow> list_ex (\<lambda>n. n = q \<or> n = CHR ''/'' # q) (ct_Names c)"

definition mock_match :: "string \<Rightarrow> Container \<Rightarrow> bool" where
  "mock_match q c \<longleftrightarrow> ct_ID c = q \<or> mock_name_match q c"

definition empty_Resources :: Resources where
  "empty_Resources = \<lparr>res_NanoCPUs = 0, res_Memory = 0\<rparr>"

definition empty_HostConfig :: HostConfig where
  "empty_HostConfig = \<lparr>hc_RestartPolicy = [], hc_PortBindings = Map.empty, hc_Binds = [],
     hc_Resources = empty_Resources, hc_NetworkMode = []\<rparr>"

definition image_Config :: "string \<Rightarrow> Config" where
  "image_Config img = \<lparr>cfg_Image = img, cfg_Cmd = [], cfg_Env = [], cfg_Healthcheck = None,
     cfg_ExposedPorts = {}\<rparr>"

text \<open>
  The first matching container is described with the configuration of the last create call.
  \<open>c.Names[0]\<close> on a container without names is a Go panic.
\<close>

definition mock_ContainerInspect ::
    "string \<Rightarrow> MockDockerClient \<Rightarrow> (error + ContainerJSON) \<times> MockDockerClient" where
  "mock_ContainerInspect q m =
     (case filter (mock_match q) (mk_Containers m) of
        [] \<Rightarrow> (Inl (DNotFound ''container not found''), m)
      | c # _ \<Rightarrow>
          (case ct_Names c of
             [] \<Rightarrow> (Inl (GoPanic ''index out of range''), m)
           | nm # _ \<Rightarrow>
               (Inr \<lparr>cj_ID = ct_ID c, cj_Name = nm,
                     cj_State = Some \<lparr>cs_Status = ct_State c, cs_Running = (ct_State c = ''running''),
                       cs_ExitCode = 0,
                       cs_Health = (if mk_HealthStatus m = [] then None else Some (mk_HealthStatus m))\<rparr>,
                     cj_HostConfig = Some (case mk_LastHostConfig m of
                       None \<Rightarrow> empty_HostConfig | Some h \<Rightarrow> h),
                     cj_Config = Some (case mk_LastConfig m of
                       None \<Rightarrow> image_Config (ct_Image c) | Some g \<Rightarrow> g),
                     cj_Networks = Some (case ct_Networks c of None \<Rightarrow> [] | Some ns \<Rightarrow> ns)\<rparr>, m)))"

definition mock_ContainerCreate ::
    "Config \<Rightarrow> HostConfig \<Rightarrow> string \<Rightarrow> MockDockerClient \<Rightarrow> (error + string) \<times> MockDockerClient" where
  "mock_ContainerCreate cfg hcfg nm m =
     (let i = ''mock-id-'' @ nm
      in (Inr i, m\<lparr>mk_Created := mk_Created m @ [nm], mk_LastHostConfig := Some hcfg,
            mk_LastConfig := Some cfg,
            mk_Containers := mk_Containers m @
              [\<lparr>ct_ID = i, ct_Names = [CHR ''/'' # nm], ct_Image = cfg_Image cfg,
                ct_State = ''created'', ct_Networks = None\<rparr>]\<rparr>))"

definition set_running :: "string \<Rightarrow> Container list \<Rightarrow> Container list" where
  "set_running i cs = map (\<lambda>c. if ct_ID c = i then c\<lparr>ct_State := ''running''\<rparr> else c) cs"

definition mock_ContainerStart ::
    "string \<Rightarrow> MockDockerClient \<Rightarrow> (error + unit) \<times> MockDockerClient" where
  "mock_ContainerStart i m =
     (Inr (), m\<lparr>mk_Started := mk_Started m @ [i],
        mk_Containers := set_running i (mk_Containers m)\<rparr>)"

definition mock_ContainerStop ::
    "string \<Rightarrow> int \<Rightarrow> MockDockerClient \<Rightarrow> (error + unit) \<times> MockDockerClient" where
  "mock_ContainerStop i t m = (Inr (), m)"

fun remove_first :: "(Container \<Rightarrow> bool) \<Rightarrow> Container list \<Rightarrow> Container list" where
  "remove_first P [] = []"
| "remove_first P (c # cs) = (if P c then cs else c # remove_first P cs)"

text \<open>The first container with that ID goes, and then the first one with that name.\<close>

definition mock_ContainerRemove ::
    "string \<Rightarrow> MockDockerClient \<Rightarrow> (error + unit) \<times> MockDockerClient" where
  "mock_ContainerRemove q m =
     (Inr (), m\<lparr>mk_Removed := mk_Removed m @ [q],
        mk_Containers := remove_first (mock_name_match q)
          (remove_first (\<lambda>c. ct_ID c = q) (mk_Containers m))\<rparr>)"

definition mock_ImagePull ::
    "string \<Rightarrow> string \<Rightarrow> MockDockerClient \<Rightarrow> (error + unit) \<times> MockDockerClient" where
  "mock_ImagePull img auth m = (Inr (), m\<lparr>mk_LastPullOptions := auth\<rparr>)"

definition mock_Ping :: "MockDockerClient \<Rightarrow> (error + unit) \<times> MockDockerClient" where
  "mock_Ping m = (Inr (), m)"

definition mock_Close :: "MockDockerClient \<Rightarrow> (error + unit) \<times> MockDockerClient" where
  "mock_Close m = (Inr (), m)"

lemmas mock_defs = mock_ContainerList_def mock_ContainerInspect_def mock_ContainerCreate_def
  mock_ContainerStart_def mock_ContainerStop_def mock_ContainerRemove_def mock_ImagePull_def
  mock_Ping_def mock_Close_def

section \<open>The operator against the mock\<close>

text \<open>
  The mock beside any Kubernetes API: its Docker calls go to the mock whatever the client, all
  other calls go to \<open>base\<close>. The mock does not implement \<open>CopyToContainer\<close> (the call
  goes to a nil interface), so a copy fails.
\<close>

definition on_mock :: "(MockDockerClient \<Rightarrow> 'r \<times> MockDockerClient) \<Rightarrow>
    MockDockerClient \<times> 'k \<Rightarrow> 'r \<times> (MockDockerClient \<times> 'k)" where
  "on_mock f w = (case w of (m, k) \<Rightarrow> case f m of (r, m') \<Rightarrow> (r, (m', k)))"

definition on_base :: "('k \<Rightarrow> 'r \<times> 'k) \<Rightarrow> MockDockerClient \<times> 'k \<Rightarrow> 'r \<times> (MockDockerClient \<times> 'k)" where
  "on_base f w = (case w of (m, k) \<Rightarrow> case f k of (r, k') \<Rightarrow> (r, (m, k')))"

definition with_mock :: "'k api \<Rightarrow> (MockDockerClient \<times> 'k) api" where
  "with_mock base = \<lparr>
     api_ContainerList = (\<lambda>cli. on_mock mock_ContainerList),
     api_ContainerInspect = (\<lambda>cli q. on_mock (mock_ContainerInspect q)),
     api_ContainerCreate = (\<lambda>cli cfg hcfg nm. on_mock (mock_ContainerCreate cfg hcfg nm)),
     api_ContainerStart = (\<lambda>cli i. on_mock (mock_ContainerStart i)),
     api_ContainerStop = (\<lambda>cli i t. on_mock (mock_ContainerStop i t)),
     api_ContainerRemove = (\<lambda>cli q. on_mock (mock_ContainerRemove q)),
     api_CopyToContainer = (\<lambda>cli i dst tar w. (Inl (GoPanic ''nil pointer dereference''), w)),
     api_ImagePull = (\<lambda>cli img auth. on_mock (mock_ImagePull img auth)),
     api_Ping = (\<lambda>cli. on_mock mock_Ping),
     api_Close = (\<lambda>cli. on_mock mock_Close),
     api_NewClient = (\<lambda>opts. on_base (api_NewClient base opts)),
     api_getDockerContainer = (\<lambda>k. on_base (api_getDockerContainer base k)),
     api_listDockerContainers = (\<lambda>ns. on_base (api_listDockerContainers base ns)),
     api_createDockerContainer = (\<lambda>c. on_base (api_createDockerContainer base c)),
     api_deleteDockerContainer = (\<lambda>c. on_base (api_deleteDockerContainer base c)),
     api_updateDockerContainer = (\<lambda>c. on_base (api_updateDockerContainer base c)),
     api_statusDockerContainer = (\<lambda>c. on_base (api_statusDockerContainer base c)),
     api_getDockerHost = (\<lambda>k. on_base (api_getDockerHost base k)),
     api_statusDockerHost = (\<lambda>h. on_base (api_statusDockerHost base h)),
     api_getDockerJob = (\<lambda>k. on_base (api_getDockerJob base k)),
     api_updateDockerJob = (\<lambda>j. on_base (api_updateDockerJob base j)),
     api_statusDockerJob = (\<lambda>j. on_base (api_statusDockerJob base j)),
     api_getDockerDeployment = (\<lambda>k. on_base (api_getDockerDeployment base k)),
     api_statusDockerDeployment = (\<lambda>d. on_base (api_statusDockerDeployment base d)),
     api_getSecret = (\<lambda>k. on_base (api_getSecret base k)),
     lib_ContainsFinalizer = lib_ContainsFinalizer base,
     lib_AddFinalizer = lib_AddFinalizer base,
     lib_RemoveFinalizer = lib_RemoveFinalizer base,
     lib_IsControlledBy = lib_IsControlledBy base,
     lib_SetControllerReference = lib_SetControllerReference base,
     lib_NewPort = lib_NewPort base,
     lib_ParseDuration = lib_ParseDuration base,
     lib_cpuNanos = lib_cpuNanos base,
     lib_scanNanos = lib_scanNanos base,
     lib_encodeAuth = lib_encodeAuth base,
     lib_WriteHeader = lib_WriteHeader base,
     lib_AppendCertsFromPEM = lib_AppendCertsFromPEM base,
     lib_X509KeyPair = lib_X509KeyPair base,
     sys_Now = on_base (sys_Now base),
     sys_Intn = (\<lambda>n. on_base (sys_Intn base n))\<rparr>"

section \<open>The interface of a daemon\<close>

text \<open>
  \<open>wf\<close> is the daemon's own invariant, \<open>containers\<close> its containers and
  \<open>configs\<close> the configuration it keeps for a container ID.
\<close>

locale docker_daemon =
  fixes api :: "'w api" and cli :: client
    and wf :: "'w \<Rightarrow> bool"
    and containers :: "'w \<Rightarrow> Container list"
    and configs :: "'w \<Rightarrow> string \<rightharpoonup> Config \<times> HostConfig"
  assumes list: "wf w \<Longrightarrow> api_ContainerList api cli w = (Inr (containers w), w)"
    and create: "wf w \<Longrightarrow> api_ContainerCreate api cli cfg hcfg nm w = (Inr i, w') \<Longrightarrow>
        wf w' \<and> configs w' i = Some (cfg, hcfg) \<and>
        (\<exists>c. containers w' = containers w @ [c] \<and> ct_ID c = i \<and> ct_Names c = [CHR ''/'' # nm])"
    and start: "wf w \<Longrightarrow> api_ContainerStart api cli i w = (Inr (), w') \<Longrightarrow>
        wf w' \<and> configs w' = configs w \<and> containers w' = set_running i (containers w)"
    and inspect: "wf w \<Longrightarrow> c \<in> set (containers w) \<Longrightarrow> configs w (ct_ID c) = Some (cfg, hcfg) \<Longrightarrow>
        \<exists>j. api_ContainerInspect api cli (ct_ID c) w = (Inr j, w) \<and>
          cj_Config j = Some cfg \<and> cj_HostConfig j = Some hcfg"
    and pull: "wf w \<Longrightarrow> api_ImagePull api cli img auth w = (r, w') \<Longrightarrow>
        wf w' \<and> configs w' = configs w \<and> containers w' = containers w"
    and copy: "wf w \<Longrightarrow> api_CopyToContainer api cli i dst tar w = (r'', w') \<Longrightarrow>
        wf w' \<and> configs w' = configs w \<and> containers w' = containers w"
    and secret: "wf w \<Longrightarrow> api_getSecret api k w = (r''', w') \<Longrightarrow>
        wf w' \<and> configs w' = configs w \<and> containers w' = containers w"
    and status: "wf w \<Longrightarrow> api_statusDockerContainer api cr w = (r'''', w') \<Longrightarrow>
        wf w' \<and> configs w' = configs w \<and> containers w' = containers w"

definition mock_wf :: "MockDockerClient \<times> 'k \<Rightarrow> bool" where
  "mock_wf w \<longleftrightarrow> (\<forall>c \<in> set (mk_Containers (fst w)). ct_Names c \<noteq> [])"

definition mock_configs :: "MockDockerClient \<times> 'k \<Rightarrow> string \<rightharpoonup> Config \<times> HostConfig" where
  "mock_configs w i = (case (mk_LastConfig (fst w), mk_LastHostConfig (fst w)) of
     (Some cfg, Some hcfg) \<Rightarrow> Some (cfg, hcfg) | _ \<Rightarrow> None)"

lemma set_running_names: "c \<in> set (set_running i cs) \<Longrightarrow> \<exists>d \<in> set cs. ct_Names d = ct_Names c"
  by (auto simp: set_running_def split: if_splits)

lemma mock_inspect_found:
  assumes "c \<in> set (mk_Containers m)" and "\<forall>c \<in> set (mk_Containers m). ct_Names c \<noteq> []"
    and "mk_LastConfig m = Some cfg" and "mk_LastHostConfig m = Some hcfg"
  shows "\<exists>j. mock_ContainerInspect (ct_ID c) m = (Inr j, m) \<and>
    cj_Config j = Some cfg \<and> cj_HostConfig j = Some hcfg"
proof -
  have "filter (mock_match (ct_ID c)) (mk_Containers m) \<noteq> []"
    using assms(1) by (auto simp: filter_empty_conv mock_match_def)
  then obtain d ds where d: "filter (mock_match (ct_ID c)) (mk_Containers m) = d # ds"
    by (meson neq_Nil_conv)
  then have "d \<in> set (filter (mock_match (ct_ID c)) (mk_Containers m))" by simp
  with assms(2) have "ct_Names d \<noteq> []" by simp
  then obtain nm nms where "ct_Names d = nm # nms" by (meson neq_Nil_conv)
  with d assms(3,4) show ?thesis by (simp add: mock_ContainerInspect_def)
qed

interpretation mock: docker_daemon "with_mock base" cli mock_wf
  "\<lambda>w. mk_Containers (fst w)" mock_configs
proof (unfold_locales, goal_cases)
  case (1 w)
  show ?case by (cases w) (simp add: with_mock_def on_mock_def mock_ContainerList_def)
next
  case (2 w cfg hcfg nm i w')
  then show ?case
    by (cases w) (auto simp: with_mock_def on_mock_def mock_ContainerCreate_def Let_def mock_wf_def
        mock_configs_def)
next
  case (3 w i w')
  then show ?case
    by (cases w) (fastforce simp: with_mock_def on_mock_def mock_ContainerStart_def mock_wf_def
        mock_configs_def fun_eq_iff dest: set_running_names split: option.splits)
next
  case (4 w c cfg hcfg)
  then have "\<exists>j. mock_ContainerInspect (ct_ID c) (fst w) = (Inr j, fst w) \<and>
      cj_Config j = Some cfg \<and> cj_HostConfig j = Some hcfg"
    by (intro mock_inspect_found)
      (auto simp: mock_wf_def mock_configs_def split: option.splits)
  then show ?case by (cases w) (auto simp: with_mock_def on_mock_def)
next
  case (5 w img auth r w')
  then show ?case
    by (cases w) (auto simp: with_mock_def on_mock_def mock_ImagePull_def mock_wf_def
        mock_configs_def fun_eq_iff split: option.splits)
next
  case (6 w i dst tar r w')
  then show ?case by (simp add: with_mock_def)
next
  case (7 w k r w')
  then show ?case
    by (cases w) (auto simp: with_mock_def on_base_def mock_wf_def mock_configs_def fun_eq_iff
        split: prod.splits option.splits)
next
  case (8 w cr r w')
  then show ?case
    by (cases w) (auto simp: with_mock_def on_base_def mock_wf_def mock_configs_def fun_eq_iff
        split: prod.splits option.splits)
qed

section \<open>Removal\<close>

locale clean_daemon = docker_daemon +
  assumes fresh: "wf w \<Longrightarrow> api_ContainerCreate api cli cfg hcfg nm w = (Inr i, w') \<Longrightarrow>
        \<forall>c \<in> set (containers w). CHR ''/'' # nm \<notin> set (ct_Names c) \<Longrightarrow> i \<notin> ct_ID ` set (containers w)"
    and remove: "wf w \<Longrightarrow> api_ContainerRemove api cli q w = (Inr (), w') \<Longrightarrow>
        length (filter (mock_match q) (containers w)) \<le> 1 \<Longrightarrow>
        wf w' \<and> containers w' = filter (\<lambda>c. \<not> mock_match q c) (containers w)"
    and remove_absent: "wf w \<Longrightarrow> api_ContainerRemove api cli q w = (Inl err, w') \<Longrightarrow>
        wf w' \<and> containers w' = containers w \<and> (IsErrNotFound err \<longrightarrow> \<not> list_ex (mock_match q) (containers w))"
    and update: "wf w \<Longrightarrow> api_updateDockerContainer api cr w = (r, w') \<Longrightarrow> wf w' \<and> containers w' = containers w"
    and stop: "wf w \<Longrightarrow> api_ContainerStop api cli i t w = (r', w') \<Longrightarrow>
        wf w' \<and> (\<exists>f. (\<forall>c. ct_ID c \<noteq> i \<longrightarrow> f c = ct_State c) \<and> containers w' = map (\<lambda>c. c\<lparr>ct_State := f c\<rparr>) (containers w))"

text \<open>The mock makes identifiers from names, so they are new as long as they are linked to the names.\<close>

definition mock_ids :: "MockDockerClient \<times> 'k \<Rightarrow> bool" where
  "mock_ids w \<longleftrightarrow> mock_wf w \<and>
     (\<forall>c \<in> set (mk_Containers (fst w)). \<forall>nm. ct_ID c = ''mock-id-'' @ nm \<longrightarrow> CHR ''/'' # nm \<in> set (ct_Names c))"

lemma remove_first_filter: "length (filter P cs) \<le> 1 \<Longrightarrow> remove_first P cs = filter (\<lambda>c. \<not> P c) cs"
proof (induction cs)
  case (Cons c cs)
  then show ?case by (auto simp: filter_empty_conv intro: filter_True [symmetric])
qed simp

lemma mock_remove_matching:
  assumes "length (filter (mock_match q) cs) \<le> 1"
  shows "remove_first (mock_name_match q) (remove_first (\<lambda>c. ct_ID c = q) cs) = filter (\<lambda>c. \<not> mock_match q c) cs"
proof -
  have le: "length (filter P xs) \<le> 1" if "length (filter (mock_match q) xs) \<le> 1" "\<And>c. P c \<Longrightarrow> mock_match q c"
    for P and xs :: "Container list"
  proof -
    have "filter P xs = filter P (filter (mock_match q) xs)" using that(2) by (auto intro: filter_cong)
    then show ?thesis using that(1) length_filter_le [of P "filter (mock_match q) xs"] by simp
  qed
  let ?ids = "filter (\<lambda>c. ct_ID c \<noteq> q) cs"
  have ids: "remove_first (\<lambda>c. ct_ID c = q) cs = ?ids"
    by (rule remove_first_filter [OF le [OF assms]]) (simp add: mock_match_def)
  have "length (filter (mock_match q) ?ids) \<le> 1"
    using assms length_filter_le [of "\<lambda>c. ct_ID c \<noteq> q" "filter (mock_match q) cs"]
    by (simp add: conj_commute)
  then have "length (filter (mock_name_match q) ?ids) \<le> 1"
    by (rule le) (simp add: mock_match_def)
  then show ?thesis
    unfolding ids by (simp add: remove_first_filter mock_match_def conj_commute)
qed

lemma mock_ids_wf: "mock_ids w \<Longrightarrow> mock_wf w"
  by (simp add: mock_ids_def)

lemma mock_ids_same: "mk_Containers (fst w') = mk_Containers (fst w) \<Longrightarrow> mock_ids w' = mock_ids w"
  by (simp add: mock_ids_def mock_wf_def)

lemma mock_ids_subset: "set (mk_Containers (fst w')) \<subseteq> set (mk_Containers (fst w)) \<Longrightarrow> mock_ids w \<Longrightarrow> mock_ids w'"
  by (auto simp: mock_ids_def mock_wf_def)

lemma mock_ids_create: "mock_ids w \<Longrightarrow> api_ContainerCreate (with_mock base) cli cfg hcfg nm w = (r, w') \<Longrightarrow> mock_ids w'"
  by (cases w) (auto simp: with_mock_def on_mock_def mock_ContainerCreate_def Let_def mock_ids_def mock_wf_def)

lemma mock_ids_start: "mock_ids w \<Longrightarrow> api_ContainerStart (with_mock base) cli i w = (r, w') \<Longrightarrow> mock_ids w'"
  by (cases w) (auto simp: with_mock_def on_mock_def mock_ContainerStart_def mock_ids_def mock_wf_def set_running_def)

interpretation cleaned: clean_daemon "with_mock base" cli mock_ids "\<lambda>w. mk_Containers (fst w)" mock_configs
proof (unfold_locales, goal_cases)
  case (1 w)
  then show ?case by (rule mock.list [OF mock_ids_wf])
next
  case (2 w cfg hcfg nm i w')
  then show ?case using mock.create [OF mock_ids_wf] mock_ids_create by blast
next
  case (3 w i w')
  then show ?case using mock.start [OF mock_ids_wf] mock_ids_start by blast
next
  case (4 w c cfg hcfg)
  then show ?case by (intro mock.inspect mock_ids_wf)
next
  case (5 w img auth r w')
  then show ?case using mock.pull [OF mock_ids_wf] mock_ids_same by blast
next
  case (6 w i dst tar r w')
  then show ?case using mock.copy [OF mock_ids_wf] mock_ids_same by blast
next
  case (7 w k r w')
  then show ?case using mock.secret [OF mock_ids_wf] mock_ids_same by blast
next
  case (8 w cr r w')
  then show ?case using mock.status [OF mock_ids_wf] mock_ids_same by blast
next
  case (9 w cfg hcfg nm i w')
  then show ?case
    by (cases w) (auto simp: with_mock_def on_mock_def mock_ContainerCreate_def Let_def mock_ids_def)
next
  case (10 w q w')
  then have "mk_Containers (fst w') = filter (\<lambda>c. \<not> mock_match q c) (mk_Containers (fst w))"
    by (cases w) (auto simp: with_mock_def on_mock_def mock_ContainerRemove_def mock_remove_matching)
  then show ?case using mock_ids_subset [of w' w] 10(1) by auto
next
  case (11 w q err w')
  then show ?case by (cases w) (simp add: with_mock_def on_mock_def mock_ContainerRemove_def)
next
  case (12 w cr r w')
  then have "mk_Containers (fst w') = mk_Containers (fst w)"
    by (cases w) (auto simp: with_mock_def on_base_def split: prod.splits)
  then show ?case using 12(1) mock_ids_same by blast
next
  case (13 w i t r w')
  then show ?case
    by (cases w) (auto simp: with_mock_def on_mock_def mock_ContainerStop_def intro!: exI [of _ ct_State])
qed

end
