(* ===== verification/KubeStore.thy ===== *)
theory KubeStore
  imports MockClient
begin

text \<open>
  A concrete Kubernetes API in memory, in the manner of the fake client the repository's tests
  run against: objects are kept in lists and found by namespace and name, writes succeed, the
  clock stands at a stored instant. It instantiates the parameters of the model where a theorem
  is applied to a concrete run; no theorem is stated about it.
\<close>

record kube_store =
  ks_containers :: "DockerContainer list"
  ks_hosts :: "DockerHost list"
  ks_jobs :: "DockerJob list"
  ks_deployments :: "DockerDeployment list"
  ks_secrets :: "Secret list"
  ks_now :: int

definition store_get :: "('a \<Rightarrow> ObjectMeta) \<Rightarrow> 'a list \<Rightarrow> ObjectKey \<Rightarrow> error + 'a" where
  "store_get meta xs k =
     (case filter (\<lambda>x. om_Namespace (meta x) = key_Namespace k \<and> om_Name (meta x) = key_Name k) xs of
        [] \<Rightarrow> Inl (KNotFound ''not found'') | x # _ \<Rightarrow> Inr x)"

definition store_put :: "('a \<Rightarrow> ObjectMeta) \<Rightarrow> 'a \<Rightarrow> 'a list \<Rightarrow> 'a list" where
  "store_put meta y xs = map (\<lambda>x. if om_Namespace (meta x) = om_Namespace (meta y) \<and>
     om_Name (meta x) = om_Name (meta y) then y else x) xs"

definition secret_get :: "Secret list \<Rightarrow> ObjectKey \<Rightarrow> error + Secret" where
  "secret_get xs k =
     (case filter (\<lambda>x. sec_Namespace x = key_Namespace k \<and> sec_Name x = key_Name k) xs of
        [] \<Rightarrow> Inl (KNotFound ''not found'') | x # _ \<Rightarrow> Inr x)"

definition unit_ok :: "'w \<Rightarrow> (error + unit) \<times> 'w" where
  "unit_ok w = (Inr (), w)"

definition kube :: "kube_store api" where
  "kube = \<lparr>
     api_ContainerList = (\<lambda>cli w. (Inr [], w)),
     api_ContainerInspect = (\<lambda>cli q w. (Inl (DNotFound ''no such container''), w)),
     api_ContainerCreate = (\<lambda>cli cfg hcfg nm w. (Inr nm, w)),
     api_ContainerStart = (\<lambda>cli i. unit_ok),
     api_ContainerStop = (\<lambda>cli i t. unit_ok),
     api_ContainerRemove = (\<lambda>cli q. unit_ok),
     api_CopyToContainer = (\<lambda>cli i dst tar. unit_ok),
     api_ImagePull = (\<lambda>cli img auth. unit_ok),
     api_Ping = (\<lambda>cli. unit_ok),
     api_Close = (\<lambda>cli. unit_ok),
     api_NewClient = (\<lambda>opts w. (Inr 1, w)),
     api_getDockerContainer = (\<lambda>k w. (store_get dc_Meta (ks_containers w) k, w)),
     api_listDockerContainers = (\<lambda>ns w. (Inr (filter (\<lambda>c. om_Namespace (dc_Meta c) = ns) (ks_containers w)), w)),
     api_createDockerContainer = (\<lambda>c w. (Inr (), w\<lparr>ks_containers := ks_containers w @ [c]\<rparr>)),
     api_deleteDockerContainer = (\<lambda>c w. (Inr (), w\<lparr>ks_containers :=
       filter (\<lambda>d. om_Name (dc_Meta d) \<noteq> om_Name (dc_Meta c)) (ks_containers w)\<rparr>)),
     api_updateDockerContainer = (\<lambda>c w. (Inr c, w\<lparr>ks_containers := store_put dc_Meta c (ks_containers w)\<rparr>)),
     api_statusDockerContainer = (\<lambda>c w. (Inr c, w\<lparr>ks_containers := store_put dc_Meta c (ks_containers w)\<rparr>)),
     api_getDockerHost = (\<lambda>k w. (store_get dh_Meta (ks_hosts w) k, w)),
     api_statusDockerHost = (\<lambda>h w. (Inr h, w\<lparr>ks_hosts := store_put dh_Meta h (ks_hosts w)\<rparr>)),
     api_getDockerJob = (\<lambda>k w. (store_get dj_Meta (ks_jobs w) k, w)),
     api_updateDockerJob = (\<lambda>j w. (Inr j, w\<lparr>ks_jobs := store_put dj_Meta j (ks_jobs w)\<rparr>)),
     api_statusDockerJob = (\<lambda>j w. (Inr j, w\<lparr>ks_jobs := store_put dj_Meta j (ks_jobs w)\<rparr>)),
     api_getDockerDeployment = (\<lambda>k w. (store_get dd_Meta (ks_deployments w) k, w)),
     api_statusDockerDeployment = (\<lambda>d w. (Inr d, w\<lparr>ks_deployments := store_put dd_Meta d (ks_deployments w)\<rparr>)),
     api_getSecret = (\<lambda>k w. (secret_get (ks_secrets w) k, w)),
     lib_ContainsFinalizer = (\<lambda>m f. f \<in> set (om_Finalizers m)),
     lib_AddFinalizer = (\<lambda>m f. m\<lparr>om_Finalizers := om_Finalizers m @ [f]\<rparr>),
     lib_RemoveFinalizer = (\<lambda>m f. m\<lparr>om_Finalizers := removeAll f (om_Finalizers m)\<rparr>),
     lib_IsControlledBy = (\<lambda>m own. \<lparr>or_UID = om_UID own, or_Controller = True\<rparr> \<in> set (om_OwnerReferences m)),
     lib_SetControllerReference = (\<lambda>own m. Inr (m\<lparr>om_OwnerReferences :=
       om_OwnerReferences m @ [\<lparr>or_UID = om_UID own, or_Controller = True\<rparr>]\<rparr>)),
     lib_NewPort = (\<lambda>proto p. if p = [] then Inl (ErrMsg ''invalid port'') else Inr (p @ ''/'' @ proto)),
     lib_ParseDuration = (\<lambda>s. None),
     lib_cpuNanos = (\<lambda>s. map_option (\<lambda>v. wrap64 (v * 1000000000)) (ParseInt s)),
     lib_scanNanos = (\<lambda>s. case ParseInt s of None \<Rightarrow> 0 | Some v \<Rightarrow> wrap64 (v * 1000000000)),
     lib_encodeAuth = (\<lambda>a. Inr (ac_Username a)),
     lib_WriteHeader = (\<lambda>h. None),
     lib_AppendCertsFromPEM = (\<lambda>pem. pem \<noteq> []),
     lib_X509KeyPair = (\<lambda>c k. None),
     sys_Now = (\<lambda>w. (ks_now w, w)),
     sys_Intn = (\<lambda>n w. (0, w))\<rparr>"

definition empty_store :: kube_store where
  "empty_store = \<lparr>ks_containers = [], ks_hosts = [], ks_jobs = [], ks_deployments = [],
     ks_secrets = [], ks_now = 0\<rparr>"

definition start_state :: "'w \<Rightarrow> 'w st" where
  "start_state w = \<lparr>st_trace = [], st_dockerClients = Map.empty, st_world = w\<rparr>"

definition empty_mock :: MockDockerClient where
  "empty_mock = \<lparr>mk_Containers = [], mk_Created = [], mk_Removed = [], mk_Started = [],
     mk_LastHostConfig = None, mk_LastConfig = None, mk_LastPullOptions = [], mk_HealthStatus = []\<rparr>"

definition plain_meta :: "string \<Rightarrow> ObjectMeta" where
  "plain_meta n = \<lparr>om_Name = n, om_Namespace = ''ns'', om_UID = n, om_Labels = [],
     om_CreationTimestamp = 0, om_DeletionTimestamp = None, om_Finalizers = [], om_OwnerReferences = []\<rparr>"

definition plain_spec :: "string \<Rightarrow> DockerContainerSpec" where
  "plain_spec n = \<lparr>dcs_Image = ''nginx'', dcs_ContainerName = n, dcs_Ports = [], dcs_Command = [],
     dcs_Env = [], dcs_RestartPolicy = [], dcs_DockerHostRef = [], dcs_ImagePullSecret = [],
     dcs_VolumeMounts = [], dcs_Services = [], dcs_NetworkMode = [], dcs_EnvVars = [],
     dcs_SecretVolumes = [], dcs_HealthCheck = None, dcs_Resources = None\<rparr>"

definition plain_container :: "string \<Rightarrow> DockerContainer" where
  "plain_container n = \<lparr>dc_Meta = plain_meta n, dc_Spec = plain_spec n,
     dc_Status = \<lparr>dct_ID = [], dct_State = [], dct_Health = [], dct_IPv4 = []\<rparr>\<rparr>"

definition plain_host :: "string \<Rightarrow> DockerHost" where
  "plain_host n = \<lparr>dh_Meta = plain_meta n,
     dh_Spec = \<lparr>dhs_HostURL = ''tcp://1.2.3.4:2376'', dhs_TLSSecretName = []\<rparr>,
     dh_Status = \<lparr>dht_Phase = [], dht_Message = []\<rparr>\<rparr>"

definition plain_job :: "string \<Rightarrow> DockerJob" where
  "plain_job n = \<lparr>dj_Meta = plain_meta n,
     dj_Spec = \<lparr>djs_Image = ''busybox'', djs_ContainerName = [], djs_Command = [], djs_Args = [],
       djs_Env = [], djs_EnvVars = [], djs_VolumeMounts = [], djs_SecretVolumes = [],
       djs_DockerHostRef = [], djs_ImagePullSecret = [], djs_RestartPolicy = [], djs_BackoffLimit = 0,
       djs_ActiveDeadlineSeconds = None, djs_TTLSecondsAfterFinished = None, djs_Resources = None\<rparr>,
     dj_Status = \<lparr>djt_Phase = [], djt_ContainerID = [], djt_StartTime = None,
       djt_CompletionTime = None, djt_ExitCode = None, djt_Attempts = 0, djt_Message = []\<rparr>\<rparr>"

lemma kube_simps [simp]:
  "api_ContainerList kube = (\<lambda>cli w. (Inr [], w))"
  "api_ContainerInspect kube = (\<lambda>cli q w. (Inl (DNotFound ''no such container''), w))"
  "api_ContainerCreate kube = (\<lambda>cli cfg hcfg nm w. (Inr nm, w))"
  "api_ContainerStart kube = (\<lambda>cli i. unit_ok)"
  "api_ContainerStop kube = (\<lambda>cli i t. unit_ok)"
  "api_ContainerRemove kube = (\<lambda>cli q. unit_ok)"
  "api_CopyToContainer kube = (\<lambda>cli i dst tar. unit_ok)"
  "api_ImagePull kube = (\<lambda>cli img auth. unit_ok)"
  "api_Ping kube = (\<lambda>cli. unit_ok)"
  "api_Close kube = (\<lambda>cli. unit_ok)"
  "api_NewClient kube = (\<lambda>opts w. (Inr 1, w))"
  "api_getDockerContainer kube = (\<lambda>k w. (store_get dc_Meta (ks_containers w) k, w))"
  "api_listDockerContainers kube = (\<lambda>ns w. (Inr (filter (\<lambda>c. om_Namespace (dc_Meta c) = ns) (ks_containers w)), w))"
  "api_createDockerContainer kube = (\<lambda>c w. (Inr (), w\<lparr>ks_containers := ks_containers w @ [c]\<rparr>))"
  "api_deleteDockerContainer kube = (\<lambda>c w. (Inr (), w\<lparr>ks_containers := filter (\<lambda>d. om_Name (dc_Meta d) \<noteq> om_Name (dc_Meta c)) (ks_containers w)\<rparr>))"
  "api_updateDockerContainer kube = (\<lambda>c w. (Inr c, w\<lparr>ks_containers := store_put dc_Meta c (ks_containers w)\<rparr>))"
  "api_statusDockerContainer kube = (\<lambda>c w. (Inr c, w\<lparr>ks_containers := store_put dc_Meta c (ks_containers w)\<rparr>))"
  "api_getDockerHost kube = (\<lambda>k w. (store_get dh_Meta (ks_hosts w) k, w))"
  "api_statusDockerHost kube = (\<lambda>h w. (Inr h, w\<lparr>ks_hosts := store_put dh_Meta h (ks_hosts w)\<rparr>))"
  "api_getDockerJob kube = (\<lambda>k w. (store_get dj_Meta (ks_jobs w) k, w))"
  "api_updateDockerJob kube = (\<lambda>j w. (Inr j, w\<lparr>ks_jobs := store_put dj_Meta j (ks_jobs w)\<rparr>))"
  "api_statusDockerJob kube = (\<lambda>j w. (Inr j, w\<lparr>ks_jobs := store_put dj_Meta j (ks_jobs w)\<rparr>))"
  "api_getDockerDeployment kube = (\<lambda>k w. (store_get dd_Meta (ks_deployments w) k, w))"
  "api_statusDockerDeployment kube = (\<lambda>d w. (Inr d, w\<lparr>ks_deployments := store_put dd_Meta d (ks_deployments w)\<rparr>))"
  "api_getSecret kube = (\<lambda>k w. (secret_get (ks_secrets w) k, w))"
  "lib_ContainsFinalizer kube = (\<lambda>m f. f \<in> set (om_Finalizers m))"
  "lib_AddFinalizer kube = (\<lambda>m f. m\<lparr>om_Finalizers := om_Finalizers m @ [f]\<rparr>)"
  "lib_RemoveFinalizer kube = (\<lambda>m f. m\<lparr>om_Finalizers := removeAll f (om_Finalizers m)\<rparr>)"
  "lib_IsControlledBy kube = (\<lambda>m own. \<lparr>or_UID = om_UID own, or_Controller = True\<rparr> \<in> set (om_OwnerReferences m))"
  "lib_SetControllerReference kube = (\<lambda>own m. Inr (m\<lparr>om_OwnerReferences := om_OwnerReferences m @ [\<lparr>or_UID = om_UID own, or_Controller = True\<rparr>]\<rparr>))"
  "lib_NewPort kube = (\<lambda>proto p. if p = [] then Inl (ErrMsg ''invalid port'') else Inr (p @ ''/'' @ proto))"
  "lib_ParseDuration kube = (\<lambda>s. None)"
  "lib_cpuNanos kube = (\<lambda>s. map_option (\<lambda>v. wrap64 (v * 1000000000)) (ParseInt s))"
  "lib_scanNanos kube = (\<lambda>s. case ParseInt s of None \<Rightarrow> 0 | Some v \<Rightarrow> wrap64 (v * 1000000000))"
  "lib_encodeAuth kube = (\<lambda>a. Inr (ac_Username a))"
  "lib_WriteHeader kube = (\<lambda>h. None)"
  "lib_AppendCertsFromPEM kube = (\<lambda>pem. pem \<noteq> [])"
  "lib_X509KeyPair kube = (\<lambda>c k. None)"
  "sys_Now kube = (\<lambda>w. (ks_now w, w))"
  "sys_Intn kube = (\<lambda>n w. (0, w))"
  by (simp_all add: kube_def)

lemmas fixture_defs = empty_store_def start_state_def empty_mock_def plain_meta_def
  plain_spec_def plain_job_def plain_container_def plain_host_def store_get_def store_put_def secret_get_def
  unit_ok_def

end
