(* ===== verification/ClientResolver.thy ===== *)
theory ClientResolver
  imports KubeStore
begin

text \<open>
  Finding the Docker client for a resource: \<open>common.GetTLSConfig\<close> and the
  \<open>getDockerClient\<close> methods of the container, job and service reconcilers, each with its
  own cache of clients that live for five minutes. The locale \<open>client_resolver\<close> is what a
  reconciler relies on, \<open>caching_resolver\<close> adds that a new client is cached under the key
  the next lookup uses. The container and job reconcilers implement both; the service reconciler
  implements only the first, because it stores under another key.
\<close>

section \<open>common/utils.go\<close>

text \<open>A name between single quotes, as in the error texts.\<close>

definition squote :: "string \<Rightarrow> string" where
  "squote n = CHR 0x27 # n @ [CHR 0x27]"

definition GetTLSConfig :: "'w api \<Rightarrow> Secret \<Rightarrow> error + TLSConfig" where
  "GetTLSConfig api secret =
     (case map_of (sec_Data secret) ''ca.pem'' of
        None \<Rightarrow> Inl (ErrMsg (''secret missing '' @ squote ''ca.pem''))
      | Some ca \<Rightarrow>
     (case map_of (sec_Data secret) ''cert.pem'' of
        None \<Rightarrow> Inl (ErrMsg (''secret missing '' @ squote ''cert.pem''))
      | Some cert \<Rightarrow>
     (case map_of (sec_Data secret) ''key.pem'' of
        None \<Rightarrow> Inl (ErrMsg (''secret missing '' @ squote ''key.pem''))
      | Some key \<Rightarrow>
     (if \<not> lib_AppendCertsFromPEM api ca then Inl (ErrMsg ''failed to append CA certificate'')
      else (case lib_X509KeyPair api cert key of
          Some err \<Rightarrow> Inl err
        | None \<Rightarrow> Inr \<lparr>tls_RootCAs = ca, tls_Cert = cert, tls_Key = key\<rparr>)))))"

section \<open>The container and job reconcilers\<close>

definition host_name :: "string \<Rightarrow> string" where
  "host_name ref = (if ref = [] then ''default'' else ref)"

definition cache_key :: "string \<Rightarrow> string \<Rightarrow> string" where
  "cache_key ns hn = ns @ ''/'' @ hn"

text \<open>
  A cached client younger than five minutes, or nothing: an older one is closed and forgotten.
\<close>

definition load_cached :: "'w api \<Rightarrow> string \<Rightarrow> ('w, client option) io" where
  "load_cached api k = do {
     cached \<leftarrow> cacheLoad k;
     case cached of
       None \<Rightarrow> ret None
     | Some cc \<Rightarrow> do {
         now \<leftarrow> time_Now api;
         if time_Since now (cc_createdAt cc) < 5 * minute then ret (Some (cc_client cc))
         else do { _ \<leftarrow> CloseClient api (cc_client cc); cacheDelete k; ret None } } }"

definition store_client :: "'w api \<Rightarrow> string \<Rightarrow> client \<Rightarrow> ('w, error + client) io" where
  "store_client api k c = do {
     now \<leftarrow> time_Now api;
     cacheStore k \<lparr>cc_client = c, cc_createdAt = now\<rparr>;
     ret (Inr c) }"

definition quoted :: "string \<Rightarrow> string \<Rightarrow> string" where
  "quoted p n = p @ '' '' @ squote n @ '': ''"

text \<open>The code after the label \<open>found\<close>: TLS settings, a new client, the cache entry.\<close>

definition dc_connect :: "'w api \<Rightarrow> string \<Rightarrow> string \<Rightarrow> DockerHost \<Rightarrow> ('w, error + client) io" where
  "dc_connect api ns k host =
     (if dhs_TLSSecretName (dh_Spec host) \<noteq> [] then do {
        sr \<leftarrow> getSecret api \<lparr>key_Namespace = ns, key_Name = dhs_TLSSecretName (dh_Spec host)\<rparr>;
        case sr of
          Inl err \<Rightarrow> ret (Inl (Wrapf (quoted ''failed to get TLS Secret'' (dhs_TLSSecretName (dh_Spec host))) err))
        | Inr secret \<Rightarrow>
            (case GetTLSConfig api secret of
               Inl err \<Rightarrow> ret (Inl (Wrapf ''failed to load TLS config: '' err))
             | Inr tls \<Rightarrow> bindE (NewClient api (WithHost (dhs_HostURL (dh_Spec host)) (Some tls)))
                 (store_client api k)) }
      else bindE (NewClient api (WithHost (dhs_HostURL (dh_Spec host)) None)) (store_client api k))"

text \<open>
  \<open>own\<close> is the reconciler's \<open>DockerClient\<close> field, set in tests only. The host is looked
  up in the namespace of the resource, then in \<open>system\<close>; the name \<open>default\<close> falls back
  to the local socket.
\<close>

definition dc_getDockerClient ::
    "'w api \<Rightarrow> client option \<Rightarrow> DockerContainer \<Rightarrow> ('w, error + client) io" where
  "dc_getDockerClient api own cr =
     (let ns = om_Namespace (dc_Meta cr);
          hostName = host_name (dcs_DockerHostRef (dc_Spec cr));
          cacheKey = cache_key ns hostName
      in do {
        cached \<leftarrow> load_cached api cacheKey;
        case cached of
          Some c \<Rightarrow> ret (Inr c)
        | None \<Rightarrow> do {
            hr \<leftarrow> getDockerHost api \<lparr>key_Namespace = ns, key_Name = hostName\<rparr>;
            case hr of
              Inr host \<Rightarrow> dc_connect api ns cacheKey host
            | Inl err \<Rightarrow>
                if IsNotFound err then do {
                  sysr \<leftarrow> (if ns \<noteq> ''system''
                    then getDockerHost api \<lparr>key_Namespace = ''system'', key_Name = hostName\<rparr>
                    else ret (Inl err));
                  case sysr of
                    Inr host \<Rightarrow> dc_connect api ns cacheKey host
                  | Inl _ \<Rightarrow>
                      if hostName = ''default'' then
                        (case own of Some c \<Rightarrow> ret (Inr c) | None \<Rightarrow> NewClient api FromEnv)
                      else ret (Inl (Wrapf (quoted ''failed to get DockerHost'' hostName) err)) }
                else ret (Inl (Wrapf (quoted ''failed to get DockerHost'' hostName) err)) } })"

definition dj_getDockerClient ::
    "'w api \<Rightarrow> client option \<Rightarrow> DockerJob \<Rightarrow> ('w, error + client) io" where
  "dj_getDockerClient api own job =
     (let ns = om_Namespace (dj_Meta job);
          hostName = host_name (djs_DockerHostRef (dj_Spec job));
          cacheKey = cache_key ns hostName
      in do {
        cached \<leftarrow> load_cached api cacheKey;
        case cached of
          Some c \<Rightarrow> ret (Inr c)
        | None \<Rightarrow> do {
            hr \<leftarrow> getDockerHost api \<lparr>key_Namespace = ns, key_Name = hostName\<rparr>;
            case hr of
              Inr host \<Rightarrow> dc_connect api ns cacheKey host
            | Inl err \<Rightarrow>
                if IsNotFound err then do {
                  sysr \<leftarrow> (if ns \<noteq> ''system''
                    then getDockerHost api \<lparr>key_Namespace = ''system'', key_Name = hostName\<rparr>
                    else ret (Inl err));
                  case sysr of
                    Inr host \<Rightarrow> dc_connect api ns cacheKey host
                  | Inl _ \<Rightarrow>
                      if hostName = ''default'' then
                        (case own of Some c \<Rightarrow> ret (Inr c) | None \<Rightarrow> NewClient api FromEnv)
                      else ret (Inl (Wrapf (quoted ''failed to get DockerHost'' hostName) err)) }
                else ret (Inl (Wrapf (quoted ''failed to get DockerHost'' hostName) err)) } })"

section \<open>The service reconciler\<close>

text \<open>
  The same steps with plain errors; the new client is stored under the reference as written,
  which is empty for the default host, not under the resolved host name.
\<close>

definition ds_connect :: "'w api \<Rightarrow> string \<Rightarrow> string \<Rightarrow> DockerHost \<Rightarrow> ('w, error + client) io" where
  "ds_connect api ns k host =
     (if dhs_TLSSecretName (dh_Spec host) \<noteq> [] then
        bindE (getSecret api \<lparr>key_Namespace = ns, key_Name = dhs_TLSSecretName (dh_Spec host)\<rparr>) (\<lambda>secret.
          (case GetTLSConfig api secret of
             Inl err \<Rightarrow> ret (Inl err)
           | Inr tls \<Rightarrow> bindE (NewClient api (WithHost (dhs_HostURL (dh_Spec host)) (Some tls)))
               (store_client api k)))
      else bindE (NewClient api (WithHost (dhs_HostURL (dh_Spec host)) None)) (store_client api k))"

definition ds_getDockerClient ::
    "'w api \<Rightarrow> client option \<Rightarrow> DockerContainer \<Rightarrow> ('w, error + client) io" where
  "ds_getDockerClient api own cr =
     (let ns = om_Namespace (dc_Meta cr);
          hostName = host_name (dcs_DockerHostRef (dc_Spec cr));
          storeKey = ns @ ''/'' @ dcs_DockerHostRef (dc_Spec cr)
      in do {
        cached \<leftarrow> load_cached api (cache_key ns hostName);
        case cached of
          Some c \<Rightarrow> ret (Inr c)
        | None \<Rightarrow> do {
            hr \<leftarrow> getDockerHost api \<lparr>key_Namespace = ns, key_Name = hostName\<rparr>;
            case hr of
              Inr host \<Rightarrow> ds_connect api ns storeKey host
            | Inl err \<Rightarrow>
                if IsNotFound err then do {
                  sysr \<leftarrow> (if ns \<noteq> ''system''
                    then getDockerHost api \<lparr>key_Namespace = ''system'', key_Name = hostName\<rparr>
                    else ret (Inl err));
                  case sysr of
                    Inr host \<Rightarrow> ds_connect api ns storeKey host
                  | Inl _ \<Rightarrow>
                      if hostName = ''default'' then
                        (case own of Some c \<Rightarrow> ret (Inr c) | None \<Rightarrow> NewClient api FromEnv)
                      else ret (Inl err) }
                else ret (Inl err) } })"

section \<open>The contract of a resolver\<close>

text \<open>\<open>fresh api s cc\<close>: the clock of the next call reads less than five minutes after the entry
  was made.\<close>

definition fresh_entry :: "'w api \<Rightarrow> 'w st \<Rightarrow> cachedClient \<Rightarrow> bool" where
  "fresh_entry api s cc \<longleftrightarrow> time_Since (fst (sys_Now api (st_world s))) (cc_createdAt cc) < 5 * minute"

definition client_event :: "event \<Rightarrow> bool" where
  "client_event e \<longleftrightarrow> (case e of EvClose c \<Rightarrow> True | EvNewClient opts r \<Rightarrow> True | _ \<Rightarrow> False)"

lemma client_event_simps [simp]: "client_event (EvClose c)" "client_event (EvNewClient opts r)"
  by (simp_all add: client_event_def)

lemma load_cached_hit:
  assumes "st_dockerClients s k = Some cc" and "fresh_entry api s cc"
  shows "run_state (load_cached api k) s =
    (Some (cc_client cc), s\<lparr>st_world := snd (sys_Now api (st_world s))\<rparr>)"
  unfolding wp_eq_iff [symmetric]
  using assms by (auto simp: load_cached_def wp_simps call_defs wp_invoke fresh_entry_def split: prod.splits)

lemma emits_resolver [emits_intros]:
  "emits client_event (dc_getDockerClient api own cr)"
  "emits client_event (dj_getDockerClient api own job)"
  "emits client_event (ds_getDockerClient api own cr)"
  unfolding dc_getDockerClient_def dj_getDockerClient_def ds_getDockerClient_def Let_def
    dc_connect_def ds_connect_def store_client_def load_cached_def
  by (intro emits_intros; simp)+

locale client_resolver =
  fixes api :: "'w api" and resolve :: "'x \<Rightarrow> ('w, error + client) io" and key :: "'x \<Rightarrow> string"
  assumes hit: "st_dockerClients s (key x) = Some cc \<Longrightarrow> fresh_entry api s cc \<Longrightarrow>
      run_state (resolve x) s = (Inr (cc_client cc), s\<lparr>st_world := snd (sys_Now api (st_world s))\<rparr>)"
    and quiet: "emits client_event (resolve x)"
    and errs: "wp (resolve x) (\<lambda>r s'. \<forall>e. r = Inl e \<longrightarrow> st_dockerClients s' = (st_dockerClients s)(key x := None)) s"

locale caching_resolver = client_resolver +
  assumes store: "wp (resolve x) (\<lambda>r s'. \<forall>u t c.
      EvNewClient (WithHost u t) (Inr c) \<in> set (drop (length (st_trace s)) (st_trace s')) \<longrightarrow>
      r = Inr c \<and> (\<exists>now. st_dockerClients s' (key x) = Some \<lparr>cc_client = c, cc_createdAt = now\<rparr>)) s"
begin

lemma second_call_cached:
  assumes "run_state (resolve x) s = (Inr c, s')"
    and "EvNewClient (WithHost u t) (Inr c) \<in> set (drop (length (st_trace s)) (st_trace s'))"
    and "\<And>cc. st_dockerClients s' (key x) = Some cc \<Longrightarrow> fresh_entry api s' cc"
  shows "run_state (resolve x) s' = (Inr c, s'\<lparr>st_world := snd (sys_Now api (st_world s'))\<rparr>)"
proof -
  obtain now where "st_dockerClients s' (key x) = Some \<lparr>cc_client = c, cc_createdAt = now\<rparr>"
    using wp_runD [OF store assms(1)] assms(2) by blast
  then show ?thesis using hit assms(3) by fastforce
qed

end

definition dc_key :: "DockerContainer \<Rightarrow> string" where
  "dc_key cr = cache_key (om_Namespace (dc_Meta cr)) (host_name (dcs_DockerHostRef (dc_Spec cr)))"

definition dj_key :: "DockerJob \<Rightarrow> string" where
  "dj_key job = cache_key (om_Namespace (dj_Meta job)) (host_name (djs_DockerHostRef (dj_Spec job)))"

lemmas resolver_defs = dc_getDockerClient_def dj_getDockerClient_def ds_getDockerClient_def Let_def
    dc_connect_def ds_connect_def store_client_def 

lemma wp_load_cachedI:
  assumes "\<And>w c cc. st_dockerClients s k = Some cc \<Longrightarrow> cc_client cc = c \<Longrightarrow> fresh_entry api s cc \<Longrightarrow> Q (Some c) (s\<lparr>st_world := w\<rparr>)"
   and "\<And>w es. (\<And>opts r. EvNewClient opts r \<notin> set es) \<Longrightarrow> Q None (s\<lparr>st_trace := st_trace s @ es, st_world := w, st_dockerClients := (st_dockerClients s)(k := None)\<rparr>)"
  shows "wp (load_cached api k) Q s"
proof (cases "st_dockerClients s k")
  case None
  have "(st_dockerClients s)(k := None) = st_dockerClients s" using None by auto
  then have "s\<lparr>st_trace := st_trace s @ [], st_world := st_world s, st_dockerClients := (st_dockerClients s)(k := None)\<rparr> = s"
    by simp
  with assms(2) [of "[]" "st_world s"] None show ?thesis
    by (simp add: load_cached_def wp_simps)
next
  case (Some cc)
  with assms(1) [OF Some refl] assms(2) [of "[EvClose (cc_client cc)]"] show ?thesis
    by (auto simp: load_cached_def wp_simps call_defs fresh_entry_def wp_invoke
      split: prod.splits)
qed

interpretation dcr: caching_resolver api "dc_getDockerClient api own" dc_key
proof (unfold_locales, goal_cases)
  case (1 s x cc)
  then show ?case by (simp add: dc_getDockerClient_def Let_def dc_key_def load_cached_hit)
next
  case (2 x)
  show ?case by (intro emits_intros)
next
  case (3 x s)
  show ?case unfolding resolver_defs dc_key_def
    by (auto simp: wp_simps call_defs intro!: wp_load_cachedI wp_invokeI split: sum.splits option.splits)
next
  case (4 x s)
  show ?case unfolding resolver_defs dc_key_def
    by (auto simp: wp_simps call_defs intro!: wp_load_cachedI wp_invokeI split: sum.splits option.splits)
qed

interpretation djr: caching_resolver api "dj_getDockerClient api own" dj_key
proof (unfold_locales, goal_cases)
  case (1 s x cc)
  then show ?case by (simp add: dj_getDockerClient_def Let_def dj_key_def load_cached_hit)
next
  case (2 x)
  show ?case by (intro emits_intros)
next
  case (3 x s)
  show ?case unfolding resolver_defs dj_key_def
    by (auto simp: wp_simps call_defs intro!: wp_load_cachedI wp_invokeI split: sum.splits option.splits)
next
  case (4 x s)
  show ?case unfolding resolver_defs dj_key_def
    by (auto simp: wp_simps call_defs intro!: wp_load_cachedI wp_invokeI split: sum.splits option.splits)
qed

interpretation dsr: client_resolver api "ds_getDockerClient api own" dc_key
proof (unfold_locales, goal_cases)
  case (1 s x cc)
  then show ?case by (simp add: ds_getDockerClient_def Let_def dc_key_def load_cached_hit)
next
  case (2 x)
  show ?case by (intro emits_intros)
next
  case (3 x s)
  show ?case unfolding resolver_defs dc_key_def
    by (auto simp: wp_simps call_defs intro!: wp_load_cachedI wp_invokeI split: sum.splits option.splits)
qed

section \<open>Properties\<close>

text \<open>
  C33: resolving a Docker client twice gives one client. If the container reconciler created and
  cached a client for a host, a second resolution within five minutes returns that client, makes
  no API call but reading the clock, and changes neither cache nor trace.
\<close>

theorem resolver_reuses_client:
  assumes "run_state (dc_getDockerClient api own cr) s = (Inr c, s')"
    and "EvNewClient (WithHost u t) (Inr c) \<in> set (drop (length (st_trace s)) (st_trace s'))"
    and "\<And>cc. st_dockerClients s' (dc_key cr) = Some cc \<Longrightarrow> fresh_entry api s' cc"
  shows "run_state (dc_getDockerClient api own cr) s' =
    (Inr c, s'\<lparr>st_world := snd (sys_Now api (st_world s'))\<rparr>)"
  using assms by (rule dcr.second_call_cached)

definition demo_host_state :: "kube_store st" where
  "demo_host_state = start_state (empty_store\<lparr>ks_hosts := [plain_host ''default'']\<rparr>)"

lemma demo_resolve:
  "run_state (dc_getDockerClient kube None (plain_container ''web'')) demo_host_state =
     (Inr 1, demo_host_state\<lparr>
        st_trace := [EvNewClient (WithHost ''tcp://1.2.3.4:2376'' None) (Inr 1)],
        st_dockerClients := [''ns/default'' \<mapsto> \<lparr>cc_client = 1, cc_createdAt = 0\<rparr>]\<rparr>)"
  unfolding wp_eq_iff [symmetric]
  by (simp add: resolver_defs load_cached_def wp_simps call_defs wp_invoke fixture_defs
      demo_host_state_def host_name_def cache_key_def)

theorem resolver_reuses_client_witness:
  "fst (run_state (dc_getDockerClient kube None (plain_container ''web''))
     (snd (run_state (dc_getDockerClient kube None (plain_container ''web'')) demo_host_state))) = Inr 1"
proof -
  let ?t = "demo_host_state\<lparr>
        st_trace := [EvNewClient (WithHost ''tcp://1.2.3.4:2376'' None) (Inr 1)],
        st_dockerClients := [''ns/default'' \<mapsto> \<lparr>cc_client = 1, cc_createdAt = 0\<rparr>]\<rparr>"
  have "run_state (dc_getDockerClient kube None (plain_container ''web'')) ?t =
      (Inr 1, ?t\<lparr>st_world := snd (sys_Now kube (st_world ?t))\<rparr>)"
    by (rule resolver_reuses_client [OF demo_resolve, of "''tcp://1.2.3.4:2376''" None])
      (auto simp: demo_host_state_def fresh_entry_def dc_key_def time_Since_def fixture_defs
        cache_key_def host_name_def)
  then show ?thesis by (simp add: demo_resolve)
qed

text \<open>
  An expired client is never served. When the cached client is five minutes old or more, it
  is closed before anything else happens, and after the call the cache entry is gone or was made
  by this call.
\<close>

theorem resolver_replaces_expired:
  assumes "st_dockerClients s (dc_key cr) = Some cc" and "\<not> fresh_entry api s cc"
    and "run_state (dc_getDockerClient api own cr) s = (r, s')"
  shows "(\<exists>es. st_trace s' = st_trace s @ EvClose (cc_client cc) # es) \<and>
    (case st_dockerClients s' (dc_key cr) of
       None \<Rightarrow> True
     | Some cc' \<Rightarrow> r = Inr (cc_client cc') \<and>
         (\<exists>u t. EvNewClient (WithHost u t) (Inr (cc_client cc')) \<in> set (drop (length (st_trace s)) (st_trace s'))))"
proof -
  have "wp (dc_getDockerClient api own cr) (\<lambda>r s'. (\<exists>es. st_trace s' = st_trace s @ EvClose (cc_client cc) # es) \<and>
    (case st_dockerClients s' (dc_key cr) of
       None \<Rightarrow> True
     | Some cc' \<Rightarrow> r = Inr (cc_client cc') \<and>
         (\<exists>u t. EvNewClient (WithHost u t) (Inr (cc_client cc')) \<in> set (drop (length (st_trace s)) (st_trace s'))))) s"
    using assms(1,2) unfolding resolver_defs dc_key_def load_cached_def fresh_entry_def
    by (auto simp: wp_simps call_defs wp_invoke split: sum.splits option.splits prod.splits)
  then show ?thesis using assms(3) by (rule wp_runD)
qed

definition demo_stale_state :: "kube_store st" where
  "demo_stale_state = demo_host_state\<lparr>
     st_dockerClients := [''ns/default'' \<mapsto> \<lparr>cc_client = 7, cc_createdAt = - (5 * minute)\<rparr>]\<rparr>"

lemma demo_stale_def:
  "st_trace demo_stale_state = []" "ks_now (st_world demo_stale_state) = 0"
  "st_dockerClients demo_stale_state (dc_key (plain_container ''web'')) =
     Some \<lparr>cc_client = 7, cc_createdAt = - (5 * minute)\<rparr>"
  by (simp_all add: demo_stale_state_def demo_host_state_def fixture_defs dc_key_def cache_key_def
      host_name_def)

theorem resolver_replaces_expired_witness:
  "\<exists>es. st_trace (snd (run_state (dc_getDockerClient kube None (plain_container ''web'')) demo_stale_state))
     = EvClose 7 # es"
  using resolver_replaces_expired [of demo_stale_state "plain_container ''web''"
      "\<lparr>cc_client = 7, cc_createdAt = - (5 * minute)\<rparr>" kube None, OF _ _ prod.collapse [symmetric]]
  by (auto simp: demo_stale_def fresh_entry_def time_Since_def)

text \<open>
  A resource bound to a named Docker host never runs on the local daemon. Unless the
  reference is empty or \<open>default\<close>, none of the three reconcilers opens a client from the
  environment or uses the injected one: the call fails, or returns a cached client or one opened
  for a host URL.
\<close>

theorem named_host_never_local:
  assumes "dcs_DockerHostRef (dc_Spec cr) \<notin> {[], ''default''}"
    and "djs_DockerHostRef (dj_Spec job) \<notin> {[], ''default''}"
  shows "emits (\<lambda>e. \<forall>r. e \<noteq> EvNewClient FromEnv r) (dc_getDockerClient api own cr) \<and>
    emits (\<lambda>e. \<forall>r. e \<noteq> EvNewClient FromEnv r) (dj_getDockerClient api own job) \<and>
    emits (\<lambda>e. \<forall>r. e \<noteq> EvNewClient FromEnv r) (ds_getDockerClient api own cr) \<and>
    dc_getDockerClient api own cr = dc_getDockerClient api None cr \<and>
    dj_getDockerClient api own job = dj_getDockerClient api None job \<and>
    ds_getDockerClient api own cr = ds_getDockerClient api None cr"
proof -
  let ?P = "\<lambda>e. \<forall>r. e \<noteq> EvNewClient FromEnv r"
  have hn: "host_name (dcs_DockerHostRef (dc_Spec cr)) \<noteq> ''default''"
    "host_name (djs_DockerHostRef (dj_Spec job)) \<noteq> ''default''"
    using assms by (simp_all add: host_name_def)
  have "emits ?P (dc_getDockerClient api own cr)"
    unfolding resolver_defs load_cached_def if_not_P [OF hn(1)] by (intro emits_intros; simp)
  moreover have "emits ?P (dj_getDockerClient api own job)"
    unfolding resolver_defs load_cached_def if_not_P [OF hn(2)] by (intro emits_intros; simp)
  moreover have "emits ?P (ds_getDockerClient api own cr)"
    unfolding resolver_defs load_cached_def if_not_P [OF hn(1)] by (intro emits_intros; simp)
  moreover have "dc_getDockerClient api own cr = dc_getDockerClient api None cr"
    unfolding dc_getDockerClient_def Let_def if_not_P [OF hn(1)] by (rule refl)
  moreover have "dj_getDockerClient api own job = dj_getDockerClient api None job"
    unfolding dj_getDockerClient_def Let_def if_not_P [OF hn(2)] by (rule refl)
  moreover have "ds_getDockerClient api own cr = ds_getDockerClient api None cr"
    unfolding ds_getDockerClient_def Let_def if_not_P [OF hn(1)] by (rule refl)
  ultimately show ?thesis by blast
qed

definition demo_edge :: DockerContainer where
  "demo_edge = (plain_container ''web'')\<lparr>dc_Spec := (plain_spec ''web'')\<lparr>dcs_DockerHostRef := ''edge''\<rparr>\<rparr>"

definition demo_edge_job :: DockerJob where
  "demo_edge_job = (plain_job ''j'')\<lparr>dj_Spec := (dj_Spec (plain_job ''j''))\<lparr>djs_DockerHostRef := ''edge''\<rparr>\<rparr>"

theorem named_host_never_local_witness:
  "emits (\<lambda>e. \<forall>r. e \<noteq> EvNewClient FromEnv r) (dc_getDockerClient kube (Some 9) demo_edge)"
  by (rule conjunct1 [OF named_host_never_local [of demo_edge demo_edge_job kube "Some 9"]])
    (simp_all add: demo_edge_def demo_edge_job_def)

text \<open>
  The service reconciler never finds its cached client for the default host. It stores the
  new client under the empty reference, so the entry that the next lookup reads stays empty and
  every reconciliation opens another client.
\<close>

theorem service_default_client_not_cached:
  assumes "dcs_DockerHostRef (dc_Spec cr) = []" and "st_dockerClients s (dc_key cr) = None"
    and "run_state (ds_getDockerClient api own cr) s = (r, s')"
  shows "st_dockerClients s' (dc_key cr) = None"
proof -
  have "wp (ds_getDockerClient api own cr) (\<lambda>r s'. st_dockerClients s' (dc_key cr) = None) s"
    using assms(1,2) unfolding resolver_defs dc_key_def
    by (auto simp: wp_simps call_defs host_name_def cache_key_def intro!: wp_load_cachedI wp_invokeI
        split: sum.splits option.splits)
  then show ?thesis using assms(3) by (rule wp_runD)
qed

theorem service_default_client_not_cached_witness:
  "st_dockerClients (snd (run_state (ds_getDockerClient kube None (plain_container ''web'')) demo_host_state))
     ''ns/default'' = None"
proof -
  have "st_dockerClients demo_host_state (dc_key (plain_container ''web'')) = None"
    "dcs_DockerHostRef (dc_Spec (plain_container ''web'')) = []"
    "dc_key (plain_container ''web'') = ''ns/default''"
    by (simp_all add: demo_host_state_def fixture_defs dc_key_def cache_key_def host_name_def)
  then show ?thesis
    using service_default_client_not_cached [of "plain_container ''web''" demo_host_state kube None,
      OF _ _ prod.collapse [symmetric]] by simp
qed

end
