(* ===== verification/ContainerSpec.thy ===== *)
theory ContainerSpec
  imports ClientResolver
begin

text \<open>
  The pure part of \<open>internal/controller/dockercontainer/reconciler.go\<close>: parsing resource
  limits, translating the resource into Docker's configuration, and the drift check that decides
  whether a container must be recreated.
\<close>

section \<open>Resource limits\<close>

definition parseMemoryString :: "string \<Rightarrow> int" where
  "parseMemoryString s0 =
     (let s = TrimSpace (ToLower s0)
      in if s = [] then 0
         else
           let (multiplier, t) =
             (if HasSuffix s ''g'' then (1024 * 1024 * 1024, TrimSuffix s ''g'')
              else if HasSuffix s ''m'' then (1024 * 1024, TrimSuffix s ''m'')
              else if HasSuffix s ''k'' then (1024, TrimSuffix s ''k'')
              else (1, s))
           in (case ParseInt t of None \<Rightarrow> 0 | Some val \<Rightarrow> wrap64 (val * multiplier)))"

definition dc_buildDockerResources :: "'w api \<Rightarrow> ResourceRequirements option \<Rightarrow> Resources" where
  "dc_buildDockerResources api rr =
     (case rr of
        None \<Rightarrow> empty_Resources
      | Some r \<Rightarrow>
          \<lparr>res_NanoCPUs = (if rr_CPULimit r \<noteq> [] then
              (case lib_cpuNanos api (rr_CPULimit r) of None \<Rightarrow> 0 | Some n \<Rightarrow> n) else 0),
           res_Memory = (if rr_MemoryLimit r \<noteq> [] then parseMemoryString (rr_MemoryLimit r) else 0)\<rparr>)"

definition buildDockerHealthCheck :: "'w api \<Rightarrow> HealthCheckConfig option \<Rightarrow> HealthConfig option" where
  "buildDockerHealthCheck api hc =
     (case hc of
        None \<Rightarrow> None
      | Some h \<Rightarrow> Some
          \<lparr>hth_Test = hcc_Test h,
           hth_Interval = (if hcc_Interval h \<noteq> [] then
             (case lib_ParseDuration api (hcc_Interval h) of Some d \<Rightarrow> d | None \<Rightarrow> 0) else 0),
           hth_Timeout = (if hcc_Timeout h \<noteq> [] then
             (case lib_ParseDuration api (hcc_Timeout h) of Some d \<Rightarrow> d | None \<Rightarrow> 0) else 0),
           hth_Retries = (if hcc_Retries h > 0 then hcc_Retries h else 0)\<rparr>)"

section \<open>Drift\<close>

definition needsRecreate :: "'w api \<Rightarrow> ContainerJSON \<Rightarrow> DockerContainerSpec \<Rightarrow> bool" where
  "needsRecreate api inspected spec =
     (case cj_Config inspected of
        None \<Rightarrow> False
      | Some cfg \<Rightarrow>
          if cfg_Image cfg \<noteq> dcs_Image spec then True
          else if length (dcs_Command spec) > 0 \<and> cfg_Cmd cfg \<noteq> dcs_Command spec then True
          else if length (dcs_Env spec) > 0 \<and>
              list_ex (\<lambda>expected. \<not> list_ex (\<lambda>actual. actual = expected) (cfg_Env cfg))
                (sort (dcs_Env spec)) then True
          else (case cj_HostConfig inspected of
              None \<Rightarrow> False
            | Some hcfg \<Rightarrow>
                if dcs_RestartPolicy spec \<noteq> [] \<and>
                   ToLower (hc_RestartPolicy hcfg) \<noteq> ToLower (dcs_RestartPolicy spec) then True
                else (case dcs_Resources spec of
                    None \<Rightarrow> False
                  | Some r \<Rightarrow>
                      let desired = dc_buildDockerResources api (Some r)
                      in if res_NanoCPUs desired \<noteq> res_NanoCPUs (hc_Resources hcfg) then True
                         else res_Memory desired \<noteq> res_Memory (hc_Resources hcfg))))"

section \<open>The container's configuration\<close>

text \<open>Bind mounts, shared by the container and job reconcilers.\<close>

definition bind_string :: "VolumeMount \<Rightarrow> string" where
  "bind_string v = vm_HostPath v @ '':'' @ vm_ContainerPath v @ (if vm_ReadOnly v then '':ro'' else [])"

text \<open>
  One port mapping \<open>host:container\<close>; other forms and ports that \<open>nat.NewPort\<close>
  rejects are skipped.
\<close>

definition add_port :: "'w api \<Rightarrow> string \<Rightarrow> Config \<times> HostConfig \<Rightarrow> Config \<times> HostConfig" where
  "add_port api p ch =
     (case Split p (CHR '':'') of
        [hostPort, containerPort] \<Rightarrow>
          (case lib_NewPort api ''tcp'' containerPort of
             Inl err \<Rightarrow> ch
           | Inr portKey \<Rightarrow>
               (case ch of (cfg, hcfg) \<Rightarrow>
                 (cfg\<lparr>cfg_ExposedPorts := insert portKey (cfg_ExposedPorts cfg)\<rparr>,
                  hcfg\<lparr>hc_PortBindings := (hc_PortBindings hcfg)(portKey \<mapsto>
                    [\<lparr>pb_HostIP = ''0.0.0.0'', pb_HostPort = hostPort\<rparr>])\<rparr>)))
      | _ \<Rightarrow> ch)"

definition dc_config :: "'w api \<Rightarrow> DockerContainerSpec \<Rightarrow> string list \<Rightarrow> Config \<times> HostConfig" where
  "dc_config api spec resolvedEnv =
     fold (add_port api) (dcs_Ports spec)
       (\<lparr>cfg_Image = dcs_Image spec, cfg_Cmd = dcs_Command spec, cfg_Env = resolvedEnv,
         cfg_Healthcheck = buildDockerHealthCheck api (dcs_HealthCheck spec), cfg_ExposedPorts = {}\<rparr>,
        \<lparr>hc_RestartPolicy = ToLower (dcs_RestartPolicy spec), hc_PortBindings = Map.empty,
         hc_Binds = map bind_string (dcs_VolumeMounts spec),
         hc_Resources = (case dcs_Resources spec of
           None \<Rightarrow> empty_Resources | Some r \<Rightarrow> dc_buildDockerResources api (Some r)),
         hc_NetworkMode = []\<rparr>)"

section \<open>Lemmas\<close>

lemma ToLower_idem [simp]: "ToLower (ToLower s) = ToLower s"
proof -
  have "lower_char (lower_char c) = lower_char c" for c
    by (cases c) (auto simp: lower_char_def less_eq_char_def)
  then show ?thesis by (simp add: ToLower_def)
qed

lemma add_port_keeps:
  "cfg_Image (fst (add_port api p ch)) = cfg_Image (fst ch)"
  "cfg_Cmd (fst (add_port api p ch)) = cfg_Cmd (fst ch)"
  "cfg_Env (fst (add_port api p ch)) = cfg_Env (fst ch)"
  "hc_RestartPolicy (snd (add_port api p ch)) = hc_RestartPolicy (snd ch)"
  "hc_Resources (snd (add_port api p ch)) = hc_Resources (snd ch)"
  by (auto simp: add_port_def split: list.splits sum.splits prod.splits)

lemma fold_add_port_keeps:
  "cfg_Image (fst (fold (add_port api) ps ch)) = cfg_Image (fst ch)"
  "cfg_Cmd (fst (fold (add_port api) ps ch)) = cfg_Cmd (fst ch)"
  "cfg_Env (fst (fold (add_port api) ps ch)) = cfg_Env (fst ch)"
  "hc_RestartPolicy (snd (fold (add_port api) ps ch)) = hc_RestartPolicy (snd ch)"
  "hc_Resources (snd (fold (add_port api) ps ch)) = hc_Resources (snd ch)"
  by (induction ps arbitrary: ch) (simp_all add: add_port_keeps)

lemma dc_config_fields [simp]:
  "cfg_Image (fst (dc_config api spec env)) = dcs_Image spec"
  "cfg_Cmd (fst (dc_config api spec env)) = dcs_Command spec"
  "cfg_Env (fst (dc_config api spec env)) = env"
  "hc_RestartPolicy (snd (dc_config api spec env)) = ToLower (dcs_RestartPolicy spec)"
  "hc_Resources (snd (dc_config api spec env)) = (case dcs_Resources spec of
     None \<Rightarrow> empty_Resources | Some r \<Rightarrow> dc_buildDockerResources api (Some r))"
  by (simp_all add: dc_config_def fold_add_port_keeps)

definition mem_units :: "(string \<times> int) list" where
  "mem_units = [('''', 1), (''k'', 1024), (''K'', 1024), (''m'', 1024 * 1024), (''M'', 1024 * 1024),
     (''g'', 1024 * 1024 * 1024), (''G'', 1024 * 1024 * 1024)]"

lemma ToLower_units: "ToLower ''K'' = ''k''" "ToLower ''M'' = ''m''" "ToLower ''G'' = ''g''"
  "ToLower ''k'' = ''k''" "ToLower ''m'' = ''m''" "ToLower ''g'' = ''g''" "ToLower [] = []"
  by code_simp+

lemma mem_units_lower:
  assumes "(u, factor) \<in> set mem_units"
  shows "(ToLower u, factor) \<in> {([], 1), (''k'', 1024), (''m'', 1024 * 1024), (''g'', 1024 * 1024 * 1024)}"
  using assms by (auto simp: mem_units_def ToLower_units)

lemma parse_trimmed:
  assumes "TrimSpace (ToLower s) = show_nat n @ v"
    and "(v, factor) \<in> {([], 1), (''k'', 1024), (''m'', 1024 * 1024), (''g'', 1024 * 1024 * 1024)}"
  shows "parseMemoryString s = (if int n < 2 ^ 63 then wrap64 (int n * factor) else 0)"
proof -
  have "last (show_nat n) \<noteq> CHR ''g''" "last (show_nat n) \<noteq> CHR ''m''" "last (show_nat n) \<noteq> CHR ''k''"
    using show_nat_last [of n] by auto
  then show ?thesis
    using assms by (auto simp: parseMemoryString_def HasSuffix_char ParseInt_show_nat)
qed

section \<open>Properties\<close>

definition demo_json :: "Config \<Rightarrow> HostConfig \<Rightarrow> ContainerJSON" where
  "demo_json cfg hcfg = \<lparr>cj_ID = ''1'', cj_Name = ''/web'', cj_State = None,
     cj_HostConfig = Some hcfg, cj_Config = Some cfg, cj_Networks = None\<rparr>"

text \<open>
  A container just created from a spec does not drift from it. Whatever ports, mounts, health
  check and secret environment entries the spec has, the configuration the reconciler sends to
  Docker passes its own drift check, so it is not recreated on the next pass.
\<close>

theorem created_container_has_no_drift:
  assumes "cj_Config j = Some (fst (dc_config api spec (dcs_Env spec @ secretEnv)))"
    and "cj_HostConfig j = Some (snd (dc_config api spec (dcs_Env spec @ secretEnv)))"
  shows "\<not> needsRecreate api j spec"
  using assms by (cases "dcs_Resources spec") (auto simp: needsRecreate_def list_ex_iff Let_def)

definition demo_spec :: DockerContainerSpec where
  "demo_spec = (plain_spec ''web'')\<lparr>dcs_Ports := [''8080:80''], dcs_Env := [''A=1''],
     dcs_RestartPolicy := ''Always'', dcs_Resources := Some \<lparr>rr_CPULimit = ''2'', rr_MemoryLimit = ''1g''\<rparr>\<rparr>"

theorem created_container_has_no_drift_witness:
  "\<not> needsRecreate kube (demo_json (fst (dc_config kube demo_spec (dcs_Env demo_spec @ [''B=2''])))
      (snd (dc_config kube demo_spec (dcs_Env demo_spec @ [''B=2''])))) demo_spec"
  by (rule created_container_has_no_drift [where secretEnv = "[''B=2'']"]) (simp_all add: demo_json_def)

text \<open>
  The drift check does not see every change. Changing the ports, volume mounts, secret-backed
  environment variables, secret volumes, health check or network mode of the spec never changes
  its answer, so such an edit leaves the running container as it is.
\<close>

theorem drift_check_ignores_fields:
  "needsRecreate api j (spec\<lparr>dcs_Ports := ps, dcs_VolumeMounts := vs, dcs_EnvVars := evs,
     dcs_SecretVolumes := svs, dcs_HealthCheck := hc, dcs_NetworkMode := nm\<rparr>) = needsRecreate api j spec"
  by (cases "cj_Config j"; cases "cj_HostConfig j"; cases "dcs_Resources spec")
    (simp_all add: needsRecreate_def)

text \<open>
  The network mode of the spec never reaches Docker. The host configuration of the created
  container has no network mode, and is the same whatever the spec asks for.
\<close>

theorem network_mode_not_applied:
  "hc_NetworkMode (snd (dc_config api spec env)) = [] \<and>
   dc_config api (spec\<lparr>dcs_NetworkMode := nm\<rparr>) env = dc_config api spec env"
proof -
  have "hc_NetworkMode (snd (fold (add_port api) ps ch)) = hc_NetworkMode (snd ch)" for ps ch
    by (induction ps arbitrary: ch)
      (auto simp: add_port_def split: list.splits sum.splits prod.splits)
  then show ?thesis by (simp add: dc_config_def)
qed

text \<open>
  C35: memory limits parse to the right number of bytes. A decimal number with no unit or with one of
  the units k, m, g in either case, surrounded by any white space, is the number times the unit
  when the number fits \<open>int64\<close>; the product wraps as Go's \<open>int64\<close> does. A number that does
  not fit is read as 0, no limit.
\<close>

theorem parseMemoryString_units:
  assumes "(u, factor) \<in> set mem_units"
    and "\<forall>c \<in> set l. is_space c" and "\<forall>c \<in> set r. is_space c"
  shows "parseMemoryString (l @ show_nat n @ u @ r) =
    (if int n < 2 ^ 63 then wrap64 (int n * factor) else 0)"
proof (rule parse_trimmed [OF _ mem_units_lower [OF assms(1)]])
  have "\<forall>c \<in> set (show_nat n @ ToLower u). \<not> is_space c"
    using mem_units_lower [OF assms(1)]
    by (auto dest!: show_nat_all_digits digit_not_space) (auto simp: is_space_def)
  from TrimSpace_surround [OF assms(2,3) this]
  show "TrimSpace (ToLower (l @ show_nat n @ u @ r)) = show_nat n @ ToLower u"
    using assms(2,3) by (simp add: ToLower_append ToLower_same lower_space)
qed

theorem parseMemoryString_units_witness:
  "parseMemoryString ('' '' @ show_nat 256 @ ''m'' @ [newline_char]) = 268435456"
  using parseMemoryString_units [of "''m''" "1024 * 1024" "'' ''" "[newline_char]" 256]
  by (simp add: mem_units_def is_space_def wrap64_def)

end
