(* ===== verification/ContainerCtl.thy ===== *)
theory ContainerCtl
  imports ContainerSpec
begin

text \<open>
  The container controller of \<open>internal/controller/dockercontainer/reconciler.go\<close>: creating and
  starting a container, bringing an existing one in line with its resource, cleaning up on
  deletion, and the reconcile loop that puts them together.
\<close>

section \<open>Secrets\<close>

definition getSecretValue :: "'w api \<Rightarrow> string \<Rightarrow> string \<Rightarrow> string \<Rightarrow> ('w, error + string) io" where
  "getSecretValue api ns nm key =
     bindE (getSecret api \<lparr>key_Namespace = ns, key_Name = nm\<rparr>) (\<lambda>secret.
       (case map_of (sec_Data secret) key of
          None \<Rightarrow> ret (Inl (ErrMsg (''key '' @ key @ '' not found in secret '' @ nm)))
        | Some val \<Rightarrow> ret (Inr val)))"

text \<open>A missing key of a Go map reads as the empty value.\<close>

definition data_get :: "Secret \<Rightarrow> string \<Rightarrow> string" where
  "data_get secret k = (case map_of (sec_Data secret) k of None \<Rightarrow> [] | Some v \<Rightarrow> v)"

definition getAuthConfig :: "'w api \<Rightarrow> string \<Rightarrow> string \<Rightarrow> ('w, error + AuthConfig) io" where
  "getAuthConfig api ns nm =
     bindE (getSecret api \<lparr>key_Namespace = ns, key_Name = nm\<rparr>) (\<lambda>secret.
       let username = data_get secret ''username''
       in if username = [] then ret (Inl (ErrMsg ''username not found in secret''))
          else ret (Inr \<lparr>ac_Username = username, ac_Password = data_get secret ''password'',
            ac_ServerAddress = data_get secret ''server''\<rparr>))"

definition tar_entry :: "string \<Rightarrow> string \<times> string \<Rightarrow> TarEntry" where
  "tar_entry relPath nd = \<lparr>te_Name = filepath_Join [relPath, fst nd], te_Mode = 4 * 64 + 4 * 8 + 4,
     te_Size = int (length (snd nd)), te_Data = snd nd\<rparr>"

fun write_tar :: "'w api \<Rightarrow> TarEntry list \<Rightarrow> error + TarEntry list" where
  "write_tar api [] = Inr []"
| "write_tar api (e # es) =
     (case lib_WriteHeader api e of
        Some err \<Rightarrow> Inl err
      | None \<Rightarrow> (case write_tar api es of Inl err \<Rightarrow> Inl err | Inr rest \<Rightarrow> Inr (e # rest)))"

definition uploadSecretToContainer ::
    "'w api \<Rightarrow> client \<Rightarrow> string \<Rightarrow> SecretVolume \<Rightarrow> string \<Rightarrow> ('w, error + unit) io" where
  "uploadSecretToContainer api cli ns sv cid =
     bindE (getSecret api \<lparr>key_Namespace = ns, key_Name = sv_SecretName sv\<rparr>) (\<lambda>secret.
       let relPath = TrimPrefix (sv_MountPath sv) ''/''
       in (case write_tar api (map (tar_entry relPath) (sec_Data secret)) of
             Inl err \<Rightarrow> ret (Inl err)
           | Inr buf \<Rightarrow> CopyToContainer api cli cid ''/'' buf))"

fun upload_all ::
    "'w api \<Rightarrow> client \<Rightarrow> string \<Rightarrow> string \<Rightarrow> SecretVolume list \<Rightarrow> ('w, error + unit) io" where
  "upload_all api cli ns cid [] = ret (Inr ())"
| "upload_all api cli ns cid (sv # svs) =
     bindE (uploadSecretToContainer api cli ns sv cid) (\<lambda>_. upload_all api cli ns cid svs)"

text \<open>The environment: literal entries, then one \<open>NAME=value\<close> per variable in order.\<close>

fun resolve_env :: "'w api \<Rightarrow> string \<Rightarrow> string list \<Rightarrow> EnvVar list \<Rightarrow> ('w, error + string list) io" where
  "resolve_env api ns env [] = ret (Inr env)"
| "resolve_env api ns env (ev # evs) =
     bindE
       (case ev_ValueFrom ev of
          None \<Rightarrow> ret (Inr (ev_Value ev))
        | Some src \<Rightarrow>
            (case evs_SecretKeyRef src of
               None \<Rightarrow> ret (Inr (ev_Value ev))
             | Some ref \<Rightarrow> getSecretValue api ns (sks_Name ref) (sks_Key ref)))
       (\<lambda>val. resolve_env api ns (env @ [ev_Name ev @ ''='' @ val]) evs)"

text \<open>The registry credentials for the pull, empty without a pull secret.\<close>

definition pull_auth :: "'w api \<Rightarrow> string \<Rightarrow> string \<Rightarrow> ('w, error + string) io" where
  "pull_auth api ns pullSecret =
     (if pullSecret \<noteq> [] then bindE (getAuthConfig api ns pullSecret) (\<lambda>ac. ret (lib_encodeAuth api ac))
      else ret (Inr []))"

section \<open>Creating a container\<close>

definition dc_createAndStartContainer ::
    "'w api \<Rightarrow> client \<Rightarrow> DockerContainer \<Rightarrow> ('w, error + unit) io" where
  "dc_createAndStartContainer api cli cr =
     (let ns = om_Namespace (dc_Meta cr); spec = dc_Spec cr
      in bindE (pull_auth api ns (dcs_ImagePullSecret spec)) (\<lambda>auth.
         bindE (ImagePull api cli (dcs_Image spec) auth) (\<lambda>_.
         bindE (resolve_env api ns (dcs_Env spec) (dcs_EnvVars spec)) (\<lambda>resolvedEnv.
         (case dc_config api spec resolvedEnv of (config, hostConfig) \<Rightarrow>
         bindE (ContainerCreate api cli config hostConfig (dcs_ContainerName spec)) (\<lambda>cid.
         bindE (upload_all api cli ns cid (dcs_SecretVolumes spec)) (\<lambda>_.
         ContainerStart api cli cid)))))))"

section \<open>Bringing a container in line\<close>

definition find_container :: "string \<Rightarrow> Container list \<Rightarrow> Container option" where
  "find_container expectedName cs = find (\<lambda>c. list_ex (\<lambda>n. n = expectedName) (ct_Names c)) cs"

fun first_ip :: "(string \<times> EndpointSettings) list \<Rightarrow> string" where
  "first_ip [] = []"
| "first_ip ((_, es) # ns) = (if es_IPAddress es \<noteq> [] then es_IPAddress es else first_ip ns)"

text \<open>The status the resource should show, from the list entry and the inspection if there is one.\<close>

definition observed_status ::
    "Container \<Rightarrow> (error + ContainerJSON) \<Rightarrow> DockerContainerStatus \<Rightarrow> DockerContainerStatus" where
  "observed_status tc insp st =
     (let st1 = st\<lparr>dct_ID := ct_ID tc, dct_State := ct_State tc\<rparr>
      in (case insp of
            Inl _ \<Rightarrow> st1
          | Inr j \<Rightarrow>
              let st2 = (case cj_State j of
                    None \<Rightarrow> st1
                  | Some cs \<Rightarrow> st1\<lparr>dct_Health := (case cs_Health cs of None \<Rightarrow> ''none'' | Some h \<Rightarrow> h)\<rparr>)
              in (case cj_Networks j of None \<Rightarrow> st2 | Some ns \<Rightarrow> st2\<lparr>dct_IPv4 := first_ip ns\<rparr>)))"

definition recreate :: "'w api \<Rightarrow> client \<Rightarrow> string \<Rightarrow> DockerContainer \<Rightarrow> ('w, error + unit) io" where
  "recreate api cli cid cr = do {
     _ \<leftarrow> ContainerStop api cli cid 10;
     bindE (ContainerRemove api cli cid) (\<lambda>_. dc_createAndStartContainer api cli cr) }"

definition sync_found :: "'w api \<Rightarrow> client \<Rightarrow> DockerContainer \<Rightarrow> Container \<Rightarrow> ('w, error + unit) io" where
  "sync_found api cli cr tc = do {
     insp \<leftarrow> ContainerInspect api cli (ct_ID tc);
     let st' = observed_status tc insp (dc_Status cr);
     let cr1 = cr\<lparr>dc_Status := st'\<rparr>;
     cr2 \<leftarrow> (if st' \<noteq> dc_Status cr then do {
         r \<leftarrow> statusDockerContainer api cr1;
         ret (case r of Inl _ \<Rightarrow> cr1 | Inr cr' \<Rightarrow> cr') }
       else ret cr1);
     bindE (if ct_State tc \<noteq> ''running'' then ContainerStart api cli (ct_ID tc) else ret (Inr ()))
       (\<lambda>_. case insp of
          Inl _ \<Rightarrow> ret (Inr ())
        | Inr j \<Rightarrow>
            if needsRecreate api j (dc_Spec cr2) then recreate api cli (ct_ID tc) cr2
            else ret (Inr ())) }"

definition syncContainer :: "'w api \<Rightarrow> client \<Rightarrow> DockerContainer \<Rightarrow> ('w, error + unit) io" where
  "syncContainer api cli cr =
     bindE (ContainerList api cli) (\<lambda>cs.
       (case find_container (CHR ''/'' # dcs_ContainerName (dc_Spec cr)) cs of
          None \<Rightarrow> dc_createAndStartContainer api cli cr
        | Some tc \<Rightarrow> sync_found api cli cr tc))"

section \<open>Cleaning up\<close>

definition tunnel_names :: "DockerContainer \<Rightarrow> string list" where
  "tunnel_names cr =
     (let maxPorts = max 10 (length (dcs_Services (dc_Spec cr)))
      in concat (map (\<lambda>i. [dcs_ContainerName (dc_Spec cr) @ ''-tunnel-'' @ show_nat i,
           om_Name (dc_Meta cr) @ ''-tunnel-'' @ show_nat i]) [0..<maxPorts])
         @ [dcs_ContainerName (dc_Spec cr) @ ''-tunnel''])"

text \<open>Errors of these removals are only logged.\<close>

fun remove_each :: "'w api \<Rightarrow> client \<Rightarrow> string list \<Rightarrow> ('w, unit) io" where
  "remove_each api cli [] = ret ()"
| "remove_each api cli (n # ns) = do { _ \<leftarrow> ContainerRemove api cli n; remove_each api cli ns }"

definition dc_deleteExternalResources ::
    "'w api \<Rightarrow> client \<Rightarrow> DockerContainer \<Rightarrow> ('w, error + unit) io" where
  "dc_deleteExternalResources api cli cr = do {
     r \<leftarrow> ContainerRemove api cli (dcs_ContainerName (dc_Spec cr));
     case r of
       Inl err \<Rightarrow> if \<not> IsErrNotFound err then ret (Inl err)
                  else do { remove_each api cli (tunnel_names cr); ret (Inr ()) }
     | Inr _ \<Rightarrow> do { remove_each api cli (tunnel_names cr); ret (Inr ()) } }"

section \<open>The reconcile loop\<close>

definition dc_finalizerName :: string where
  "dc_finalizerName = ''dockercontainer.kdop.io.vn/finalizer''"

definition dc_finish :: "'w api \<Rightarrow> client \<Rightarrow> DockerContainer \<Rightarrow> ('w, error + Result) io" where
  "dc_finish api cli cr =
     bindE (syncContainer api cli cr) (\<lambda>_. ret (Inr (requeue (1 * minute))))"

definition dc_finalize :: "'w api \<Rightarrow> client \<Rightarrow> DockerContainer \<Rightarrow> ('w, error + Result) io" where
  "dc_finalize api cli cr =
     (if lib_ContainsFinalizer api (dc_Meta cr) dc_finalizerName then
        bindE (dc_deleteExternalResources api cli cr) (\<lambda>_.
        bindE (updateDockerContainer api
            (cr\<lparr>dc_Meta := lib_RemoveFinalizer api (dc_Meta cr) dc_finalizerName\<rparr>)) (\<lambda>_.
        ret (Inr no_requeue)))
      else ret (Inr no_requeue))"

definition dc_Reconcile ::
    "'w api \<Rightarrow> client option \<Rightarrow> ObjectKey \<Rightarrow> ('w, error + Result) io" where
  "dc_Reconcile api own req = do {
     r \<leftarrow> getDockerContainer api req;
     case r of
       Inl err \<Rightarrow> if IsNotFound err then ret (Inr no_requeue) else ret (Inl err)
     | Inr cr \<Rightarrow>
         bindE (dc_getDockerClient api own cr) (\<lambda>cli.
           if om_DeletionTimestamp (dc_Meta cr) = None then
             if \<not> lib_ContainsFinalizer api (dc_Meta cr) dc_finalizerName then
               bindE (updateDockerContainer api
                   (cr\<lparr>dc_Meta := lib_AddFinalizer api (dc_Meta cr) dc_finalizerName\<rparr>))
                 (dc_finish api cli)
             else dc_finish api cli cr
           else dc_finalize api cli cr) }"

section \<open>Traces of the steps\<close>

lemma silent_getSecretValue [emits_intros]: "emits P (getSecretValue api ns nm key)"
  unfolding getSecretValue_def by (intro emits_intros)

lemma silent_resolve_env [emits_intros]: "emits P (resolve_env api ns env evs)"
proof (induction evs arbitrary: env)
  case (Cons ev evs)
  then show ?case by (auto intro!: emits_intros split: option.splits)
qed (auto intro: emits_intros)

lemma silent_pull_auth [emits_intros]: "emits P (pull_auth api ns sec)"
  unfolding pull_auth_def getAuthConfig_def Let_def by (intro emits_intros)

lemma emits_upload [emits_intros]:
  "(\<And>tar r. P (EvCopy cli cid ''/'' tar r)) \<Longrightarrow> emits P (uploadSecretToContainer api cli ns sv cid)"
  unfolding uploadSecretToContainer_def Let_def by (intro emits_intros)

lemma emits_upload_all [emits_intros]:
  "(\<And>tar r. P (EvCopy cli cid ''/'' tar r)) \<Longrightarrow> emits P (upload_all api cli ns cid svs)"
  by (induction svs) (auto intro!: emits_intros)

lemma emits_remove_each [emits_intros]:
  "(\<And>n r. n \<in> set ns \<Longrightarrow> P (EvRemove cli n r)) \<Longrightarrow> emits P (remove_each api cli ns)"
  by (induction ns) (auto intro!: emits_intros)

lemma remove_each_trace:
  "wp (remove_each api cli ns) (\<lambda>_ s'. \<exists>rs. length rs = length ns \<and>
     st_trace s' = st_trace s @ map2 (EvRemove cli) ns rs) s"
proof (induction ns arbitrary: s)
  case (Cons n ns)
  show ?case
    unfolding remove_each.simps wp_bind ContainerRemove_def
  proof (rule wp_invokeI, rule wp_mono [OF Cons])
    fix r w u and s' :: "'a st"
    assume "\<exists>rs. length rs = length ns \<and> st_trace s' =
      st_trace (s\<lparr>st_trace := st_trace s @ [EvRemove cli n r], st_world := w\<rparr>) @ map2 (EvRemove cli) ns rs"
    then obtain rs where "length rs = length ns"
      "st_trace s' = st_trace s @ EvRemove cli n r # map2 (EvRemove cli) ns rs" by auto
    then show "\<exists>rs. length rs = length (n # ns) \<and>
        st_trace s' = st_trace s @ map2 (EvRemove cli) (n # ns) rs"
      by (intro exI [of _ "r # rs"]) simp
  qed
qed (simp add: wp_simps)

text \<open>
  What an upload and the environment must be: an archive holds one read-only file per key of the
  secret that the API returned, below the mount path, with the value as its content; a variable is
  its literal value or the value of the key it refers to.
\<close>

definition secret_files :: "'w api \<Rightarrow> string \<Rightarrow> SecretVolume \<Rightarrow> TarEntry list \<Rightarrow> bool" where
  "secret_files api ns sv tar \<longleftrightarrow> (\<exists>w secret w'.
     api_getSecret api \<lparr>key_Namespace = ns, key_Name = sv_SecretName sv\<rparr> w = (Inr secret, w') \<and>
     tar = map (\<lambda>(key, val). \<lparr>te_Name = filepath_Join [TrimPrefix (sv_MountPath sv) ''/'', key], te_Mode = 292,
       te_Size = int (length val), te_Data = val\<rparr>) (sec_Data secret))"

definition env_entry :: "'w api \<Rightarrow> string \<Rightarrow> EnvVar \<Rightarrow> string \<Rightarrow> bool" where
  "env_entry api ns ev e \<longleftrightarrow> (\<exists>val. e = ev_Name ev @ ''='' @ val \<and>
     (case Option.bind (ev_ValueFrom ev) evs_SecretKeyRef of
        None \<Rightarrow> val = ev_Value ev
      | Some ref \<Rightarrow> (\<exists>w secret w'. api_getSecret api \<lparr>key_Namespace = ns, key_Name = sks_Name ref\<rparr> w = (Inr secret, w') \<and>
          map_of (sec_Data secret) (sks_Key ref) = Some val)))"

lemma write_tar_ok: "write_tar api es = Inr buf \<Longrightarrow> buf = es"
  by (induction es arbitrary: buf) (auto split: option.splits sum.splits)

lemma upload_trace:
  "wp (uploadSecretToContainer api cli ns sv cid) (\<lambda>r s'. r = Inr () \<longrightarrow>
     (\<exists>tar. secret_files api ns sv tar \<and> st_trace s' = st_trace s @ [EvCopy cli cid ''/'' tar (Inr ())])) s"
proof -
  have "secret_files api ns sv buf"
    if "write_tar api (map (tar_entry (TrimPrefix (sv_MountPath sv) ''/'')) (sec_Data secret)) = Inr buf"
      "api_getSecret api \<lparr>key_Namespace = ns, key_Name = sv_SecretName sv\<rparr> w = (Inr secret, w')" for buf secret w w'
    using that(2) write_tar_ok [OF that(1)] unfolding secret_files_def
    by (intro exI [of _ w] exI [of _ secret] exI [of _ w']) (auto simp: tar_entry_def)
  then show ?thesis
    unfolding uploadSecretToContainer_def
    by (auto simp: wp_simps call_defs Let_def wp_invoke split: sum.splits prod.splits)
qed

lemma upload_all_trace:
  "wp (upload_all api cli ns cid svs) (\<lambda>r s'. r = Inr () \<longrightarrow> (\<exists>tars. list_all2 (secret_files api ns) svs tars \<and>
     st_trace s' = st_trace s @ map (\<lambda>tar. EvCopy cli cid ''/'' tar (Inr ())) tars)) s"
proof (induction svs arbitrary: s)
  case (Cons sv svs)
  show ?case
    unfolding upload_all.simps wp_bindE
  proof (rule wp_mono [OF upload_trace], goal_cases)
    case (1 r s')
    show ?case
    proof (cases r)
      case (Inr u)
      then obtain tar where t: "secret_files api ns sv tar" "st_trace s' = st_trace s @ [EvCopy cli cid ''/'' tar (Inr ())]"
        using 1 by auto
      show ?thesis
        unfolding Inr sum.case
      proof (rule wp_mono [OF Cons], intro impI, goal_cases)
        case (1 r' s'')
        then obtain tars where "list_all2 (secret_files api ns) svs tars"
          "st_trace s'' = st_trace s' @ map (\<lambda>tar. EvCopy cli cid ''/'' tar (Inr ())) tars" by blast
        then show ?case by (intro exI [of _ "tar # tars"]) (simp add: t)
      qed
    qed simp
  qed
qed (simp add: wp_simps)

lemma resolve_env_entries:
  "wp (resolve_env api ns env evs) (\<lambda>r s'. \<forall>e. r = Inr e \<longrightarrow> (\<exists>xs. e = env @ xs \<and> list_all2 (env_entry api ns) evs xs)) s"
proof (induction evs arbitrary: env s)
  case (Cons ev evs)
  let ?val = "case ev_ValueFrom ev of None \<Rightarrow> ret (Inr (ev_Value ev))
    | Some src \<Rightarrow> (case evs_SecretKeyRef src of None \<Rightarrow> ret (Inr (ev_Value ev))
       | Some ref \<Rightarrow> getSecretValue api ns (sks_Name ref) (sks_Key ref))"
  have one: "wp ?val (\<lambda>r s'. \<forall>v. r = Inr v \<longrightarrow> env_entry api ns ev (ev_Name ev @ ''='' @ v)) t" for t
    by (auto simp: env_entry_def getSecretValue_def wp_simps call_defs wp_invoke split: option.splits sum.splits prod.splits)
  show ?case
    unfolding resolve_env.simps wp_bindE
  proof (rule wp_mono [OF one], goal_cases)
    case (1 r s')
    show ?case
    proof (cases r)
      case (Inr v)
      with 1 have "env_entry api ns ev (ev_Name ev @ ''='' @ v)" by simp
      then show ?thesis
        unfolding Inr sum.case by (intro wp_mono [OF Cons]) (force intro: exI [of _ "(ev_Name ev @ ''='' @ v) # _"])
    qed simp
  qed
qed (simp add: wp_simps)

lemma emits_create [emits_intros]:
  assumes "\<And>img auth r. P (EvPull cli img auth r)"
    and "\<And>cfg hcfg r. P (EvCreate cli (dcs_ContainerName (dc_Spec cr)) cfg hcfg r)"
    and "\<And>cid tar r. P (EvCopy cli cid ''/'' tar r)" and "\<And>cid r. P (EvStart cli cid r)"
  shows "emits P (dc_createAndStartContainer api cli cr)"
  unfolding dc_createAndStartContainer_def Let_def case_prod_beta
  using assms by (intro emits_intros) auto

lemma after_create_trace:
  "wp (bindE (upload_all api cli ns cid svs) (\<lambda>_. ContainerStart api cli cid)) (\<lambda>r s'.
     \<exists>es. st_trace s' = st_trace s @ es \<and> ((\<exists>c i sr. EvStart c i sr \<in> set es) \<longrightarrow>
       (\<exists>tars sr. list_all2 (secret_files api ns) svs tars \<and>
          es = map (\<lambda>tar. EvCopy cli cid ''/'' tar (Inr ())) tars @ [EvStart cli cid sr]))) s"
proof -
  let ?copy = "\<lambda>e. \<exists>tar r. e = EvCopy cli cid ''/'' tar r"
  have copies: "emits ?copy (upload_all api cli ns cid svs)" by (intro emits_intros) auto
  show ?thesis
    unfolding wp_bindE
  proof (rule wp_mono [OF wp_conj [OF emits_wpD [OF copies] upload_all_trace]], goal_cases)
    case (1 r s')
    then obtain es where es: "st_trace s' = st_trace s @ es" "list_all ?copy es"
      and ok: "r = Inr () \<longrightarrow> (\<exists>tars. list_all2 (secret_files api ns) svs tars \<and>
        st_trace s' = st_trace s @ map (\<lambda>tar. EvCopy cli cid ''/'' tar (Inr ())) tars)" by blast
    have nostart: "EvStart c i sr \<notin> set es" for c i sr using es(2) by (auto simp: list_all_iff)
    show ?case
    proof (cases r)
      case Inl
      then show ?thesis using es(1) nostart by auto
    next
      case (Inr u)
      then obtain tars where "list_all2 (secret_files api ns) svs tars"
        "es = map (\<lambda>tar. EvCopy cli cid ''/'' tar (Inr ())) tars" using ok es(1) by auto
      then show ?thesis
        unfolding Inr sum.case ContainerStart_def by (intro wp_invokeI) (auto simp: es(1))
    qed
  qed
qed

definition started_with :: "'w api \<Rightarrow> client \<Rightarrow> DockerContainer \<Rightarrow> event list \<Rightarrow> bool" where
  "started_with api cli cr es \<longleftrightarrow> (\<exists>auth vars cid tars sr.
     list_all2 (env_entry api (om_Namespace (dc_Meta cr))) (dcs_EnvVars (dc_Spec cr)) vars \<and>
     list_all2 (secret_files api (om_Namespace (dc_Meta cr))) (dcs_SecretVolumes (dc_Spec cr)) tars \<and>
     es = [EvPull cli (dcs_Image (dc_Spec cr)) auth (Inr ()),
         EvCreate cli (dcs_ContainerName (dc_Spec cr)) (fst (dc_config api (dc_Spec cr) (dcs_Env (dc_Spec cr) @ vars)))
           (snd (dc_config api (dc_Spec cr) (dcs_Env (dc_Spec cr) @ vars))) (Inr cid)]
       @ map (\<lambda>tar. EvCopy cli cid ''/'' tar (Inr ())) tars @ [EvStart cli cid sr])"

lemma create_trace:
  "wp (dc_createAndStartContainer api cli cr) (\<lambda>r s'.
     \<exists>es. st_trace s' = st_trace s @ es \<and> ((\<exists>c i sr. EvStart c i sr \<in> set es) \<longrightarrow> started_with api cli cr es)) s"
  (is "wp _ (\<lambda>r s'. ?Q s') s")
proof -
  let ?ns = "om_Namespace (dc_Meta cr)" and ?spec = "dc_Spec cr"
  define rest where "rest cid = bindE (upload_all api cli ?ns cid (dcs_SecretVolumes ?spec))
    (\<lambda>_. ContainerStart api cli cid)" for cid
  define made where "made env = bindE (ContainerCreate api cli (fst (dc_config api ?spec env)) (snd (dc_config api ?spec env))
    (dcs_ContainerName ?spec)) rest" for env
  have created: "wp (rest cid) (\<lambda>r s'. ?Q s') s4"
    if "list_all2 (env_entry api ?ns) (dcs_EnvVars ?spec) vars" "env = dcs_Env ?spec @ vars"
      "st_trace s4 = st_trace s @ [EvPull cli (dcs_Image ?spec) auth (Inr ()), EvCreate cli (dcs_ContainerName ?spec)
        (fst (dc_config api ?spec env)) (snd (dc_config api ?spec env)) (Inr cid)]" for cid s4 auth vars env
    unfolding rest_def started_with_def by (rule wp_mono [OF after_create_trace]) (use that in fastforce)
  have pulled: "wp (bindE (resolve_env api ?ns (dcs_Env ?spec) (dcs_EnvVars ?spec)) made) (\<lambda>r s'. ?Q s') s2"
    if "st_trace s2 = st_trace s @ [EvPull cli (dcs_Image ?spec) auth (Inr ())]" for s2 auth
    unfolding wp_bindE
  proof (rule wp_silentI [OF silent_resolve_env], goal_cases)
    case (1 r s3)
    with wp_runD [OF resolve_env_entries 1(1)] show ?case
      unfolding made_def wp_bindE ContainerCreate_def
      by (auto simp: that intro!: wp_invokeI created split: sum.splits)
  qed
  show ?thesis
    unfolding dc_createAndStartContainer_def Let_def case_prod_beta rest_def [symmetric] made_def [symmetric]
    by (subst wp_bindE, rule wp_silentI [OF silent_pull_auth], split sum.split, intro conjI impI allI, force,
        subst wp_bindE, unfold ImagePull_def, rule wp_invokeI, split sum.split, intro conjI impI allI, force,
        rule pulled, simp)
qed

section \<open>Deletion\<close>

definition cleanup_events :: "client \<Rightarrow> DockerContainer \<Rightarrow> (error + unit) \<Rightarrow> (error + unit) list \<Rightarrow> event list" where
  "cleanup_events cli cr main rs =
     EvRemove cli (dcs_ContainerName (dc_Spec cr)) main # map2 (EvRemove cli) (tunnel_names cr) rs"

definition removed_or_absent :: "error + unit \<Rightarrow> bool" where
  "removed_or_absent r \<longleftrightarrow> (case r of Inr _ \<Rightarrow> True | Inl err \<Rightarrow> IsErrNotFound err)"

lemma deleteExternalResources_trace:
  "wp (dc_deleteExternalResources api cli cr) (\<lambda>r s'.
     (\<exists>err. r = Inl err \<and> \<not> IsErrNotFound err \<and>
        st_trace s' = st_trace s @ [EvRemove cli (dcs_ContainerName (dc_Spec cr)) (Inl err)]) \<or>
     (\<exists>main rs. r = Inr () \<and> removed_or_absent main \<and> length rs = length (tunnel_names cr) \<and>
        st_trace s' = st_trace s @ cleanup_events cli cr main rs)) s"
  unfolding dc_deleteExternalResources_def wp_bind ContainerRemove_def
proof (rule wp_invokeI, goal_cases)
  case (1 main w)
  let ?s = "s\<lparr>st_trace := st_trace s @ [EvRemove cli (dcs_ContainerName (dc_Spec cr)) main], st_world := w\<rparr>"
  have tunnels: "wp (do { remove_each api cli (tunnel_names cr); ret (Inr ()) }) (\<lambda>r s'.
      \<exists>rs. r = Inr () \<and> length rs = length (tunnel_names cr) \<and>
        st_trace s' = st_trace s @ cleanup_events cli cr main rs) ?s"
    unfolding wp_bind
    by (rule wp_mono [OF remove_each_trace]) (auto simp: wp_simps cleanup_events_def)
  show ?case
  proof (cases "removed_or_absent main")
    case True
    then have "(case main of Inl err \<Rightarrow> if \<not> IsErrNotFound err then ret (Inl err)
        else do { remove_each api cli (tunnel_names cr); ret (Inr ()) }
      | Inr _ \<Rightarrow> do { remove_each api cli (tunnel_names cr); ret (Inr ()) })
      = do { remove_each api cli (tunnel_names cr); ret (Inr ()) }"
      by (auto simp: removed_or_absent_def split: sum.splits)
    then show ?thesis using True by (auto intro!: wp_mono [OF tunnels])
  qed (auto simp: removed_or_absent_def wp_simps split: sum.splits)
qed

lemma finalize_trace:
  "wp (dc_finalize api cli cr) (\<lambda>r s'. \<exists>es. st_trace s' = st_trace s @ es \<and>
     (es = [] \<or> (\<exists>err. es = [EvRemove cli (dcs_ContainerName (dc_Spec cr)) (Inl err)]) \<or>
      (\<exists>main rs ur. removed_or_absent main \<and> length rs = length (tunnel_names cr) \<and> es = cleanup_events cli cr main rs @
        [EvUpdateContainer (cr\<lparr>dc_Meta := lib_RemoveFinalizer api (dc_Meta cr) dc_finalizerName\<rparr>) ur]))) s"
  (is "wp _ ?Q s")
proof (cases "lib_ContainsFinalizer api (dc_Meta cr) dc_finalizerName")
  case True
  show ?thesis
    unfolding dc_finalize_def wp_bindE updateDockerContainer_def if_P [OF True]
  proof (rule wp_mono [OF deleteExternalResources_trace], elim disjE exE conjE, goal_cases)
    case (1 r s' err)
    then show ?case by simp
  next
    case (2 r s' main rs)
    show ?case
      unfolding 2(1) sum.case
      by (rule wp_invokeI) (use 2(2-) in \<open>auto simp: wp_simps split: sum.splits\<close>)
  qed
qed (simp add: dc_finalize_def wp_simps)

lemma Reconcile_deleted:
  assumes "api_getDockerContainer api req (st_world s) = (Inr cr, w)"
    and "om_DeletionTimestamp (dc_Meta cr) \<noteq> None"
  shows "wp (dc_Reconcile api own req) Q s \<longleftrightarrow>
    wp (bindE (dc_getDockerClient api own cr) (\<lambda>cli. dc_finalize api cli cr)) Q (s\<lparr>st_world := w\<rparr>)"
  using assms(1)
  by (simp add: dc_Reconcile_def getDockerContainer_def wp_bind wp_invoke if_not_P [OF assms(2)])

lemma remove_each_kube:
  "wp (remove_each kube cli ns) Q s \<longleftrightarrow>
     Q () (s\<lparr>st_trace := st_trace s @ map (\<lambda>n. EvRemove cli n (Inr ())) ns\<rparr>)"
  by (induction ns arbitrary: s) (simp_all add: wp_simps call_defs wp_invoke unit_ok_def)

text \<open>
  C2: a resource loses its finalizer only after its containers are cleaned up. When the reconciler
  writes a resource that is being deleted, then in this very run it first removed the main container
  (successfully, or Docker reported it missing) and then asked for the removal of every tunnel
  container, all on one client; the write is the last event, and all it changes is the finalizer.
\<close>

theorem finalizer_removed_after_cleanup:
  assumes "api_getDockerContainer api req (st_world s) = (Inr cr, w)"
    and "om_DeletionTimestamp (dc_Meta cr) \<noteq> None"
    and "run_state (dc_Reconcile api own req) s = (r, s')"
    and "EvUpdateContainer cr' ur \<in> set (new_events s s')"
  shows "\<exists>pre cli main rs. list_all client_event pre \<and> removed_or_absent main \<and>
    length rs = length (tunnel_names cr) \<and>
    new_events s s' = pre @ cleanup_events cli cr main rs @
      [EvUpdateContainer (cr\<lparr>dc_Meta := lib_RemoveFinalizer api (dc_Meta cr) dc_finalizerName\<rparr>) ur]"
proof -
  let ?cr = "cr\<lparr>dc_Meta := lib_RemoveFinalizer api (dc_Meta cr) dc_finalizerName\<rparr>"
  let ?Q = "\<lambda>r s'. \<exists>es. st_trace s' = st_trace s @ es \<and> (EvUpdateContainer cr' ur \<in> set es \<longrightarrow>
    (\<exists>pre cli main rs. list_all client_event pre \<and> removed_or_absent main \<and> length rs = length (tunnel_names cr) \<and>
      es = pre @ cleanup_events cli cr main rs @ [EvUpdateContainer ?cr ur]))"
  have no: "EvUpdateContainer cr' ur \<notin> set (cleanup_events cli cr main rs)" for cli main rs
    by (auto simp: cleanup_events_def dest: set_zip_rightD set_zip_leftD)
  have fin: "wp (dc_finalize api cli cr) ?Q s1"
    if s1: "st_trace s1 = st_trace s @ pre" "list_all client_event pre" for s1 pre cli
  proof (rule wp_mono [OF finalize_trace], elim exE conjE, goal_cases)
    case (1 r s' es)
    have "EvUpdateContainer cr' ur \<notin> set pre"
      using s1(2) by (auto simp: list_all_iff client_event_def)
    with 1 no s1 show ?case by (intro exI [of _ "pre @ es"]) (auto, blast?)
  qed
  have none: "EvUpdateContainer cr' ur \<notin> set es" if "list_all client_event es" for es
    using that by (auto simp: list_all_iff client_event_def)
  have "wp (dc_getDockerClient api own cr) (\<lambda>r. case r of Inl e \<Rightarrow> ?Q (Inl e)
      | Inr cli \<Rightarrow> wp (dc_finalize api cli cr) ?Q) (s\<lparr>st_world := w\<rparr>)"
    by (rule wp_emitsI [OF dcr.quiet], split sum.split, intro conjI impI allI, force dest: none,
      rule fin) auto
  then have "wp (dc_Reconcile api own req) ?Q s"
    by (simp only: Reconcile_deleted [OF assms(1,2)] wp_bindE)
  from wp_runD [OF this assms(3)] obtain es where es: "st_trace s' = st_trace s @ es"
    "EvUpdateContainer cr' ur \<in> set es \<longrightarrow> (\<exists>pre cli main rs. list_all client_event pre \<and> removed_or_absent main \<and>
      length rs = length (tunnel_names cr) \<and>
      es = pre @ cleanup_events cli cr main rs @ [EvUpdateContainer ?cr ur])" by blast
  then have "new_events s s' = es" by simp
  with es(2) assms(4) show ?thesis by metis
qed

definition demo_deleted :: DockerContainer where
  "demo_deleted = (plain_container ''web'')\<lparr>dc_Meta := (plain_meta ''web'')\<lparr>om_DeletionTimestamp := Some 1,
     om_Finalizers := [dc_finalizerName]\<rparr>\<rparr>"

definition demo_deleted_state :: "kube_store st" where
  "demo_deleted_state = start_state (empty_store\<lparr>ks_containers := [demo_deleted]\<rparr>)"

theorem finalizer_removed_after_cleanup_witness:
  "\<exists>pre cli main rs. list_all client_event pre \<and> removed_or_absent main \<and> length rs = length (tunnel_names demo_deleted) \<and>
    new_events demo_deleted_state (snd (run_state (dc_Reconcile kube None \<lparr>key_Namespace = ''ns'', key_Name = ''web''\<rparr>)
      demo_deleted_state)) = pre @ cleanup_events cli demo_deleted main rs @
      [EvUpdateContainer (demo_deleted\<lparr>dc_Meta := (dc_Meta demo_deleted)\<lparr>om_Finalizers := []\<rparr>\<rparr>)
        (Inr (demo_deleted\<lparr>dc_Meta := (dc_Meta demo_deleted)\<lparr>om_Finalizers := []\<rparr>\<rparr>))]"
proof -
  let ?cr = "demo_deleted\<lparr>dc_Meta := (dc_Meta demo_deleted)\<lparr>om_Finalizers := []\<rparr>\<rparr>"
  let ?run = "run_state (dc_Reconcile kube None \<lparr>key_Namespace = ''ns'', key_Name = ''web''\<rparr>) demo_deleted_state"
  have "wp (dc_Reconcile kube None \<lparr>key_Namespace = ''ns'', key_Name = ''web''\<rparr>)
      (\<lambda>r s'. \<exists>es. st_trace s' = es @ [EvUpdateContainer ?cr (Inr ?cr)]) demo_deleted_state"
    by (auto simp: dc_Reconcile_def dc_finalize_def dc_deleteExternalResources_def resolver_defs
        load_cached_def host_name_def demo_deleted_def demo_deleted_state_def fixture_defs
        wp_simps call_defs wp_invoke remove_each_kube)
  then have "EvUpdateContainer ?cr (Inr ?cr) \<in> set (new_events demo_deleted_state (snd ?run))"
    by (auto simp: wp_def split: prod.splits) (simp add: demo_deleted_state_def start_state_def)
  with finalizer_removed_after_cleanup [of kube "\<lparr>key_Namespace = ''ns'', key_Name = ''web''\<rparr>"
      demo_deleted_state demo_deleted _ None _ _ ?cr "Inr ?cr", OF _ _ prod.collapse [symmetric]]
  show ?thesis
    by (simp add: demo_deleted_state_def demo_deleted_def fixture_defs)
qed

section \<open>Which containers a sync touches\<close>

text \<open>What the controller relies on in a status write: the reply carries the spec of the resource.\<close>

definition status_keeps_spec :: "'w api \<Rightarrow> bool" where
  "status_keeps_spec api \<longleftrightarrow> (\<forall>c w c' w'. api_statusDockerContainer api c w = (Inr c', w') \<longrightarrow> dc_Spec c' = dc_Spec c)"

text \<open>
  The events of a sync of \<open>cr\<close>, where \<open>cs\<close> are the containers Docker listed: containers under the name
  of the resource may be stopped, removed and started, new ones are created under that name, and
  copies and further starts go to the identifier Docker returned for one that was created; the only
  image is that of the resource, the only resource written is its own, in its status.
\<close>

definition own_event :: "client \<Rightarrow> DockerContainer \<Rightarrow> string set \<Rightarrow> string set \<Rightarrow> event \<Rightarrow> bool" where
  "own_event cli cr listed made e =
     (case e of
        EvStop c i t r \<Rightarrow> c = cli \<and> i \<in> listed
      | EvRemove c i r \<Rightarrow> c = cli \<and> i \<in> listed
      | EvCreate c n cfg hcfg r \<Rightarrow> c = cli \<and> n = dcs_ContainerName (dc_Spec cr)
      | EvStart c i r \<Rightarrow> c = cli \<and> i \<in> listed \<union> made
      | EvCopy c i dst tar r \<Rightarrow> c = cli \<and> i \<in> made
      | EvPull c img auth r \<Rightarrow> c = cli \<and> img = dcs_Image (dc_Spec cr)
      | EvStatusContainer d r \<Rightarrow> dc_Meta d = dc_Meta cr \<and> dc_Spec d = dc_Spec cr
      | _ \<Rightarrow> False)"

definition listed_ids :: "string \<Rightarrow> Container list \<Rightarrow> string set" where
  "listed_ids nm cs = ct_ID ` {c \<in> set cs. CHR ''/'' # nm \<in> set (ct_Names c)}"

definition made_ids :: "client \<Rightarrow> event list \<Rightarrow> string set" where
  "made_ids cli es = {i. \<exists>nm cfg hcfg. EvCreate cli nm cfg hcfg (Inr i) \<in> set es}"

definition own_events :: "client \<Rightarrow> DockerContainer \<Rightarrow> string set \<Rightarrow> event list \<Rightarrow> bool" where
  "own_events cli cr listed es \<longleftrightarrow> list_all (own_event cli cr listed (made_ids cli es)) es"

lemma own_event_simps [simp]:
  "own_event cli cr listed made (EvStop c i t r) \<longleftrightarrow> c = cli \<and> i \<in> listed"
  "own_event cli cr listed made (EvRemove c i r) \<longleftrightarrow> c = cli \<and> i \<in> listed"
  "own_event cli cr listed made (EvCreate c n cfg hcfg q) \<longleftrightarrow> c = cli \<and> n = dcs_ContainerName (dc_Spec cr)"
  "own_event cli cr listed made (EvStart c i r) \<longleftrightarrow> c = cli \<and> i \<in> listed \<union> made"
  "own_event cli cr listed made (EvCopy c i dst tar r) \<longleftrightarrow> c = cli \<and> i \<in> made"
  "own_event cli cr listed made (EvPull c img auth r) \<longleftrightarrow> c = cli \<and> img = dcs_Image (dc_Spec cr)"
  "own_event cli cr listed made (EvStatusContainer d p) \<longleftrightarrow> dc_Meta d = dc_Meta cr \<and> dc_Spec d = dc_Spec cr"
  by (simp_all add: own_event_def)

lemma own_event_mono: "own_event cli cr listed made e \<Longrightarrow> made \<subseteq> made' \<Longrightarrow> own_event cli cr listed made' e"
  by (cases e) (auto simp: own_event_def)

lemma made_ids_append: "made_ids cli (es @ es') = made_ids cli es \<union> made_ids cli es'"
  by (auto simp: made_ids_def)

lemma own_events_append: "own_events cli cr listed es \<Longrightarrow> own_events cli cr listed es' \<Longrightarrow> own_events cli cr listed (es @ es')"
  by (auto simp: own_events_def list_all_iff made_ids_append elim: own_event_mono)

lemma own_events_plain: "list_all (own_event cli cr listed {}) es \<Longrightarrow> own_events cli cr listed es"
  by (auto simp: own_events_def list_all_iff elim: own_event_mono)

definition own_after :: "client \<Rightarrow> DockerContainer \<Rightarrow> string set \<Rightarrow> 'w st \<Rightarrow> 'r \<Rightarrow> 'w st \<Rightarrow> bool" where
  "own_after cli cr listed s r s' \<longleftrightarrow> (\<exists>es. st_trace s' = st_trace s @ es \<and> own_events cli cr listed es)"

lemma own_after_refl [simp]: "own_after cli cr listed s r s"
  by (simp add: own_after_def own_events_def)

lemma wp_own:
  assumes "emits (own_event cli cr listed {}) m"
    and "\<And>r t. run_state m s = (r, t) \<Longrightarrow> wp (f r) (own_after cli cr listed t) t"
  shows "wp (State_Monad.bind m f) (own_after cli cr listed s) s"
  unfolding wp_bind
proof (rule wp_emitsI [OF assms(1)], goal_cases)
  case (1 r t es)
  show ?case
    by (rule wp_mono [OF assms(2) [OF 1(1)]])
      (use 1 in \<open>auto simp: own_after_def intro: own_events_append own_events_plain\<close>)
qed

lemma create_own:
  assumes "dc_Spec cr' = dc_Spec cr"
  shows "wp (dc_createAndStartContainer api cli cr') (own_after cli cr listed s) s"
proof -
  let ?spec = "dc_Spec cr'"
  let ?pull = "\<lambda>auth r. EvPull cli (dcs_Image ?spec) auth r"
  have rest: "wp (bindE (upload_all api cli ns cid svs) (\<lambda>_. ContainerStart api cli cid)) (own_after cli cr listed s) t"
    if "st_trace t = st_trace s @ [?pull auth pr, EvCreate cli (dcs_ContainerName ?spec) cfg hcfg (Inr cid)]"
    for ns cid svs t auth pr cfg hcfg
  proof -
    have "emits (own_event cli cr {} {cid}) (bindE (upload_all api cli ns cid svs) (\<lambda>_. ContainerStart api cli cid))"
      by (intro emits_intros) auto
    then show ?thesis
    proof (rule wp_emitsI, goal_cases)
      case (1 r t' es)
      let ?es = "[?pull auth pr, EvCreate cli (dcs_ContainerName ?spec) cfg hcfg (Inr cid)] @ es"
      have "cid \<in> made_ids cli ?es" by (auto simp: made_ids_def)
      then have "own_event cli cr listed (made_ids cli ?es) e" if "own_event cli cr {} {cid} e" for e
        using that by (cases e) (auto simp: own_event_def)
      then have "own_events cli cr listed ?es"
        using 1(3) assms by (auto simp: own_events_def list_all_iff)
      then show ?case using 1(2) that by (auto simp: own_after_def)
    qed
  qed
  have early: "own_after cli cr listed s r t"
    if "st_trace t = st_trace s @ es" "list_all (own_event cli cr listed {}) es" for r :: "error + unit" and t es
    using that by (auto simp: own_after_def intro: own_events_plain)
  show ?thesis
    unfolding dc_createAndStartContainer_def Let_def case_prod_beta
    apply (subst wp_bindE)
    apply (rule wp_silentI [OF silent_pull_auth], split sum.split, intro conjI impI allI)
    apply (rule early [where es = "[]"], simp, simp)
    apply (subst wp_bindE, unfold ImagePull_def, rule wp_invokeI, split sum.split, intro conjI impI allI)
    apply (rule early, simp, simp add: assms)
    apply (subst wp_bindE, rule wp_silentI [OF silent_resolve_env], split sum.split, intro conjI impI allI)
    apply (rule early, simp, simp add: assms)
    apply (subst wp_bindE, unfold ContainerCreate_def, rule wp_invokeI, split sum.split, intro conjI impI allI)
    apply (rule early, simp, simp add: assms)
    apply (rule rest, simp)
    done
qed

lemma recreate_own:
  assumes "dc_Spec cr' = dc_Spec cr" and "i \<in> listed"
  shows "wp (recreate api cli i cr') (own_after cli cr listed s) s"
  unfolding recreate_def bindE_def
  using assms by (intro wp_own emits_intros) (auto simp: wp_simps create_own split: sum.splits)

lemma sync_own:
  assumes "status_keeps_spec api" and "ct_ID tc \<in> listed"
  shows "wp (sync_found api cli cr tc) (own_after cli cr listed s) s"
proof -
  have spec: "dc_Spec cr2 = dc_Spec cr"
    if "run_state (if st' \<noteq> dc_Status cr then do {
      r \<leftarrow> statusDockerContainer api (cr\<lparr>dc_Status := st'\<rparr>);
      ret (case r of Inl _ \<Rightarrow> cr\<lparr>dc_Status := st'\<rparr> | Inr cr' \<Rightarrow> cr') }
    else ret (cr\<lparr>dc_Status := st'\<rparr>)) t = (cr2, t')" for st' t t' cr2
    using that assms(1)
    by (fastforce simp: status_keeps_spec_def call_defs invoke_def split: if_splits prod.splits sum.splits)
  have final: "wp (bindE (if b then ContainerStart api cli (ct_ID tc) else ret (Inr ())) (\<lambda>_. case insp of
      Inl e \<Rightarrow> ret (Inr ())
    | Inr j \<Rightarrow> if needsRecreate api j (dc_Spec cr2) then recreate api cli (ct_ID tc) cr2 else ret (Inr ())))
      (own_after cli cr listed t) t" if "dc_Spec cr2 = dc_Spec cr" for b cr2 t and insp :: "error + ContainerJSON"
    unfolding bindE_def using assms(2) that
    by (intro wp_own emits_intros) (auto simp: wp_simps intro!: recreate_own split: sum.splits)
  show ?thesis
    unfolding sync_found_def Let_def
    by (rule wp_own, intro emits_intros, rule wp_own, intro emits_intros, simp, rule final, rule spec)
qed

lemma sync_own_events:
  assumes "status_keeps_spec api"
  shows "wp (case find_container (CHR ''/'' # dcs_ContainerName (dc_Spec cr)) cs of
       None \<Rightarrow> dc_createAndStartContainer api cli cr
     | Some tc \<Rightarrow> sync_found api cli cr tc)
    (own_after cli cr (listed_ids (dcs_ContainerName (dc_Spec cr)) cs) s) s"
proof (cases "find_container (CHR ''/'' # dcs_ContainerName (dc_Spec cr)) cs")
  case None
  then show ?thesis by (simp add: create_own)
next
  case (Some tc)
  then have "ct_ID tc \<in> listed_ids (dcs_ContainerName (dc_Spec cr)) cs"
    by (auto simp: find_container_def find_Some_iff list_ex_iff listed_ids_def)
  then show ?thesis unfolding Some option.case by (rule sync_own [OF assms])
qed

text \<open>
  C24: a sync touches no container but its own. It stops, removes and starts only containers that
  Docker lists under exactly the name of the resource; it pulls only the image of the resource,
  creates only under its name, and copies files to and starts only the container it created; it uses
  one client and writes no resource but its own, in its status alone. The reply to the status write
  is assumed to carry the spec of the resource.
\<close>

theorem sync_touches_only_its_container:
  assumes "status_keeps_spec api" and "api_ContainerList api cli (st_world s) = (Inr cs, w)"
    and "run_state (syncContainer api cli cr) s = (r, s')"
  shows "own_events cli cr (listed_ids (dcs_ContainerName (dc_Spec cr)) cs) (new_events s s')"
proof -
  have "wp (syncContainer api cli cr) (\<lambda>r s'. \<exists>es. st_trace s' = st_trace s @ es \<and>
      own_events cli cr (listed_ids (dcs_ContainerName (dc_Spec cr)) cs) es) s"
    unfolding syncContainer_def wp_bindE ContainerList_def wp_invoke assms(2) prod.case sum.case
    using sync_own_events [OF assms(1), where cr = cr and cs = cs and cli = cli and s = "s\<lparr>st_world := w\<rparr>"]
    by (simp add: own_after_def [abs_def])
  from wp_runD [OF this assms(3)] show ?thesis by auto
qed

theorem sync_touches_only_its_container_witness:
  "own_events 0 (plain_container ''web'') {} (st_trace (snd (run_state (syncContainer kube 0 (plain_container ''web''))
     (start_state empty_store))))"
proof -
  have "status_keeps_spec kube" by (auto simp: status_keeps_spec_def)
  from sync_touches_only_its_container [OF this, of 0 "start_state empty_store" "[]" _ "plain_container ''web''",
      OF _ prod.collapse [symmetric]]
  show ?thesis by (simp add: fixture_defs listed_ids_def)
qed

text \<open>
  C9: a container starts only with all its secrets in place. Whenever creating a container issues a
  start, the image was pulled, then the container was created under its name with the configuration
  of its spec, whose environment is the literal entries followed by the variables in order, each with
  its value or the value of the secret key it refers to; then one successful upload was made for every
  secret volume, in order, of an archive with a read-only file below the mount path for every key of
  the secret; and the start is the last call. All concern one client and the ID Docker returned.
\<close>

theorem start_only_after_secrets:
  assumes "run_state (dc_createAndStartContainer api cli cr) s = (r, s')"
    and "EvStart c i sr \<in> set (new_events s s')"
  shows "\<exists>auth vars cid tars sr.
    list_all2 (env_entry api (om_Namespace (dc_Meta cr))) (dcs_EnvVars (dc_Spec cr)) vars \<and>
    cfg_Env (fst (dc_config api (dc_Spec cr) (dcs_Env (dc_Spec cr) @ vars))) = dcs_Env (dc_Spec cr) @ vars \<and>
    list_all2 (secret_files api (om_Namespace (dc_Meta cr))) (dcs_SecretVolumes (dc_Spec cr)) tars \<and>
    new_events s s' = [EvPull cli (dcs_Image (dc_Spec cr)) auth (Inr ()),
      EvCreate cli (dcs_ContainerName (dc_Spec cr)) (fst (dc_config api (dc_Spec cr) (dcs_Env (dc_Spec cr) @ vars)))
        (snd (dc_config api (dc_Spec cr) (dcs_Env (dc_Spec cr) @ vars))) (Inr cid)]
      @ map (\<lambda>tar. EvCopy cli cid ''/'' tar (Inr ())) tars @ [EvStart cli cid sr]"
proof -
  obtain es where es: "st_trace s' = st_trace s @ es"
    and shape: "(\<exists>c i sr. EvStart c i sr \<in> set es) \<longrightarrow> started_with api cli cr es"
    using wp_runD [OF create_trace assms(1)] by blast
  from es have new: "new_events s s' = es" by simp
  with assms(2) have "\<exists>c i sr. EvStart c i sr \<in> set es" by blast
  with shape show ?thesis unfolding new started_with_def by simp
qed

definition demo_secret_container :: DockerContainer where
  "demo_secret_container = (plain_container ''web'')\<lparr>dc_Spec := (plain_spec ''web'')\<lparr>dcs_SecretVolumes :=
     [\<lparr>sv_SecretName = ''tls'', sv_MountPath = ''/etc/tls''\<rparr>]\<rparr>\<rparr>"

definition demo_secret_state :: "kube_store st" where
  "demo_secret_state = start_state (empty_store\<lparr>ks_secrets :=
     [\<lparr>sec_Name = ''tls'', sec_Namespace = ''ns'', sec_Data = [(''key'', ''k'')]\<rparr>]\<rparr>)"

theorem start_only_after_secrets_witness:
  "\<exists>auth cid tar sr. secret_files kube ''ns'' \<lparr>sv_SecretName = ''tls'', sv_MountPath = ''/etc/tls''\<rparr> tar \<and>
    st_trace (snd (run_state (dc_createAndStartContainer kube 0 demo_secret_container) demo_secret_state)) =
      [EvPull 0 ''nginx'' auth (Inr ()), EvCreate 0 ''web'' (fst (dc_config kube (dc_Spec demo_secret_container) []))
        (snd (dc_config kube (dc_Spec demo_secret_container) [])) (Inr cid), EvCopy 0 cid ''/'' tar (Inr ()), EvStart 0 cid sr]"
proof -
  let ?run = "run_state (dc_createAndStartContainer kube 0 demo_secret_container) demo_secret_state"
  have spec: "dcs_Image (dc_Spec demo_secret_container) = ''nginx''"
    "dcs_ContainerName (dc_Spec demo_secret_container) = ''web''" "dcs_Env (dc_Spec demo_secret_container) = []"
    "dcs_EnvVars (dc_Spec demo_secret_container) = []" "om_Namespace (dc_Meta demo_secret_container) = ''ns''"
    "dcs_SecretVolumes (dc_Spec demo_secret_container) = [\<lparr>sv_SecretName = ''tls'', sv_MountPath = ''/etc/tls''\<rparr>]"
    "st_trace demo_secret_state = []"
    by (simp_all add: demo_secret_container_def demo_secret_state_def fixture_defs)
  have "EvStart 0 ''web'' (Inr ()) \<in> set (new_events demo_secret_state (snd ?run))"
    by (simp add: dc_createAndStartContainer_def bindE_def call_defs invoke_def pull_auth_def
        uploadSecretToContainer_def case_prod_beta Let_def demo_secret_container_def demo_secret_state_def fixture_defs)
  from start_only_after_secrets [OF prod.collapse [symmetric] this] show ?thesis
    unfolding spec by (auto simp: list_all2_Cons1 spec)
qed

text \<open>
  A missing DockerHost blocks deletion. When the host a resource names exists neither in its
  namespace nor in \<open>system\<close>, reconciling the resource fails before the finalizer is looked at,
  whether or not it is being deleted: nothing is removed and the resource is not written, so it
  keeps its finalizer for as long as the host is missing.
\<close>

theorem missing_host_blocks_deletion:
  assumes "api_getDockerContainer api req (st_world s) = (Inr cr, w)"
    and "dcs_DockerHostRef (dc_Spec cr) \<notin> {'''', ''default''}"
    and "st_dockerClients s (dc_key cr) = None"
    and "\<forall>k w. \<exists>m w'. api_getDockerHost api k w = (Inl (KNotFound m), w')"
  shows "\<exists>err s'. run_state (dc_Reconcile api own req) s = (Inl err, s') \<and> st_trace s' = st_trace s"
proof -
  have host: "wp (getDockerHost api k) Q t" if "\<And>m w'. Q (Inl (KNotFound m)) (t\<lparr>st_world := w'\<rparr>)" for k Q t
  proof -
    obtain m w' where "api_getDockerHost api k (st_world t) = (Inl (KNotFound m), w')" using assms(4) by blast
    with that show ?thesis by (simp add: getDockerHost_def wp_invoke)
  qed
  have "wp (dc_getDockerClient api own cr) (\<lambda>r s'. (\<exists>err. r = Inl err) \<and> st_trace s' = st_trace s) (s\<lparr>st_world := w\<rparr>)"
    unfolding dc_getDockerClient_def Let_def load_cached_def
    using assms(2,3) by (auto simp: wp_simps host_name_def dc_key_def intro!: host)
  then have "wp (dc_Reconcile api own req) (\<lambda>r s'. (\<exists>err. r = Inl err) \<and> st_trace s' = st_trace s) s"
    unfolding dc_Reconcile_def getDockerContainer_def wp_bind wp_invoke assms(1) prod.case sum.case wp_bindE
    by (simp, elim wp_mono) auto
  then show ?thesis by (auto simp: wp_def split: prod.splits)
qed

definition demo_lost :: DockerContainer where
  "demo_lost = (plain_container ''web'')\<lparr>dc_Meta := (plain_meta ''web'')\<lparr>om_DeletionTimestamp := Some 1,
     om_Finalizers := [dc_finalizerName]\<rparr>, dc_Spec := (plain_spec ''web'')\<lparr>dcs_DockerHostRef := ''gone''\<rparr>\<rparr>"

theorem missing_host_blocks_deletion_witness:
  "\<exists>err s'. run_state (dc_Reconcile (kube\<lparr>api_getDockerHost := \<lambda>k w. (Inl (KNotFound ''host''), w)\<rparr>) None
      \<lparr>key_Namespace = ''ns'', key_Name = ''web''\<rparr>) (start_state (empty_store\<lparr>ks_containers := [demo_lost]\<rparr>))
    = (Inl err, s') \<and> st_trace s' = []"
  using missing_host_blocks_deletion [of "kube\<lparr>api_getDockerHost := \<lambda>k w. (Inl (KNotFound ''host''), w)\<rparr>"
      "\<lparr>key_Namespace = ''ns'', key_Name = ''web''\<rparr>" "start_state (empty_store\<lparr>ks_containers := [demo_lost]\<rparr>)" demo_lost]
  by (simp add: demo_lost_def fixture_defs)

end
