(* ===== verification/ContainerConv.thy ===== *)
theory ContainerConv
  imports ContainerCtl
begin

text \<open>
  The container controller against a Docker daemon: over the interface \<open>docker_daemon\<close> a
  successful create leaves a running container with the desired configuration, and syncs of such
  a container are calm; over \<open>clean_daemon\<close> a sync enforces the spec on a container that differs from
  it, and a clean-up restores the daemon. The interpretations on the repository's mock daemon give
  the properties.
\<close>

lemma resolve_env_extends:
  "wp (resolve_env api ns env evs) (\<lambda>r s'. \<forall>e. r = Inr e \<longrightarrow> (\<exists>x. e = env @ x)) s"
  by (rule wp_mono [OF resolve_env_entries]) blast

text \<open>Repeated syncs of a resource, which may have another status and other metadata each time.\<close>

fun sync_all :: "'w api \<Rightarrow> client \<Rightarrow> DockerContainer list \<Rightarrow> ('w, error + unit) io" where
  "sync_all api cli [] = ret (Inr ())"
| "sync_all api cli (cr # crs) = bindE (syncContainer api cli cr) (\<lambda>_. sync_all api cli crs)"

lemma find_container_running:
  assumes "find_container n cs = None" and "ct_ID c = i" and "n \<in> set (ct_Names c)"
  shows "find_container n (set_running i (cs @ [c])) = Some (c\<lparr>ct_State := ''running''\<rparr>)"
proof -
  have "find_container n (set_running i cs) = None"
    using assms(1) by (auto simp: find_container_def find_None_iff list_ex_iff dest!: set_running_names)
  moreover have "find P (xs @ ys) = (case find P xs of None \<Rightarrow> find P ys | Some x \<Rightarrow> Some x)" for P xs and ys :: "Container list"
    by (induction xs) auto
  ultimately show ?thesis
    using assms(2,3) by (auto simp: find_container_def set_running_def list_ex_iff)
qed

text \<open>\<open>added P cs spec cs'\<close>: one container was added and started, under the name of the spec and with an
  identifier that satisfies \<open>P\<close>.\<close>

definition added :: "(string \<Rightarrow> bool) \<Rightarrow> Container list \<Rightarrow> DockerContainerSpec \<Rightarrow> Container list \<Rightarrow> bool" where
  "added P cs spec cs' \<longleftrightarrow> (\<exists>c. P (ct_ID c) \<and> ct_Names c = [CHR ''/'' # dcs_ContainerName spec] \<and>
     cs' = set_running (ct_ID c) (cs @ [c]))"

text \<open>The daemon after a successful create: one more container, running, with the desired configuration.\<close>

context docker_daemon
begin

definition same_containers :: "'w \<Rightarrow> 'w st \<Rightarrow> bool" where
  "same_containers w s \<longleftrightarrow> wf (st_world s) \<and> configs (st_world s) = configs w \<and> containers (st_world s) = containers w"

lemma wp_calm_call:
  assumes "\<And>w r w'. wf w \<Longrightarrow> f w = (r, w') \<Longrightarrow> wf w' \<and> configs w' = configs w \<and> containers w' = containers w"
    and "same_containers w s"
  shows "wp (invoke f ev) (\<lambda>r. same_containers w) s"
  using assms(2) assms(1) [of "st_world s"]
  by (auto simp: wp_invoke same_containers_def split: prod.splits)

lemma wp_getSecretValue_calm:
  assumes "same_containers w s"
  shows "wp (getSecretValue api ns nm k) (\<lambda>r. same_containers w) s"
  unfolding getSecretValue_def wp_bindE getSecret_def
  by (rule wp_mono [OF wp_calm_call [OF secret assms]]) (auto simp: wp_simps split: sum.splits option.splits)

lemma wp_resolve_env_calm:
  "same_containers w s \<Longrightarrow> wp (resolve_env api ns env evs) (\<lambda>r. same_containers w) s"
proof (induction evs arbitrary: env s)
  case (Cons ev evs)
  show ?case
    unfolding resolve_env.simps wp_bindE
    by (rule wp_mono [where Q = "\<lambda>r. same_containers w"])
      (use Cons in \<open>auto simp: wp_simps wp_getSecretValue_calm split: option.splits sum.splits\<close>)
qed (simp add: wp_simps)

lemma wp_pull_auth_calm:
  "same_containers w s \<Longrightarrow> wp (pull_auth api ns sec) (\<lambda>r. same_containers w) s"
  unfolding pull_auth_def getAuthConfig_def getSecret_def
  by (auto simp: wp_simps Let_def split: sum.splits intro!: wp_mono [OF wp_calm_call [OF secret]])

lemma wp_upload_all_calm:
  "same_containers w s \<Longrightarrow> wp (upload_all api cli ns i svs) (\<lambda>r. same_containers w) s"
proof (induction svs arbitrary: s)
  case (Cons sv svs)
  have "wp (uploadSecretToContainer api cli ns sv i) (\<lambda>r. same_containers w) s"
    unfolding uploadSecretToContainer_def wp_bindE getSecret_def Let_def CopyToContainer_def
    by (rule wp_mono [OF wp_calm_call [OF secret Cons.prems]])
      (auto simp: wp_simps split: sum.splits intro!: wp_calm_call [OF copy])
  then show ?case
    unfolding upload_all.simps wp_bindE
    by (rule wp_mono) (use Cons.IH in \<open>auto split: sum.splits\<close>)
qed (simp add: wp_simps)

text \<open>\<open>in_line w cr\<close>: the first container under the resource's name runs with a configuration
  made from its spec.\<close>

definition in_line :: "'w \<Rightarrow> DockerContainerSpec \<Rightarrow> bool" where
  "in_line w spec \<longleftrightarrow> wf w \<and> (\<exists>tc env.
     find_container (CHR ''/'' # dcs_ContainerName spec) (containers w) = Some tc \<and>
     ct_State tc = ''running'' \<and>
     configs w (ct_ID tc) = Some (dc_config api spec (dcs_Env spec @ env)))"

lemma start_in_line:
  assumes "same_containers w4 s5" and "wf w4"
    and "configs w4 i = Some (dc_config api spec (dcs_Env spec @ x))"
    and w4: "containers w4 = cs @ [c]" "ct_ID c = i" "ct_Names c = [CHR ''/'' # dcs_ContainerName spec]"
    and new: "find_container (CHR ''/'' # dcs_ContainerName spec) cs = None" and "P i"
  shows "wp (ContainerStart api cli i) (\<lambda>r s'. r = Inr () \<longrightarrow> in_line (st_world s') spec \<and>
    added P cs spec (containers (st_world s'))) s5"
proof -
  have s5: "wf (st_world s5)" "configs (st_world s5) = configs w4" "containers (st_world s5) = containers w4"
    using assms(1) by (simp_all add: same_containers_def)
  have found: "find_container (CHR ''/'' # dcs_ContainerName spec) (set_running i (containers w4)) =
      Some (c\<lparr>ct_State := ''running''\<rparr>)"
    unfolding w4(1) by (rule find_container_running [OF new]) (simp_all add: w4)
  have "in_line w' spec \<and> added P cs spec (containers w')" if "api_ContainerStart api cli i (st_world s5) = (Inr (), w')" for w'
    using start [OF s5(1) that] found assms(3) w4 s5 \<open>P i\<close> by (auto simp: in_line_def added_def)
  then show ?thesis by (auto simp: ContainerStart_def wp_invoke split: prod.splits)
qed

lemma create_call_in_line:
  assumes s3: "same_containers w s3" and e: "e = dcs_Env spec @ x"
    and new: "find_container (CHR ''/'' # dcs_ContainerName spec) (containers w) = None"
    and P: "\<And>cfg hcfg v i v'. wf v \<Longrightarrow> containers v = containers w \<Longrightarrow>
      api_ContainerCreate api cli cfg hcfg (dcs_ContainerName spec) v = (Inr i, v') \<Longrightarrow> P i"
  shows "wp (bindE (ContainerCreate api cli (fst (dc_config api spec e)) (snd (dc_config api spec e))
      (dcs_ContainerName spec)) (\<lambda>i. bindE (upload_all api cli ns i svs) (\<lambda>_. ContainerStart api cli i)))
    (\<lambda>r s'. r = Inr () \<longrightarrow> in_line (st_world s') spec \<and> added P (containers w) spec (containers (st_world s'))) s3"
  unfolding wp_bindE ContainerCreate_def
proof (rule wpI, goal_cases)
  case (1 r s4)
  show ?case
  proof (cases r)
    case (Inr i)
    have w3: "wf (st_world s3)" "containers (st_world s3) = containers w"
      using s3 by (simp_all add: same_containers_def)
    from 1 Inr have call: "api_ContainerCreate api cli (fst (dc_config api spec e)) (snd (dc_config api spec e))
        (dcs_ContainerName spec) (st_world s3) = (Inr i, st_world s4)"
      by (auto simp: invoke_def split: prod.splits)
    from create [OF w3(1) call] obtain c where c: "wf (st_world s4)"
      "configs (st_world s4) i = Some (dc_config api spec (dcs_Env spec @ x))"
      "containers (st_world s4) = containers w @ [c]" "ct_ID c = i"
      "ct_Names c = [CHR ''/'' # dcs_ContainerName spec]" using w3(2) e by auto
    have "wp (upload_all api cli ns i svs) (\<lambda>r. same_containers (st_world s4)) s4"
      by (rule wp_upload_all_calm) (simp add: same_containers_def c(1))
    then show ?thesis
      unfolding Inr sum.case
      by (rule wp_mono) (use start_in_line [where P = P, OF _ c new P [OF w3 call]] in \<open>auto split: sum.splits\<close>)
  qed simp
qed

lemma create_in_line:
  assumes "wf (st_world s)"
    and new: "find_container (CHR ''/'' # dcs_ContainerName (dc_Spec cr)) (containers (st_world s)) = None"
    and P: "\<And>cfg hcfg v i v'. wf v \<Longrightarrow> containers v = containers (st_world s) \<Longrightarrow>
      api_ContainerCreate api cli cfg hcfg (dcs_ContainerName (dc_Spec cr)) v = (Inr i, v') \<Longrightarrow> P i"
  shows "wp (dc_createAndStartContainer api cli cr) (\<lambda>r s'. r = Inr () \<longrightarrow> in_line (st_world s') (dc_Spec cr) \<and>
    added P (containers (st_world s)) (dc_Spec cr) (containers (st_world s'))) s"
    (is "wp _ ?Q s")
  unfolding dc_createAndStartContainer_def Let_def case_prod_beta
proof (subst wp_bindE, rule wp_mono [OF wp_pull_auth_calm], simp add: same_containers_def assms(1), goal_cases)
  case (1 r1 s1)
  let ?ns = "om_Namespace (dc_Meta cr)" and ?spec = "dc_Spec cr"
  have pulled: "wp (ImagePull api cli (dcs_Image ?spec) auth) (\<lambda>r. same_containers (st_world s)) s1" for auth
    unfolding ImagePull_def by (rule wp_calm_call [OF pull 1])
  have "wp (bindE (ImagePull api cli (dcs_Image ?spec) auth) (\<lambda>_.
      bindE (resolve_env api ?ns (dcs_Env ?spec) (dcs_EnvVars ?spec)) (\<lambda>e.
      bindE (ContainerCreate api cli (fst (dc_config api ?spec e)) (snd (dc_config api ?spec e))
        (dcs_ContainerName ?spec)) (\<lambda>i. bindE (upload_all api cli ?ns i (dcs_SecretVolumes ?spec))
      (\<lambda>_. ContainerStart api cli i))))) ?Q s1" for auth
  proof (subst wp_bindE, rule wp_mono [OF pulled], goal_cases)
    case (1 r2 s2)
    show ?case
    proof (cases r2)
      case (Inr u)
      show ?thesis
        unfolding Inr sum.case
      proof (subst wp_bindE, rule wp_mono [OF wp_conj [OF wp_resolve_env_calm [OF 1] resolve_env_extends]], goal_cases)
        case (1 r3 s3)
        then show ?case using create_call_in_line [where P = P, OF _ _ new P] by (cases r3) auto
      qed
    qed simp
  qed
  then show ?case by (cases r1) auto
qed

lemma sync_in_line_calm:
  assumes "in_line (st_world s) (dc_Spec cr)" and "status_keeps_spec api"
  shows "wp (syncContainer api cli cr) (\<lambda>r s'. r = Inr () \<and> in_line (st_world s') (dc_Spec cr) \<and>
    containers (st_world s') = containers (st_world s) \<and>
    (\<exists>es. st_trace s' = st_trace s @ es \<and> list_all (\<lambda>e. \<exists>c r. e = EvStatusContainer c r \<and> dc_Spec c = dc_Spec cr) es)) s"
proof -
  obtain tc env where tc: "wf (st_world s)"
    "find_container (CHR ''/'' # dcs_ContainerName (dc_Spec cr)) (containers (st_world s)) = Some tc"
    "ct_State tc = ''running''"
    "configs (st_world s) (ct_ID tc) = Some (dc_config api (dc_Spec cr) (dcs_Env (dc_Spec cr) @ env))"
    using assms(1) by (auto simp: in_line_def)
  from tc(2) have "tc \<in> set (containers (st_world s))"
    by (auto simp: find_container_def find_Some_iff)
  from inspect [OF tc(1) this] tc(4) obtain j where
    j: "api_ContainerInspect api cli (ct_ID tc) (st_world s) = (Inr j, st_world s)"
      "cj_Config j = Some (fst (dc_config api (dc_Spec cr) (dcs_Env (dc_Spec cr) @ env)))"
      "cj_HostConfig j = Some (snd (dc_config api (dc_Spec cr) (dcs_Env (dc_Spec cr) @ env)))"
    by (metis prod.collapse)
  have nodrift: "\<not> needsRecreate api j (dc_Spec cr)"
    using j by (cases "dcs_Resources (dc_Spec cr)") (auto simp: needsRecreate_def list_ex_iff Let_def)
  have keep: "dc_Spec c' = dc_Spec c" if "api_statusDockerContainer api c w = (Inr c', w')" for c w c' w'
    using assms(2) that by (auto simp: status_keeps_spec_def)
  have stays: "in_line w' (dc_Spec cr)" "containers w' = containers (st_world s)"
    if "api_statusDockerContainer api c (st_world s) = (r, w')" for c r w'
    using status [OF tc(1) that] assms(1) by (auto simp: in_line_def)
  show ?thesis
    unfolding syncContainer_def sync_found_def
    using tc(1) assms(1) nodrift
    by (auto simp: wp_simps call_defs wp_invoke Let_def list tc(2,3) j(1) keep stays split: prod.splits sum.splits)
qed

lemma syncs_in_line_calm:
  assumes "in_line (st_world s) spec" and "status_keeps_spec api" and "\<forall>cr \<in> set crs. dc_Spec cr = spec"
  shows "wp (sync_all api cli crs) (\<lambda>r s'. r = Inr () \<and> containers (st_world s') = containers (st_world s) \<and>
    (\<exists>es. st_trace s' = st_trace s @ es \<and> list_all (\<lambda>e. \<exists>c r. e = EvStatusContainer c r \<and> dc_Spec c = spec) es)) s"
  using assms(1,3)
proof (induction crs arbitrary: s)
  case (Cons cr crs)
  then have "in_line (st_world s) (dc_Spec cr)" "dc_Spec cr = spec" by simp_all
  from sync_in_line_calm [OF this(1) assms(2)] this(2) show ?case
    unfolding sync_all.simps wp_bindE
  proof (elim wp_mono, goal_cases)
    case (1 r s')
    with Cons have "wp (sync_all api cli crs) (\<lambda>r s''. r = Inr () \<and> containers (st_world s'') = containers (st_world s') \<and>
      (\<exists>es. st_trace s'' = st_trace s' @ es \<and> list_all (\<lambda>e. \<exists>c r. e = EvStatusContainer c r \<and> dc_Spec c = spec) es)) s'"
      by (intro Cons.IH) auto
    then have "wp (sync_all api cli crs) (\<lambda>r s''. r = Inr () \<and> containers (st_world s'') = containers (st_world s) \<and>
      (\<exists>es. st_trace s'' = st_trace s @ es \<and> list_all (\<lambda>e. \<exists>c r. e = EvStatusContainer c r \<and> dc_Spec c = spec) es)) s'"
      by (rule wp_mono) (use 1 in \<open>force simp: list_all_iff\<close>)
    then show ?case using 1 by simp
  qed
qed (simp add: wp_simps)

lemma sync_new:
  assumes "wf (st_world s)"
    and "find_container (CHR ''/'' # dcs_ContainerName (dc_Spec cr)) (containers (st_world s)) = None"
    and "\<And>cfg hcfg v i v'. wf v \<Longrightarrow> containers v = containers (st_world s) \<Longrightarrow>
      api_ContainerCreate api cli cfg hcfg (dcs_ContainerName (dc_Spec cr)) v = (Inr i, v') \<Longrightarrow> P i"
  shows "wp (syncContainer api cli cr) (\<lambda>r s'. r = Inr () \<longrightarrow> in_line (st_world s') (dc_Spec cr) \<and>
    added P (containers (st_world s)) (dc_Spec cr) (containers (st_world s'))) s"
proof -
  have "s\<lparr>st_world := st_world s\<rparr> = s" by simp
  then show ?thesis
    using create_in_line [where P = P, OF assms] assms(1,2)
    by (simp add: syncContainer_def wp_simps ContainerList_def wp_invoke list)
qed

end

abbreviation status_event_of :: "DockerContainerSpec \<Rightarrow> event \<Rightarrow> bool" where
  "status_event_of spec e \<equiv> (\<exists>c r. e = EvStatusContainer c r \<and> dc_Spec c = spec)"

text \<open>
  C1: the controller converges. Against the repository's mock daemon and any Kubernetes API whose
  status writes keep the spec: when no container has the name of the resource and a sync succeeds,
  a container of that name is running with a configuration made from the spec; and any number of
  further syncs of the resource, with whatever metadata and status it then has as long as its spec is
  the same, all succeed, leave the containers as they are and do nothing but write the status.
\<close>

theorem sync_converges:
  assumes "mock_wf (st_world s)"
    and "find_container (CHR ''/'' # dcs_ContainerName (dc_Spec cr)) (mk_Containers (fst (st_world s))) = None"
    and "status_keeps_spec (with_mock base)"
    and "run_state (syncContainer (with_mock base) cli cr) s = (Inr (), s1)"
  shows "(\<exists>tc env. find_container (CHR ''/'' # dcs_ContainerName (dc_Spec cr)) (mk_Containers (fst (st_world s1))) = Some tc \<and>
      ct_State tc = ''running'' \<and>
      mock_configs (st_world s1) (ct_ID tc) = Some (dc_config (with_mock base) (dc_Spec cr) (dcs_Env (dc_Spec cr) @ env))) \<and>
    (\<forall>crs. (\<forall>cr' \<in> set crs. dc_Spec cr' = dc_Spec cr) \<longrightarrow>
      (\<exists>s2. run_state (sync_all (with_mock base) cli crs) s1 = (Inr (), s2) \<and>
        mk_Containers (fst (st_world s2)) = mk_Containers (fst (st_world s1)) \<and>
        list_all (status_event_of (dc_Spec cr)) (new_events s1 s2)))"
proof -
  have il: "mock.in_line base (st_world s1) (dc_Spec cr)"
    using wp_runD [OF mock.sync_new [where P = "\<lambda>_. True", OF assms(1,2)] assms(4)] by simp
  have "\<exists>s2. run_state (sync_all (with_mock base) cli crs) s1 = (Inr (), s2) \<and>
      mk_Containers (fst (st_world s2)) = mk_Containers (fst (st_world s1)) \<and>
      list_all (status_event_of (dc_Spec cr)) (new_events s1 s2)" if "\<forall>cr' \<in> set crs. dc_Spec cr' = dc_Spec cr" for crs
  proof -
    obtain r s2 where run: "run_state (sync_all (with_mock base) cli crs) s1 = (r, s2)" by fastforce
    from wp_runD [OF mock.syncs_in_line_calm [OF il assms(3) that] run] run show ?thesis by auto
  qed
  with il show ?thesis by (auto simp: mock.in_line_def)
qed

theorem sync_converges_witness:
  "\<exists>s2. run_state (sync_all (with_mock kube) 0 [plain_container ''web'', plain_container ''web''])
      (snd (run_state (syncContainer (with_mock kube) 0 (plain_container ''web'')) (start_state (empty_mock, empty_store)))) = (Inr (), s2)"
proof -
  let ?s = "start_state (empty_mock, empty_store)"
  have ok: "fst (run_state (syncContainer (with_mock kube) 0 (plain_container ''web'')) ?s) = Inr ()"
    by (simp add: syncContainer_def bindE_def call_defs invoke_def with_mock_def on_mock_def mock_defs
        find_container_def dc_createAndStartContainer_def pull_auth_def dc_config_def fixture_defs Let_def)
  have wf: "mock_wf (st_world ?s)" by (simp add: mock_wf_def fixture_defs)
  have none: "find_container n (mk_Containers (fst (st_world ?s))) = None" for n
    by (simp add: find_container_def fixture_defs)
  have spec: "status_keeps_spec (with_mock kube)"
    by (auto simp: status_keeps_spec_def with_mock_def on_base_def split: prod.splits)
  have same: "\<forall>c \<in> set [plain_container ''web'', plain_container ''web'']. dc_Spec c = dc_Spec (plain_container ''web'')" by simp
  from sync_converges [OF wf none spec, of 0 "plain_container ''web''", OF prod_eqI [of _ "(Inr (), _)"]] ok same
  show ?thesis by (metis (no_types, lifting) fst_conv snd_conv)
qed

section \<open>A container that differs from its resource\<close>

text \<open>
  What a container has to have in common with the spec: the image, the command where one is given,
  all literal environment entries, the restart policy where one is given, ignoring case, and the
  limits where limits are given.
\<close>

definition conforms :: "'w api \<Rightarrow> DockerContainerSpec \<Rightarrow> Config \<times> HostConfig \<Rightarrow> bool" where
  "conforms api spec = (\<lambda>(cfg, hcfg). cfg_Image cfg = dcs_Image spec \<and>
     (dcs_Command spec = [] \<or> cfg_Cmd cfg = dcs_Command spec) \<and>
     set (dcs_Env spec) \<subseteq> set (cfg_Env cfg) \<and>
     (dcs_RestartPolicy spec = [] \<or> ToLower (hc_RestartPolicy hcfg) = ToLower (dcs_RestartPolicy spec)) \<and>
     (dcs_Resources spec = None \<or> hc_Resources hcfg = dc_buildDockerResources api (dcs_Resources spec)))"

lemma Resources_eq_iff:
  "(a :: Resources) = b \<longleftrightarrow> res_NanoCPUs a = res_NanoCPUs b \<and> res_Memory a = res_Memory b"
  by auto

lemma conforms_unless_recreated:
  assumes "cj_Config j = Some cfg" and "cj_HostConfig j = Some hcfg"
  shows "conforms api spec (cfg, hcfg) \<longleftrightarrow> \<not> needsRecreate api j spec"
  using assms by (cases "dcs_Resources spec")
    (auto simp: needsRecreate_def conforms_def list_ex_iff Let_def Resources_eq_iff)

lemma conforms_created: "conforms api spec (dc_config api spec (dcs_Env spec @ env))"
  by (cases "dcs_Resources spec") (simp_all add: conforms_def case_prod_beta)

definition named :: "string \<Rightarrow> Container \<Rightarrow> bool" where
  "named nm c \<longleftrightarrow> CHR ''/'' # nm \<in> set (ct_Names c)"

lemma find_container_named: "find_container (CHR ''/'' # nm) cs = find (named nm) cs"
  by (simp add: find_container_def named_def [abs_def] list_ex_iff)

lemma find_filter: "find P xs = (case filter P xs of [] \<Rightarrow> None | x # ys \<Rightarrow> Some x)"
  by (induction xs) auto

lemma filter_one:
  assumes "filter P xs = [y]" and "x \<in> set xs"
  shows "P x \<longleftrightarrow> x = y"
proof -
  have "x \<in> set (filter P xs) \<longleftrightarrow> P x" using assms(2) by simp
  moreover have "y \<in> set (filter P xs)" using assms(1) by simp
  ultimately show ?thesis unfolding assms(1) by auto
qed

lemma filter_set_running:
  assumes "\<And>c. P (c\<lparr>ct_State := ''running''\<rparr>) = P c"
  shows "filter P (set_running i cs) = set_running i (filter P cs)"
  unfolding set_running_def filter_map comp_def if_distrib [of P] assms by simp

lemma running_only:
  assumes "filter (mock_match (ct_ID tc)) cs = [tc]" and "filter (named nm) cs = [tc]"
  shows "filter (mock_match (ct_ID tc)) (set_running (ct_ID tc) cs) = [tc\<lparr>ct_State := ''running''\<rparr>]"
    and "filter (named nm) (set_running (ct_ID tc) cs) = [tc\<lparr>ct_State := ''running''\<rparr>]"
    and "filter (\<lambda>c. \<not> named nm c) (set_running (ct_ID tc) cs) = filter (\<lambda>c. \<not> named nm c) cs"
proof -
  have "filter (mock_match (ct_ID tc)) (set_running (ct_ID tc) cs) = set_running (ct_ID tc) [tc]"
    unfolding assms(1) [symmetric] by (rule filter_set_running) (simp add: mock_match_def mock_name_match_def)
  moreover have "filter (named nm) (set_running (ct_ID tc) cs) = set_running (ct_ID tc) [tc]"
    unfolding assms(2) [symmetric] by (rule filter_set_running) (simp add: named_def)
  ultimately show "filter (mock_match (ct_ID tc)) (set_running (ct_ID tc) cs) = [tc\<lparr>ct_State := ''running''\<rparr>]"
    and "filter (named nm) (set_running (ct_ID tc) cs) = [tc\<lparr>ct_State := ''running''\<rparr>]" by (simp_all add: set_running_def)
  have "ct_ID c \<noteq> ct_ID tc" if "c \<in> set cs" "\<not> named nm c" for c
    using filter_one [OF assms(1) that(1)] filter_one [OF assms(2) that(1)] that(2) by (auto simp: mock_match_def)
  then have "set_running (ct_ID tc) (filter (\<lambda>c. \<not> named nm c) cs) = filter (\<lambda>c. \<not> named nm c) cs"
    unfolding set_running_def by (intro map_idI) auto
  then show "filter (\<lambda>c. \<not> named nm c) (set_running (ct_ID tc) cs) = filter (\<lambda>c. \<not> named nm c) cs"
    by (subst filter_set_running) (simp_all add: named_def)
qed

lemma running_already:
  assumes "filter (mock_match (ct_ID tc)) cs = [tc]" and "ct_State tc = ''running''"
  shows "set_running (ct_ID tc) cs = cs"
proof -
  have "tc\<lparr>ct_State := ''running''\<rparr> = tc" using assms(2) by (cases tc) simp
  moreover have "x = tc" if "x \<in> set cs" "ct_ID x = ct_ID tc" for x
    using filter_one [OF assms(1) that(1)] that(2) by (simp add: mock_match_def)
  ultimately show ?thesis unfolding set_running_def by (intro map_idI) auto
qed

text \<open>The only container of a name, running with a configuration that conforms, among the others.\<close>

context clean_daemon
begin

definition enforced :: "'a \<Rightarrow> DockerContainerSpec \<Rightarrow> Container list \<Rightarrow> bool" where
  "enforced w spec others \<longleftrightarrow> wf w \<and> (\<exists>tc conf. filter (named (dcs_ContainerName spec)) (containers w) = [tc] \<and>
     ct_State tc = ''running'' \<and> configs w (ct_ID tc) = Some conf \<and> conforms api spec conf \<and>
     filter (\<lambda>c. \<not> named (dcs_ContainerName spec) c) (containers w) = others)"

lemma created_enforced:
  assumes "in_line w spec" and "added (\<lambda>i. i \<notin> ct_ID ` set cs) cs spec (containers w)"
    and "\<forall>c \<in> set cs. \<not> named (dcs_ContainerName spec) c"
  shows "enforced w spec cs"
proof -
  from assms(2) obtain c where c: "ct_ID c \<notin> ct_ID ` set cs" "ct_Names c = [CHR ''/'' # dcs_ContainerName spec]"
    "containers w = set_running (ct_ID c) (cs @ [c])" unfolding added_def by blast
  have "ct_ID x \<noteq> ct_ID c" if "x \<in> set cs" for x using c(1) that by (metis imageI)
  then have "set_running (ct_ID c) cs = cs" unfolding set_running_def by (intro map_idI) simp
  then have now: "containers w = cs @ [c\<lparr>ct_State := ''running''\<rparr>]" using c(3) by (simp add: set_running_def)
  have nm: "named (dcs_ContainerName spec) (c\<lparr>ct_State := ''running''\<rparr>)" using c(2) by (simp add: named_def)
  have only: "filter (named (dcs_ContainerName spec)) (containers w) = [c\<lparr>ct_State := ''running''\<rparr>]"
    "filter (\<lambda>c. \<not> named (dcs_ContainerName spec) c) (containers w) = cs"
    using assms(3) nm unfolding now by (auto simp: filter_empty_conv filter_id_conv)
  from assms(1) only(1) show ?thesis
    using only(2)
    by (auto simp: in_line_def enforced_def find_container_named find_filter conforms_created simp del: split_paired_Ex)
qed

lemma recreate_enforced:
  assumes "wf (st_world s)" and "filter (mock_match i) (containers (st_world s)) = [tc]" and "ct_ID tc = i"
    and "filter (named (dcs_ContainerName (dc_Spec cr))) (containers (st_world s)) = [tc]"
  shows "wp (recreate api cli i cr) (\<lambda>r s'. r = Inr () \<longrightarrow> enforced (st_world s') (dc_Spec cr)
    (filter (\<lambda>c. \<not> named (dcs_ContainerName (dc_Spec cr)) c) (containers (st_world s)))) s"
proof -
  let ?nm = "dcs_ContainerName (dc_Spec cr)" and ?cs = "containers (st_world s)"
  let ?others = "filter (\<lambda>c. \<not> named ?nm c) ?cs"
  have others: "filter (\<lambda>c. \<not> mock_match i c) ?cs = ?others"
    using filter_one [OF assms(2)] filter_one [OF assms(4)] by (auto intro: filter_cong)
  have made: "wp (dc_createAndStartContainer api cli cr) (\<lambda>r s'. r = Inr () \<longrightarrow> enforced (st_world s') (dc_Spec cr) ?others) u"
    if "wf (st_world u)" "containers (st_world u) = ?others" for u
  proof -
    have free: "\<forall>c \<in> set ?others. \<not> named ?nm c" by simp
    have new: "find_container (CHR ''/'' # ?nm) (containers (st_world u)) = None"
      by (simp add: that(2) find_container_named find_filter)
    have "i \<notin> ct_ID ` set ?others" if "wf v" "containers v = containers (st_world u)"
      "api_ContainerCreate api cli cfg hcfg ?nm v = (Inr i, v')" for cfg hcfg v i v'
      using fresh [OF that(1,3)] that(2) \<open>containers (st_world u) = ?others\<close> by (simp add: named_def)
    from create_in_line [OF that(1) new this] show ?thesis
      by (rule wp_mono) (use created_enforced [OF _ _ free] that(2) in auto)
  qed
  have removed: "wf w'' \<and> containers w'' = ?others"
    if "api_ContainerStop api cli i t (st_world s) = (r, w')" "api_ContainerRemove api cli i w' = (Inr (), w'')" for t r w' w''
  proof -
    note calls = that
    obtain f where f: "wf w'" "\<forall>c. ct_ID c \<noteq> i \<longrightarrow> f c = ct_State c" "containers w' = map (\<lambda>c. c\<lparr>ct_State := f c\<rparr>) ?cs"
      using stop [OF assms(1) calls(1)] by blast
    have same: "mock_match i (c\<lparr>ct_State := x\<rparr>) = mock_match i c" for c x
      by (simp add: mock_match_def mock_name_match_def)
    have "length (filter (mock_match i) (containers w')) \<le> 1"
      using assms(2) by (simp add: f(3) filter_map comp_def same)
    from remove [OF f(1) calls(2) this] have w'': "wf w''" "containers w'' = filter (\<lambda>c. \<not> mock_match i c) (containers w')" by simp_all
    have "filter (\<lambda>c. \<not> mock_match i c) (containers w') = filter (\<lambda>c. \<not> mock_match i c) ?cs"
      unfolding f(3) filter_map comp_def same
      by (rule map_idI) (use f(2) in \<open>auto simp: mock_match_def\<close>)
    with w'' others show ?thesis by simp
  qed
  show ?thesis
    unfolding recreate_def wp_bind wp_bindE ContainerStop_def ContainerRemove_def wp_invoke
    by (auto intro!: made dest: removed split: prod.splits sum.splits)
qed

lemma sync_enforced:
  assumes "wf (st_world s)" and "status_keeps_spec api"
    and "filter (mock_match (ct_ID tc)) (containers (st_world s)) = [tc]"
    and "filter (named (dcs_ContainerName (dc_Spec cr))) (containers (st_world s)) = [tc]"
    and "configs (st_world s) (ct_ID tc) = Some conf"
  shows "wp (syncContainer api cli cr) (\<lambda>r s'. r = Inr () \<longrightarrow> enforced (st_world s') (dc_Spec cr)
    (filter (\<lambda>c. \<not> named (dcs_ContainerName (dc_Spec cr)) c) (containers (st_world s)))) s"
proof -
  let ?spec = "dc_Spec cr" and ?i = "ct_ID tc"
  let ?nm = "dcs_ContainerName ?spec"
  let ?others = "\<lambda>w. filter (\<lambda>c. \<not> named ?nm c) (containers w)"
  have tc: "tc \<in> set (containers (st_world s))" by (metis assms(3) filter_is_subset list.set_intros(1) subsetD)
  obtain j where j: "api_ContainerInspect api cli ?i (st_world s) = (Inr j, st_world s)"
    "cj_Config j = Some (fst conf)" "cj_HostConfig j = Some (snd conf)"
    using inspect [OF assms(1) tc, of "fst conf" "snd conf"] assms(5) by auto
  have conf: "conforms api ?spec conf \<longleftrightarrow> \<not> needsRecreate api j ?spec"
    using conforms_unless_recreated [OF j(2,3), of api ?spec] by simp
  define ready where "ready u \<longleftrightarrow> wf u \<and> configs u = configs (st_world s) \<and> containers u = containers (st_world s)" for u
  have last: "wp (bindE (if ct_State tc \<noteq> ''running'' then ContainerStart api cli ?i else ret (Inr ()))
      (\<lambda>_. if needsRecreate api j (dc_Spec cr2) then recreate api cli ?i cr2 else ret (Inr ())))
    (\<lambda>r s'. r = Inr () \<longrightarrow> enforced (st_world s') ?spec (?others (st_world s))) u"
    if ready: "ready (st_world u)" and cr2: "dc_Spec cr2 = ?spec" for u cr2
  proof -
    have up: "wp (if needsRecreate api j (dc_Spec cr2) then recreate api cli ?i cr2 else ret (Inr ()))
        (\<lambda>r s'. r = Inr () \<longrightarrow> enforced (st_world s') ?spec (?others (st_world s))) v"
      if v: "wf (st_world v)" "configs (st_world v) = configs (st_world s)"
        "containers (st_world v) = set_running ?i (containers (st_world s))" for v
      using v(1,2) running_only [OF assms(3,4)] recreate_enforced [of v ?i "tc\<lparr>ct_State := ''running''\<rparr>" cr2] cr2 conf assms(5)
      by (auto simp: enforced_def wp_simps v(3) simp del: split_paired_Ex)
    show ?thesis
    proof (cases "ct_State tc = ''running''")
      case True
      then have "set_running ?i (containers (st_world s)) = containers (st_world s)"
        by (rule running_already [OF assms(3)])
      with True ready up [of u] show ?thesis by (simp add: wp_simps ready_def)
    next
      case False
      obtain r w' where call: "api_ContainerStart api cli ?i (st_world u) = (r, w')" by fastforce
      show ?thesis
      proof (cases r)
        case (Inr x)
        with call start [of "st_world u" ?i w'] ready
        have "wf w'" "configs w' = configs (st_world s)" "containers w' = set_running ?i (containers (st_world s))"
          by (simp_all add: ready_def)
        then show ?thesis
          using False call Inr by (simp add: wp_bindE ContainerStart_def wp_invoke up)
      qed (simp add: wp_bindE ContainerStart_def wp_invoke call False)
    qed
  qed
  have spec: "dc_Spec c' = dc_Spec c" if "api_statusDockerContainer api c u = (Inr c', u')" for c u c' u'
    using assms(2) that by (auto simp: status_keeps_spec_def)
  have stat: "ready u'" if "api_statusDockerContainer api c (st_world s) = (r, u')" for c r u'
    using status [OF assms(1) that] by (simp add: ready_def)
  have now: "ready (st_world s)" using assms(1) by (simp add: ready_def)
  have found: "find_container (CHR ''/'' # ?nm) (containers (st_world s)) = Some tc"
    by (simp add: find_container_named find_filter assms(4))
  let ?st = "observed_status tc (Inr j) (dc_Status cr)"
  have upd: "wp (if ?st \<noteq> dc_Status cr then do {
      r \<leftarrow> statusDockerContainer api (cr\<lparr>dc_Status := ?st\<rparr>);
      ret (case r of Inl _ \<Rightarrow> cr\<lparr>dc_Status := ?st\<rparr> | Inr cr' \<Rightarrow> cr') }
    else ret (cr\<lparr>dc_Status := ?st\<rparr>)) (\<lambda>cr2 u. ready (st_world u) \<and> dc_Spec cr2 = ?spec) s"
    using now by (auto simp: wp_simps statusDockerContainer_def wp_invoke spec stat split: prod.splits sum.splits)
  have "wp (sync_found api cli cr tc) (\<lambda>r s'. r = Inr () \<longrightarrow> enforced (st_world s') ?spec (?others (st_world s))) s"
    unfolding sync_found_def wp_bind ContainerInspect_def wp_invoke j(1) prod.case sum.case Let_def
    using wp_mono [OF upd] last by simp
  then show ?thesis
    using list [OF assms(1)] by (simp add: syncContainer_def wp_bindE ContainerList_def wp_invoke found)
qed

end

text \<open>
  C20: a sync enforces the spec on a container that exists. Against the repository's mock daemon and
  any Kubernetes API whose status writes keep the spec, when one container has the name of the
  resource, another state or a configuration that is not the one wanted included: after a sync that
  succeeds there is again exactly one container of that name, it is running, and its configuration has
  the image of the spec, its command if one is given, all its literal environment entries, its restart
  policy if one is given, ignoring case, and its limits if limits are given; every container of another
  name is as it was.
\<close>

theorem sync_enforces_spec:
  assumes "mock_ids (st_world s)" and "status_keeps_spec (with_mock base)"
    and "filter (mock_match (ct_ID tc)) (mk_Containers (fst (st_world s))) = [tc]"
    and "filter (named (dcs_ContainerName (dc_Spec cr))) (mk_Containers (fst (st_world s))) = [tc]"
    and "mock_configs (st_world s) (ct_ID tc) \<noteq> None"
    and "run_state (syncContainer (with_mock base) cli cr) s = (Inr (), s1)"
  shows "\<exists>tc' conf. filter (named (dcs_ContainerName (dc_Spec cr))) (mk_Containers (fst (st_world s1))) = [tc'] \<and>
    ct_State tc' = ''running'' \<and> mock_configs (st_world s1) (ct_ID tc') = Some conf \<and>
    conforms (with_mock base) (dc_Spec cr) conf \<and>
    filter (\<lambda>c. \<not> named (dcs_ContainerName (dc_Spec cr)) c) (mk_Containers (fst (st_world s1))) =
      filter (\<lambda>c. \<not> named (dcs_ContainerName (dc_Spec cr)) c) (mk_Containers (fst (st_world s)))"
proof -
  from assms(5) obtain conf where "mock_configs (st_world s) (ct_ID tc) = Some conf" by blast
  from wp_runD [OF cleaned.sync_enforced [OF assms(1-4) this] assms(6)] show ?thesis
    by (auto simp: cleaned.enforced_def simp del: split_paired_Ex)
qed

definition demo_drifted :: Container where
  "demo_drifted = \<lparr>ct_ID = ''mock-id-web'', ct_Names = [''/web''], ct_Image = ''nginx:1'', ct_State = ''exited'', ct_Networks = None\<rparr>"

definition demo_drifted_state :: "(MockDockerClient \<times> kube_store) st" where
  "demo_drifted_state = start_state (empty_mock\<lparr>mk_Containers := [demo_drifted], mk_LastConfig := Some (image_Config ''nginx:1''),
     mk_LastHostConfig := Some empty_HostConfig\<rparr>, empty_store)"

theorem sync_enforces_spec_witness:
  "\<exists>tc conf. filter (named ''web'') (mk_Containers (fst (st_world (snd (run_state
      (syncContainer (with_mock kube) 0 (plain_container ''web'')) demo_drifted_state))))) = [tc] \<and>
    ct_State tc = ''running'' \<and> cfg_Image (fst conf) = ''nginx'' \<and>
    mock_configs (st_world (snd (run_state (syncContainer (with_mock kube) 0 (plain_container ''web'')) demo_drifted_state))) (ct_ID tc) = Some conf"
proof -
  let ?run = "run_state (syncContainer (with_mock kube) 0 (plain_container ''web'')) demo_drifted_state"
  have nm: "dcs_ContainerName (dc_Spec (plain_container ''web'')) = ''web''" "dcs_Image (dc_Spec (plain_container ''web'')) = ''nginx''"
    by (simp_all add: plain_container_def plain_spec_def)
  have ok: "?run = (Inr (), snd ?run)"
    by (simp add: syncContainer_def sync_found_def recreate_def needsRecreate_def observed_status_def bindE_def call_defs invoke_def
        with_mock_def on_mock_def on_base_def mock_defs find_container_def dc_createAndStartContainer_def pull_auth_def dc_config_def
        fixture_defs Let_def demo_drifted_state_def demo_drifted_def image_Config_def mock_match_def)
  have spec: "status_keeps_spec (with_mock kube)"
    by (auto simp: status_keeps_spec_def with_mock_def on_base_def split: prod.splits)
  have w: "mock_ids (st_world demo_drifted_state)"
    "filter (mock_match (ct_ID demo_drifted)) (mk_Containers (fst (st_world demo_drifted_state))) = [demo_drifted]"
    "filter (named ''web'') (mk_Containers (fst (st_world demo_drifted_state))) = [demo_drifted]"
    "mock_configs (st_world demo_drifted_state) (ct_ID demo_drifted) \<noteq> None"
    by (simp_all add: mock_ids_def mock_wf_def demo_drifted_state_def demo_drifted_def start_state_def mock_match_def named_def mock_configs_def)
  from sync_enforces_spec [OF w(1) spec w(2) _ w(4) ok] w(3) show ?thesis
    unfolding nm conforms_def by fastforce
qed

section \<open>The life of a container\<close>

text \<open>A removal by a name that nothing has, or that one container has.\<close>

context clean_daemon
begin

lemma remove_none:
  assumes "wf (st_world s)" and "\<forall>c \<in> set (containers (st_world s)). \<not> mock_match q c"
  shows "wp (ContainerRemove api cli q) (\<lambda>r s'. wf (st_world s') \<and> containers (st_world s') = containers (st_world s)) s"
proof -
  obtain r w where call: "api_ContainerRemove api cli q (st_world s) = (r, w)" by fastforce
  have none: "filter (mock_match q) (containers (st_world s)) = []" "filter (\<lambda>c. \<not> mock_match q c) (containers (st_world s)) = containers (st_world s)"
    using assms(2) by (auto simp: filter_empty_conv filter_id_conv)
  have "wf w \<and> containers w = containers (st_world s)"
    using remove [OF assms(1)] remove_absent [OF assms(1)] call none by (cases r) auto
  then show ?thesis using call by (simp add: ContainerRemove_def wp_invoke)
qed

lemma remove_each_none:
  "wf (st_world s) \<Longrightarrow> \<forall>c \<in> set (containers (st_world s)). \<forall>q \<in> set qs. \<not> mock_match q c \<Longrightarrow>
   wp (remove_each api cli qs) (\<lambda>r s'. wf (st_world s') \<and> containers (st_world s') = containers (st_world s)) s"
proof (induction qs arbitrary: s)
  case (Cons q qs)
  have none: "\<forall>c \<in> set (containers (st_world s)). \<not> mock_match q c" using Cons.prems(2) by simp
  show ?case
    unfolding remove_each.simps wp_bind
  proof (rule wp_mono [OF remove_none [OF Cons.prems(1) none]], goal_cases)
    case (1 r s')
    with Cons.prems(2) show ?case by (intro wp_mono [OF Cons.IH]) auto
  qed
qed (simp add: wp_simps)

lemma delete_restores:
  assumes "wf (st_world s)" and cs: "\<forall>c \<in> set cs. \<forall>q \<in> set (dcs_ContainerName (dc_Spec cr) # tunnel_names cr). \<not> mock_match q c"
    and "added (\<lambda>i. i \<notin> ct_ID ` set cs) cs (dc_Spec cr) (containers (st_world s))"
  shows "wp (dc_deleteExternalResources api cli cr) (\<lambda>r s'. r = Inr () \<longrightarrow> wf (st_world s') \<and> containers (st_world s') = cs) s"
proof -
  let ?q = "dcs_ContainerName (dc_Spec cr)"
  from assms(3) obtain c where c: "ct_ID c \<notin> ct_ID ` set cs" "ct_Names c = [CHR ''/'' # ?q]"
    "containers (st_world s) = set_running (ct_ID c) (cs @ [c])" unfolding added_def by blast
  have "ct_ID x \<noteq> ct_ID c" if "x \<in> set cs" for x using c(1) that by (metis imageI)
  then have "set_running (ct_ID c) cs = cs" unfolding set_running_def by (intro map_idI) simp
  then have now: "containers (st_world s) = cs @ [c\<lparr>ct_State := ''running''\<rparr>]" using c(3) by (simp add: set_running_def)
  have hit: "mock_match ?q (c\<lparr>ct_State := ''running''\<rparr>)" using c(2) by (simp add: mock_match_def mock_name_match_def)
  have one: "filter (mock_match ?q) (containers (st_world s)) = [c\<lparr>ct_State := ''running''\<rparr>]"
    "filter (\<lambda>x. \<not> mock_match ?q x) (containers (st_world s)) = cs"
    using cs hit unfolding now by (auto simp: filter_empty_conv filter_id_conv)
  obtain r w where call: "api_ContainerRemove api cli ?q (st_world s) = (r, w)" by fastforce
  let ?s = "s\<lparr>st_trace := st_trace s @ [EvRemove cli ?q r], st_world := w\<rparr>"
  show ?thesis
  proof (cases r)
    case (Inl err)
    have "\<not> IsErrNotFound err"
      using remove_absent [OF assms(1)] call Inl hit unfolding now by (auto simp: list_ex_iff)
    then show ?thesis
      using call Inl by (simp add: dc_deleteExternalResources_def wp_simps ContainerRemove_def wp_invoke)
  next
    case (Inr u)
    have w: "wf w" "containers w = cs" using remove [OF assms(1)] call Inr one by auto
    have "wp (remove_each api cli (tunnel_names cr)) (\<lambda>r s'. wf (st_world s') \<and> containers (st_world s') = cs) ?s"
      using remove_each_none [of ?s "tunnel_names cr"] w cs by simp
    then show ?thesis
      using call Inr by (auto simp: dc_deleteExternalResources_def wp_simps ContainerRemove_def wp_invoke elim: wp_mono)
  qed
qed

lemma finalize_restores:
  assumes "wf (st_world s)" and "\<forall>c \<in> set cs. \<forall>q \<in> set (dcs_ContainerName (dc_Spec cr) # tunnel_names cr). \<not> mock_match q c"
    and "added (\<lambda>i. i \<notin> ct_ID ` set cs) cs (dc_Spec cr) (containers (st_world s))"
    and "lib_ContainsFinalizer api (dc_Meta cr) dc_finalizerName"
  shows "wp (dc_finalize api cli cr) (\<lambda>r s'. \<forall>res. r = Inr res \<longrightarrow> containers (st_world s') = cs) s"
  unfolding dc_finalize_def if_P [OF assms(4)] wp_bindE [of "dc_deleteExternalResources api cli cr"]
proof (rule wp_mono [OF delete_restores [OF assms(1-3)]], goal_cases)
  case (1 r s')
  show ?case
  proof (cases r)
    case (Inr u)
    with 1 have s': "wf (st_world s')" "containers (st_world s') = cs" by simp_all
    show ?thesis
      unfolding Inr sum.case
      using update [OF s'(1)] s'(2) by (auto simp: wp_simps updateDockerContainer_def wp_invoke split: prod.splits sum.splits)
  qed simp
qed

end

text \<open>
  C3: the life of a container leaves the daemon as it found it. Against the repository's mock
  daemon and any Kubernetes API: when no container answers to the name of the resource or to one
  of its tunnel names and a sync succeeds, the container runs; when the resource is then finalized
  and this succeeds, the daemon has exactly the containers it had before the sync.
\<close>

theorem container_life_restores_daemon:
  assumes "mock_ids (st_world s)"
    and "\<forall>c \<in> set (mk_Containers (fst (st_world s))). \<forall>q \<in> set (dcs_ContainerName (dc_Spec cr) # tunnel_names cr). \<not> mock_match q c"
    and "run_state (syncContainer (with_mock base) cli cr) s = (Inr (), s1)"
    and "dc_Spec cr' = dc_Spec cr" and "om_Name (dc_Meta cr') = om_Name (dc_Meta cr)"
    and "lib_ContainsFinalizer (with_mock base) (dc_Meta cr') dc_finalizerName"
    and "run_state (dc_finalize (with_mock base) cli cr') s1 = (Inr res, s2)"
  shows "(\<exists>tc. find_container (CHR ''/'' # dcs_ContainerName (dc_Spec cr)) (mk_Containers (fst (st_world s1))) = Some tc \<and>
      ct_State tc = ''running'') \<and>
    mk_Containers (fst (st_world s2)) = mk_Containers (fst (st_world s))"
proof -
  let ?nm = "dcs_ContainerName (dc_Spec cr)" and ?cs = "mk_Containers (fst (st_world s))"
  have none: "CHR ''/'' # ?nm \<notin> set (ct_Names c)" if "c \<in> set ?cs" for c
    using assms(2) that by (auto simp: mock_match_def mock_name_match_def list_ex_iff)
  then have new: "find_container (CHR ''/'' # ?nm) ?cs = None"
    by (auto simp: find_container_def find_None_iff list_ex_iff)
  have fresh: "i \<notin> ct_ID ` set ?cs" if "mock_ids v" "mk_Containers (fst v) = ?cs"
    "api_ContainerCreate (with_mock base) cli cfg hcfg ?nm v = (Inr i, v')" for cfg hcfg v i v'
    using cleaned.fresh [OF that(1,3)] none that(2) by metis
  have sync: "cleaned.in_line base (st_world s1) (dc_Spec cr)"
    "added (\<lambda>i. i \<notin> ct_ID ` set ?cs) ?cs (dc_Spec cr) (mk_Containers (fst (st_world s1)))"
    using wp_runD [OF cleaned.sync_new [where P = "\<lambda>i. i \<notin> ct_ID ` set ?cs", OF assms(1) new fresh] assms(3)] by simp_all
  have names: "tunnel_names cr' = tunnel_names cr" using assms(4,5) by (simp add: tunnel_names_def)
  have wf1: "mock_ids (st_world s1)" using sync(1) unfolding cleaned.in_line_def by blast
  have "mk_Containers (fst (st_world s2)) = ?cs"
    using wp_runD [OF cleaned.finalize_restores [OF wf1 _ _ assms(6)] assms(7), of ?cs] assms(2) sync(2)
    by (simp add: assms(4) names)
  then show ?thesis using sync(1) unfolding cleaned.in_line_def by blast
qed

abbreviation demo_finalized :: DockerContainer where
  "demo_finalized \<equiv> (plain_container ''web'')\<lparr>dc_Meta := (plain_meta ''web'')\<lparr>om_Finalizers := [dc_finalizerName],
     om_DeletionTimestamp := Some 5\<rparr>\<rparr>"

theorem container_life_restores_daemon_witness:
  "mk_Containers (fst (st_world (snd (run_state (dc_finalize (with_mock kube) 0 demo_finalized)
     (snd (run_state (syncContainer (with_mock kube) 0 (plain_container ''web'')) (start_state (empty_mock, empty_store)))))))) = []"
proof -
  let ?s = "start_state (empty_mock, empty_store)"
  let ?s1 = "snd (run_state (syncContainer (with_mock kube) 0 (plain_container ''web'')) ?s)"
  have empty: "mk_Containers (fst (st_world ?s)) = []" by (simp add: fixture_defs)
  have sync: "run_state (syncContainer (with_mock kube) 0 (plain_container ''web'')) ?s = (Inr (), ?s1)"
    by (simp add: syncContainer_def bindE_def call_defs invoke_def with_mock_def on_mock_def mock_defs
        find_container_def dc_createAndStartContainer_def pull_auth_def dc_config_def fixture_defs Let_def)
  have kept: "lib_ContainsFinalizer (with_mock kube) (dc_Meta demo_finalized) dc_finalizerName" by (simp add: with_mock_def)
  have "\<exists>res s2. run_state (dc_finalize (with_mock kube) 0 demo_finalized) ?s1 = (Inr res, s2)"
    by (auto simp: dc_finalize_def bindE_def dc_deleteExternalResources_def ContainerRemove_def updateDockerContainer_def
        invoke_def with_mock_def on_mock_def on_base_def mock_ContainerRemove_def split: prod.split)
  then obtain res s2 where "run_state (dc_finalize (with_mock kube) 0 demo_finalized) ?s1 = (Inr res, s2)" by blast
  with container_life_restores_daemon [OF _ _ sync _ _ kept this] empty show ?thesis
    by (simp add: mock_ids_def mock_wf_def plain_container_def)
qed

end
