(* ===== verification/HostCtl.thy ===== *)
theory HostCtl
  imports ClientResolver
begin

text \<open>
  The host controller of \<open>internal/controller/dockerhost/reconciler.go\<close>: it opens a
  connection to the daemon a \<open>DockerHost\<close> names, pings it, closes the connection and shows
  the outcome in the status.
\<close>

section \<open>Definitions\<close>

definition ping_client :: "'w api \<Rightarrow> string \<Rightarrow> TLSConfig option \<Rightarrow> ('w, error + unit) io" where
  "ping_client api url tls =
     bindE (NewClient api (WithHost url tls)) (\<lambda>cli. do {
       r \<leftarrow> Ping api cli;
       _ \<leftarrow> CloseClient api cli;
       ret r })"

definition pingDockerHost :: "'w api \<Rightarrow> DockerHost \<Rightarrow> ('w, error + unit) io" where
  "pingDockerHost api host =
     (if dhs_TLSSecretName (dh_Spec host) \<noteq> [] then do {
        sr \<leftarrow> getSecret api \<lparr>key_Namespace = om_Namespace (dh_Meta host),
          key_Name = dhs_TLSSecretName (dh_Spec host)\<rparr>;
        case sr of
          Inl err \<Rightarrow> ret (Inl (Wrapf ''failed to get TLS Secret: '' err))
        | Inr secret \<Rightarrow>
            (case GetTLSConfig api secret of
               Inl err \<Rightarrow> ret (Inl (Wrapf ''failed to load TLS config: '' err))
             | Inr tls \<Rightarrow> ping_client api (dhs_HostURL (dh_Spec host)) (Some tls)) }
      else ping_client api (dhs_HostURL (dh_Spec host)) None)"

definition ping_status :: "error + unit \<Rightarrow> DockerHostStatus" where
  "ping_status r = (case r of
     Inr _ \<Rightarrow> \<lparr>dht_Phase = ''Connected'', dht_Message = ''Successfully connected to Docker Daemon''\<rparr>
   | Inl err \<Rightarrow> \<lparr>dht_Phase = ''Error'', dht_Message = error_Error err\<rparr>)"

definition dh_Reconcile :: "'w api \<Rightarrow> ObjectKey \<Rightarrow> ('w, error + Result) io" where
  "dh_Reconcile api req = do {
     r \<leftarrow> getDockerHost api req;
     case r of
       Inl err \<Rightarrow> if IsNotFound err then ret (Inr no_requeue) else ret (Inl err)
     | Inr host \<Rightarrow> do {
         pr \<leftarrow> pingDockerHost api host;
         let status = ping_status pr;
         if dht_Phase (dh_Status host) \<noteq> dht_Phase status \<or>
            dht_Message (dh_Status host) \<noteq> dht_Message status then
           bindE (statusDockerHost api (host\<lparr>dh_Status := status\<rparr>)) (\<lambda>_.
             ret (Inr (requeue (30 * second))))
         else ret (Inr (requeue (30 * second))) } }"

section \<open>Lemmas\<close>

lemma ping_status_phase:
  "dht_Phase (ping_status r) = ''Connected'' \<longleftrightarrow> r = Inr ()"
  by (auto simp: ping_status_def split: sum.splits)

section \<open>Properties\<close>

text \<open>The certificates for a host: none when it names no TLS secret, otherwise those of the secret, which may be missing or invalid.\<close>

definition host_tls :: "'w api \<Rightarrow> DockerHost \<Rightarrow> 'w \<Rightarrow> (error + TLSConfig option) \<times> 'w" where
  "host_tls api host w =
     (if dhs_TLSSecretName (dh_Spec host) = [] then (Inr None, w)
      else (case api_getSecret api \<lparr>key_Namespace = om_Namespace (dh_Meta host), key_Name = dhs_TLSSecretName (dh_Spec host)\<rparr> w of
        (Inl err, w') \<Rightarrow> (Inl (Wrapf ''failed to get TLS Secret: '' err), w')
      | (Inr secret, w') \<Rightarrow>
          (case GetTLSConfig api secret of
             Inl err \<Rightarrow> (Inl (Wrapf ''failed to load TLS config: '' err), w')
           | Inr tls \<Rightarrow> (Inr (Some tls), w'))))"

text \<open>
  What a pass may have seen of a host: no usable certificates, no connection, or an answer \<open>pr\<close> to
  the ping over a connection to the host's URL with the host's certificates.
\<close>

inductive seen :: "'w api \<Rightarrow> DockerHost \<Rightarrow> 'w \<Rightarrow> event list \<Rightarrow> error + unit \<Rightarrow> bool" for api host w where
  no_certificates: "host_tls api host w = (Inl err, w') \<Longrightarrow> seen api host w [] (Inl err)"
| no_connection: "host_tls api host w = (Inr tls, w') \<Longrightarrow>
    api_NewClient api (WithHost (dhs_HostURL (dh_Spec host)) tls) w' = (Inl err, w'') \<Longrightarrow>
    seen api host w [EvNewClient (WithHost (dhs_HostURL (dh_Spec host)) tls) (Inl err)] (Inl err)"
| pinged: "host_tls api host w = (Inr tls, w') \<Longrightarrow>
    api_NewClient api (WithHost (dhs_HostURL (dh_Spec host)) tls) w' = (Inr c, w'') \<Longrightarrow>
    api_Ping api c w'' = (pr, w3) \<Longrightarrow>
    seen api host w [EvNewClient (WithHost (dhs_HostURL (dh_Spec host)) tls) (Inr c), EvClose c] pr"

inductive_cases seen_answeredE: "seen api host w es (Inr ())"

lemma ping_client_seen:
  assumes "host_tls api host w = (Inr tls, st_world s)"
  shows "wp (ping_client api (dhs_HostURL (dh_Spec host)) tls) (\<lambda>r s'. \<exists>es. st_trace s' = st_trace s @ es \<and> seen api host w es r) s"
  unfolding ping_client_def NewClient_def Ping_def CloseClient_def wp_bindE wp_bind wp_invoke
  using assms by (auto simp: wp_simps wp_invoke intro: seen.intros split: prod.splits sum.splits)

lemma ping_seen:
  "wp (pingDockerHost api host) (\<lambda>r s'. \<exists>es. st_trace s' = st_trace s @ es \<and> seen api host (st_world s) es r) s"
proof (cases "dhs_TLSSecretName (dh_Spec host) = []")
  case True
  then show ?thesis by (simp add: pingDockerHost_def ping_client_seen host_tls_def)
next
  case False
  obtain sr w' where call: "api_getSecret api \<lparr>key_Namespace = om_Namespace (dh_Meta host),
      key_Name = dhs_TLSSecretName (dh_Spec host)\<rparr> (st_world s) = (sr, w')" by fastforce
  have client: "wp (ping_client api (dhs_HostURL (dh_Spec host)) (Some tls))
      (\<lambda>r s'. \<exists>es. st_trace s' = st_trace s @ es \<and> seen api host (st_world s) es r) (s\<lparr>st_world := w'\<rparr>)"
    if "sr = Inr secret" "GetTLSConfig api secret = Inr tls" for secret tls
    using ping_client_seen [of api host "st_world s" "Some tls" "s\<lparr>st_world := w'\<rparr>"] that call False by (simp add: host_tls_def)
  have early: "seen api host (st_world s) [] (Inl err)" if "host_tls api host (st_world s) = (Inl err, w')" for err
    by (rule seen.no_certificates [OF that])
  show ?thesis
    using False call
    by (auto simp: pingDockerHost_def wp_simps getSecret_def wp_invoke host_tls_def intro!: client early split: sum.splits)
qed

text \<open>
  C34: the status of a host tells what its daemon answered. When the controller writes a status, it
  is of that host, and the same pass either found no usable certificates in the TLS secret the host
  names, or failed to open a connection to the host's URL, or opened one, with client certificates
  just when the host names a TLS secret, pinged the daemon over it and closed it again. The phase is
  \<open>Connected\<close> just when the ping was answered; in every other case it is \<open>Error\<close>, with the message of
  the failure.
\<close>

theorem host_status_reflects_ping:
  assumes "api_getDockerHost api req (st_world s) = (Inr host, w)"
    and "run_state (dh_Reconcile api req) s = (r, s')"
    and "EvStatusHost h sr \<in> set (new_events s s')"
  shows "\<exists>es pr. new_events s s' = es @ [EvStatusHost h sr] \<and> seen api host w es pr \<and>
    dh_Meta h = dh_Meta host \<and> dh_Spec h = dh_Spec host \<and>
    dht_Phase (dh_Status h) = (if pr = Inr () then ''Connected'' else ''Error'') \<and>
    (\<forall>err. pr = Inl err \<longrightarrow> dht_Message (dh_Status h) = error_Error err) \<and>
    (pr = Inr () \<longrightarrow> (\<exists>tls c w' w'' w3. (tls = None \<longleftrightarrow> dhs_TLSSecretName (dh_Spec host) = []) \<and>
      api_NewClient api (WithHost (dhs_HostURL (dh_Spec host)) tls) w' = (Inr c, w'') \<and> api_Ping api c w'' = (Inr (), w3) \<and>
      es = [EvNewClient (WithHost (dhs_HostURL (dh_Spec host)) tls) (Inr c), EvClose c]))"
proof -
  let ?s = "s\<lparr>st_world := w\<rparr>"
  obtain pr s1 where run: "run_state (pingDockerHost api host) ?s = (pr, s1)" by fastforce
  from wp_runD [OF ping_seen run] obtain es where es: "st_trace s1 = st_trace s @ es" "seen api host w es pr" by auto
  have quiet: "EvStatusHost h sr \<notin> set es" using es(2) by (auto elim: seen.cases)
  have "wp (dh_Reconcile api req) (\<lambda>r s'. st_trace s' = st_trace s1 \<or>
      (\<exists>sr. st_trace s' = st_trace s1 @ [EvStatusHost (host\<lparr>dh_Status := ping_status pr\<rparr>) sr])) s"
    using assms(1) run by (auto simp: dh_Reconcile_def wp_simps getDockerHost_def statusDockerHost_def wp_invoke
        wp_def [of "pingDockerHost api host"] Let_def split: prod.splits sum.splits)
  from wp_runD [OF this assms(2)] quiet es(1) assms(3)
  have h: "h = host\<lparr>dh_Status := ping_status pr\<rparr>" "new_events s s' = es @ [EvStatusHost h sr]" by auto
  have certs: "tls = None \<longleftrightarrow> dhs_TLSSecretName (dh_Spec host) = []" if "host_tls api host w = (Inr tls, w')" for tls w'
    using that by (auto simp: host_tls_def split: if_splits prod.splits sum.splits)
  have "\<exists>tls c w' w'' w3. (tls = None \<longleftrightarrow> dhs_TLSSecretName (dh_Spec host) = []) \<and>
      api_NewClient api (WithHost (dhs_HostURL (dh_Spec host)) tls) w' = (Inr c, w'') \<and> api_Ping api c w'' = (Inr (), w3) \<and>
      es = [EvNewClient (WithHost (dhs_HostURL (dh_Spec host)) tls) (Inr c), EvClose c]" if "pr = Inr ()"
    using es(2) unfolding that by (rule seen_answeredE) (use certs in blast)
  moreover have "dht_Phase (dh_Status h) = (if pr = Inr () then ''Connected'' else ''Error'')"
    "\<forall>err. pr = Inl err \<longrightarrow> dht_Message (dh_Status h) = error_Error err"
    by (auto simp: h(1) ping_status_def split: sum.splits)
  moreover have "dh_Meta h = dh_Meta host" "dh_Spec h = dh_Spec host" by (simp_all add: h(1))
  ultimately show ?thesis using h(2) es(2) by (intro exI [of _ es] exI [of _ pr]) blast
qed

definition demo_ping_state :: "kube_store st" where
  "demo_ping_state = start_state (empty_store\<lparr>ks_hosts := [plain_host ''h'']\<rparr>)"

theorem host_status_reflects_ping_witness:
  "\<exists>h sr. st_trace (snd (run_state (dh_Reconcile kube \<lparr>key_Namespace = ''ns'', key_Name = ''h''\<rparr>) demo_ping_state)) =
     [EvNewClient (WithHost ''tcp://1.2.3.4:2376'' None) (Inr 1), EvClose 1, EvStatusHost h sr] \<and>
   dht_Phase (dh_Status h) = ''Connected''"
proof -
  let ?h = "(plain_host ''h'')\<lparr>dh_Status := ping_status (Inr ())\<rparr>"
  let ?run = "run_state (dh_Reconcile kube \<lparr>key_Namespace = ''ns'', key_Name = ''h''\<rparr>) demo_ping_state"
  have t: "new_events demo_ping_state (snd ?run) =
      [EvNewClient (WithHost ''tcp://1.2.3.4:2376'' None) (Inr 1), EvClose 1, EvStatusHost ?h (Inr ?h)]"
    by (simp add: dh_Reconcile_def bindE_def call_defs invoke_def pingDockerHost_def ping_client_def
        ping_status_def demo_ping_state_def fixture_defs Let_def)
  have host: "api_getDockerHost kube \<lparr>key_Namespace = ''ns'', key_Name = ''h''\<rparr> (st_world demo_ping_state) =
      (Inr (plain_host ''h''), st_world demo_ping_state)"
    by (simp add: demo_ping_state_def fixture_defs)
  from host_status_reflects_ping [OF host prod.collapse [symmetric], of ?h "Inr ?h"] t
  obtain pr where "seen kube (plain_host ''h'') (st_world demo_ping_state)
      [EvNewClient (WithHost ''tcp://1.2.3.4:2376'' None) (Inr 1), EvClose 1] pr"
    "dht_Phase (dh_Status ?h) = (if pr = Inr () then ''Connected'' else ''Error'')" by auto
  then have "dht_Phase (dh_Status ?h) = ''Connected''" by (auto elim: seen.cases simp: unit_ok_def)
  with t show ?thesis by (auto simp: demo_ping_state_def start_state_def)
qed

text \<open>
  A settled host costs no writes. When the status already shows the outcome of the ping, the
  reconcile changes nothing in the cluster, whatever the outcome is, and asks to be called again
  in 30 seconds.
\<close>

theorem host_settled_no_write:
  assumes "api_getDockerHost api req (st_world s) = (Inr host, w)"
    and "run_state (pingDockerHost api host) (s\<lparr>st_world := w\<rparr>) = (pr, s1)"
    and "dh_Status host = ping_status pr"
  shows "run_state (dh_Reconcile api req) s = (Inr (requeue (30 * second)), s1)"
  unfolding wp_eq_iff [symmetric]
  using assms by (simp add: dh_Reconcile_def wp_simps getDockerHost_def wp_invoke wp_def [of "pingDockerHost api host"] Let_def)

definition demo_settled :: DockerHost where
  "demo_settled = (plain_host ''h'')\<lparr>dh_Status := ping_status (Inr ())\<rparr>"

theorem host_settled_no_write_witness:
  "fst (run_state (dh_Reconcile kube \<lparr>key_Namespace = ''ns'', key_Name = ''h''\<rparr>)
     (start_state (empty_store\<lparr>ks_hosts := [demo_settled]\<rparr>))) = Inr (requeue (30 * second))"
proof -
  let ?s = "start_state (empty_store\<lparr>ks_hosts := [demo_settled]\<rparr>)"
  have "fst (run_state (pingDockerHost kube demo_settled) ?s) = Inr ()"
    by (simp add: bindE_def call_defs invoke_def pingDockerHost_def ping_client_def demo_settled_def fixture_defs)
  then show ?thesis
    using host_settled_no_write [of kube "\<lparr>key_Namespace = ''ns'', key_Name = ''h''\<rparr>" ?s demo_settled "st_world ?s",
      OF _ prod.collapse [symmetric]]
    by (simp add: demo_settled_def fixture_defs)
qed

end
