(* ===== verification/JobCtl.thy ===== *)
theory JobCtl
  imports ContainerCtl
begin

text \<open>
  The job controller of \<open>internal/controller/dockerjob/reconciler.go\<close>: a job runs one
  container to completion, retries it up to the back-off limit, kills it at its deadline, and
  removes it when its time to live after completion is over.
\<close>

section \<open>Resource limits\<close>

text \<open>
  \<open>fmt.Sscanf(s, "%d", &val)\<close> on a string without leading white space: an optional sign and
  the longest run of digits are read, the rest of the input is ignored; \<open>val\<close> keeps its
  zero when there are no digits or the number does not fit \<open>int64\<close>.
\<close>

definition Sscanf_d :: "string \<Rightarrow> int" where
  "Sscanf_d s =
     (let sign = takeWhile (\<lambda>c. c = CHR ''+'' \<or> c = CHR ''-'') (take 1 s);
          digits = takeWhile is_digit (drop (length sign) s)
      in if digits = [] then 0
         else (case ParseInt (sign @ digits) of None \<Rightarrow> 0 | Some i \<Rightarrow> i))"

definition dj_parseMemoryString :: "string \<Rightarrow> int" where
  "dj_parseMemoryString s0 =
     (let s = TrimSpace (ToLower s0)
      in if s = [] then 0
         else
           let (multiplier, t) =
             (if HasSuffix s ''g'' then (1024 * 1024 * 1024, TrimSuffix s ''g'')
              else if HasSuffix s ''m'' then (1024 * 1024, TrimSuffix s ''m'')
              else if HasSuffix s ''k'' then (1024, TrimSuffix s ''k'')
              else (1, s))
           in wrap64 (Sscanf_d t * multiplier))"

definition dj_buildDockerResources :: "'w api \<Rightarrow> ResourceRequirements option \<Rightarrow> Resources" where
  "dj_buildDockerResources api rr =
     (case rr of
        None \<Rightarrow> empty_Resources
      | Some r \<Rightarrow>
          \<lparr>res_NanoCPUs = (if rr_CPULimit r \<noteq> [] then lib_scanNanos api (rr_CPULimit r) else 0),
           res_Memory = (if rr_MemoryLimit r \<noteq> [] then dj_parseMemoryString (rr_MemoryLimit r) else 0)\<rparr>)"

section \<open>Secrets\<close>

text \<open>The job reconciler has its own copies of the secret helpers.\<close>

definition dj_getSecretValue :: "'w api \<Rightarrow> string \<Rightarrow> string \<Rightarrow> string \<Rightarrow> ('w, error + string) io" where
  "dj_getSecretValue api ns nm key =
     bindE (getSecret api \<lparr>key_Namespace = ns, key_Name = nm\<rparr>) (\<lambda>secret.
       (case map_of (sec_Data secret) key of
          None \<Rightarrow> ret (Inl (ErrMsg (''key '' @ key @ '' not found in secret '' @ nm)))
        | Some val \<Rightarrow> ret (Inr val)))"

definition dj_uploadSecretToContainer ::
    "'w api \<Rightarrow> client \<Rightarrow> string \<Rightarrow> SecretVolume \<Rightarrow> string \<Rightarrow> ('w, error + unit) io" where
  "dj_uploadSecretToContainer api cli ns sv cid =
     bindE (getSecret api \<lparr>key_Namespace = ns, key_Name = sv_SecretName sv\<rparr>) (\<lambda>secret.
       let relPath = TrimPrefix (sv_MountPath sv) ''/''
       in (case write_tar api (map (tar_entry relPath) (sec_Data secret)) of
             Inl err \<Rightarrow> ret (Inl err)
           | Inr buf \<Rightarrow> CopyToContainer api cli cid ''/'' buf))"

definition dj_getAuthConfig :: "'w api \<Rightarrow> string \<Rightarrow> string \<Rightarrow> ('w, error + AuthConfig) io" where
  "dj_getAuthConfig api ns nm =
     bindE (getSecret api \<lparr>key_Namespace = ns, key_Name = nm\<rparr>) (\<lambda>secret.
       let username = data_get secret ''username''
       in if username = [] then ret (Inl (ErrMsg ''username not found in secret''))
          else ret (Inr \<lparr>ac_Username = username, ac_Password = data_get secret ''password'',
            ac_ServerAddress = data_get secret ''server''\<rparr>))"

fun dj_upload_all ::
    "'w api \<Rightarrow> client \<Rightarrow> string \<Rightarrow> string \<Rightarrow> SecretVolume list \<Rightarrow> ('w, error + unit) io" where
  "dj_upload_all api cli ns cid [] = ret (Inr ())"
| "dj_upload_all api cli ns cid (sv # svs) =
     bindE (dj_uploadSecretToContainer api cli ns sv cid) (\<lambda>_. dj_upload_all api cli ns cid svs)"

fun dj_resolve_env :: "'w api \<Rightarrow> string \<Rightarrow> string list \<Rightarrow> EnvVar list \<Rightarrow> ('w, error + string list) io" where
  "dj_resolve_env api ns env [] = ret (Inr env)"
| "dj_resolve_env api ns env (ev # evs) =
     bindE
       (case ev_ValueFrom ev of
          None \<Rightarrow> ret (Inr (ev_Value ev))
        | Some src \<Rightarrow>
            (case evs_SecretKeyRef src of
               None \<Rightarrow> ret (Inr (ev_Value ev))
             | Some ref \<Rightarrow> dj_getSecretValue api ns (sks_Name ref) (sks_Key ref)))
       (\<lambda>val. dj_resolve_env api ns (env @ [ev_Name ev @ ''='' @ val]) evs)"

definition dj_pull_auth :: "'w api \<Rightarrow> string \<Rightarrow> string \<Rightarrow> ('w, error + string) io" where
  "dj_pull_auth api ns pullSecret =
     (if pullSecret \<noteq> [] then bindE (dj_getAuthConfig api ns pullSecret) (\<lambda>ac. ret (lib_encodeAuth api ac))
      else ret (Inr []))"

section \<open>Creating the job's container\<close>

definition containerName :: "DockerJob \<Rightarrow> string" where
  "containerName job =
     (if djs_ContainerName (dj_Spec job) \<noteq> [] then djs_ContainerName (dj_Spec job)
      else ''job-'' @ om_Name (dj_Meta job))"

definition dj_restartPolicy :: "string \<Rightarrow> string" where
  "dj_restartPolicy p =
     (if p = [] \<or> p = ''Never'' then ''no'' else if p = ''OnFailure'' then ''on-failure'' else p)"

definition dj_config :: "'w api \<Rightarrow> DockerJobSpec \<Rightarrow> string list \<Rightarrow> Config \<times> HostConfig" where
  "dj_config api spec resolvedEnv =
     (\<lparr>cfg_Image = djs_Image spec,
       cfg_Cmd = (if length (djs_Args spec) > 0 then djs_Command spec @ djs_Args spec else djs_Command spec),
       cfg_Env = resolvedEnv, cfg_Healthcheck = None, cfg_ExposedPorts = {}\<rparr>,
      \<lparr>hc_RestartPolicy = dj_restartPolicy (djs_RestartPolicy spec), hc_PortBindings = Map.empty,
       hc_Binds = map bind_string (djs_VolumeMounts spec),
       hc_Resources = (case djs_Resources spec of
         None \<Rightarrow> empty_Resources | Some r \<Rightarrow> dj_buildDockerResources api (Some r)),
       hc_NetworkMode = []\<rparr>)"

definition dj_createAndStartContainer ::
    "'w api \<Rightarrow> client \<Rightarrow> DockerJob \<Rightarrow> ('w, error + unit) io" where
  "dj_createAndStartContainer api cli job =
     (let ns = om_Namespace (dj_Meta job); spec = dj_Spec job
      in bindE (dj_pull_auth api ns (djs_ImagePullSecret spec)) (\<lambda>auth.
         bindE (ImagePull api cli (djs_Image spec) auth) (\<lambda>_.
         bindE (dj_resolve_env api ns (djs_Env spec) (djs_EnvVars spec)) (\<lambda>resolvedEnv.
         (case dj_config api spec resolvedEnv of (config, hostConfig) \<Rightarrow>
         bindE (ContainerCreate api cli config hostConfig (containerName job)) (\<lambda>cid.
         bindE (dj_upload_all api cli ns cid (djs_SecretVolumes spec)) (\<lambda>_.
         ContainerStart api cli cid)))))))"

section \<open>The life of a job\<close>

text \<open>A status write whose error is ignored; the object becomes the server's reply.\<close>

definition write_status :: "'w api \<Rightarrow> DockerJob \<Rightarrow> ('w, DockerJob) io" where
  "write_status api job = do {
     r \<leftarrow> statusDockerJob api job;
     ret (case r of Inl _ \<Rightarrow> job | Inr job' \<Rightarrow> job') }"

definition setStatus ::
    "'w api \<Rightarrow> DockerJob \<Rightarrow> DockerJobPhase \<Rightarrow> int option \<Rightarrow> string \<Rightarrow> ('w, DockerJob) io" where
  "setStatus api job phase exitCode message = do {
     now \<leftarrow> time_Now api;
     let st = dj_Status job;
     let st1 = st\<lparr>djt_Phase := phase, djt_Message := message\<rparr>;
     let st2 = (case exitCode of None \<Rightarrow> st1 | Some e \<Rightarrow> st1\<lparr>djt_ExitCode := Some e\<rparr>);
     let st3 = (if phase = JobPhaseFailed \<or> phase = JobPhaseSucceeded
                then st2\<lparr>djt_CompletionTime := Some now\<rparr> else st2);
     write_status api (job\<lparr>dj_Status := st3\<rparr>) }"

definition handleTTLCleanup :: "'w api \<Rightarrow> client \<Rightarrow> DockerJob \<Rightarrow> ('w, error + Result) io" where
  "handleTTLCleanup api cli job =
     (case (djs_TTLSecondsAfterFinished (dj_Spec job), djt_CompletionTime (dj_Status job)) of
        (Some secs, Some done_at) \<Rightarrow> do {
          let ttl = seconds_dur secs;
          now \<leftarrow> time_Now api;
          let elapsed = time_Since now done_at;
          if elapsed < ttl then ret (Inr (requeue (wrap64 (ttl - elapsed))))
          else do {
            _ \<leftarrow> ContainerRemove api cli (containerName job);
            ret (Inr no_requeue) } }
      | _ \<Rightarrow> ret (Inr no_requeue))"

definition poll :: Result where "poll = requeue (5 * second)"

definition job_create :: "'w api \<Rightarrow> client \<Rightarrow> DockerJob \<Rightarrow> ('w, error + Result) io" where
  "job_create api cli job = do {
     r \<leftarrow> dj_createAndStartContainer api cli job;
     case r of
       Inl err \<Rightarrow> do {
         _ \<leftarrow> setStatus api job JobPhaseFailed None (''Failed to create container: '' @ error_Error err);
         ret (Inl err) }
     | Inr _ \<Rightarrow> do {
         now \<leftarrow> time_Now api;
         _ \<leftarrow> write_status api (job\<lparr>dj_Status := (dj_Status job)\<lparr>djt_Phase := JobPhaseRunning,
           djt_StartTime := Some now, djt_Attempts := wrap32 (djt_Attempts (dj_Status job) + 1),
           djt_Message := ''Container started''\<rparr>\<rparr>);
         ret (Inr poll) } }"

definition job_running :: "'w api \<Rightarrow> client \<Rightarrow> DockerJob \<Rightarrow> ContainerJSON \<Rightarrow> ('w, error + Result) io" where
  "job_running api cli job inspected =
     (let keep = (if djt_Phase (dj_Status job) \<noteq> JobPhaseRunning then do {
            _ \<leftarrow> write_status api (job\<lparr>dj_Status := (dj_Status job)\<lparr>djt_Phase := JobPhaseRunning,
              djt_ContainerID := cj_ID inspected, djt_Message := ''Container running''\<rparr>\<rparr>);
            ret (Inr poll) }
          else ret (Inr poll))
      in (case (djs_ActiveDeadlineSeconds (dj_Spec job), djt_StartTime (dj_Status job)) of
            (Some secs, Some started) \<Rightarrow> do {
              let deadline = started + seconds_dur secs;
              now \<leftarrow> time_Now api;
              if now > deadline then do {
                _ \<leftarrow> ContainerStop api cli (cj_ID inspected) 10;
                _ \<leftarrow> ContainerRemove api cli (cj_ID inspected);
                _ \<leftarrow> setStatus api job JobPhaseFailed None ''Job exceeded ActiveDeadlineSeconds'';
                ret (Inr no_requeue) }
              else keep }
          | _ \<Rightarrow> keep))"

definition job_exited :: "'w api \<Rightarrow> client \<Rightarrow> DockerJob \<Rightarrow> ContainerJSON \<Rightarrow> int \<Rightarrow> ('w, error + Result) io" where
  "job_exited api cli job0 inspected code = do {
     let exitCode = wrap32 code;
     now \<leftarrow> time_Now api;
     let st = (dj_Status job0)\<lparr>djt_ContainerID := cj_ID inspected, djt_ExitCode := Some exitCode,
       djt_CompletionTime := Some now\<rparr>;
     let job = job0\<lparr>dj_Status := st\<rparr>;
     if exitCode = 0 then do {
       job' \<leftarrow> write_status api (job\<lparr>dj_Status := st\<lparr>djt_Phase := JobPhaseSucceeded,
         djt_Message := ''Job completed successfully''\<rparr>\<rparr>);
       handleTTLCleanup api cli job' }
     else if djt_Attempts st \<le> djs_BackoffLimit (dj_Spec job) then do {
       _ \<leftarrow> ContainerRemove api cli (cj_ID inspected);
       r \<leftarrow> dj_createAndStartContainer api cli job;
       case r of
         Inl err \<Rightarrow> do {
           _ \<leftarrow> setStatus api job JobPhaseFailed (Some exitCode) (''Retry failed: '' @ error_Error err);
           ret (Inl err) }
       | Inr _ \<Rightarrow> do {
           let attempts = wrap32 (djt_Attempts st + 1);
           _ \<leftarrow> write_status api (job\<lparr>dj_Status := st\<lparr>djt_Attempts := attempts, djt_Phase := JobPhaseRunning,
             djt_Message := ''Retrying (attempt '' @ show_int attempts @ ''/'' @
               show_int (wrap32 (djs_BackoffLimit (dj_Spec job) + 1)) @ '')'',
             djt_ExitCode := None, djt_CompletionTime := None\<rparr>\<rparr>);
           ret (Inr poll) } }
     else do {
       job' \<leftarrow> write_status api (job\<lparr>dj_Status := st\<lparr>djt_Phase := JobPhaseFailed,
         djt_Message := ''Job failed with exit code '' @ show_int exitCode @ '' after '' @
           show_int (djt_Attempts st) @ '' attempt(s)''\<rparr>\<rparr>);
       handleTTLCleanup api cli job' } }"

definition syncJob :: "'w api \<Rightarrow> client \<Rightarrow> DockerJob \<Rightarrow> ('w, error + Result) io" where
  "syncJob api cli job = do {
     r \<leftarrow> ContainerInspect api cli (containerName job);
     case r of
       Inl err \<Rightarrow> if \<not> IsErrNotFound err then ret (Inl err) else job_create api cli job
     | Inr inspected \<Rightarrow>
         (case cj_State inspected of
            None \<Rightarrow> ret (Inr poll)
          | Some st \<Rightarrow>
              if cs_Running st then job_running api cli job inspected
              else if cs_Status st = ''exited'' then job_exited api cli job inspected (cs_ExitCode st)
              else ret (Inr poll)) }"

section \<open>The reconcile loop\<close>

definition dj_finalizerName :: string where
  "dj_finalizerName = ''dockerjob.kdop.io.vn/finalizer''"

definition job_terminal :: "DockerJob \<Rightarrow> bool" where
  "job_terminal job \<longleftrightarrow> djt_Phase (dj_Status job) = JobPhaseSucceeded \<or> djt_Phase (dj_Status job) = JobPhaseFailed"

definition dj_proceed :: "'w api \<Rightarrow> client \<Rightarrow> DockerJob \<Rightarrow> ('w, error + Result) io" where
  "dj_proceed api cli job = (if job_terminal job then handleTTLCleanup api cli job else syncJob api cli job)"

definition dj_finalize :: "'w api \<Rightarrow> client \<Rightarrow> DockerJob \<Rightarrow> ('w, error + Result) io" where
  "dj_finalize api cli job =
     (if lib_ContainsFinalizer api (dj_Meta job) dj_finalizerName then do {
        _ \<leftarrow> ContainerRemove api cli (containerName job);
        bindE (updateDockerJob api (job\<lparr>dj_Meta := lib_RemoveFinalizer api (dj_Meta job) dj_finalizerName\<rparr>))
          (\<lambda>_. ret (Inr no_requeue)) }
      else ret (Inr no_requeue))"

definition dj_Reconcile :: "'w api \<Rightarrow> client option \<Rightarrow> ObjectKey \<Rightarrow> ('w, error + Result) io" where
  "dj_Reconcile api own req = do {
     r \<leftarrow> getDockerJob api req;
     case r of
       Inl err \<Rightarrow> if IsNotFound err then ret (Inr no_requeue) else ret (Inl err)
     | Inr job \<Rightarrow>
         bindE (dj_getDockerClient api own job) (\<lambda>cli.
           if om_DeletionTimestamp (dj_Meta job) = None then
             if \<not> lib_ContainsFinalizer api (dj_Meta job) dj_finalizerName then
               bindE (updateDockerJob api
                   (job\<lparr>dj_Meta := lib_AddFinalizer api (dj_Meta job) dj_finalizerName\<rparr>))
                 (dj_proceed api cli)
             else dj_proceed api cli job
           else dj_finalize api cli job) }"

section \<open>The copies\<close>

lemma dj_copies:
  "dj_getSecretValue = getSecretValue" "dj_uploadSecretToContainer = uploadSecretToContainer"
  "dj_getAuthConfig = getAuthConfig"
  by (simp_all add: fun_eq_iff dj_getSecretValue_def getSecretValue_def dj_uploadSecretToContainer_def
      uploadSecretToContainer_def dj_getAuthConfig_def getAuthConfig_def)

lemma dj_upload_all_eq: "dj_upload_all api cli ns cid svs = upload_all api cli ns cid svs"
  by (induction svs) (simp_all add: dj_copies)

lemma dj_resolve_env_eq: "dj_resolve_env api ns env evs = resolve_env api ns env evs"
  by (induction evs arbitrary: env) (simp_all add: dj_copies cong: option.case_cong)

lemma dj_pull_auth_eq: "dj_pull_auth = pull_auth"
  by (simp add: fun_eq_iff dj_pull_auth_def pull_auth_def dj_copies)

section \<open>Events\<close>

text \<open>The events of creating the job's container.\<close>

definition job_create_event :: "client \<Rightarrow> string \<Rightarrow> event \<Rightarrow> bool" where
  "job_create_event cli nm e = (case e of
     EvPull c img auth r \<Rightarrow> c = cli
   | EvCreate c n cfg hcfg r \<Rightarrow> c = cli \<and> n = nm
   | EvCopy c i dst tar r \<Rightarrow> c = cli
   | EvStart c i r \<Rightarrow> c = cli
   | _ \<Rightarrow> False)"

lemma job_create_events: "emits (job_create_event cli (containerName job)) (dj_createAndStartContainer api cli job)"
  unfolding dj_createAndStartContainer_def Let_def case_prod_beta dj_upload_all_eq dj_resolve_env_eq dj_pull_auth_eq
  by (intro emits_intros) (simp_all add: job_create_event_def)

lemma job_create_event_other:
  "list_all (job_create_event cli nm) es \<Longrightarrow> EvStatusJob j r \<notin> set es"
  by (auto simp: list_all_iff job_create_event_def)

end
