(* ===== verification/JobLife.thy ===== *)
theory JobLife
  imports JobCtl
begin

text \<open>
  What the job controller guarantees over the life of a job: the statuses it writes are the steps
  of an abstract machine, an inductive relation; the invariants of a job's history follow by rule
  induction. Deadlines, time to live and clean-up are stated on single runs.
\<close>

section \<open>The abstract machine\<close>

text \<open>
  The life of a job's status: \<open>job_step clock spec missing st st'\<close> says that the status \<open>st\<close> may
  become \<open>st'\<close>; \<open>clock\<close> holds of the instants the clock showed, and \<open>missing\<close> holds when there was
  no container of the job at the time. The phases are those of \<open>docs/jobs.md\<close> less \<open>Pending\<close>, which
  the controller never writes: a job that has not been started has an empty phase.
\<close>

inductive job_step :: "(int \<Rightarrow> bool) \<Rightarrow> DockerJobSpec \<Rightarrow> bool \<Rightarrow> DockerJobStatus \<Rightarrow> DockerJobStatus \<Rightarrow> bool" for clock where
  started: "clock now \<Longrightarrow> st' = st\<lparr>djt_Phase := JobPhaseRunning, djt_StartTime := Some now,
      djt_Attempts := wrap32 (djt_Attempts st + 1), djt_Message := ''Container started''\<rparr>
    \<Longrightarrow> job_step clock spec True st st'"
| not_created: "clock now \<Longrightarrow> st' = st\<lparr>djt_Phase := JobPhaseFailed, djt_Message := m, djt_CompletionTime := Some now\<rparr>
    \<Longrightarrow> job_step clock spec True st st'"
| observed: "djt_Phase st \<noteq> JobPhaseRunning
    \<Longrightarrow> st' = st\<lparr>djt_Phase := JobPhaseRunning, djt_ContainerID := cid, djt_Message := ''Container running''\<rparr>
    \<Longrightarrow> job_step clock spec False st st'"
| expired: "djs_ActiveDeadlineSeconds spec = Some n \<Longrightarrow> djt_StartTime st = Some t
    \<Longrightarrow> clock now \<Longrightarrow> now > t + seconds_dur n \<Longrightarrow> clock later
    \<Longrightarrow> st' = st\<lparr>djt_Phase := JobPhaseFailed, djt_Message := ''Job exceeded ActiveDeadlineSeconds'',
      djt_CompletionTime := Some later\<rparr>
    \<Longrightarrow> job_step clock spec False st st'"
| succeeded: "clock now \<Longrightarrow> st' = st\<lparr>djt_ContainerID := cid, djt_ExitCode := Some 0, djt_CompletionTime := Some now,
      djt_Phase := JobPhaseSucceeded, djt_Message := ''Job completed successfully''\<rparr>
    \<Longrightarrow> job_step clock spec False st st'"
| retried: "djt_Attempts st \<le> djs_BackoffLimit spec
    \<Longrightarrow> st' = st\<lparr>djt_ContainerID := cid, djt_Attempts := wrap32 (djt_Attempts st + 1),
      djt_Phase := JobPhaseRunning, djt_Message := m, djt_ExitCode := None, djt_CompletionTime := None\<rparr>
    \<Longrightarrow> job_step clock spec False st st'"
| retry_failed: "code \<noteq> 0 \<Longrightarrow> djt_Attempts st \<le> djs_BackoffLimit spec \<Longrightarrow> clock now
    \<Longrightarrow> st' = st\<lparr>djt_ContainerID := cid, djt_Phase := JobPhaseFailed, djt_Message := m,
      djt_ExitCode := Some code, djt_CompletionTime := Some now\<rparr>
    \<Longrightarrow> job_step clock spec False st st'"
| gave_up: "code \<noteq> 0 \<Longrightarrow> djt_Attempts st > djs_BackoffLimit spec \<Longrightarrow> clock now
    \<Longrightarrow> st' = st\<lparr>djt_ContainerID := cid, djt_ExitCode := Some code, djt_CompletionTime := Some now,
      djt_Phase := JobPhaseFailed, djt_Message := m\<rparr>
    \<Longrightarrow> job_step clock spec False st st'"

definition shown :: "'w api \<Rightarrow> int \<Rightarrow> bool" where
  "shown api now \<longleftrightarrow> (\<exists>w. fst (sys_Now api w) = now)"

lemma shown_run: "run_state (time_Now api) s = (now, s') \<Longrightarrow> shown api now"
  by (auto simp: time_Now_def shown_def invoke_def split: prod.splits) (metis fst_conv)

inductive_cases job_stepE: "job_step clock spec missing st st'"

text \<open>\<open>writes P m\<close>: every status of a job that \<open>m\<close> writes satisfies \<open>P\<close>, and \<open>m\<close> writes at most one.\<close>

definition is_status :: "event \<Rightarrow> bool" where
  "is_status e \<longleftrightarrow> (\<exists>j r. e = EvStatusJob j r)"

lemma is_status_simps [simp]: "is_status (EvStatusJob j r)" "\<not> is_status (EvRemove c i q)"
  "\<not> is_status (EvStop c i t q)" "\<not> is_status (EvUpdateJob j r)"
  by (simp_all add: is_status_def)

definition one_write :: "(DockerJob \<Rightarrow> bool) \<Rightarrow> event list \<Rightarrow> bool" where
  "one_write P es \<longleftrightarrow> (filter is_status es = [] \<or> (\<exists>j r. filter is_status es = [EvStatusJob j r] \<and> P j))"

definition writes_after :: "(DockerJob \<Rightarrow> bool) \<Rightarrow> 'w st \<Rightarrow> 'r \<Rightarrow> 'w st \<Rightarrow> bool" where
  "writes_after P s r s' \<longleftrightarrow> (\<exists>es. st_trace s' = st_trace s @ es \<and> one_write P es)"

lemma writes_after_world: "writes_after P (s\<lparr>st_world := w\<rparr>) = writes_after P s"
  by (simp add: fun_eq_iff writes_after_def)

lemma no_status_filter: "list_all (\<lambda>e. \<not> is_status e) es \<Longrightarrow> filter is_status es = []"
  by (auto simp: list_all_iff filter_empty_conv)

lemma wp_before_write:
  assumes "emits (\<lambda>e. \<not> is_status e) m"
    and "\<And>r s1. run_state m s = (r, s1) \<Longrightarrow> wp (f r) (writes_after P s1) s1"
  shows "wp (State_Monad.bind m f) (writes_after P s) s"
  unfolding wp_bind
proof (rule wp_emitsI [OF assms(1)], goal_cases)
  case (1 r s1 es)
  show ?case
    by (rule wp_mono [OF assms(2) [OF 1(1)]])
      (use 1 in \<open>auto simp: writes_after_def one_write_def no_status_filter\<close>)
qed

lemma wp_write_then:
  assumes "P job" and "\<And>j. emits (\<lambda>e. \<not> is_status e) (f j)"
  shows "wp (State_Monad.bind (write_status api job) f) (writes_after P s) s"
  unfolding wp_bind write_status_def statusDockerJob_def
proof (rule wp_invokeI, simp only: wp_return, goal_cases)
  case (1 r w)
  show ?case
    by (rule wp_mono [OF emits_wpD [OF assms(2)]])
      (auto simp: writes_after_def one_write_def no_status_filter assms(1))
qed

lemma wp_no_write: "emits (\<lambda>e. \<not> is_status e) m \<Longrightarrow> wp m (writes_after P s) s"
  by (drule emits_wpD [of _ _ s], erule wp_mono)
    (auto simp: writes_after_def one_write_def no_status_filter)

lemma wp_setStatus_failed:
  assumes "\<And>now. shown api now \<Longrightarrow> P (job\<lparr>dj_Status := (case e of
        None \<Rightarrow> (dj_Status job)\<lparr>djt_Phase := JobPhaseFailed, djt_Message := m\<rparr>
      | Some c \<Rightarrow> (dj_Status job)\<lparr>djt_Phase := JobPhaseFailed, djt_Message := m, djt_ExitCode := Some c\<rparr>)
      \<lparr>djt_CompletionTime := Some now\<rparr>\<rparr>)"
  shows "wp (State_Monad.bind (setStatus api job JobPhaseFailed e m) (\<lambda>_. ret x)) (writes_after P s) s"
proof -
  have "wp (do { now \<leftarrow> time_Now api; j \<leftarrow> write_status api (job\<lparr>dj_Status := (case e of
        None \<Rightarrow> (dj_Status job)\<lparr>djt_Phase := JobPhaseFailed, djt_Message := m\<rparr>
      | Some c \<Rightarrow> (dj_Status job)\<lparr>djt_Phase := JobPhaseFailed, djt_Message := m, djt_ExitCode := Some c\<rparr>)
      \<lparr>djt_CompletionTime := Some now\<rparr>\<rparr>); ret x }) (writes_after P s) s"
    by (rule wp_before_write) (auto intro!: emits_intros wp_write_then assms dest: shown_run)
  then show ?thesis
    by (cases e) (simp_all add: setStatus_def Let_def wp_bind)
qed

lemma emits_ttl [emits_intros]:
  "(\<And>r. P (EvRemove cli (containerName job) r)) \<Longrightarrow> emits P (handleTTLCleanup api cli job)"
  unfolding handleTTLCleanup_def Let_def by (auto intro!: emits_intros split: option.splits)

lemma create_no_status: "emits (\<lambda>e. \<not> is_status e) (dj_createAndStartContainer api cli job)"
  by (rule emits_mono [OF job_create_events]) (auto simp: is_status_def job_create_event_def)

definition steps_to :: "'w api \<Rightarrow> DockerJob \<Rightarrow> bool \<Rightarrow> DockerJob \<Rightarrow> bool" where
  "steps_to api job missing job' \<longleftrightarrow> dj_Meta job' = dj_Meta job \<and> dj_Spec job' = dj_Spec job \<and>
     job_step (shown api) (dj_Spec job) missing (dj_Status job) (dj_Status job')"

lemma job_create_step: "wp (job_create api cli job) (writes_after (steps_to api job True) s) s"
  unfolding job_create_def
proof (rule wp_before_write [OF create_no_status], split sum.split, intro conjI allI impI)
  fix s1 :: "'a st" and err
  show "wp (do { _ \<leftarrow> setStatus api job JobPhaseFailed None (''Failed to create container: '' @ error_Error err);
      ret (Inl err) }) (writes_after (steps_to api job True) s1) s1"
    by (rule wp_setStatus_failed) (simp add: steps_to_def job_step.not_created)
next
  fix s1 :: "'a st" and u
  show "wp (do { now \<leftarrow> time_Now api; _ \<leftarrow> write_status api (job\<lparr>dj_Status := (dj_Status job)\<lparr>djt_Phase := JobPhaseRunning,
      djt_StartTime := Some now, djt_Attempts := wrap32 (djt_Attempts (dj_Status job) + 1),
      djt_Message := ''Container started''\<rparr>\<rparr>); ret (Inr poll) }) (writes_after (steps_to api job True) s1) s1"
    by (rule wp_before_write, intro emits_intros, rule wp_write_then)
      (auto simp: steps_to_def intro: job_step.started emits_intros dest: shown_run)
qed

lemma job_running_step: "wp (job_running api cli job j) (writes_after (steps_to api job False) s) s"
proof -
  define keep where "keep = (if djt_Phase (dj_Status job) \<noteq> JobPhaseRunning then do {
        _ \<leftarrow> write_status api (job\<lparr>dj_Status := (dj_Status job)\<lparr>djt_Phase := JobPhaseRunning,
          djt_ContainerID := cj_ID j, djt_Message := ''Container running''\<rparr>\<rparr>);
        ret (Inr poll :: error + Result) } else ret (Inr poll))"
  have keep: "wp keep (writes_after (steps_to api job False) s1) s1" for s1
    unfolding keep_def by (cases "djt_Phase (dj_Status job) = JobPhaseRunning")
      (simp_all add: wp_no_write emits_intros wp_write_then steps_to_def job_step.observed)
  define kill where "kill = do { _ \<leftarrow> ContainerStop api cli (cj_ID j) 10; _ \<leftarrow> ContainerRemove api cli (cj_ID j);
        _ \<leftarrow> setStatus api job JobPhaseFailed None ''Job exceeded ActiveDeadlineSeconds'';
        ret (Inr no_requeue :: error + Result) }"
  have kill: "wp kill (writes_after (steps_to api job False) s1) s1"
    if "djs_ActiveDeadlineSeconds (dj_Spec job) = Some n" "djt_StartTime (dj_Status job) = Some t"
      "shown api now" "now > t + seconds_dur n" for s1 n t now
    unfolding kill_def
    by (rule wp_before_write, intro emits_intros, simp, rule wp_before_write, intro emits_intros, simp,
      rule wp_setStatus_failed) (simp add: steps_to_def job_step.expired [where clock = "shown api", OF that])
  show ?thesis
    unfolding job_running_def Let_def keep_def [symmetric] kill_def [symmetric]
    by (auto intro!: keep wp_before_write emits_intros kill dest: shown_run split: option.splits)
qed

lemma job_exited_step: "wp (job_exited api cli job j code) (writes_after (steps_to api job False) s) s"
proof -
  define finished where "finished now = (dj_Status job)\<lparr>djt_ContainerID := cj_ID j, djt_ExitCode := Some (wrap32 code),
    djt_CompletionTime := Some now\<rparr>" for now
  have ended: "wp (do { job' \<leftarrow> write_status api (job\<lparr>dj_Status := st\<rparr>); handleTTLCleanup api cli job' })
      (writes_after (steps_to api job False) s1) s1"
    if "job_step (shown api) (dj_Spec job) False (dj_Status job) st" for st s1
    by (rule wp_write_then) (use that in \<open>auto simp: steps_to_def intro!: emits_intros\<close>)
  have retried: "wp (case r of
        Inl err \<Rightarrow> do { _ \<leftarrow> setStatus api (job\<lparr>dj_Status := finished now\<rparr>) JobPhaseFailed (Some (wrap32 code)) (m err); ret (Inl err) }
      | Inr u \<Rightarrow> do { _ \<leftarrow> write_status api (job\<lparr>dj_Status := finished now, dj_Status := (finished now)\<lparr>djt_Attempts := wrap32 (djt_Attempts (finished now) + 1),
          djt_Phase := JobPhaseRunning, djt_Message := m', djt_ExitCode := None, djt_CompletionTime := None\<rparr>\<rparr>); ret (Inr poll) })
      (writes_after (steps_to api job False) s1) s1"
    if "wrap32 code \<noteq> 0" "djt_Attempts (dj_Status job) \<le> djs_BackoffLimit (dj_Spec job)" and "shown api now" for r :: "error + unit" and now m m' s1
  proof (cases r)
    case (Inl err)
    show ?thesis
      unfolding Inl sum.case
      by (rule wp_setStatus_failed)
        (use that in \<open>auto simp: steps_to_def finished_def intro!: job_step.retry_failed [of "wrap32 code"]\<close>)
  next
    case (Inr u)
    show ?thesis
      unfolding Inr sum.case
      by (rule wp_write_then) (use that in \<open>auto simp: steps_to_def finished_def intro!: job_step.retried emits_intros\<close>)
  qed
  show ?thesis
    unfolding job_exited_def Let_def
  proof (rule wp_before_write, intro emits_intros, fold finished_def, goal_cases)
    case (1 now s1)
    note now = shown_run [OF 1]
    have att: "djt_Attempts (finished now) = djt_Attempts (dj_Status job)" by (simp add: finished_def)
    consider (ok) "wrap32 code = 0" | (retry) "wrap32 code \<noteq> 0" "djt_Attempts (dj_Status job) \<le> djs_BackoffLimit (dj_Spec job)"
      | (fail) "wrap32 code \<noteq> 0" "djt_Attempts (dj_Status job) > djs_BackoffLimit (dj_Spec job)" by linarith
    then show ?case
    proof cases
      case ok
      then show ?thesis by (auto simp: finished_def intro!: ended job_step.succeeded now)
    next
      case retry
      then have lim: "djt_Attempts (finished now) \<le> djs_BackoffLimit (dj_Spec (job\<lparr>dj_Status := finished now\<rparr>))"
        by (simp add: att)
      show ?thesis
        unfolding if_not_P [OF retry(1)] if_P [OF lim]
        by (rule wp_before_write, intro emits_intros, simp, rule wp_before_write [OF create_no_status],
          rule retried [OF retry now])
    next
      case fail
      then show ?thesis by (auto simp: finished_def intro!: ended job_step.gave_up [of "wrap32 code"] now)
    qed
  qed
qed

lemma sync_step:
  assumes "job_terminal job = False"
  shows "wp (dj_proceed api cli job) (writes_after (\<lambda>job'. \<exists>missing. steps_to api job missing job' \<and>
    (missing \<longrightarrow> (\<exists>e. fst (api_ContainerInspect api cli (containerName job) (st_world s)) = Inl e \<and> IsErrNotFound e))) s) s"
proof -
  have mono: "wp m (writes_after P t) t \<Longrightarrow> (\<And>j. P j \<Longrightarrow> Q j) \<Longrightarrow> wp m (writes_after Q t) t"
    for m :: "('a, error + Result) io" and P Q t
    by (erule wp_mono) (auto simp: writes_after_def one_write_def)
  obtain r w where r: "api_ContainerInspect api cli (containerName job) (st_world s) = (r, w)" by fastforce
  let ?s = "s\<lparr>st_world := w\<rparr>" and ?P = "\<lambda>job'. \<exists>missing. steps_to api job missing job' \<and>
    (missing \<longrightarrow> (\<exists>e. r = Inl e \<and> IsErrNotFound e))"
  have *: "wp (dj_proceed api cli job) (writes_after ?P ?s) s"
    using assms
    by (auto simp: dj_proceed_def syncJob_def ContainerInspect_def wp_bind wp_invoke r
        intro!: wp_no_write emits_intros mono [OF job_create_step] mono [OF job_running_step] mono [OF job_exited_step]
        split: sum.splits option.splits)
  then show ?thesis using r by (simp add: writes_after_world)
qed

section \<open>Properties\<close>

text \<open>
  C4: the controller implements the life cycle of a job. A pass over a job writes its status at most
  once; what it writes is a step of the abstract machine from the status it read, for the same
  object and spec, where the steps that need a missing container happen only when Docker reported
  it missing. A job that has succeeded or failed is never written again.
\<close>

theorem job_status_refines_machine:
  assumes "run_state (dj_proceed api cli job) s = (r, s')"
  shows "\<exists>es. st_trace s' = st_trace s @ es \<and> one_write (\<lambda>job'. \<not> job_terminal job \<and>
    (\<exists>missing. steps_to api job missing job' \<and> (missing \<longrightarrow>
      (\<exists>e. fst (api_ContainerInspect api cli (containerName job) (st_world s)) = Inl e \<and> IsErrNotFound e)))) es"
proof (cases "job_terminal job")
  case True
  have "wp (handleTTLCleanup api cli job) (writes_after (\<lambda>_. False) s) s"
    by (intro wp_no_write emits_intros) simp
  with assms True show ?thesis
    by (auto simp: dj_proceed_def wp_def writes_after_def one_write_def)
next
  case False
  from wp_runD [OF sync_step assms] False show ?thesis
    by (auto simp: writes_after_def)
qed

definition demo_job_state :: "kube_store st" where
  "demo_job_state = start_state (empty_store\<lparr>ks_now := 7\<rparr>)"

theorem job_status_refines_machine_witness:
  "\<exists>es. st_trace (snd (run_state (dj_proceed kube 1 (plain_job ''j'')) demo_job_state)) = es \<and>
    filter is_status es \<noteq> [] \<and> one_write (\<lambda>job'. \<exists>missing. steps_to kube (plain_job ''j'') missing job') es"
proof -
  have t: "st_trace demo_job_state = []" by (simp add: demo_job_state_def start_state_def)
  have "filter is_status (st_trace (snd (run_state (dj_proceed kube 1 (plain_job ''j'')) demo_job_state))) \<noteq> []"
    by (simp add: dj_proceed_def syncJob_def job_create_def dj_createAndStartContainer_def dj_pull_auth_def
        dj_config_def write_status_def job_terminal_def job_phase_defs bindE_def call_defs invoke_def
        demo_job_state_def fixture_defs Let_def)
  moreover obtain es where "st_trace (snd (run_state (dj_proceed kube 1 (plain_job ''j'')) demo_job_state)) = es"
    "one_write (\<lambda>job'. \<exists>missing. steps_to kube (plain_job ''j'') missing job') es"
    using job_status_refines_machine [of kube 1 "plain_job ''j''" demo_job_state, OF prod.collapse [symmetric]]
    by (auto simp: one_write_def t)
  ultimately show ?thesis by auto
qed

text \<open>
  The statuses a job can have: a fresh one, and every status a pass writes on a job with such a
  status, whatever Docker and the clock do meanwhile and whichever writes are lost. The counter is
  the number of passes that found the container of a started job gone.
\<close>

definition fresh_job_status :: DockerJobStatus where
  "fresh_job_status = \<lparr>djt_Phase = [], djt_ContainerID = [], djt_StartTime = None,
     djt_CompletionTime = None, djt_ExitCode = None, djt_Attempts = 0, djt_Message = []\<rparr>"

definition container_missing :: "'w api \<Rightarrow> client \<Rightarrow> DockerJob \<Rightarrow> 'w st \<Rightarrow> bool" where
  "container_missing api cli job s \<longleftrightarrow>
     (case fst (api_ContainerInspect api cli (containerName job) (st_world s)) of
        Inl e \<Rightarrow> IsErrNotFound e | Inr _ \<Rightarrow> False)"

inductive job_history :: "'w api \<Rightarrow> DockerJobSpec \<Rightarrow> nat \<Rightarrow> DockerJobStatus \<Rightarrow> bool" for api spec where
  fresh: "job_history api spec 0 fresh_job_status"
| pass: "job_history api spec m (dj_Status job) \<Longrightarrow> dj_Spec job = spec \<Longrightarrow>
    run_state (dj_proceed api cli job) s = (r, s') \<Longrightarrow> EvStatusJob job' wr \<in> set (new_events s s') \<Longrightarrow>
    job_history api spec (m + (if container_missing api cli job s \<and> djt_Attempts (dj_Status job) > 0 then 1 else 0))
      (dj_Status job')"

lemma one_writeD:
  assumes "one_write P es" and "EvStatusJob j r \<in> set es"
  shows "P j"
proof -
  have "EvStatusJob j r \<in> set (filter is_status es)" using assms(2) by simp
  with assms(1) show ?thesis by (auto simp: one_write_def simp del: set_filter)
qed

lemma pass_step:
  assumes "run_state (dj_proceed api cli job) s = (r, s')" and "EvStatusJob job' wr \<in> set (new_events s s')"
  shows "\<not> job_terminal job \<and> (\<exists>missing. (missing \<longrightarrow> container_missing api cli job s) \<and>
    job_step (shown api) (dj_Spec job) missing (dj_Status job) (dj_Status job'))"
proof -
  have live: "\<not> job_terminal job"
  proof
    assume t: "job_terminal job"
    have "wp (handleTTLCleanup api cli job) (writes_after (\<lambda>_. False) s) s"
      by (intro wp_no_write emits_intros) simp
    with assms t show False
      by (auto simp: dj_proceed_def wp_def writes_after_def dest: one_writeD)
  qed
  from wp_runD [OF sync_step assms(1)] live obtain es where es: "st_trace s' = st_trace s @ es"
    "one_write (\<lambda>job'. \<exists>missing. steps_to api job missing job' \<and> (missing \<longrightarrow>
      (\<exists>e. fst (api_ContainerInspect api cli (containerName job) (st_world s)) = Inl e \<and> IsErrNotFound e))) es"
    by (auto simp: writes_after_def)
  from assms(2) es(1) have "EvStatusJob job' wr \<in> set es" by simp
  from one_writeD [OF es(2) this] obtain missing where m: "steps_to api job missing job'" "missing \<longrightarrow>
      (\<exists>e. fst (api_ContainerInspect api cli (containerName job) (st_world s)) = Inl e \<and> IsErrNotFound e)" by blast
  from m(2) have "missing \<longrightarrow> container_missing api cli job s"
    by (auto simp: container_missing_def)
  with m(1) live show ?thesis unfolding steps_to_def by blast
qed

lemma wrap32_le: "is_int32 x \<Longrightarrow> wrap32 (x + 1) \<le> x + 1"
  by (auto simp: wrap32_def is_int32_def intro!: zmod_le_nonneg_dividend)

lemma job_step_attempts:
  assumes "job_step clock spec missing st st'" and "is_int32 (djt_Attempts st)"
  shows "is_int32 (djt_Attempts st') \<and> djt_Attempts st' \<le> djt_Attempts st + 1 \<and>
    (missing \<or> djt_Attempts st' \<le> max (djt_Attempts st) (djs_BackoffLimit spec + 1))"
  using assms by (cases rule: job_step.cases) (use wrap32_le [OF assms(2)] in auto)

text \<open>
  C8: retries are bounded. However often a job is looked at and whatever happens to its container,
  its attempts never exceed the back-off limit by more than one, or one when the limit is negative
  (the first attempt is always made), plus one for every time a pass found the container of the
  started job gone.
\<close>

theorem job_attempts_bounded:
  assumes "job_history api spec m st"
  shows "djt_Attempts st \<le> max 1 (djs_BackoffLimit spec + 1) + int m"
proof -
  from assms have "is_int32 (djt_Attempts st) \<and> djt_Attempts st \<le> max 1 (djs_BackoffLimit spec + 1) + int m"
  proof induction
    case fresh
    then show ?case by (simp add: fresh_job_status_def is_int32_def)
  next
    case (pass m job cli s r s' job' wr)
    obtain missing where st: "missing \<longrightarrow> container_missing api cli job s"
      "job_step (shown api) (dj_Spec job) missing (dj_Status job) (dj_Status job')"
      using pass_step [OF pass.hyps(3,4)] by blast
    from job_step_attempts [OF st(2)] pass.IH pass.hyps(2) st(1) show ?case by auto
  qed
  then show ?thesis ..
qed

definition demo_started :: DockerJob where
  "demo_started = (plain_job ''j'')\<lparr>dj_Status := fresh_job_status\<lparr>djt_Phase := ''Running'',
     djt_StartTime := Some 7, djt_Attempts := 1, djt_Message := ''Container started''\<rparr>\<rparr>"

lemma demo_first_pass:
  "EvStatusJob demo_started (Inr demo_started) \<in> set (new_events demo_job_state
     (snd (run_state (dj_proceed kube 1 (plain_job ''j'')) demo_job_state)))"
  by (simp add: dj_proceed_def syncJob_def job_create_def dj_createAndStartContainer_def dj_pull_auth_def
      dj_config_def write_status_def job_terminal_def job_phase_defs bindE_def call_defs invoke_def
      demo_job_state_def demo_started_def fresh_job_status_def fixture_defs wrap32_def Let_def)

lemma demo_history: "job_history kube (dj_Spec (plain_job ''j'')) 0 (dj_Status demo_started)"
proof -
  have "job_history kube (dj_Spec (plain_job ''j'')) 0 (dj_Status (plain_job ''j''))"
    using job_history.fresh by (simp add: fresh_job_status_def plain_job_def)
  from job_history.pass [OF this refl prod.collapse [symmetric] demo_first_pass]
  show ?thesis by (simp add: plain_job_def)
qed

theorem job_attempts_bounded_witness:
  "job_history kube (dj_Spec (plain_job ''j'')) 0 (dj_Status demo_started) \<and> djt_Attempts (dj_Status demo_started) \<le> max 1 (0 + 1) + 0"
  using demo_history job_attempts_bounded [OF demo_history] by (simp add: plain_job_def)

text \<open>
  C21: the status of a job is consistent throughout its life. Its phase is empty, running, succeeded
  or failed; a succeeded job has exit code 0 and a completion time, a failed job has a completion
  time, and a job that is not finished has neither an exit code nor a completion time. The phase
  \<open>Pending\<close> that the API type and \<open>docs/jobs.md\<close> list is never written.
\<close>

theorem job_status_consistent:
  assumes "job_history api spec m st"
  shows "djt_Phase st \<in> {[], JobPhaseRunning, JobPhaseSucceeded, JobPhaseFailed} \<and>
    (djt_Phase st = JobPhaseSucceeded \<longrightarrow> djt_ExitCode st = Some 0 \<and> djt_CompletionTime st \<noteq> None) \<and>
    (djt_Phase st = JobPhaseFailed \<longrightarrow> djt_CompletionTime st \<noteq> None) \<and>
    (djt_Phase st \<in> {[], JobPhaseRunning} \<longrightarrow> djt_ExitCode st = None \<and> djt_CompletionTime st = None)"
  using assms
proof induction
  case fresh
  then show ?case by (simp add: fresh_job_status_def job_phase_defs)
next
  case (pass m job cli s r s' job' wr)
  obtain missing where st: "\<not> job_terminal job" "job_step (shown api) (dj_Spec job) missing (dj_Status job) (dj_Status job')"
    using pass_step [OF pass.hyps(3,4)] by blast
  from st(2) pass.IH st(1) show ?case
    by (cases rule: job_step.cases) (auto simp: job_terminal_def job_phase_defs)
qed

theorem job_status_consistent_witness:
  "djt_ExitCode (dj_Status demo_started) = None \<and> djt_CompletionTime (dj_Status demo_started) = None"
  using job_status_consistent [OF demo_history] by (simp add: demo_started_def fresh_job_status_def job_phase_defs)

section \<open>Deadlines and time to live\<close>

text \<open>A pass over a job whose container runs: what it does depends on the deadline alone.\<close>

definition stop_events :: "client \<Rightarrow> string \<Rightarrow> event list \<Rightarrow> bool" where
  "stop_events cli cid es \<longleftrightarrow> (\<exists>r1 r2 j wr. es = [EvStop cli cid 10 r1, EvRemove cli cid r2, EvStatusJob j wr] \<and>
     djt_Phase (dj_Status j) = JobPhaseFailed)"

lemma running_pass:
  assumes "\<not> job_terminal job"
    and "api_ContainerInspect api cli (containerName job) (st_world s) = (Inr j, w)"
    and "cj_State j = Some cs" "cs_Running cs"
    and "djs_ActiveDeadlineSeconds (dj_Spec job) = Some n" "djt_StartTime (dj_Status job) = Some t"
    and "fst (sys_Now api w) = now"
  shows "wp (dj_proceed api cli job) (\<lambda>r s'. \<exists>es. st_trace s' = st_trace s @ es \<and>
    (if now > t + seconds_dur n then r = Inr no_requeue \<and> stop_events cli (cj_ID j) es
     else r = Inr poll \<and> list_all is_status es)) s"
proof -
  obtain w2 where now: "sys_Now api w = (now, w2)" using assms(7) by (metis prod.collapse)
  show ?thesis
  proof (cases "now > t + seconds_dur n")
    case True
    then show ?thesis
      using assms(1-6) now
      by (auto simp: dj_proceed_def syncJob_def job_running_def wp_simps Let_def ContainerInspect_def time_Now_def
          wp_invoke ContainerStop_def ContainerRemove_def setStatus_def write_status_def statusDockerJob_def
          stop_events_def intro!: wp_invokeI split: prod.splits)
  next
    case False
    then show ?thesis
      using assms(1-6) now
      by (auto simp: dj_proceed_def syncJob_def job_running_def wp_simps Let_def ContainerInspect_def time_Now_def
          wp_invoke write_status_def statusDockerJob_def intro!: wp_invokeI split: prod.splits)
  qed
qed

text \<open>
  C22: the deadline is enforced exactly. For a job whose container runs, whose start time is set and
  whose deadline is between 0 and 9223372036 seconds, a pass after the deadline stops the container, removes it and marks the
  job failed, and a pass at or before the deadline does not touch the container and looks again in
  five seconds.
\<close>

theorem job_deadline_exact:
  assumes "\<not> job_terminal job"
    and "api_ContainerInspect api cli (containerName job) (st_world s) = (Inr j, w)"
    and "cj_State j = Some cs" and "cs_Running cs"
    and "djs_ActiveDeadlineSeconds (dj_Spec job) = Some n" and "djt_StartTime (dj_Status job) = Some t"
    and "0 \<le> n" and "n \<le> 9223372036"
  shows "\<exists>r s' es. run_state (dj_proceed api cli job) s = (r, s') \<and> st_trace s' = st_trace s @ es \<and>
    (if fst (sys_Now api w) > t + n * second then r = Inr no_requeue \<and> stop_events cli (cj_ID j) es
     else r = Inr (requeue (5 * second)) \<and> list_all is_status es)"
  using running_pass [OF assms(1-6) refl] assms(7,8)
  by (auto simp: wp_def poll_def split: prod.splits if_splits)

text \<open>
  A deadline of more than 9223372036 seconds wraps around. Up to 18446744073 seconds the
  conversion to a duration is negative, so the job is killed at the first look at its running
  container, although its deadline is centuries away.
\<close>

theorem job_deadline_overflow:
  assumes "\<not> job_terminal job"
    and "api_ContainerInspect api cli (containerName job) (st_world s) = (Inr j, w)"
    and "cj_State j = Some cs" and "cs_Running cs"
    and "djs_ActiveDeadlineSeconds (dj_Spec job) = Some n" and "djt_StartTime (dj_Status job) = Some t"
    and "9223372037 \<le> n" and "n \<le> 18446744073" and "t \<le> fst (sys_Now api w)"
  shows "\<exists>s' es. run_state (dj_proceed api cli job) s = (Inr no_requeue, s') \<and>
    st_trace s' = st_trace s @ es \<and> stop_events cli (cj_ID j) es"
proof -
  have "seconds_dur n < 0"
    using assms(7,8) by (simp add: seconds_dur_def wrap64_high)
  then show ?thesis
    using running_pass [OF assms(1-6) refl] assms(9)
    by (auto simp: wp_def split: prod.splits if_splits)
qed

text \<open>A job with a running container, for the examples.\<close>

definition demo_run_job :: "int \<Rightarrow> DockerJob" where
  "demo_run_job n = (plain_job ''j'')\<lparr>dj_Spec := (dj_Spec (plain_job ''j''))\<lparr>djs_ActiveDeadlineSeconds := Some n\<rparr>,
     dj_Status := (dj_Status (plain_job ''j''))\<lparr>djt_Phase := ''Running'', djt_StartTime := Some 0\<rparr>\<rparr>"

definition demo_run_json :: ContainerJSON where
  "demo_run_json = \<lparr>cj_ID = ''c1'', cj_Name = ''/job-j'',
     cj_State = Some \<lparr>cs_Status = ''running'', cs_Running = True, cs_ExitCode = 0, cs_Health = None\<rparr>,
     cj_HostConfig = None, cj_Config = None, cj_Networks = None\<rparr>"

definition demo_run_api :: "kube_store api" where
  "demo_run_api = kube\<lparr>api_ContainerInspect := \<lambda>cli q w. (Inr demo_run_json, w)\<rparr>"

definition demo_run_state :: "kube_store st" where
  "demo_run_state = start_state (empty_store\<lparr>ks_now := 61 * second\<rparr>)"

lemmas demo_run_defs = demo_run_job_def demo_run_json_def demo_run_api_def demo_run_state_def

theorem job_deadline_exact_witness:
  "\<exists>s' es. run_state (dj_proceed demo_run_api 1 (demo_run_job 60)) demo_run_state = (Inr no_requeue, s') \<and>
     st_trace s' = es \<and> stop_events 1 ''c1'' es"
  using job_deadline_exact [of "demo_run_job 60" demo_run_api 1 demo_run_state demo_run_json "st_world demo_run_state"
      "\<lparr>cs_Status = ''running'', cs_Running = True, cs_ExitCode = 0, cs_Health = None\<rparr>" 60 0]
  by (simp add: demo_run_defs fixture_defs job_terminal_def job_phase_defs)

theorem job_deadline_overflow_witness:
  "\<exists>s' es. run_state (dj_proceed demo_run_api 1 (demo_run_job 9223372037)) demo_run_state = (Inr no_requeue, s') \<and>
     st_trace s' = es \<and> stop_events 1 ''c1'' es"
  using job_deadline_overflow [of "demo_run_job 9223372037" demo_run_api 1 demo_run_state demo_run_json "st_world demo_run_state"
      "\<lparr>cs_Status = ''running'', cs_Running = True, cs_ExitCode = 0, cs_Health = None\<rparr>" 9223372037 0]
  by (simp add: demo_run_defs fixture_defs job_terminal_def job_phase_defs)

text \<open>
  C23: a finished job is cleaned up when its time to live is over, and not before. A pass over a
  finished job before that time only asks to be called again after the positive remaining time;
  the pass at or after that moment removes the job's container and asks for no further call. In
  both cases the job itself is not written and no container is created or started.
\<close>

theorem job_ttl_exact:
  assumes "job_terminal job"
    and "djs_TTLSecondsAfterFinished (dj_Spec job) = Some n" and "djt_CompletionTime (dj_Status job) = Some t"
    and "0 \<le> n" and "n \<le> 2147483647" and "sys_Now api (st_world s) = (now, w)"
    and "t \<le> now" and "now - t < 2 ^ 62"
  shows "if now < t + n * second
    then \<exists>d > 0. now + d = t + n * second \<and>
      run_state (dj_proceed api cli job) s = (Inr (requeue d), s\<lparr>st_world := w\<rparr>)
    else \<exists>rm s'. run_state (dj_proceed api cli job) s = (Inr no_requeue, s') \<and>
      st_trace s' = st_trace s @ [EvRemove cli (containerName job) rm]"
proof -
  have since: "time_Since now t = now - t" using assms(7,8) by (intro time_Since_small) (simp add: is_int64_def)
  have dur: "seconds_dur n = n * second" using assms(4,5) by simp
  have early: "now < t + n * second \<Longrightarrow> run_state (dj_proceed api cli job) s =
      (Inr (requeue (n * second - (now - t))), s\<lparr>st_world := w\<rparr>)"
    unfolding wp_eq_iff [symmetric]
    using assms by (simp add: dj_proceed_def handleTTLCleanup_def Let_def wp_simps time_Now_def wp_invoke since is_int64_def)
  have late: "\<not> now < t + n * second \<Longrightarrow> wp (dj_proceed api cli job) (\<lambda>r s'. r = Inr no_requeue \<and>
      (\<exists>rm. st_trace s' = st_trace s @ [EvRemove cli (containerName job) rm])) s"
    using assms by (simp add: dj_proceed_def handleTTLCleanup_def Let_def wp_simps call_defs wp_invoke since
        split: prod.splits)
  show ?thesis
  proof (cases "now < t + n * second")
    case True
    then show ?thesis using early by (auto intro!: exI [of _ "n * second - (now - t)"])
  next
    case False
    then show ?thesis using late by (auto simp: wp_def split: prod.splits)
  qed
qed

definition demo_done_job :: DockerJob where
  "demo_done_job = (plain_job ''j'')\<lparr>dj_Spec := (dj_Spec (plain_job ''j''))\<lparr>djs_TTLSecondsAfterFinished := Some 100\<rparr>,
     dj_Status := (dj_Status (plain_job ''j''))\<lparr>djt_Phase := ''Succeeded'', djt_CompletionTime := Some 0\<rparr>\<rparr>"

theorem job_ttl_exact_witness:
  "\<exists>d > 0. 61 * second + d = 100 * second \<and>
     run_state (dj_proceed kube 1 demo_done_job) demo_run_state = (Inr (requeue d), demo_run_state)"
  using job_ttl_exact [of demo_done_job 100 0 kube demo_run_state "61 * second" "st_world demo_run_state" 1]
  by (simp add: demo_done_job_def demo_run_state_def fixture_defs job_terminal_def job_phase_defs)

section \<open>Deletion\<close>

text \<open>
  Deleting a job does not wait for its container. Once the Docker client is found, the
  finalizer of a deleted job is dropped in the same pass whatever the removal of the container
  returned, so a container that could not be removed outlives its job.
\<close>

theorem job_finalizer_ignores_failed_removal:
  assumes "api_getDockerJob api req (st_world s) = (Inr job, w)"
    and "om_DeletionTimestamp (dj_Meta job) \<noteq> None"
    and "lib_ContainsFinalizer api (dj_Meta job) dj_finalizerName"
    and "run_state (dj_getDockerClient api own job) (s\<lparr>st_world := w\<rparr>) = (Inr cli, s1)"
  shows "\<exists>rm ur r s'. run_state (dj_Reconcile api own req) s = (r, s') \<and>
    rm = fst (api_ContainerRemove api cli (containerName job) (st_world s1)) \<and>
    st_trace s' = st_trace s1 @ [EvRemove cli (containerName job) rm,
      EvUpdateJob (job\<lparr>dj_Meta := lib_RemoveFinalizer api (dj_Meta job) dj_finalizerName\<rparr>) ur]"
proof -
  have "wp (dj_Reconcile api own req) (\<lambda>r s'. \<exists>ur. st_trace s' = st_trace s1 @
      [EvRemove cli (containerName job) (fst (api_ContainerRemove api cli (containerName job) (st_world s1))),
       EvUpdateJob (job\<lparr>dj_Meta := lib_RemoveFinalizer api (dj_Meta job) dj_finalizerName\<rparr>) ur]) s"
    unfolding dj_Reconcile_def getDockerJob_def wp_bind wp_invoke assms(1) prod.case sum.case wp_bindE
      if_not_P [OF assms(2)] dj_finalize_def if_P [OF assms(3)] ContainerRemove_def updateDockerJob_def
    using assms(4) by (auto simp: wp_def [of "dj_getDockerClient api own job"] wp_simps wp_invoke split: prod.splits sum.splits)
  then show ?thesis by (auto simp: wp_def split: prod.splits)
qed

definition demo_deleted_job :: DockerJob where
  "demo_deleted_job = (plain_job ''j'')\<lparr>dj_Meta := (plain_meta ''j'')\<lparr>om_DeletionTimestamp := Some 1,
     om_Finalizers := [dj_finalizerName]\<rparr>\<rparr>"

definition demo_busy_api :: "kube_store api" where
  "demo_busy_api = kube\<lparr>api_ContainerRemove := \<lambda>cli q w. (Inl (ErrMsg ''device busy''), w)\<rparr>"

theorem job_finalizer_ignores_failed_removal_witness:
  "\<exists>ur. st_trace (snd (run_state (dj_Reconcile demo_busy_api (Some 5) \<lparr>key_Namespace = ''ns'', key_Name = ''j''\<rparr>)
     (start_state (empty_store\<lparr>ks_jobs := [demo_deleted_job]\<rparr>)))) =
     [EvRemove 5 ''job-j'' (Inl (ErrMsg ''device busy'')),
      EvUpdateJob (demo_deleted_job\<lparr>dj_Meta := (dj_Meta demo_deleted_job)\<lparr>om_Finalizers := []\<rparr>\<rparr>) ur]"
proof -
  let ?s = "start_state (empty_store\<lparr>ks_jobs := [demo_deleted_job]\<rparr>)"
  have "run_state (dj_getDockerClient demo_busy_api (Some 5) demo_deleted_job) ?s = (Inr 5, ?s)"
    by (simp add: dj_getDockerClient_def load_cached_def cacheLoad_def call_defs invoke_def host_name_def demo_busy_api_def
        demo_deleted_job_def fixture_defs Let_def)
  from job_finalizer_ignores_failed_removal [of demo_busy_api "\<lparr>key_Namespace = ''ns'', key_Name = ''j''\<rparr>" ?s
      demo_deleted_job "st_world ?s" "Some 5" 5 ?s] this
  show ?thesis
    by (auto simp: demo_busy_api_def demo_deleted_job_def containerName_def fixture_defs)
qed

section \<open>The two memory parsers\<close>

lemma ParseInt_scan:
  assumes "ParseInt t = Some v"
  shows "Sscanf_d t = v"
proof (cases t)
  case Nil
  with assms show ?thesis by (simp add: ParseInt_def)
next
  case (Cons c cs)
  show ?thesis
  proof (cases "c = CHR ''+'' \<or> c = CHR ''-''")
    case True
    with assms Cons have "cs \<noteq> []" "list_all is_digit cs"
      by (auto simp: ParseInt_def Let_def split: if_splits)
    then have "takeWhile is_digit cs = cs" "cs \<noteq> []" by (simp_all add: list_all_iff takeWhile_eq_all_conv)
    then have "Sscanf_d t = (case ParseInt t of None \<Rightarrow> 0 | Some i \<Rightarrow> i)"
      using True Cons by (auto simp: Sscanf_d_def Let_def simp del: takeWhile_eq_all_conv)
    with assms show ?thesis by simp
  next
    case False
    with assms Cons have "list_all is_digit t" by (auto simp: ParseInt_def Let_def split: if_splits)
    then have "takeWhile is_digit t = t" by (simp add: list_all_iff takeWhile_eq_all_conv)
    then have "Sscanf_d t = (case ParseInt t of None \<Rightarrow> 0 | Some i \<Rightarrow> i)"
      using False Cons by (auto simp: Sscanf_d_def Let_def simp del: takeWhile_eq_all_conv)
    with assms show ?thesis by simp
  qed
qed

text \<open>
  The two memory parsers agree. The container reads the number with \<open>strconv.ParseInt\<close>,
  the job with \<open>fmt.Sscanf\<close>, which ignores what follows the digits; whenever the container's
  parser yields a limit at all, the job's parser yields the same one.
\<close>

theorem memory_parsers_agree:
  assumes "parseMemoryString s \<noteq> 0"
  shows "dj_parseMemoryString s = parseMemoryString s"
  using assms
  by (auto simp: parseMemoryString_def dj_parseMemoryString_def Let_def dest: ParseInt_scan
      split: if_splits option.splits)

theorem memory_parsers_agree_witness:
  "dj_parseMemoryString '' 64K'' = 65536 \<and> parseMemoryString ''1.5g'' = 0 \<and> dj_parseMemoryString ''1.5g'' = 1073741824"
proof -
  have p: "parseMemoryString '' 64K'' = 65536" by code_simp
  with memory_parsers_agree [of "'' 64K''"] have "dj_parseMemoryString '' 64K'' = 65536" by simp
  moreover have "parseMemoryString ''1.5g'' = 0 \<and> dj_parseMemoryString ''1.5g'' = 1073741824" by code_simp
  ultimately show ?thesis by blast
qed

end
