(* ===== verification/DeploymentCtl.thy ===== *)
theory DeploymentCtl
  imports KubeStore
begin

text \<open>
  The deployment controller of \<open>internal/controller/dockerdeployment/controller.go\<close>: it keeps
  the number of containers a \<open>DockerDeployment\<close> owns at the number of replicas, creating from
  the template or deleting the newest.
\<close>

section \<open>Definitions\<close>

definition letterRunes :: string where
  "letterRunes = ''abcdefghijklmnopqrstuvwxyz0123456789''"

fun utilRandString :: "'w api \<Rightarrow> nat \<Rightarrow> ('w, string) io" where
  "utilRandString api 0 = ret []"
| "utilRandString api (Suc n) = do {
     k \<leftarrow> rand_Intn api (length letterRunes);
     rest \<leftarrow> utilRandString api n;
     ret (letterRunes ! k # rest) }"

text \<open>An error of \<open>SetControllerReference\<close> is ignored and leaves the object as it was.\<close>

definition constructContainer :: "'w api \<Rightarrow> DockerDeployment \<Rightarrow> ('w, DockerContainer) io" where
  "constructContainer api deploy = do {
     suffix \<leftarrow> utilRandString api 5;
     let name = om_Name (dd_Meta deploy) @ ''-'' @ suffix;
     let template = dds_Template (dd_Spec deploy);
     let meta = \<lparr>om_Name = name, om_Namespace = om_Namespace (dd_Meta deploy), om_UID = [],
       om_Labels = tm_Labels (dctpl_Metadata template), om_CreationTimestamp = 0,
       om_DeletionTimestamp = None, om_Finalizers = [], om_OwnerReferences = []\<rparr>;
     let meta' = (case lib_SetControllerReference api (dd_Meta deploy) meta of Inl _ \<Rightarrow> meta | Inr m \<Rightarrow> m);
     let spec = dctpl_Spec template;
     let cname = (if dcs_ContainerName spec = [] then name else dcs_ContainerName spec @ ''-'' @ suffix);
     ret \<lparr>dc_Meta = meta', dc_Spec = spec\<lparr>dcs_ContainerName := cname\<rparr>,
       dc_Status = \<lparr>dct_ID = [], dct_State = [], dct_Health = [], dct_IPv4 = []\<rparr>\<rparr> }"

fun scale_up :: "'w api \<Rightarrow> DockerDeployment \<Rightarrow> nat \<Rightarrow> ('w, error + unit) io" where
  "scale_up api deploy 0 = ret (Inr ())"
| "scale_up api deploy (Suc n) = do {
     newContainer \<leftarrow> constructContainer api deploy;
     bindE (createDockerContainer api newContainer) (\<lambda>_. scale_up api deploy n) }"

text \<open>The loop from \<open>i\<close> with \<open>n\<close> rounds to go; the victim's index below zero is a panic.\<close>

fun scale_down :: "'w api \<Rightarrow> DockerContainer list \<Rightarrow> nat \<Rightarrow> nat \<Rightarrow> ('w, error + unit) io" where
  "scale_down api owned i 0 = ret (Inr ())"
| "scale_down api owned i (Suc n) =
     (if i < length owned then
        bindE (deleteDockerContainer api (owned ! (length owned - 1 - i))) (\<lambda>_. scale_down api owned (Suc i) n)
      else ret (Inl (GoPanic ''index out of range'')))"

definition desired_replicas :: "DockerDeployment \<Rightarrow> int" where
  "desired_replicas d = (case dds_Replicas (dd_Spec d) of None \<Rightarrow> 1 | Some r \<Rightarrow> r)"

definition scale :: "'w api \<Rightarrow> DockerDeployment \<Rightarrow> DockerContainer list \<Rightarrow> ('w, error + unit) io" where
  "scale api deployment ownedContainers =
     (let currentCount = wrap32 (int (length ownedContainers));
          diff = wrap32 (desired_replicas deployment - currentCount)
      in if diff > 0 then scale_up api deployment (nat diff)
         else if diff < 0 then scale_down api ownedContainers 0 (nat (wrap32 (- diff)))
         else ret (Inr ()))"

text \<open>
  \<open>sortSlice key xs\<close> stands for \<open>sort.Slice\<close> by a key, whose order of equal elements is not
  specified.
\<close>

definition dd_Reconcile :: "'w api \<Rightarrow> ((DockerContainer \<Rightarrow> int) \<Rightarrow> DockerContainer list \<Rightarrow> DockerContainer list) \<Rightarrow>
    ObjectKey \<Rightarrow> ('w, error + Result) io" where
  "dd_Reconcile api sortSlice req = do {
     r \<leftarrow> getDockerDeployment api req;
     case r of
       Inl err \<Rightarrow> if IsNotFound err then ret (Inr no_requeue) else ret (Inl err)
     | Inr deployment \<Rightarrow>
         if om_DeletionTimestamp (dd_Meta deployment) \<noteq> None then ret (Inr no_requeue)
         else bindE (listDockerContainers api (om_Namespace (dd_Meta deployment))) (\<lambda>items.
           let owned = filter (\<lambda>child. lib_IsControlledBy api (dc_Meta child) (dd_Meta deployment)) items;
               ownedContainers = sortSlice (\<lambda>c. om_CreationTimestamp (dc_Meta c)) owned
           in bindE (scale api deployment ownedContainers) (\<lambda>_.
             let available = wrap32 (int (length (filter (\<lambda>c. dct_State (dc_Status c) = ''running'') ownedContainers)))
             in if ddt_AvailableReplicas (dd_Status deployment) \<noteq> available then
                  bindE (statusDockerDeployment api
                      (deployment\<lparr>dd_Status := (dd_Status deployment)\<lparr>ddt_AvailableReplicas := available\<rparr>\<rparr>))
                    (\<lambda>_. ret (Inr (requeue (10 * second))))
                else ret (Inr (requeue (10 * second))))) }"

section \<open>The sort\<close>

text \<open>What the controller relies on of \<open>sort.Slice\<close>: a sorted permutation.\<close>

locale slice_sort =
  fixes sortSlice :: "('a \<Rightarrow> int) \<Rightarrow> 'a list \<Rightarrow> 'a list"
  assumes perm: "mset (sortSlice k xs) = mset xs"
    and sorted: "sorted (map k (sortSlice k xs))"
begin

lemma length_sort: "length (sortSlice k xs) = length xs"
  using perm [of k xs] by (metis size_mset)

lemma set_sort: "set (sortSlice k xs) = set xs"
  using perm [of k xs] by (metis set_mset_mset)

lemma split_at:
  assumes "kept = take n (sortSlice k xs)" and "gone = drop n (sortSlice k xs)"
  shows "mset xs = mset kept + mset gone \<and> (\<forall>x \<in> set kept. \<forall>y \<in> set gone. k x \<le> k y)"
proof
  show "mset xs = mset kept + mset gone"
    using assms perm [of k xs] by (metis append_take_drop_id mset_append)
  have "sorted (map k kept @ map k gone)"
    using assms sorted [of k xs] by (metis append_take_drop_id map_append)
  then show "\<forall>x \<in> set kept. \<forall>y \<in> set gone. k x \<le> k y"
    by (auto simp: sorted_append)
qed

end

text \<open>Insertion sort, which \<open>sort.Slice\<close> uses on short slices, is one.\<close>

interpretation insertion: slice_sort sort_key
  by unfold_locales simp_all

section \<open>Lemmas\<close>

definition deletes :: "DockerContainer list \<Rightarrow> event list" where
  "deletes cs = map (\<lambda>c. EvDeleteContainer c (Inr ())) cs"

definition creates :: "DockerContainer list \<Rightarrow> event list" where
  "creates cs = map (\<lambda>c. EvCreateContainer c (Inr ())) cs"

lemma deletes_simps [simp]: "deletes [] = []" "deletes (c # cs) = EvDeleteContainer c (Inr ()) # deletes cs"
  by (simp_all add: deletes_def)

lemma creates_simps [simp]: "creates [] = []" "creates (c # cs) = EvCreateContainer c (Inr ()) # creates cs"
  by (simp_all add: creates_def)

text \<open>\<open>down_to v ok r es\<close>: the events of deleting \<open>v\<close> in order, up to the first failure, with the result.\<close>

inductive down_to :: "DockerContainer list \<Rightarrow> error + unit \<Rightarrow> error + unit \<Rightarrow> event list \<Rightarrow> bool" where
  finish: "down_to [] r r []"
| stop: "down_to (c # cs) r0 (Inl e) [EvDeleteContainer c (Inl e)]"
| again: "down_to cs r0 r es \<Longrightarrow> down_to (c # cs) r0 r (EvDeleteContainer c (Inr ()) # es)"

lemma down_to_prefix:
  "down_to v r0 r es \<Longrightarrow> (r = r0 \<and> es = deletes v) \<or>
     (\<exists>k e. k < length v \<and> r = Inl e \<and> es = deletes (take k v) @ [EvDeleteContainer (v ! k) (Inl e)])"
proof (induction rule: down_to.induct)
  case (stop c cs r0 e)
  then show ?case by (intro disjI2 exI [of _ 0]) simp
next
  case (again cs r0 r es c)
  then show ?case
  proof (elim disjE exE conjE, goal_cases)
    case (2 k e)
    then show ?case by (intro disjI2 exI [of _ "Suc k"]) simp
  qed simp
qed simp

lemma scale_down_trace:
  "i \<le> length owned \<Longrightarrow> wp (scale_down api owned i n) (\<lambda>r s'. \<exists>es. st_trace s' = st_trace s @ es \<and>
     down_to (take n (drop i (rev owned)))
       (if n \<le> length owned - i then Inr () else Inl (GoPanic ''index out of range'')) r es) s"
proof (induction n arbitrary: i s)
  case 0
  then show ?case by (auto simp: wp_simps intro: down_to.finish)
next
  case (Suc n)
  show ?case
  proof (cases "i < length owned")
    case True
    let ?v = "owned ! (length owned - 1 - i)"
    have v: "take (Suc n) (drop i (rev owned)) = ?v # take n (drop (Suc i) (rev owned))"
      using True by (simp add: Cons_nth_drop_Suc [symmetric] rev_nth)
    have less: "Suc n \<le> length owned - i \<longleftrightarrow> n \<le> length owned - Suc i" using True by arith
    have "wp (bindE (deleteDockerContainer api ?v) (\<lambda>_. scale_down api owned (Suc i) n)) (\<lambda>r s'. \<exists>es.
        st_trace s' = st_trace s @ es \<and> down_to (?v # take n (drop (Suc i) (rev owned)))
          (if n \<le> length owned - Suc i then Inr () else Inl (GoPanic ''index out of range'')) r es) s"
      unfolding wp_bindE deleteDockerContainer_def
    proof (rule wp_invokeI, goal_cases)
      case (1 r w)
      show ?case
      proof (cases r)
        case (Inl e)
        then show ?thesis by (auto intro: down_to.stop)
      next
        case (Inr u)
        show ?thesis
          unfolding Inr sum.case
          by (rule wp_mono [OF Suc.IH]) (use True in \<open>auto intro: down_to.again\<close>)
      qed
    qed
    with True show ?thesis by (simp only: scale_down.simps if_P v less)
  next
    case False
    with Suc.prems show ?thesis by (auto simp: wp_simps intro: down_to.finish)
  qed
qed

text \<open>A container made from the template of a deployment with a random suffix.\<close>

definition from_template :: "'w api \<Rightarrow> DockerDeployment \<Rightarrow> DockerContainer \<Rightarrow> bool" where
  "from_template api d c \<longleftrightarrow> (\<exists>suffix meta. length suffix = 5 \<and>
     meta = \<lparr>om_Name = om_Name (dd_Meta d) @ ''-'' @ suffix, om_Namespace = om_Namespace (dd_Meta d), om_UID = [],
       om_Labels = tm_Labels (dctpl_Metadata (dds_Template (dd_Spec d))), om_CreationTimestamp = 0,
       om_DeletionTimestamp = None, om_Finalizers = [], om_OwnerReferences = []\<rparr> \<and>
     dc_Meta c = (case lib_SetControllerReference api (dd_Meta d) meta of Inl _ \<Rightarrow> meta | Inr m \<Rightarrow> m) \<and>
     dc_Spec c = (dctpl_Spec (dds_Template (dd_Spec d)))\<lparr>dcs_ContainerName :=
       (if dcs_ContainerName (dctpl_Spec (dds_Template (dd_Spec d))) = [] then om_Name meta
        else dcs_ContainerName (dctpl_Spec (dds_Template (dd_Spec d))) @ ''-'' @ suffix)\<rparr>)"

lemma silent_randString [emits_intros]: "emits P (utilRandString api n)"
  by (induction n) (auto intro!: emits_intros)

lemma randString_length: "wp (utilRandString api n) (\<lambda>r s'. length r = n) s"
proof (induction n arbitrary: s)
  case (Suc n)
  show ?case
    unfolding utilRandString.simps wp_bind rand_Intn_def
    by (rule wp_invokeI, rule wp_mono [OF Suc]) (simp add: wp_simps)
qed (simp add: wp_simps)

lemma construct_template:
  "wp (constructContainer api d) (\<lambda>c s'. from_template api d c \<and> st_trace s' = st_trace s) s"
  unfolding constructContainer_def wp_bind
  by (rule wp_mono [OF wp_conj [OF randString_length emits_wpD [OF silent_randString [of "\<lambda>_. False"]]]])
    (auto simp: Let_def wp_simps from_template_def list_all_iff)

lemma scale_up_trace:
  "wp (scale_up api d n) (\<lambda>r s'. \<exists>cs es. list_all (from_template api d) cs \<and> st_trace s' = st_trace s @ es \<and>
     ((r = Inr () \<and> length cs = n \<and> es = creates cs) \<or>
      (\<exists>c e. r = Inl e \<and> length cs < n \<and> from_template api d c \<and> es = creates cs @ [EvCreateContainer c (Inl e)]))) s"
proof (induction n arbitrary: s)
  case (Suc n)
  show ?case
    unfolding scale_up.simps wp_bind
  proof (rule wp_mono [OF construct_template], elim conjE, goal_cases)
    case (1 c s1)
    show ?case
      unfolding wp_bindE createDockerContainer_def
    proof (rule wp_invokeI, goal_cases)
      case (1 r w)
      note c = \<open>from_template api d c\<close> \<open>st_trace s1 = st_trace s\<close>
      show ?case
      proof (cases r)
        case (Inl e)
        then show ?thesis using c by (auto intro!: exI [of _ "[]"])
      next
        case (Inr u)
        show ?thesis
          unfolding Inr sum.case
        proof (rule wp_mono [OF Suc.IH], elim exE conjE, goal_cases)
          case (1 r' s' cs es)
          then show ?case using c by (intro exI [of _ "c # cs"]) auto
        qed
      qed
    qed
  qed
qed (simp add: wp_simps)

section \<open>Properties\<close>

abbreviation ts :: "DockerContainer \<Rightarrow> int" where
  "ts c \<equiv> om_CreationTimestamp (dc_Meta c)"

definition owned_of :: "'w api \<Rightarrow> DockerDeployment \<Rightarrow> DockerContainer list \<Rightarrow> DockerContainer list" where
  "owned_of api d items = filter (\<lambda>c. lib_IsControlledBy api (dc_Meta c) (dd_Meta d)) items"

definition running_count :: "DockerContainer list \<Rightarrow> nat" where
  "running_count cs = length (filter (\<lambda>c. dct_State (dc_Status c) = ''running'') cs)"

text \<open>The events of a run after the scaling: at most the status.\<close>

definition status_tail :: "DockerDeployment \<Rightarrow> DockerContainer list \<Rightarrow> event list \<Rightarrow> bool" where
  "status_tail d owned es \<longleftrightarrow> (\<exists>sr. es = (if ddt_AvailableReplicas (dd_Status d) = wrap32 (int (running_count owned)) then []
     else [EvStatusDeployment (d\<lparr>dd_Status := (dd_Status d)\<lparr>ddt_AvailableReplicas := wrap32 (int (running_count owned))\<rparr>\<rparr>) sr]))"

lemma reconcile_fetch:
  assumes "api_getDockerDeployment api req (st_world s) = (Inr d, w)" "om_DeletionTimestamp (dd_Meta d) = None"
    and "api_listDockerContainers api (om_Namespace (dd_Meta d)) w = (Inr items, w1)"
  shows "wp (dd_Reconcile api sortSlice req) Q s \<longleftrightarrow>
      wp (bindE (scale api d (sortSlice ts (owned_of api d items))) (\<lambda>_.
        if ddt_AvailableReplicas (dd_Status d) \<noteq> wrap32 (int (running_count (sortSlice ts (owned_of api d items)))) then
          bindE (statusDockerDeployment api (d\<lparr>dd_Status := (dd_Status d)\<lparr>ddt_AvailableReplicas :=
            wrap32 (int (running_count (sortSlice ts (owned_of api d items))))\<rparr>\<rparr>)) (\<lambda>_. ret (Inr (requeue (10 * second))))
        else ret (Inr (requeue (10 * second))))) Q (s\<lparr>st_world := w1\<rparr>)"
  using assms
  by (simp add: dd_Reconcile_def getDockerDeployment_def listDockerContainers_def wp_bind wp_invoke wp_bindE [of "invoke _ _"]
      Let_def running_count_def owned_of_def [symmetric])

lemma reconcile_scale:
  assumes "slice_sort sortSlice"
    and "api_getDockerDeployment api req (st_world s) = (Inr d, w)" "om_DeletionTimestamp (dd_Meta d) = None"
    and "api_listDockerContainers api (om_Namespace (dd_Meta d)) w = (Inr items, w1)"
    and scaled: "wp (scale api d (sortSlice ts (owned_of api d items)))
      (\<lambda>r s1. \<exists>es. st_trace s1 = st_trace s @ es \<and> P r es) (s\<lparr>st_world := w1\<rparr>)"
  shows "wp (dd_Reconcile api sortSlice req) (\<lambda>r s'. \<exists>es tail. st_trace s' = st_trace s @ es @ tail \<and>
    ((\<exists>e. r = Inl e \<and> tail = [] \<and> P (Inl e) es) \<or> (P (Inr ()) es \<and> status_tail d (owned_of api d items) tail))) s"
proof -
  have rc: "running_count (sortSlice ts (owned_of api d items)) = running_count (owned_of api d items)"
    unfolding running_count_def using slice_sort.perm [OF assms(1)] by (metis mset_filter size_mset)
  note fetch = reconcile_fetch [where sortSlice = sortSlice, OF assms(2-4), unfolded rc]
  show ?thesis
    unfolding fetch wp_bindE
  proof (rule wp_mono [OF scaled], elim exE conjE, goal_cases)
    case (1 r s1 es)
    show ?case
    proof (cases r)
      case (Inl e)
      with 1 show ?thesis by auto
    next
      case (Inr u)
      have tail: "wp (if ddt_AvailableReplicas (dd_Status d) \<noteq> wrap32 (int (running_count (owned_of api d items))) then
          bindE (statusDockerDeployment api (d\<lparr>dd_Status := (dd_Status d)\<lparr>ddt_AvailableReplicas :=
            wrap32 (int (running_count (owned_of api d items)))\<rparr>\<rparr>)) (\<lambda>_. ret (Inr (requeue (10 * second))))
        else ret (Inr (requeue (10 * second)))) (\<lambda>r s'. \<exists>tail. st_trace s' = st_trace s1 @ tail \<and>
          status_tail d (owned_of api d items) tail) s1"
        by (auto simp: wp_simps status_tail_def statusDockerDeployment_def intro!: wp_invokeI split: sum.splits)
      show ?thesis
        unfolding Inr sum.case by (rule wp_mono [OF tail]) (use 1 Inr in auto)
    qed
  qed
qed

lemma scale_cases:
  assumes "length owned < 2 ^ 31" and "is_int32 (desired_replicas d)" and "desired_replicas d - int (length owned) < 2 ^ 31"
    and "- (2 ^ 31) < desired_replicas d - int (length owned)"
  shows "scale api d owned =
    (if int (length owned) < desired_replicas d then scale_up api d (nat (desired_replicas d - int (length owned)))
     else scale_down api owned 0 (nat (int (length owned) - desired_replicas d)))"
proof -
  have "wrap32 (int (length owned)) = int (length owned)" using assms(1) by (intro wrap32_id) (simp add: is_int32_def)
  moreover have "wrap32 (desired_replicas d - int (length owned)) = desired_replicas d - int (length owned)"
    using assms(3,4) by (intro wrap32_id) (simp add: is_int32_def)
  moreover have "wrap32 (int (length owned) - desired_replicas d) = int (length owned) - desired_replicas d"
    using assms(3,4) by (intro wrap32_id) (simp add: is_int32_def)
  ultimately show ?thesis by (simp add: scale_def Let_def)
qed

text \<open>
  C6: scaling down removes exactly the newest surplus containers. When a deployment owns more
  containers than its replicas, the controller creates nothing and deletes, one by one, surplus
  containers that it owns and that are at least as new as every container it keeps; it keeps as
  many as there are replicas. It stops with the error at the first deletion that fails, and
  otherwise deletes all of them, then shows the number of running containers it saw.
\<close>

theorem deployment_scale_down:
  assumes "slice_sort sortSlice"
    and "api_getDockerDeployment api req (st_world s) = (Inr d, w)" and "om_DeletionTimestamp (dd_Meta d) = None"
    and "api_listDockerContainers api (om_Namespace (dd_Meta d)) w = (Inr items, w1)"
    and "0 \<le> desired_replicas d" and "desired_replicas d < int (length (owned_of api d items))"
    and "length (owned_of api d items) < 2 ^ 31"
    and "run_state (dd_Reconcile api sortSlice req) s = (r, s')"
  shows "\<exists>kept surplus. mset (owned_of api d items) = mset kept + mset surplus \<and>
    int (length kept) = desired_replicas d \<and> (\<forall>x \<in> set kept. \<forall>y \<in> set surplus. ts x \<le> ts y) \<and>
    ((\<exists>k e. k < length surplus \<and> r = Inl e \<and>
        new_events s s' = deletes (take k surplus) @ [EvDeleteContainer (surplus ! k) (Inl e)]) \<or>
     (\<exists>tail. new_events s s' = deletes surplus @ tail \<and> status_tail d (owned_of api d items) tail))"
proof -
  let ?own = "owned_of api d items" and ?sorted = "sortSlice ts (owned_of api d items)"
  let ?n = "nat (int (length ?own) - desired_replicas d)"
  have len: "length ?sorted = length ?own" by (rule slice_sort.length_sort [OF assms(1)])
  have n: "?n \<le> length ?sorted" using assms(5,6) len by simp
  define kept where "kept = take (length ?sorted - ?n) ?sorted"
  define surplus where "surplus = rev (drop (length ?sorted - ?n) ?sorted)"
  have surplus: "surplus = take ?n (rev ?sorted)" by (simp add: surplus_def take_rev)
  have split: "mset ?own = mset kept + mset (rev surplus) \<and> (\<forall>x \<in> set kept. \<forall>y \<in> set (rev surplus). ts x \<le> ts y)"
    by (rule slice_sort.split_at [OF assms(1) kept_def]) (simp add: surplus_def)
  have "int (length kept) = desired_replicas d"
    using n len assms(5,6) by (simp add: kept_def)
  moreover have scale: "scale api d ?sorted = scale_down api ?sorted 0 ?n"
    using assms(5-7) len by (subst scale_cases) (auto simp: is_int32_def)
  have "wp (scale api d ?sorted) (\<lambda>r s1. \<exists>es. st_trace s1 = st_trace s @ es \<and> down_to surplus (Inr ()) r es) (s\<lparr>st_world := w1\<rparr>)"
    unfolding scale using scale_down_trace [of 0 ?sorted api ?n "s\<lparr>st_world := w1\<rparr>"] n by (simp add: surplus)
  from wp_runD [OF reconcile_scale [OF assms(1-4) this] assms(8)] obtain es tail where
    es: "st_trace s' = st_trace s @ es @ tail" and
    out: "(\<exists>e. r = Inl e \<and> tail = [] \<and> down_to surplus (Inr ()) (Inl e) es) \<or>
      (down_to surplus (Inr ()) (Inr ()) es \<and> status_tail d ?own tail)" by blast
  have "new_events s s' = es @ tail" by (simp add: es)
  moreover from out have "(\<exists>k e. k < length surplus \<and> r = Inl e \<and> es @ tail = deletes (take k surplus) @ [EvDeleteContainer (surplus ! k) (Inl e)])
      \<or> (es = deletes surplus \<and> status_tail d ?own tail)"
    by (auto dest!: down_to_prefix)
  ultimately show ?thesis
    using split by (intro exI [of _ kept] exI [of _ surplus]) auto
qed

lemma reconcile_up:
  assumes "slice_sort sortSlice"
    and "api_getDockerDeployment api req (st_world s) = (Inr d, w)" and "om_DeletionTimestamp (dd_Meta d) = None"
    and "api_listDockerContainers api (om_Namespace (dd_Meta d)) w = (Inr items, w1)"
    and scale: "scale api d (sortSlice ts (owned_of api d items)) = scale_up api d n"
    and "run_state (dd_Reconcile api sortSlice req) s = (r, s')"
  shows "\<exists>cs. list_all (from_template api d) cs \<and>
    ((length cs = n \<and> (\<exists>tail. new_events s s' = creates cs @ tail \<and> status_tail d (owned_of api d items) tail)) \<or>
     (length cs < n \<and> (\<exists>c e. r = Inl e \<and> from_template api d c \<and> new_events s s' = creates cs @ [EvCreateContainer c (Inl e)])))"
proof -
  let ?P = "\<lambda>r es. \<exists>cs. list_all (from_template api d) cs \<and> ((r = Inr () \<and> length cs = n \<and> es = creates cs) \<or>
      (\<exists>c e. r = Inl e \<and> length cs < n \<and> from_template api d c \<and> es = creates cs @ [EvCreateContainer c (Inl e)]))"
  have "wp (scale api d (sortSlice ts (owned_of api d items))) (\<lambda>r s1. \<exists>es. st_trace s1 = st_trace s @ es \<and> ?P r es) (s\<lparr>st_world := w1\<rparr>)"
    unfolding scale by (rule wp_mono [OF scale_up_trace]) auto
  from wp_runD [OF reconcile_scale [OF assms(1-4) this] assms(6)] obtain es tail where
    es: "st_trace s' = st_trace s @ es @ tail" and
    out: "(\<exists>e. r = Inl e \<and> tail = [] \<and> ?P (Inl e) es) \<or> (?P (Inr ()) es \<and> status_tail d (owned_of api d items) tail)" by blast
  have "new_events s s' = es @ tail" by (simp add: es)
  with out show ?thesis by auto
qed

text \<open>
  C10: scaling up creates exactly the missing containers. When a deployment owns fewer containers
  than its replicas, the controller deletes nothing and creates as many containers from the
  template as are missing, each in the namespace of the deployment and with a five letter suffix
  on its name and on its Docker container name; it stops with the error at the first creation
  that fails.
\<close>

theorem deployment_scale_up:
  assumes "slice_sort sortSlice"
    and "api_getDockerDeployment api req (st_world s) = (Inr d, w)" and "om_DeletionTimestamp (dd_Meta d) = None"
    and "api_listDockerContainers api (om_Namespace (dd_Meta d)) w = (Inr items, w1)"
    and "int (length (owned_of api d items)) < desired_replicas d" and "desired_replicas d < 2 ^ 31"
    and "run_state (dd_Reconcile api sortSlice req) s = (r, s')"
  shows "\<exists>cs. list_all (from_template api d) cs \<and>
    ((int (length cs) = desired_replicas d - int (length (owned_of api d items)) \<and>
      (\<exists>tail. new_events s s' = creates cs @ tail \<and> status_tail d (owned_of api d items) tail)) \<or>
     (int (length cs) < desired_replicas d - int (length (owned_of api d items)) \<and>
      (\<exists>c e. r = Inl e \<and> from_template api d c \<and> new_events s s' = creates cs @ [EvCreateContainer c (Inl e)])))"
proof -
  let ?n = "nat (desired_replicas d - int (length (owned_of api d items)))"
  have "scale api d (sortSlice ts (owned_of api d items)) = scale_up api d ?n"
    using assms(5,6) slice_sort.length_sort [OF assms(1)] by (subst scale_cases) (auto simp: is_int32_def)
  from reconcile_up [OF assms(1-4) this assms(7)] assms(5) show ?thesis by auto
qed

text \<open>The difference of a negative number of replicas and the containers, as 32 bits hold it.\<close>

lemma scale_underflow:
  assumes "length owned < 2 ^ 31" and "is_int32 (desired_replicas d)" and "desired_replicas d < 0"
  shows "desired_replicas d - int (length owned) = - (2 ^ 31) \<Longrightarrow> scale api d owned = ret (Inr ())"
    and "desired_replicas d - int (length owned) < - (2 ^ 31) \<Longrightarrow>
      scale api d owned = scale_up api d (nat (desired_replicas d - int (length owned) + 2 ^ 32))"
proof -
  have n: "wrap32 (int (length owned)) = int (length owned)" using assms(1) by (intro wrap32_id) (simp add: is_int32_def)
  have "wrap32 (- (2 ^ 31)) = - (2 ^ 31)" "wrap32 (2 ^ 31) = - (2 ^ 31)" by (simp_all add: wrap32_def)
  then show "scale api d owned = ret (Inr ())" if "desired_replicas d - int (length owned) = - (2 ^ 31)"
    using that n by (simp add: scale_def Let_def)
  assume low: "desired_replicas d - int (length owned) < - (2 ^ 31)"
  let ?D = "desired_replicas d - int (length owned)"
  have "- (2 ^ 32) < ?D" using assms by (simp add: is_int32_def)
  then have "(?D + 2 ^ 31) mod 2 ^ 32 = ?D + 2 ^ 31 + 2 ^ 32"
    using low by (intro int_mod_pos_eq [where q = "-1"]) simp_all
  then have "wrap32 ?D = ?D + 2 ^ 32" by (simp add: wrap32_def)
  moreover have "0 < ?D + 2 ^ 32" using \<open>- (2 ^ 32) < ?D\<close> by simp
  ultimately show "scale api d owned = scale_up api d (nat (?D + 2 ^ 32))"
    using n by (simp add: scale_def Let_def)
qed

text \<open>
  C36: a negative number of replicas is not handled. As long as the difference to the containers the
  deployment owns is above the least 32-bit integer, the controller never succeeds: it deletes every
  container the deployment owns, unless a deletion fails first, and then panics, because the loop
  indexes before the first container. When the difference is the least 32-bit integer its negation
  overflows and no container is deleted or created; when it is below, the subtraction overflows and
  the controller creates containers, as many as the wrapped difference says. Nothing in the resource
  definition excludes a negative number.
\<close>

theorem negative_replicas_panic:
  assumes "slice_sort sortSlice"
    and "api_getDockerDeployment api req (st_world s) = (Inr d, w)" and "om_DeletionTimestamp (dd_Meta d) = None"
    and "api_listDockerContainers api (om_Namespace (dd_Meta d)) w = (Inr items, w1)"
    and "is_int32 (desired_replicas d)" and "desired_replicas d < 0" and "length (owned_of api d items) < 2 ^ 31"
    and "diff = desired_replicas d - int (length (owned_of api d items))"
    and "run_state (dd_Reconcile api sortSlice req) s = (r, s')"
  shows "(- (2 ^ 31) < diff \<longrightarrow> (\<exists>all. mset all = mset (owned_of api d items) \<and>
      ((\<exists>k e. k < length all \<and> r = Inl e \<and>
          new_events s s' = deletes (take k all) @ [EvDeleteContainer (all ! k) (Inl e)]) \<or>
       (r = Inl (GoPanic ''index out of range'') \<and> new_events s s' = deletes all)))) \<and>
    (diff = - (2 ^ 31) \<longrightarrow> status_tail d (owned_of api d items) (new_events s s')) \<and>
    (diff < - (2 ^ 31) \<longrightarrow> (\<exists>cs. list_all (from_template api d) cs \<and>
      ((int (length cs) = diff + 2 ^ 32 \<and>
        (\<exists>tail. new_events s s' = creates cs @ tail \<and> status_tail d (owned_of api d items) tail)) \<or>
       (int (length cs) < diff + 2 ^ 32 \<and>
        (\<exists>c e. r = Inl e \<and> from_template api d c \<and> new_events s s' = creates cs @ [EvCreateContainer c (Inl e)])))))"
proof -
  let ?own = "owned_of api d items" and ?sorted = "sortSlice ts (owned_of api d items)"
  let ?n = "nat (int (length ?own) - desired_replicas d)" and ?panic = "Inl (GoPanic ''index out of range'') :: error + unit"
  have len: "length ?sorted = length ?own" by (rule slice_sort.length_sort [OF assms(1)])
  note under = scale_underflow [of ?sorted d, unfolded len, OF assms(7,5,6), of api, folded assms(8)]
  have panics: "\<exists>all. mset all = mset ?own \<and>
      ((\<exists>k e. k < length all \<and> r = Inl e \<and>
          new_events s s' = deletes (take k all) @ [EvDeleteContainer (all ! k) (Inl e)]) \<or>
       (r = Inl (GoPanic ''index out of range'') \<and> new_events s s' = deletes all))" if "- (2 ^ 31) < diff"
  proof -
    have scale: "scale api d ?sorted = scale_down api ?sorted 0 ?n"
      using assms(5-8) that len by (subst scale_cases) (auto simp: is_int32_def)
    have "\<not> ?n \<le> length ?own" "take ?n (rev ?sorted) = rev ?sorted" using assms(6) len by simp_all
    then have down: "wp (scale api d ?sorted) (\<lambda>r s1. \<exists>es. st_trace s1 = st_trace s @ es \<and> down_to (rev ?sorted) ?panic r es) (s\<lparr>st_world := w1\<rparr>)"
      unfolding scale using scale_down_trace [of 0 ?sorted api ?n "s\<lparr>st_world := w1\<rparr>"] len by simp
    from wp_runD [OF reconcile_scale [OF assms(1-4) down] assms(9)] obtain es tail where
      es: "st_trace s' = st_trace s @ es @ tail" and
      out: "(\<exists>e. r = Inl e \<and> tail = [] \<and> down_to (rev ?sorted) ?panic (Inl e) es) \<or>
        (down_to (rev ?sorted) ?panic (Inr ()) es \<and> status_tail d ?own tail)" by blast
    have "new_events s s' = es @ tail" by (simp add: es)
    moreover have "mset (rev ?sorted) = mset ?own" using slice_sort.perm [OF assms(1)] by simp
    ultimately show ?thesis
      using out by (intro exI [of _ "rev ?sorted"]) (auto dest!: down_to_prefix)
  qed
  moreover have "status_tail d ?own (new_events s s')" if "diff = - (2 ^ 31)"
  proof -
    have "wp (scale api d ?sorted) (\<lambda>r s1. \<exists>es. st_trace s1 = st_trace s @ es \<and> r = Inr () \<and> es = []) (s\<lparr>st_world := w1\<rparr>)"
      using that by (simp add: under(1) wp_simps)
    from wp_runD [OF reconcile_scale [OF assms(1-4) this] assms(9)] show ?thesis by auto
  qed
  moreover have "\<exists>cs. list_all (from_template api d) cs \<and>
      ((int (length cs) = diff + 2 ^ 32 \<and>
        (\<exists>tail. new_events s s' = creates cs @ tail \<and> status_tail d ?own tail)) \<or>
       (int (length cs) < diff + 2 ^ 32 \<and>
        (\<exists>c e. r = Inl e \<and> from_template api d c \<and> new_events s s' = creates cs @ [EvCreateContainer c (Inl e)])))"
    if "diff < - (2 ^ 31)"
  proof -
    have "0 < diff + 2 ^ 32" using assms(5,7,8) by (simp add: is_int32_def)
    with reconcile_up [OF assms(1-4) under(2) [OF that] assms(9)] show ?thesis by auto
  qed
  ultimately show ?thesis by blast
qed

definition demo_deployment :: "int \<Rightarrow> DockerDeployment" where
  "demo_deployment n = \<lparr>dd_Meta = (plain_meta ''web'')\<lparr>om_UID := ''u''\<rparr>,
     dd_Spec = \<lparr>dds_Replicas = Some n, dds_Selector = None,
       dds_Template = \<lparr>dctpl_Metadata = \<lparr>tm_Labels = [], tm_Annotations = []\<rparr>, dctpl_Spec = plain_spec []\<rparr>\<rparr>,
     dd_Status = \<lparr>ddt_AvailableReplicas = 0, ddt_Conditions = []\<rparr>\<rparr>"

definition demo_child :: "string \<Rightarrow> int \<Rightarrow> DockerContainer" where
  "demo_child n t = (plain_container n)\<lparr>dc_Meta := (plain_meta n)\<lparr>om_CreationTimestamp := t,
     om_OwnerReferences := [\<lparr>or_UID = ''u'', or_Controller = True\<rparr>]\<rparr>\<rparr>"

definition demo_deployment_state :: "int \<Rightarrow> kube_store st" where
  "demo_deployment_state n = start_state (empty_store\<lparr>ks_deployments := [demo_deployment n],
     ks_containers := [demo_child ''b'' 2, plain_container ''x'', demo_child ''a'' 1]\<rparr>)"

lemmas demo_deployment_defs = demo_deployment_def demo_child_def demo_deployment_state_def fixture_defs

lemma demo_owned:
  "owned_of kube (demo_deployment n) [demo_child ''b'' 2, plain_container ''x'', demo_child ''a'' 1] =
     [demo_child ''b'' 2, demo_child ''a'' 1]"
  by (simp add: owned_of_def demo_deployment_defs)

lemma demo_replicas [simp]: "desired_replicas (demo_deployment n) = n"
  by (simp add: desired_replicas_def demo_deployment_def)

lemma demo_fetch:
  "api_getDockerDeployment kube \<lparr>key_Namespace = ''ns'', key_Name = ''web''\<rparr> (st_world (demo_deployment_state n)) =
     (Inr (demo_deployment n), st_world (demo_deployment_state n))"
  "om_DeletionTimestamp (dd_Meta (demo_deployment n)) = None"
  "api_listDockerContainers kube (om_Namespace (dd_Meta (demo_deployment n))) (st_world (demo_deployment_state n)) =
     (Inr [demo_child ''b'' 2, plain_container ''x'', demo_child ''a'' 1], st_world (demo_deployment_state n))"
  by (simp_all add: demo_deployment_defs)


abbreviation demo_run :: "int \<Rightarrow> (error + Result) \<times> kube_store st" where
  "demo_run n \<equiv> run_state (dd_Reconcile kube sort_key \<lparr>key_Namespace = ''ns'', key_Name = ''web''\<rparr>) (demo_deployment_state n)"

theorem deployment_scale_down_witness:
  "\<exists>kept surplus. mset [demo_child ''b'' 2, demo_child ''a'' 1] = mset kept + mset surplus \<and> length kept = 1 \<and>
     (\<forall>x \<in> set kept. \<forall>y \<in> set surplus. ts x \<le> ts y) \<and>
     ((\<exists>k e. k < length surplus \<and> fst (demo_run 1) = Inl e \<and>
        st_trace (snd (demo_run 1)) = deletes (take k surplus) @ [EvDeleteContainer (surplus ! k) (Inl e)]) \<or>
      (\<exists>tail. st_trace (snd (demo_run 1)) = deletes surplus @ tail \<and>
        status_tail (demo_deployment 1) [demo_child ''b'' 2, demo_child ''a'' 1] tail))"
proof -
  have "st_trace (demo_deployment_state 1) = []" by (simp add: demo_deployment_defs)
  then show ?thesis
    using deployment_scale_down [OF insertion.slice_sort_axioms demo_fetch [of 1] _ _ _ prod.collapse [symmetric]]
    by (simp add: demo_owned)
qed

theorem deployment_scale_up_witness:
  "\<exists>cs. list_all (from_template kube (demo_deployment 5)) cs \<and>
    ((int (length cs) = 5 - 2 \<and> (\<exists>tail. st_trace (snd (demo_run 5)) = creates cs @ tail \<and>
        status_tail (demo_deployment 5) [demo_child ''b'' 2, demo_child ''a'' 1] tail)) \<or>
     (int (length cs) < 5 - 2 \<and> (\<exists>c e. fst (demo_run 5) = Inl e \<and> from_template kube (demo_deployment 5) c \<and>
        st_trace (snd (demo_run 5)) = creates cs @ [EvCreateContainer c (Inl e)])))"
proof -
  have "st_trace (demo_deployment_state 5) = []" by (simp add: demo_deployment_defs)
  then show ?thesis
    using deployment_scale_up [OF insertion.slice_sort_axioms demo_fetch [of 5] _ _ prod.collapse [symmetric]]
    by (simp add: demo_owned)
qed

theorem negative_replicas_panic_witness:
  "\<exists>all. mset all = mset [demo_child ''b'' 2, demo_child ''a'' 1] \<and>
    ((\<exists>k e. k < length all \<and> fst (demo_run (-1)) = Inl e \<and>
        st_trace (snd (demo_run (-1))) = deletes (take k all) @ [EvDeleteContainer (all ! k) (Inl e)]) \<or>
     (fst (demo_run (-1)) = Inl (GoPanic ''index out of range'') \<and> st_trace (snd (demo_run (-1))) = deletes all))"
proof -
  have "st_trace (demo_deployment_state (-1)) = []" by (simp add: demo_deployment_defs)
  then show ?thesis
    using negative_replicas_panic [OF insertion.slice_sort_axioms demo_fetch [of "-1"] _ _ _ refl prod.collapse [symmetric]]
    by (simp add: demo_owned is_int32_def)
qed

end
