(* ===== verification/DeploymentConv.thy ===== *)
theory DeploymentConv
  imports DeploymentCtl "HOL-Library.Sublist"
begin

text \<open>
  The deployment controller over time. A deleted container stays in the cluster until the container
  controller has cleaned up and removed its finalizer, and the deployment controller counts it
  until then; so a deployment that is too large is looked at again and again while containers are
  terminating. The machine \<open>dep_reach\<close> interleaves passes of the controller with what others do
  to the containers in the meantime; the questions are whether the passes agree on what to delete,
  and what they leave.
\<close>

section \<open>The cluster\<close>

abbreviation cname :: "DockerContainer \<Rightarrow> string" where
  "cname c \<equiv> om_Name (dc_Meta c)"

abbreviation terminating :: "DockerContainer \<Rightarrow> bool" where
  "terminating c \<equiv> om_DeletionTimestamp (dc_Meta c) \<noteq> None"

text \<open>The same object at another time.\<close>

definition same_object :: "'w api \<Rightarrow> DockerContainer \<Rightarrow> DockerContainer \<Rightarrow> bool" where
  "same_object api x y \<longleftrightarrow> cname y = cname x \<and> ts y = ts x \<and>
     (\<forall>own. lib_IsControlledBy api (dc_Meta y) own = lib_IsControlledBy api (dc_Meta x) own)"

text \<open>
  How the containers of a namespace can change: an object stays, with a new status say, or
  disappears. It disappears or starts to terminate only if it was terminating or its name is in
  \<open>N\<close>.
\<close>

definition evolves :: "'w api \<Rightarrow> string set \<Rightarrow> DockerContainer list \<Rightarrow> DockerContainer list \<Rightarrow> bool" where
  "evolves api N xs ys \<longleftrightarrow> (\<exists>f. ys = concat (map f xs) \<and> (\<forall>x \<in> set xs.
     (f x = [] \<and> (terminating x \<or> cname x \<in> N)) \<or>
     (\<exists>x'. f x = [x'] \<and> same_object api x x' \<and> (terminating x' \<longrightarrow> terminating x \<or> cname x \<in> N))))"

text \<open>
  What the controller relies on of the API server: \<open>dep\<close> is the deployment and \<open>conts\<close> the
  containers of its namespace. Reads and status writes change no container's fate, and a deletion
  only that of the named one; a list holds the containers there are (the cache is up to date). Nothing is said of
  failures, and other controllers may be at work during every call.
\<close>

definition deployment_cluster :: "'w api \<Rightarrow> ObjectKey \<Rightarrow> ('w \<Rightarrow> DockerDeployment) \<Rightarrow> ('w \<Rightarrow> DockerContainer list) \<Rightarrow> bool" where
  "deployment_cluster api req dep conts \<longleftrightarrow>
     (\<forall>w r w'. api_getDockerDeployment api req w = (r, w') \<longrightarrow>
        (\<forall>d. r = Inr d \<longrightarrow> d = dep w) \<and> dd_Meta (dep w') = dd_Meta (dep w) \<and> dd_Spec (dep w') = dd_Spec (dep w) \<and>
        evolves api {} (conts w) (conts w')) \<and>
     (\<forall>w ns r w'. api_listDockerContainers api ns w = (r, w') \<longrightarrow>
        (\<forall>items. r = Inr items \<and> ns = om_Namespace (dd_Meta (dep w)) \<longrightarrow> mset items = mset (conts w)) \<and>
        dd_Meta (dep w') = dd_Meta (dep w) \<and> dd_Spec (dep w') = dd_Spec (dep w) \<and>
        evolves api {} (conts w) (conts w')) \<and>
     (\<forall>w c r w'. api_deleteDockerContainer api c w = (r, w') \<longrightarrow>
        dd_Meta (dep w') = dd_Meta (dep w) \<and> dd_Spec (dep w') = dd_Spec (dep w) \<and>
        evolves api {cname c} (conts w) (conts w')) \<and>
     (\<forall>w d r w'. api_statusDockerDeployment api d w = (r, w') \<longrightarrow>
        dd_Meta (dep w') = dd_Meta (dep w) \<and> dd_Spec (dep w') = dd_Spec (dep w) \<and>
        evolves api {} (conts w) (conts w'))"

text \<open>Passes of the controller, each with its own order among equals, and steps of others.\<close>

inductive dep_step :: "'w api \<Rightarrow> ObjectKey \<Rightarrow> ('w \<Rightarrow> DockerDeployment) \<Rightarrow> ('w \<Rightarrow> DockerContainer list) \<Rightarrow>
    'w st \<Rightarrow> 'w st \<Rightarrow> bool" for api req dep conts where
  pass: "slice_sort srt \<Longrightarrow> run_state (dd_Reconcile api srt req) s = (r, s') \<Longrightarrow> dep_step api req dep conts s s'"
| others: "dd_Meta (dep w') = dd_Meta (dep (st_world s)) \<Longrightarrow> dd_Spec (dep w') = dd_Spec (dep (st_world s)) \<Longrightarrow>
    evolves api {} (conts (st_world s)) (conts w') \<Longrightarrow> dep_step api req dep conts s (s\<lparr>st_world := w'\<rparr>)"

inductive dep_reach :: "'w api \<Rightarrow> ObjectKey \<Rightarrow> ('w \<Rightarrow> DockerDeployment) \<Rightarrow> ('w \<Rightarrow> DockerContainer list) \<Rightarrow>
    'w st \<Rightarrow> 'w st \<Rightarrow> bool" for api req dep conts s0 where
  start: "dep_reach api req dep conts s0 s0"
| step: "dep_reach api req dep conts s0 s \<Longrightarrow> dep_step api req dep conts s s' \<Longrightarrow> dep_reach api req dep conts s0 s'"

section \<open>The containers that are kept\<close>

text \<open>
  \<open>keeps kept n\<close>: the containers in \<open>kept\<close>, given by name and age, are owned, alive and as many
  as the replicas, and every other owned container is strictly younger.
\<close>

definition ckey :: "DockerContainer \<Rightarrow> string \<times> int" where
  "ckey c = (cname c, ts c)"

definition keeps :: "'w api \<Rightarrow> DockerDeployment \<Rightarrow> (string \<times> int) list \<Rightarrow> DockerContainer list \<Rightarrow> bool" where
  "keeps api d kept xs \<longleftrightarrow>
     int (length kept) = desired_replicas d \<and> om_DeletionTimestamp (dd_Meta d) = None \<and>
     distinct (map cname xs) \<and> length (owned_of api d xs) < 2 ^ 31 \<and> distinct kept \<and>
     (\<forall>k \<in> set kept. \<exists>c \<in> set (owned_of api d xs). ckey c = k \<and> \<not> terminating c) \<and>
     (\<forall>c \<in> set (owned_of api d xs). ckey c \<in> set kept \<or> (\<forall>k \<in> set kept. snd k < ts c))"

section \<open>Lemmas\<close>

lemma evolves_part:
  assumes "evolves api N xs ys" and "\<And>x y. same_object api x y \<Longrightarrow> p y = p x"
  shows "subseq (map ckey (filter p ys)) (map ckey (filter p xs))"
proof -
  obtain f where ys: "ys = concat (map f xs)" and f: "\<forall>x \<in> set xs. f x = [] \<or> (\<exists>x'. f x = [x'] \<and> same_object api x x')"
    using assms(1) unfolding evolves_def by blast
  from f have "subseq (map ckey (filter p (concat (map f xs)))) (map ckey (filter p xs))"
  proof (induction xs)
    case (Cons x xs)
    then have IH: "subseq (map ckey (filter p (concat (map f xs)))) (map ckey (filter p xs))" by simp
    from Cons.prems consider "f x = []" | x' where "f x = [x']" "same_object api x x'" by auto
    then show ?case
    proof cases
      case 2
      then have "p x' = p x" "ckey x' = ckey x" using assms(2) by (auto simp: same_object_def ckey_def)
      with 2 IH show ?thesis by auto
    qed (use IH in auto)
  qed simp
  then show ?thesis by (simp add: ys)
qed

lemma evolves_owned:
  "evolves api N xs ys \<Longrightarrow> subseq (map ckey (owned_of api d ys)) (map ckey (owned_of api d xs))"
  unfolding owned_of_def by (rule evolves_part) (auto simp: same_object_def)

lemma evolves_names: "evolves api N xs ys \<Longrightarrow> subseq (map cname ys) (map cname xs)"
  using subseq_map [OF evolves_part [of api N xs ys "\<lambda>_. True"], of fst] by (simp add: comp_def ckey_def)

lemma subseq_imp_distinct: "subseq xs ys \<Longrightarrow> distinct ys \<Longrightarrow> distinct xs"
  by (induction rule: list_emb.induct) (auto dest: list_emb_set)

lemma evolves_alive:
  assumes "evolves api N xs ys" and "c \<in> set (owned_of api d xs)" and "\<not> terminating c" and "cname c \<notin> N"
  shows "\<exists>c' \<in> set (owned_of api d ys). ckey c' = ckey c \<and> \<not> terminating c'"
proof -
  from assms obtain f where f: "ys = concat (map f xs)" "f c = [] \<and> (terminating c \<or> cname c \<in> N) \<or>
      (\<exists>x'. f c = [x'] \<and> same_object api c x' \<and> (terminating x' \<longrightarrow> terminating c \<or> cname c \<in> N))"
    unfolding evolves_def owned_of_def by fastforce
  with assms(3,4) obtain c' where c': "f c = [c']" "same_object api c c'" "\<not> terminating c'" by blast
  then have "c' \<in> set (owned_of api d ys)"
    using assms(2) f(1) by (auto simp: owned_of_def same_object_def intro!: bexI [of _ c])
  with c' show ?thesis by (auto simp: same_object_def ckey_def)
qed

lemma keeps_evolves:
  assumes k: "keeps api d kept xs" and e: "evolves api N xs ys" and N: "N \<inter> fst ` set kept = {}"
  shows "keeps api d kept ys"
proof -
  have "distinct (map cname ys)"
    using k subseq_imp_distinct [OF evolves_names [OF e]] by (simp add: keeps_def)
  moreover have "length (owned_of api d ys) < 2 ^ 31"
    using k list_emb_length [OF evolves_owned [OF e]] by (auto simp: keeps_def intro: le_less_trans)
  moreover have "\<exists>c \<in> set (owned_of api d ys). ckey c = key \<and> \<not> terminating c" if key: "key \<in> set kept" for key
  proof -
    from k key obtain c where c: "c \<in> set (owned_of api d xs)" "ckey c = key" "\<not> terminating c"
      unfolding keeps_def by blast
    have "cname c = fst key" using c(2) unfolding ckey_def by auto
    then have "cname c \<notin> N" using N key by blast
    from evolves_alive [OF e c(1,3) this] c(2) show ?thesis by simp
  qed
  moreover have "ckey c \<in> set kept \<or> (\<forall>key \<in> set kept. snd key < ts c)" if c: "c \<in> set (owned_of api d ys)" for c
  proof -
    from c have "ckey c \<in> set (map ckey (owned_of api d ys))" by simp
    from list_emb_set [OF evolves_owned [OF e] this] have "ckey c \<in> ckey ` set (owned_of api d xs)" by (metis list.set_map)
    then obtain c0 where "c0 \<in> set (owned_of api d xs)" "ckey c0 = ckey c" by (elim imageE) simp
    moreover from this have "ts c0 = ts c" by (simp add: ckey_def)
    ultimately show ?thesis using k unfolding keeps_def by metis
  qed
  ultimately show ?thesis using k unfolding keeps_def by blast
qed

lemma keeps_cong:
  "dd_Meta d' = dd_Meta d \<Longrightarrow> dd_Spec d' = dd_Spec d \<Longrightarrow> keeps api d' kept xs = keeps api d kept xs"
  by (simp add: keeps_def owned_of_def desired_replicas_def)

lemma keeps_mset:
  assumes "mset ys = mset xs" and "keeps api d kept xs"
  shows "keeps api d kept ys"
proof -
  have "mset (map cname ys) = mset (map cname xs)" "mset (owned_of api d ys) = mset (owned_of api d xs)"
    using assms(1) by (simp_all add: owned_of_def)
  then have "distinct (map cname ys) = distinct (map cname xs)" "length (owned_of api d ys) = length (owned_of api d xs)"
    "set (owned_of api d ys) = set (owned_of api d xs)"
    using mset_eq_imp_distinct_iff mset_eq_length mset_eq_setD by blast+
  with assms(2) show ?thesis by (simp add: keeps_def)
qed

text \<open>The newest of the sorted list, as many as there are too many, are none of the kept ones.\<close>

lemma victims_not_kept:
  assumes k: "keeps api d kept items" and srt: "slice_sort srt" and S: "S = srt ts (owned_of api d items)"
    and v: "v \<in> set (drop (length kept) S)"
  shows "cname v \<notin> fst ` set kept"
proof
  assume "cname v \<in> fst ` set kept"
  then obtain key where key: "key \<in> set kept" "fst key = cname v" by auto
  have setS: "set S = set (owned_of api d items)" unfolding S by (rule slice_sort.set_sort [OF srt])
  have "distinct (map cname (owned_of api d items))"
    using k by (auto simp: keeps_def owned_of_def distinct_map intro: inj_on_subset)
  moreover have "mset (map cname S) = mset (map cname (owned_of api d items))"
    using slice_sort.perm [OF srt] by (simp add: S)
  ultimately have names: "distinct (map cname S)" using mset_eq_imp_distinct_iff by blast
  have vS: "v \<in> set S" using v by (rule in_set_dropD)
  from k key(1) obtain c where c: "c \<in> set S" "ckey c = key" unfolding keeps_def setS by blast
  have "c = v"
    using names c vS key(2) by (auto simp: distinct_map ckey_def dest: inj_onD)
  with c have vk: "ckey v \<in> set kept" using key(1) by simp
  define A where "A = take (length kept) S"
  define B where "B = drop (length kept) S"
  have AB: "S = A @ B" by (simp add: A_def B_def)
  have vB: "v \<in> set B" using v by (simp add: B_def)
  have le: "ts x \<le> ts y" if "x \<in> set A" "y \<in> set B" for x y
    using slice_sort.sorted [OF srt, of ts "owned_of api d items"] that by (auto simp: S [symmetric] AB sorted_append)
  have keys: "distinct (map ckey S)" using names by (auto simp: distinct_map inj_on_def ckey_def)
  have "set (map ckey A) \<subseteq> set kept"
  proof
    fix x assume "x \<in> set (map ckey A)"
    then obtain u where u: "u \<in> set A" "x = ckey u" by auto
    then have "u \<in> set (owned_of api d items)" using setS AB by auto
    then have "ckey u \<in> set kept \<or> snd (ckey v) < ts u" using k vk unfolding keeps_def by blast
    with le [OF u(1) vB] u show "x \<in> set kept" by (auto simp: ckey_def)
  qed
  moreover have "card (set (map ckey A)) = length kept"
  proof -
    have "length kept < length S" using v by (cases "length kept < length S") auto
    moreover have "distinct (map ckey A)" using keys AB by simp
    ultimately show ?thesis using distinct_card [of "map ckey A"] by (simp add: A_def)
  qed
  moreover have "card (set kept) = length kept" using k by (simp add: keeps_def distinct_card)
  ultimately have "set (map ckey A) = set kept" by (intro card_subset_eq) auto
  with vk keys vB show False unfolding AB by (auto simp: distinct_map)
qed

section \<open>A pass of the controller\<close>

text \<open>The calls that spare the kept containers: nothing is created, and none of them deleted.\<close>

definition spares :: "(string \<times> int) list \<Rightarrow> event \<Rightarrow> bool" where
  "spares kept e \<longleftrightarrow> (case e of EvCreateContainer c r \<Rightarrow> False | EvDeleteContainer c r \<Rightarrow> cname c \<notin> fst ` set kept | _ \<Rightarrow> True)"

definition held :: "'w api \<Rightarrow> ('w \<Rightarrow> DockerDeployment) \<Rightarrow> ('w \<Rightarrow> DockerContainer list) \<Rightarrow> (string \<times> int) list \<Rightarrow> 'w \<Rightarrow> bool" where
  "held api dep conts kept w \<longleftrightarrow> keeps api (dep w) kept (conts w)"

definition spared :: "'w api \<Rightarrow> ('w \<Rightarrow> DockerDeployment) \<Rightarrow> ('w \<Rightarrow> DockerContainer list) \<Rightarrow> (string \<times> int) list \<Rightarrow>
    'w st \<Rightarrow> 'w st \<Rightarrow> bool" where
  "spared api dep conts kept s s' \<longleftrightarrow> held api dep conts kept (st_world s') \<and>
     (\<exists>es. st_trace s' = st_trace s @ es \<and> list_all (spares kept) es)"

lemma held_step:
  "held api dep conts kept w \<Longrightarrow> dd_Meta (dep w') = dd_Meta (dep w) \<Longrightarrow> dd_Spec (dep w') = dd_Spec (dep w) \<Longrightarrow>
   evolves api N (conts w) (conts w') \<Longrightarrow> N \<inter> fst ` set kept = {} \<Longrightarrow> held api dep conts kept w'"
  unfolding held_def by (metis keeps_cong keeps_evolves)

lemma cluster_held:
  assumes "deployment_cluster api req dep conts" and "held api dep conts kept w"
  shows "api_getDockerDeployment api req w = (r, w') \<Longrightarrow> held api dep conts kept w'"
    and "api_listDockerContainers api ns w = (r2, w') \<Longrightarrow> held api dep conts kept w'"
    and "api_deleteDockerContainer api c w = (r3, w') \<Longrightarrow> cname c \<notin> fst ` set kept \<Longrightarrow> held api dep conts kept w'"
    and "api_statusDockerDeployment api d w = (r4, w') \<Longrightarrow> held api dep conts kept w'"
  using assms(1) held_step [OF assms(2), of w' "{}"] held_step [OF assms(2), of w' "{cname c}"]
  unfolding deployment_cluster_def by (meson Int_empty_left disjoint_insert(2) insert_disjoint(1))+

lemma spared_refl: "held api dep conts kept (st_world s) \<Longrightarrow> spared api dep conts kept s s"
  by (simp add: spared_def)

lemma spared_trans:
  "spared api dep conts kept s s1 \<Longrightarrow> spared api dep conts kept s1 s2 \<Longrightarrow> spared api dep conts kept s s2"
  by (auto simp: spared_def)

lemma spared_call:
  "held api dep conts kept w \<Longrightarrow> list_all (spares kept) es \<Longrightarrow>
   spared api dep conts kept s (s\<lparr>st_trace := st_trace s @ es, st_world := w\<rparr>)"
  by (simp add: spared_def)

lemma scale_down_spares:
  assumes "deployment_cluster api req dep conts"
  shows "held api dep conts kept (st_world s) \<Longrightarrow> i + n \<le> length owned \<Longrightarrow>
    \<forall>v \<in> set (take n (drop i (rev owned))). cname v \<notin> fst ` set kept \<Longrightarrow>
    wp (scale_down api owned i n) (\<lambda>r. spared api dep conts kept s) s"
proof (induction n arbitrary: i s)
  case 0
  then show ?case by (simp add: wp_simps spared_refl)
next
  case (Suc n)
  let ?v = "owned ! (length owned - 1 - i)"
  have i: "i < length owned" using Suc.prems by simp
  have v: "take (Suc n) (drop i (rev owned)) = ?v # take n (drop (Suc i) (rev owned))"
    using i by (simp add: Cons_nth_drop_Suc [symmetric] rev_nth)
  obtain r w where call: "api_deleteDockerContainer api ?v (st_world s) = (r, w)" by fastforce
  let ?s = "s\<lparr>st_trace := st_trace s @ [EvDeleteContainer ?v r], st_world := w\<rparr>"
  have nv: "cname ?v \<notin> fst ` set kept" using Suc.prems(3) unfolding v by simp
  have w: "held api dep conts kept w" by (rule cluster_held(3) [OF assms Suc.prems(1) call nv])
  have one: "spared api dep conts kept s ?s" using w nv by (intro spared_call) (simp_all add: spares_def)
  have "wp (scale_down api owned (Suc i) n) (\<lambda>r. spared api dep conts kept ?s) ?s"
    using Suc.prems(2,3) w unfolding v by (intro Suc.IH) simp_all
  then have "wp (scale_down api owned (Suc i) n) (\<lambda>r. spared api dep conts kept s) ?s"
    by (rule wp_mono) (rule spared_trans [OF one])
  then show ?case
    using i one call by (auto simp: wp_bindE deleteDockerContainer_def wp_invoke split: sum.split)
qed

lemma kept_length: "keeps api d kept items \<Longrightarrow> length kept \<le> length (owned_of api d items)"
proof -
  assume k: "keeps api d kept items"
  have "key \<in> ckey ` set (owned_of api d items)" if "key \<in> set kept" for key
    using k that unfolding keeps_def by (metis imageI)
  then have "set kept \<subseteq> ckey ` set (owned_of api d items)" by blast
  then have "card (set kept) \<le> length (owned_of api d items)"
    by (metis card_image_le card_length card_mono finite_imageI finite_set le_trans)
  then show ?thesis using k by (simp add: keeps_def distinct_card)
qed

lemma scale_spares:
  assumes cl: "deployment_cluster api req dep conts" and srt: "slice_sort srt" and k: "keeps api d kept items"
    and held: "held api dep conts kept (st_world s)"
  shows "wp (scale api d (srt ts (owned_of api d items))) (\<lambda>r. spared api dep conts kept s) s"
proof -
  let ?S = "srt ts (owned_of api d items)"
  let ?n = "length ?S - length kept"
  have len: "length ?S = length (owned_of api d items)" by (rule slice_sort.length_sort [OF srt])
  have kl: "length kept \<le> length ?S" using kept_length [OF k] len by simp
  have want: "desired_replicas d = int (length kept)" "length ?S < 2 ^ 31" using k len by (simp_all add: keeps_def)
  have n: "nat (int (length ?S) - int (length kept)) = ?n" using kl by simp
  have down: "scale api d ?S = scale_down api ?S 0 ?n"
    using want kl by (subst scale_cases) (auto simp: is_int32_def n)
  have "take ?n (drop 0 (rev ?S)) = rev (drop (length kept) ?S)" using kl by (simp add: take_rev)
  then show ?thesis
    unfolding down using victims_not_kept [OF k srt refl] held kl
    by (intro scale_down_spares [OF cl]) simp_all
qed

lemma status_spares:
  assumes cl: "deployment_cluster api req dep conts" and held: "held api dep conts kept (st_world s)"
  shows "wp (bindE (statusDockerDeployment api d) (\<lambda>_. ret x)) (\<lambda>r. spared api dep conts kept s) s"
proof -
  obtain r w where call: "api_statusDockerDeployment api d (st_world s) = (r, w)" by fastforce
  have "spared api dep conts kept s (s\<lparr>st_trace := st_trace s @ [EvStatusDeployment d r], st_world := w\<rparr>)"
    by (rule spared_call [OF cluster_held(4) [OF cl held call]]) (simp add: spares_def)
  then show ?thesis using call by (auto simp: wp_simps statusDockerDeployment_def wp_invoke split: sum.split)
qed

lemma pass_spares:
  assumes cl: "deployment_cluster api req dep conts" and srt: "slice_sort srt"
    and held: "held api dep conts kept (st_world s)"
  shows "wp (dd_Reconcile api srt req) (\<lambda>r. spared api dep conts kept s) s"
proof -
  obtain r w where get: "api_getDockerDeployment api req (st_world s) = (r, w)" by fastforce
  have hw: "held api dep conts kept w" by (rule cluster_held(1) [OF cl held get])
  have here: "spared api dep conts kept s (s\<lparr>st_world := w\<rparr>)" using hw spared_call [of api dep conts kept w "[]" s] by simp
  show ?thesis
  proof (cases r)
    case (Inl e)
    with get here show ?thesis by (simp add: dd_Reconcile_def getDockerDeployment_def wp_simps wp_invoke)
  next
    case (Inr d)
    obtain r2 w2 where list: "api_listDockerContainers api (om_Namespace (dd_Meta d)) w = (r2, w2)" by fastforce
    have d: "d = dep (st_world s)" "dd_Meta (dep w) = dd_Meta d" "dd_Spec (dep w) = dd_Spec d"
      using cl get Inr unfolding deployment_cluster_def by blast+
    have live: "om_DeletionTimestamp (dd_Meta d) = None" using held d(1) by (simp add: held_def keeps_def)
    have hw2: "held api dep conts kept w2" by (rule cluster_held(2) [OF cl hw list])
    let ?s2 = "s\<lparr>st_world := w2\<rparr>"
    have there: "spared api dep conts kept s ?s2" using hw2 spared_call [of api dep conts kept w2 "[]" s] by simp
    show ?thesis
    proof (cases r2)
      case (Inl e)
      with get list live Inr there show ?thesis
        by (simp add: dd_Reconcile_def getDockerDeployment_def listDockerContainers_def wp_simps wp_invoke)
    next
      case (Inr items)
      have k: "keeps api d kept items"
      proof -
        have "mset items = mset (conts w)" using cl list Inr d(2) unfolding deployment_cluster_def by metis
        moreover have "keeps api d kept (conts w)" using hw by (simp add: held_def keeps_cong [OF d(2,3)])
        ultimately show ?thesis by (rule keeps_mset)
      qed
      let ?S = "srt ts (owned_of api d items)"
      have "wp (bindE (scale api d ?S) (\<lambda>_. if b then bindE (statusDockerDeployment api d') (\<lambda>_. ret x) else ret x))
          (\<lambda>r. spared api dep conts kept s) ?s2" for b d' x
        unfolding wp_bindE [of "scale api d ?S"]
      proof (rule wp_mono [OF scale_spares [OF cl srt k]], goal_cases)
        case (2 r s3)
        then have s3: "spared api dep conts kept s s3" by (rule spared_trans [OF there])
        then have "held api dep conts kept (st_world s3)" by (simp add: spared_def)
        have "wp (bindE (statusDockerDeployment api d') (\<lambda>_. ret x)) (\<lambda>r. spared api dep conts kept s) s3"
          by (rule wp_mono [OF status_spares [OF cl \<open>held api dep conts kept (st_world s3)\<close>]]) (rule spared_trans [OF s3])
        with s3 show ?case by (auto simp: wp_return split: sum.split)
      qed (simp add: hw2)
      then show ?thesis
        unfolding reconcile_fetch [where sortSlice = srt, OF get [unfolded \<open>r = Inr d\<close>] live list [unfolded Inr]] by blast
    qed
  qed
qed

section \<open>Properties\<close>

lemma reach_spares:
  assumes "deployment_cluster api req dep conts" and "held api dep conts kept (st_world s0)"
  shows "dep_reach api req dep conts s0 s \<Longrightarrow> spared api dep conts kept s0 s"
proof (induction rule: dep_reach.induct)
  case start
  then show ?case using assms(2) by (rule spared_refl)
next
  case (step s s')
  then have h: "held api dep conts kept (st_world s)" by (simp add: spared_def)
  from step.hyps(2) have "spared api dep conts kept s s'"
  proof cases
    case (pass srt r)
    then show ?thesis using wp_runD [OF pass_spares [OF assms(1) _ h]] by blast
  next
    case (others w')
    then show ?thesis using held_step [OF h others(2-4)] by (simp add: spared_def)
  qed
  with step.IH show ?case by (rule spared_trans)
qed

text \<open>
  C7: scaling down settles on the oldest. Take a deployment that owns at least as many containers
  as it has replicas, where the oldest ones, as many as the replicas, are alive and every other
  container is strictly younger. However often the controller runs, whatever order its sort gives
  to equals, while the containers it deleted are still terminating and are counted, and whatever
  calls fail: those oldest containers stay, alive and owned, none of them is ever deleted and no
  container is created. The containers are those the controller's reads show, so they may be the view
  of its cache; others neither add containers of the namespace nor delete live ones meanwhile, and
  names are unique.
\<close>

theorem scale_down_keeps_oldest:
  assumes "deployment_cluster api req dep conts"
    and "keeps api (dep (st_world s0)) kept (conts (st_world s0))"
    and "dep_reach api req dep conts s0 s"
  shows "keeps api (dep (st_world s)) kept (conts (st_world s)) \<and> list_all (spares kept) (new_events s0 s)"
  using reach_spares [OF assms(1) _ assms(3), of kept] assms(2) by (auto simp: spared_def held_def)

section \<open>Containers of the same age\<close>

text \<open>
  A cluster at rest whose calls succeed: reads return the deployment and the containers there are, a
  deletion makes the named container terminate, which stays because of its finalizer, and a status
  write, which may fail, changes no container.
\<close>

definition marks :: "'w api \<Rightarrow> ('w \<Rightarrow> DockerDeployment) \<Rightarrow> ('w \<Rightarrow> DockerContainer list) \<Rightarrow> string set \<Rightarrow> 'w \<Rightarrow> 'w \<Rightarrow> bool" where
  "marks api dep conts N w w' \<longleftrightarrow> dd_Meta (dep w') = dd_Meta (dep w) \<and> dd_Spec (dep w') = dd_Spec (dep w) \<and>
     (\<exists>f. conts w' = map f (conts w) \<and>
       (\<forall>x. same_object api x (f x) \<and> (terminating x \<or> cname x \<in> N \<longrightarrow> terminating (f x))))"

definition finalizing_cluster :: "'w api \<Rightarrow> ObjectKey \<Rightarrow> ('w \<Rightarrow> DockerDeployment) \<Rightarrow> ('w \<Rightarrow> DockerContainer list) \<Rightarrow> bool" where
  "finalizing_cluster api req dep conts \<longleftrightarrow>
     (\<forall>w. api_getDockerDeployment api req w = (Inr (dep w), w)) \<and>
     (\<forall>w. api_listDockerContainers api (om_Namespace (dd_Meta (dep w))) w = (Inr (conts w), w)) \<and>
     (\<forall>c w. \<exists>w'. api_deleteDockerContainer api c w = (Inr (), w') \<and> marks api dep conts {cname c} w w') \<and>
     (\<forall>d w. marks api dep conts {} w (snd (api_statusDockerDeployment api d w)))"

lemma same_object_trans [trans]: "same_object api x y \<Longrightarrow> same_object api y z \<Longrightarrow> same_object api x z"
  by (simp add: same_object_def)

lemma marks_refl: "marks api dep conts {} w w"
  unfolding marks_def by (auto simp: same_object_def intro!: exI [of _ id])

lemma marks_trans:
  assumes "marks api dep conts N w w1" and "marks api dep conts M w1 w2"
  shows "marks api dep conts (N \<union> M) w w2"
proof -
  from assms obtain f g where f: "conts w1 = map f (conts w)"
      "\<And>x. same_object api x (f x) \<and> (terminating x \<or> cname x \<in> N \<longrightarrow> terminating (f x))"
    and g: "conts w2 = map g (conts w1)"
      "\<And>x. same_object api x (g x) \<and> (terminating x \<or> cname x \<in> M \<longrightarrow> terminating (g x))"
    unfolding marks_def by metis
  have name: "cname (f x) = cname x" for x using f(2) [of x] by (simp add: same_object_def)
  have "same_object api x (g (f x)) \<and> (terminating x \<or> cname x \<in> N \<union> M \<longrightarrow> terminating (g (f x)))" for x
    using f(2) [of x] g(2) [of "f x"] name [of x] same_object_trans by auto
  then show ?thesis
    using assms f(1) g(1) unfolding marks_def by (intro conjI exI [of _ "g \<circ> f"]) simp_all
qed

lemma marks_mono: "marks api dep conts N w w' \<Longrightarrow> M \<subseteq> N \<Longrightarrow> marks api dep conts M w w'"
  unfolding marks_def by blast

lemma owned_marks:
  assumes "\<And>x. same_object api x (f x)" and "dd_Meta d' = dd_Meta d"
  shows "owned_of api d' (map f xs) = map f (owned_of api d xs)"
  using assms by (simp add: owned_of_def filter_map comp_def same_object_def)

text \<open>A container that the deployment owns and that is as new as any, by name.\<close>

definition newest :: "'w api \<Rightarrow> ('w \<Rightarrow> DockerDeployment) \<Rightarrow> ('w \<Rightarrow> DockerContainer list) \<Rightarrow> 'w \<Rightarrow> DockerContainer \<Rightarrow> bool" where
  "newest api dep conts w c \<longleftrightarrow> c \<in> set (owned_of api (dep w) (conts w)) \<and>
     (\<forall>x \<in> set (owned_of api (dep w) (conts w)). ts x \<le> ts c)"

definition surplus :: "'w api \<Rightarrow> ('w \<Rightarrow> DockerDeployment) \<Rightarrow> ('w \<Rightarrow> DockerContainer list) \<Rightarrow> 'w \<Rightarrow> bool" where
  "surplus api dep conts w \<longleftrightarrow> om_DeletionTimestamp (dd_Meta (dep w)) = None \<and> 0 \<le> desired_replicas (dep w) \<and>
     desired_replicas (dep w) < int (length (owned_of api (dep w) (conts w))) \<and>
     length (owned_of api (dep w) (conts w)) < 2 ^ 31"

lemma marks_owned:
  assumes "marks api dep conts N w w'"
  obtains f where "owned_of api (dep w') (conts w') = map f (owned_of api (dep w) (conts w))"
    and "\<And>x. same_object api x (f x)" and "\<And>x. terminating x \<or> cname x \<in> N \<Longrightarrow> terminating (f x)"
proof -
  from assms obtain f where f: "dd_Meta (dep w') = dd_Meta (dep w)" "conts w' = map f (conts w)"
    "\<And>x. same_object api x (f x)" "\<And>x. terminating x \<or> cname x \<in> N \<Longrightarrow> terminating (f x)"
    unfolding marks_def by metis
  from that [OF _ f(3,4)] owned_marks [of api f, OF f(3,1)] f(2) show ?thesis by simp
qed

lemma surplus_marks: "marks api dep conts N w w' \<Longrightarrow> surplus api dep conts w \<Longrightarrow> surplus api dep conts w'"
proof -
  assume m: "marks api dep conts N w w'" and s: "surplus api dep conts w"
  obtain f where "owned_of api (dep w') (conts w') = map f (owned_of api (dep w) (conts w))" by (rule marks_owned [OF m])
  then show ?thesis using m s by (simp add: surplus_def marks_def desired_replicas_def)
qed

lemma newest_marks:
  assumes "marks api dep conts N w w'" and "newest api dep conts w c"
  shows "\<exists>c'. newest api dep conts w' c' \<and> cname c' = cname c"
proof (rule marks_owned [OF assms(1)])
  fix f
  assume f: "owned_of api (dep w') (conts w') = map f (owned_of api (dep w) (conts w))" "\<And>x. same_object api x (f x)"
  have "ts (f x) = ts x" "cname (f x) = cname x" for x using f(2) [of x] by (simp_all add: same_object_def)
  with assms(2) f(1) show ?thesis by (intro exI [of _ "f c"]) (auto simp: newest_def)
qed

text \<open>An order among equals that puts a given container last.\<close>

definition sort_chosen :: "DockerContainer \<Rightarrow> (DockerContainer \<Rightarrow> int) \<Rightarrow> DockerContainer list \<Rightarrow> DockerContainer list" where
  "sort_chosen c k xs = sort_key k (filter (\<lambda>x. x \<noteq> c) xs @ filter (\<lambda>x. x = c) xs)"

interpretation chosen: slice_sort "sort_chosen c" for c
  by unfold_locales (simp_all add: sort_chosen_def)

lemma sort_chosen_last:
  assumes "c \<in> set xs" and "\<forall>x \<in> set xs. k x \<le> k c"
  shows "sort_chosen c k xs \<noteq> [] \<and> last (sort_chosen c k xs) = c"
proof -
  let ?S = "sort_chosen c k xs" and ?same = "\<lambda>x. k x = k c"
  have set: "set ?S = set xs" by (auto simp: sort_chosen_def)
  then obtain S x where S: "?S = S @ [x]" using assms(1) by (metis list.set_cases rev_exhaust empty_iff list.set(1))
  have "x \<in> set xs" using set S by (metis in_set_conv_decomp)
  moreover have "k c \<le> k x"
    using chosen.sorted [of k c xs] assms(1) set unfolding S by (auto simp: sorted_append)
  ultimately have "k x = k c" using assms(2) by (simp add: antisym)
  then have "last (filter ?same ?S) = x" by (simp add: S)
  moreover have "filter ?same ?S = filter ?same (filter (\<lambda>x. x \<noteq> c) xs) @ filter ?same (filter (\<lambda>x. x = c) xs)"
    unfolding sort_chosen_def by (simp add: sort_key_stable)
  moreover have "filter (\<lambda>x. x = c) xs \<noteq> []" "set (filter (\<lambda>x. x = c) xs) \<subseteq> {c}"
    using assms(1) by (auto simp: filter_empty_conv)
  then have "last (filter (\<lambda>x. x = c) xs) = c" using last_in_set by blast
  moreover have "filter ?same (filter (\<lambda>x. x = c) xs) = filter (\<lambda>x. x = c) xs" by (rule filter_True) auto
  ultimately show ?thesis using S \<open>filter (\<lambda>x. x = c) xs \<noteq> []\<close> by simp
qed

lemma scale_down_marks:
  assumes "finalizing_cluster api req dep conts"
  shows "i + n \<le> length owned \<Longrightarrow> wp (scale_down api owned i n) (\<lambda>r s'. r = Inr () \<and>
    marks api dep conts (cname ` set (take n (drop i (rev owned)))) (st_world s) (st_world s')) s"
proof (induction n arbitrary: i s)
  case 0
  then show ?case by (simp add: wp_simps marks_refl)
next
  case (Suc n)
  let ?v = "owned ! (length owned - 1 - i)"
  have i: "i < length owned" using Suc.prems by simp
  have v: "take (Suc n) (drop i (rev owned)) = ?v # take n (drop (Suc i) (rev owned))"
    using i by (simp add: Cons_nth_drop_Suc [symmetric] rev_nth)
  obtain w where call: "api_deleteDockerContainer api ?v (st_world s) = (Inr (), w)" "marks api dep conts {cname ?v} (st_world s) w"
    using assms unfolding finalizing_cluster_def by blast
  let ?s = "s\<lparr>st_trace := st_trace s @ [EvDeleteContainer ?v (Inr ())], st_world := w\<rparr>"
  have "wp (scale_down api owned (Suc i) n) (\<lambda>r s'. r = Inr () \<and>
      marks api dep conts (cname ` set (take (Suc n) (drop i (rev owned)))) (st_world s) (st_world s')) ?s"
    by (rule wp_mono [OF Suc.IH]) (use Suc.prems marks_trans [OF call(2)] in \<open>auto simp: v\<close>)
  then show ?case
    using i call(1) by (auto simp: wp_bindE deleteDockerContainer_def wp_invoke)
qed

lemma chosen_pass:
  assumes cl: "finalizing_cluster api req dep conts" and sur: "surplus api dep conts (st_world s)"
    and c: "newest api dep conts (st_world s) c"
  shows "wp (dd_Reconcile api (sort_chosen c) req) (\<lambda>r s'. marks api dep conts {cname c} (st_world s) (st_world s')) s"
proof -
  let ?d = "dep (st_world s)" and ?xs = "conts (st_world s)"
  let ?S = "sort_chosen c ts (owned_of api ?d ?xs)"
  let ?n = "nat (int (length ?S) - desired_replicas ?d)"
  have get: "api_getDockerDeployment api req (st_world s) = (Inr ?d, st_world s)"
    and list: "api_listDockerContainers api (om_Namespace (dd_Meta ?d)) (st_world s) = (Inr ?xs, st_world s)"
    and stat: "marks api dep conts {} w (snd (api_statusDockerDeployment api d w))" for d w
    using cl unfolding finalizing_cluster_def by blast+
  have live: "om_DeletionTimestamp (dd_Meta ?d) = None" using sur by (simp add: surplus_def)
  have len: "length ?S = length (owned_of api ?d ?xs)" by (rule chosen.length_sort)
  have want: "0 \<le> desired_replicas ?d" "desired_replicas ?d < int (length ?S)" "length ?S < 2 ^ 31"
    using sur len by (simp_all add: surplus_def)
  have scale: "scale api ?d ?S = scale_down api ?S 0 ?n"
    using want by (subst scale_cases) (auto simp: is_int32_def)
  have "?S \<noteq> []" "last ?S = c" using sort_chosen_last [of c "owned_of api ?d ?xs" ts] c by (simp_all add: newest_def)
  then have front: "rev ?S = c # rev (butlast ?S)"
    by (metis append_butlast_last_id rev_eq_Cons_iff rev_rev_ident)
  have "0 < ?n" using want by simp
  then obtain m where m: "?n = Suc m" by (metis gr0_implies_Suc)
  have "c \<in> set (take ?n (rev ?S))" unfolding m front by simp
  then have down: "wp (scale api ?d ?S) (\<lambda>r s'. marks api dep conts {cname c} (st_world s) (st_world s')) s"
    unfolding scale using want by (intro wp_mono [OF scale_down_marks [OF cl]]) (auto elim: marks_mono)
  have status: "wp (bindE (statusDockerDeployment api d') (\<lambda>_. ret x)) (\<lambda>r s'. marks api dep conts {cname c} (st_world s) (st_world s')) u"
    if "marks api dep conts {cname c} (st_world s) (st_world u)" for d' x u
    using marks_trans [OF that stat] by (auto simp: wp_simps statusDockerDeployment_def wp_invoke split: prod.splits sum.splits)
      (metis snd_conv)+
  have here: "s\<lparr>st_world := st_world s\<rparr> = s" by simp
  show ?thesis
    unfolding reconcile_fetch [where sortSlice = "sort_chosen c", OF get live list] wp_bindE [of "scale api ?d ?S"] here
    by (rule wp_mono [OF down]) (auto simp: wp_return intro: status split: sum.splits)
qed

lemma newest_marked:
  assumes cl: "finalizing_cluster api req dep conts"
  shows "dep_reach api req dep conts s0 s \<Longrightarrow> surplus api dep conts (st_world s) \<Longrightarrow>
    \<forall>n \<in> set ns. \<exists>c. newest api dep conts (st_world s) c \<and> cname c = n \<Longrightarrow>
    \<exists>s'. dep_reach api req dep conts s0 s' \<and> marks api dep conts (set ns) (st_world s) (st_world s')"
proof (induction ns arbitrary: s)
  case Nil
  then show ?case using marks_refl by fastforce
next
  case (Cons n ns)
  then obtain c where c: "newest api dep conts (st_world s) c" "cname c = n" by auto
  obtain r s1 where run: "run_state (dd_Reconcile api (sort_chosen c) req) s = (r, s1)" by fastforce
  have m: "marks api dep conts {n} (st_world s) (st_world s1)"
    using wp_runD [OF chosen_pass [OF cl Cons.prems(2) c(1)] run] c(2) by simp
  have "dep_reach api req dep conts s0 s1"
    by (rule dep_reach.step [OF Cons.prems(1)]) (rule dep_step.pass [OF chosen.slice_sort_axioms run])
  moreover have "\<forall>k \<in> set ns. \<exists>c. newest api dep conts (st_world s1) c \<and> cname c = k"
    using Cons.prems(3) newest_marks [OF m] by fastforce
  ultimately obtain s' where "dep_reach api req dep conts s0 s'" "marks api dep conts (set ns) (st_world s1) (st_world s')"
    using Cons.IH surplus_marks [OF m Cons.prems(2)] by blast
  then show ?case using marks_trans [OF m] by fastforce
qed

text \<open>
  C37: between containers of the same age the controller does not settle. Creation timestamps have
  the granularity of a second, so the containers of one scale-up are usually as old as each other;
  the order that \<open>sort.Slice\<close> gives them is open, and a container that terminates is still counted.
  So in any cluster whose calls succeed and where deleted containers wait for their finalizer, when a
  deployment owns more containers than its replicas, repeated passes can delete every container that
  is as new as the newest: when all are of the same age they can delete all of them, however many
  replicas are wanted.
\<close>

theorem tie_overdeletes:
  assumes "finalizing_cluster api req dep conts"
    and "om_DeletionTimestamp (dd_Meta (dep (st_world s))) = None" and "0 \<le> desired_replicas (dep (st_world s))"
    and "desired_replicas (dep (st_world s)) < int (length (owned_of api (dep (st_world s)) (conts (st_world s))))"
    and "length (owned_of api (dep (st_world s)) (conts (st_world s))) < 2 ^ 31"
  shows "\<exists>s'. dep_reach api req dep conts s s' \<and>
    desired_replicas (dep (st_world s')) = desired_replicas (dep (st_world s)) \<and>
    map ckey (owned_of api (dep (st_world s')) (conts (st_world s'))) = map ckey (owned_of api (dep (st_world s)) (conts (st_world s))) \<and>
    (\<forall>c \<in> set (owned_of api (dep (st_world s')) (conts (st_world s'))).
      (\<forall>x \<in> set (owned_of api (dep (st_world s')) (conts (st_world s'))). ts x \<le> ts c) \<longrightarrow> terminating c)"
proof -
  let ?own = "\<lambda>s. owned_of api (dep (st_world s)) (conts (st_world s))"
  let ?ns = "map cname (filter (newest api dep conts (st_world s)) (?own s))"
  have sur: "surplus api dep conts (st_world s)" using assms(2-5) by (simp add: surplus_def)
  have "\<forall>n \<in> set ?ns. \<exists>c. newest api dep conts (st_world s) c \<and> cname c = n" by auto
  from newest_marked [OF assms(1) dep_reach.start sur this] obtain s' where
    s': "dep_reach api req dep conts s s'" "marks api dep conts (set ?ns) (st_world s) (st_world s')" by blast
  have rep: "desired_replicas (dep (st_world s')) = desired_replicas (dep (st_world s))"
    using s'(2) by (simp add: marks_def desired_replicas_def)
  show ?thesis
  proof (rule marks_owned [OF s'(2)])
    fix f
    assume f: "?own s' = map f (?own s)" "\<And>x. same_object api x (f x)"
      "\<And>x. terminating x \<or> cname x \<in> set ?ns \<Longrightarrow> terminating (f x)"
    have same: "ts (f x) = ts x" "ckey (f x) = ckey x" for x using f(2) [of x] by (simp_all add: same_object_def ckey_def)
    have "terminating c" if "c \<in> set (?own s')" "\<forall>x \<in> set (?own s'). ts x \<le> ts c" for c
    proof -
      from that(1) f(1) obtain x where x: "x \<in> set (?own s)" "c = f x" by auto
      have "newest api dep conts (st_world s) x"
        using that(2) x same(1) unfolding newest_def f(1) by (simp add: x(2))
      then have "cname x \<in> set ?ns" using x(1) by simp
      then show ?thesis using f(3) x(2) by simp
    qed
    then show ?thesis using s'(1) rep f(1) same(2) by (intro exI [of _ s']) (simp add: comp_def)
  qed
qed


section \<open>A cluster with finalizers\<close>

text \<open>
  The store of \<^const>\<open>kube\<close>, except that a deletion marks the container, which has a finalizer,
  and the status is a subresource.
\<close>

definition mark :: "string \<Rightarrow> DockerContainer \<Rightarrow> DockerContainer" where
  "mark n c = (if cname c = n \<and> om_DeletionTimestamp (dc_Meta c) = None
     then c\<lparr>dc_Meta := (dc_Meta c)\<lparr>om_DeletionTimestamp := Some 0\<rparr>\<rparr> else c)"

definition dep_kube :: "kube_store api" where
  "dep_kube = kube\<lparr>
     api_deleteDockerContainer := (\<lambda>c w. (Inr (), w\<lparr>ks_containers := map (mark (cname c)) (ks_containers w)\<rparr>)),
     api_statusDockerDeployment := (\<lambda>d w. (Inr d, w\<lparr>ks_deployments := map (\<lambda>x. x\<lparr>dd_Status := dd_Status d\<rparr>) (ks_deployments w)\<rparr>)),
     api_getDockerDeployment := (\<lambda>k w. (Inr (hd (ks_deployments w)), w)),
     api_listDockerContainers := (\<lambda>ns w. (Inr (ks_containers w), w))\<rparr>"

abbreviation web :: ObjectKey where
  "web \<equiv> \<lparr>key_Namespace = ''ns'', key_Name = ''web''\<rparr>"

abbreviation dep_of :: "kube_store \<Rightarrow> DockerDeployment" where
  "dep_of w \<equiv> hd (ks_deployments w)"

lemma evolves_map:
  "(\<And>x. same_object api x (f x) \<and> (terminating (f x) \<longrightarrow> terminating x \<or> cname x \<in> N)) \<Longrightarrow> evolves api N xs (map f xs)"
  unfolding evolves_def by (rule exI [of _ "\<lambda>x. [f x]"]) (auto simp: concat_map_singleton)

lemma evolves_id: "evolves api N xs xs"
  using evolves_map [of api "\<lambda>x. x" N xs] by (simp add: same_object_def)

lemma evolves_mark: "evolves dep_kube {n} xs (map (mark n) xs)"
  by (rule evolves_map) (auto simp: same_object_def mark_def dep_kube_def)

definition tied_state :: "int \<Rightarrow> int \<Rightarrow> kube_store st" where
  "tied_state ta tb = start_state (empty_store\<lparr>ks_deployments := [demo_deployment 1],
     ks_containers := [demo_child ''b'' tb, demo_child ''a'' ta]\<rparr>)"

text \<open>Another order among equals: that of the reversed slice.\<close>

definition sort_last :: "('a \<Rightarrow> int) \<Rightarrow> 'a list \<Rightarrow> 'a list" where
  "sort_last k xs = sort_key k (rev xs)"

interpretation last_first: slice_sort sort_last
  by unfold_locales (simp_all add: sort_last_def)

definition dep_pass :: "((DockerContainer \<Rightarrow> int) \<Rightarrow> DockerContainer list \<Rightarrow> DockerContainer list) \<Rightarrow> kube_store st \<Rightarrow> kube_store st" where
  "dep_pass srt s = snd (run_state (dd_Reconcile dep_kube srt web) s)"

lemma dep_pass_reach:
  "slice_sort srt \<Longrightarrow> dep_reach dep_kube web dep_of ks_containers s0 s \<Longrightarrow>
   dep_reach dep_kube web dep_of ks_containers s0 (dep_pass srt s)"
  unfolding dep_pass_def by (erule dep_reach.step) (erule dep_step.pass, rule prod.collapse [symmetric])

lemma dep_kube_cluster: "deployment_cluster dep_kube web dep_of ks_containers"
proof -
  have "hd (map (\<lambda>x. x\<lparr>dd_Status := st\<rparr>) ds) = (hd ds)\<lparr>dd_Status := st\<rparr> \<or> ds = []" for st and ds :: "DockerDeployment list"
    by (cases ds) simp_all
  then have "dd_Meta (hd (map (\<lambda>x. x\<lparr>dd_Status := st\<rparr>) ds)) = dd_Meta (hd ds)"
    "dd_Spec (hd (map (\<lambda>x. x\<lparr>dd_Status := st\<rparr>) ds)) = dd_Spec (hd ds)" for st and ds :: "DockerDeployment list"
    by (metis DockerDeployment.select_convs DockerDeployment.surjective DockerDeployment.update_convs(3) list.map(1))+
  then show ?thesis
    unfolding deployment_cluster_def
    using evolves_mark evolves_id [of dep_kube]
    by (simp add: dep_kube_def) 
qed

lemma dep_kube_finalizing: "finalizing_cluster dep_kube web dep_of ks_containers"
proof -
  have "marks dep_kube dep_of ks_containers {cname c} w (w\<lparr>ks_containers := map (mark (cname c)) (ks_containers w)\<rparr>)" for c w
    unfolding marks_def
    by (auto simp: same_object_def mark_def dep_kube_def intro!: exI [of _ "mark (cname c)"] split: if_splits)
  moreover have "marks dep_kube dep_of ks_containers {} w (snd (api_statusDockerDeployment dep_kube d w))" for d w
  proof -
    let ?w = "snd (api_statusDockerDeployment dep_kube d w)"
    have "ks_containers ?w = ks_containers w" by (simp add: dep_kube_def)
    moreover have "dd_Meta (dep_of ?w) = dd_Meta (dep_of w)" "dd_Spec (dep_of ?w) = dd_Spec (dep_of w)"
      using dep_kube_cluster unfolding deployment_cluster_def by (metis prod.collapse)+
    ultimately show ?thesis using marks_refl [of dep_kube dep_of ks_containers w] by (simp add: marks_def)
  qed
  ultimately show ?thesis unfolding finalizing_cluster_def by (auto simp: dep_kube_def)
qed

theorem tie_overdeletes_witness:
  "length (owned_of dep_kube (dep_of (st_world (tied_state 5 5))) (ks_containers (st_world (tied_state 5 5)))) = 2 \<and>
   (\<exists>s. dep_reach dep_kube web dep_of ks_containers (tied_state 5 5) s \<and> desired_replicas (dep_of (st_world s)) = 1 \<and>
     filter (\<lambda>c. \<not> terminating c) (owned_of dep_kube (dep_of (st_world s)) (ks_containers (st_world s))) = [])"
proof -
  let ?s = "tied_state 5 5"
  let ?own = "\<lambda>s. owned_of dep_kube (dep_of (st_world s)) (ks_containers (st_world s))"
  have n: "desired_replicas (dep_of (st_world ?s)) = 1" "map ckey (?own ?s) = [(''b'', 5), (''a'', 5)]"
    "om_DeletionTimestamp (dd_Meta (dep_of (st_world ?s))) = None"
    by (simp_all add: tied_state_def demo_deployment_defs owned_of_def dep_kube_def ckey_def desired_replicas_def)
  then have len: "length (?own ?s) = 2" by (metis length_map length_Cons list.size(3) numeral_2_eq_2)
  from tie_overdeletes [OF dep_kube_finalizing n(3)] n(1) len obtain s where
    s: "dep_reach dep_kube web dep_of ks_containers ?s s" "desired_replicas (dep_of (st_world s)) = 1"
      "map ckey (?own s) = [(''b'', 5), (''a'', 5)]"
      "\<forall>c \<in> set (?own s). (\<forall>x \<in> set (?own s). ts x \<le> ts c) \<longrightarrow> terminating c" using n(2) by auto
  have "ts x = 5" if "x \<in> set (?own s)" for x
  proof -
    have "ckey x \<in> set (map ckey (?own s))" using that by simp
    then show ?thesis unfolding s(3) by (auto simp: ckey_def)
  qed
  with s(4) have "filter (\<lambda>c. \<not> terminating c) (?own s) = []" by (auto simp: filter_empty_conv)
  with s(1,2) len show ?thesis by blast
qed

theorem scale_down_keeps_oldest_witness:
  "keeps dep_kube (dep_of (st_world (dep_pass sort_last (dep_pass sort_key (tied_state 5 6))))) [(''a'', 5)]
     (ks_containers (st_world (dep_pass sort_last (dep_pass sort_key (tied_state 5 6))))) \<and>
   list_all (spares [(''a'', 5)]) (new_events (tied_state 5 6) (dep_pass sort_last (dep_pass sort_key (tied_state 5 6))))"
proof (rule scale_down_keeps_oldest [OF dep_kube_cluster])
  show "keeps dep_kube (dep_of (st_world (tied_state 5 6))) [(''a'', 5)] (ks_containers (st_world (tied_state 5 6)))"
    by (simp add: keeps_def tied_state_def demo_deployment_defs owned_of_def dep_kube_def ckey_def desired_replicas_def)
  show "dep_reach dep_kube web dep_of ks_containers (tied_state 5 6) (dep_pass sort_last (dep_pass sort_key (tied_state 5 6)))"
    by (intro dep_pass_reach last_first.slice_sort_axioms insertion.slice_sort_axioms dep_reach.start)
qed

end
