(* ===== verification/GoUrl.thy ===== *)
theory GoUrl
  imports World
begin

text \<open>
  What the program uses of the package \<open>net/url\<close>: escaping and unescaping, parsing of URLs, query
  values. A string is the list of its bytes. The functions have the names and the case distinctions
  of the package; an \<open>option\<close> or \<open>error +\<close> result is its error return.
\<close>

section \<open>Escaping\<close>

definition is_alnum :: "char \<Rightarrow> bool" where
  "is_alnum c \<longleftrightarrow> (CHR ''a'' \<le> c \<and> c \<le> CHR ''z'') \<or> (CHR ''A'' \<le> c \<and> c \<le> CHR ''Z'') \<or> (CHR ''0'' \<le> c \<and> c \<le> CHR ''9'')"

definition ishex :: "char \<Rightarrow> bool" where
  "ishex c \<longleftrightarrow> (CHR ''0'' \<le> c \<and> c \<le> CHR ''9'') \<or> (CHR ''a'' \<le> c \<and> c \<le> CHR ''f'') \<or> (CHR ''A'' \<le> c \<and> c \<le> CHR ''F'')"

definition unhex :: "char \<Rightarrow> nat" where
  "unhex c =
     (if CHR ''0'' \<le> c \<and> c \<le> CHR ''9'' then of_char c - 48
      else if CHR ''a'' \<le> c \<and> c \<le> CHR ''f'' then of_char c - 97 + 10
      else of_char c - 65 + 10)"

definition upperhex :: "nat \<Rightarrow> char" where
  "upperhex n = ''0123456789ABCDEF'' ! n"

datatype encoding = encodePath | encodeHost | encodeZone | encodeUserPassword | encodeQueryComponent | encodeFragment

definition shouldEscape :: "char \<Rightarrow> encoding \<Rightarrow> bool" where
  "shouldEscape c mode =
     (if is_alnum c then False
      else if (mode = encodeHost \<or> mode = encodeZone) \<and> c \<in> set (CHR 0x27 # CHR 0x22 # ''!$&()*+,;=:[]<>'') then False
      else if c \<in> set ''-_.~'' then False
      else if c \<in> set ''$&+,/:;=?@'' \<and> mode \<in> {encodePath, encodeUserPassword, encodeQueryComponent, encodeFragment} then
        (case mode of
           encodePath \<Rightarrow> c = CHR ''?''
         | encodeUserPassword \<Rightarrow> c \<in> set ''@/?:''
         | encodeQueryComponent \<Rightarrow> True
         | _ \<Rightarrow> False)
      else if mode = encodeFragment \<and> c \<in> set ''!()*'' then False
      else True)"

definition escape_char :: "encoding \<Rightarrow> char \<Rightarrow> string" where
  "escape_char mode c =
     (if c = CHR '' '' \<and> mode = encodeQueryComponent then ''+''
      else if shouldEscape c mode then [CHR ''%'', upperhex (of_char c div 16), upperhex (of_char c mod 16)]
      else [c])"

definition escape :: "string \<Rightarrow> encoding \<Rightarrow> string" where
  "escape s mode = concat (map (escape_char mode) s)"

definition QueryEscape :: "string \<Rightarrow> string" where
  "QueryEscape s = escape s encodeQueryComponent"

text \<open>\<open>unescape\<close> checks and decodes in one pass; \<open>None\<close> is an escape or host error.\<close>

definition bad_escape :: "encoding \<Rightarrow> char \<Rightarrow> char \<Rightarrow> bool" where
  "bad_escape mode a b \<longleftrightarrow> \<not> ishex a \<or> \<not> ishex b \<or>
     (mode = encodeHost \<and> unhex a < 8 \<and> (a, b) \<noteq> (CHR ''2'', CHR ''5'')) \<or>
     (mode = encodeZone \<and> (a, b) \<noteq> (CHR ''2'', CHR ''5'') \<and> unhex a * 16 + unhex b \<noteq> 32 \<and>
        shouldEscape (char_of (unhex a * 16 + unhex b)) encodeHost)"

fun unescape :: "string \<Rightarrow> encoding \<Rightarrow> string option" where
  "unescape [] mode = Some []"
| "unescape (c # s) mode =
     (if c = CHR ''%'' then
        (case s of
           a # b # rest \<Rightarrow>
             if bad_escape mode a b then None
             else map_option ((#) (char_of (unhex a * 16 + unhex b))) (unescape rest mode)
         | _ \<Rightarrow> None)
      else if c = CHR ''+'' then
        map_option ((#) (if mode = encodeQueryComponent then CHR '' '' else CHR ''+'')) (unescape s mode)
      else if (mode = encodeHost \<or> mode = encodeZone) \<and> (of_char c :: nat) < 128 \<and> shouldEscape c mode then None
      else map_option ((#) c) (unescape s mode))"

definition QueryUnescape :: "string \<Rightarrow> string option" where
  "QueryUnescape s = unescape s encodeQueryComponent"

section \<open>Query values\<close>

text \<open>
  \<open>url.Values\<close>: the pairs in the order in which they were added. Only the order of the values of one
  key can be observed.
\<close>

type_synonym Values = "(string \<times> string) list"

definition Cut :: "string \<Rightarrow> char \<Rightarrow> string \<times> string" where
  "Cut s sep = (takeWhile (\<lambda>c. c \<noteq> sep) s, tl (dropWhile (\<lambda>c. c \<noteq> sep) s))"

definition parse_pair :: "string \<Rightarrow> Values" where
  "parse_pair kv =
     (if CHR '';'' \<in> set kv \<or> kv = [] then []
      else case Cut kv (CHR ''='') of
        (k, v) \<Rightarrow>
          (case QueryUnescape k of
             None \<Rightarrow> []
           | Some key \<Rightarrow> (case QueryUnescape v of None \<Rightarrow> [] | Some val \<Rightarrow> [(key, val)])))"

text \<open>\<open>URL.Query\<close>, which drops malformed pairs.\<close>

definition parseQuery :: "string \<Rightarrow> Values" where
  "parseQuery qs = concat (map parse_pair (Split qs (CHR ''&'')))"

definition Values_Get :: "Values \<Rightarrow> string \<Rightarrow> string" where
  "Values_Get vs key = (case map_of vs key of None \<Rightarrow> [] | Some v \<Rightarrow> v)"

definition Values_Set :: "Values \<Rightarrow> string \<Rightarrow> string \<Rightarrow> Values" where
  "Values_Set vs key val = filter (\<lambda>(k, v). k \<noteq> key) vs @ [(key, val)]"

definition Values_Encode :: "Values \<Rightarrow> string" where
  "Values_Encode vs = Join (map (\<lambda>(k, v). QueryEscape k @ ''='' @ QueryEscape v) (sort_key fst vs)) (CHR ''&'')"

section \<open>URLs\<close>

record URL =
  url_Scheme :: string
  url_Opaque :: string
  url_User :: "(string \<times> string option) option"
  url_Host :: string
  url_Path :: string
  url_RawPath :: string
  url_RawQuery :: string
  url_Fragment :: string

definition empty_URL :: URL where
  "empty_URL = \<lparr>url_Scheme = [], url_Opaque = [], url_User = None, url_Host = [], url_Path = [], url_RawPath = [],
     url_RawQuery = [], url_Fragment = []\<rparr>"

text \<open>\<open>getScheme\<close>, with the characters read so far.\<close>

fun getScheme :: "string \<Rightarrow> string \<Rightarrow> error + string \<times> string" where
  "getScheme pre [] = Inr ([], pre)"
| "getScheme pre (c # s) =
     (if (CHR ''a'' \<le> c \<and> c \<le> CHR ''z'') \<or> (CHR ''A'' \<le> c \<and> c \<le> CHR ''Z'') then getScheme (pre @ [c]) s
      else if (CHR ''0'' \<le> c \<and> c \<le> CHR ''9'') \<or> c \<in> set ''+-.'' then
        (if pre = [] then Inr ([], c # s) else getScheme (pre @ [c]) s)
      else if c = CHR '':'' then
        (if pre = [] then Inl (ErrMsg ''missing protocol scheme'') else Inr (pre, s))
      else Inr ([], pre @ c # s))"

definition validOptionalPort :: "string \<Rightarrow> bool" where
  "validOptionalPort port = (port = [] \<or> (hd port = CHR '':'' \<and> list_all is_digit (tl port)))"

text \<open>The part of \<open>s\<close> before its last \<open>c\<close>, and the rest from that \<open>c\<close> on; \<open>None\<close> without a \<open>c\<close>.\<close>

definition split_last :: "char \<Rightarrow> string \<Rightarrow> (string \<times> string) option" where
  "split_last c s =
     (if c \<in> set s then Some (rev (tl (dropWhile (\<lambda>x. x \<noteq> c) (rev s))), c # rev (takeWhile (\<lambda>x. x \<noteq> c) (rev s)))
      else None)"

text \<open>The first occurrence of \<open>%25\<close>, which starts the zone of an IPv6 address.\<close>

fun cut_zone :: "string \<Rightarrow> (string \<times> string) option" where
  "cut_zone [] = None"
| "cut_zone (c # s) = (if take 3 (c # s) = ''%25'' then Some ([], c # s) else map_option (\<lambda>(a, b). (c # a, b)) (cut_zone s))"

definition invalid_port :: "string \<Rightarrow> error" where
  "invalid_port p = ErrMsg (''invalid port '' @ p @ '' after host'')"

definition unescape_host :: "string \<Rightarrow> error + string" where
  "unescape_host host = (case unescape host encodeHost of None \<Rightarrow> Inl (ErrMsg ''invalid host'') | Some h \<Rightarrow> Inr h)"

definition parseHost :: "string \<Rightarrow> error + string" where
  "parseHost host =
     (if host \<noteq> [] \<and> hd host = CHR ''['' then
        (case split_last (CHR '']'') host of
           None \<Rightarrow> Inl (ErrMsg ''missing ] in host'')
         | Some (front, bracket) \<Rightarrow>
             if \<not> validOptionalPort (tl bracket) then Inl (invalid_port (tl bracket))
             else
               (case cut_zone front of
                  None \<Rightarrow> unescape_host host
                | Some (h, zone) \<Rightarrow>
                    (case (unescape h encodeHost, unescape zone encodeZone, unescape bracket encodeHost) of
                       (Some h1, Some h2, Some h3) \<Rightarrow> Inr (h1 @ h2 @ h3)
                     | _ \<Rightarrow> Inl (ErrMsg ''invalid host''))))
      else
        (case split_last (CHR '':'') host of
           None \<Rightarrow> unescape_host host
         | Some (front, port) \<Rightarrow> if \<not> validOptionalPort port then Inl (invalid_port port) else unescape_host host))"

definition validUserinfo :: "string \<Rightarrow> bool" where
  "validUserinfo s = list_all (\<lambda>c. is_alnum c \<or> c = CHR 0x27 \<or> c \<in> set ''-._:~!$&()*+,;=%@'') s"

definition parseUser :: "string \<Rightarrow> error + string \<times> string option" where
  "parseUser userinfo =
     (if \<not> validUserinfo userinfo then Inl (ErrMsg ''net/url: invalid userinfo'')
      else if CHR '':'' \<notin> set userinfo then
        (case unescape userinfo encodeUserPassword of None \<Rightarrow> Inl (ErrMsg ''invalid escape'') | Some u \<Rightarrow> Inr (u, None))
      else
        (case Cut userinfo (CHR '':'') of
           (username, password) \<Rightarrow>
             (case (unescape username encodeUserPassword, unescape password encodeUserPassword) of
                (Some u, Some p) \<Rightarrow> Inr (u, Some p)
              | _ \<Rightarrow> Inl (ErrMsg ''invalid escape''))))"

definition parseAuthority :: "string \<Rightarrow> error + (string \<times> string option) option \<times> string" where
  "parseAuthority authority =
     (case split_last (CHR ''@'') authority of
        None \<Rightarrow> (case parseHost authority of Inl e \<Rightarrow> Inl e | Inr h \<Rightarrow> Inr (None, h))
      | Some (userinfo, rest) \<Rightarrow>
          (case parseHost (tl rest) of
             Inl e \<Rightarrow> Inl e
           | Inr h \<Rightarrow> (case parseUser userinfo of Inl e \<Rightarrow> Inl e | Inr u \<Rightarrow> Inr (Some u, h))))"

definition setPath :: "string \<Rightarrow> URL \<Rightarrow> error + URL" where
  "setPath p u =
     (case unescape p encodePath of
        None \<Rightarrow> Inl (ErrMsg ''invalid URL escape'')
      | Some path \<Rightarrow> Inr (u\<lparr>url_Path := path, url_RawPath := (if escape path encodePath = p then [] else p)\<rparr>))"

definition has_prefix :: "string \<Rightarrow> string \<Rightarrow> bool" where
  "has_prefix s pre \<longleftrightarrow> take (length pre) s = pre"

definition is_ctl :: "char \<Rightarrow> bool" where
  "is_ctl c \<longleftrightarrow> (of_char c :: nat) < 32 \<or> (of_char c :: nat) = 127"

text \<open>The query of the part after the scheme; a lone final question mark only forces an empty query.\<close>

definition cut_query :: "string \<Rightarrow> string \<times> string" where
  "cut_query rest = Cut rest (CHR ''?'')"

definition parse_url :: "string \<Rightarrow> error + URL" where
  "parse_url rawURL =
     (if list_ex is_ctl rawURL then Inl (ErrMsg ''net/url: invalid control character in URL'')
      else if rawURL = ''*'' then Inr (empty_URL\<lparr>url_Path := ''*''\<rparr>)
      else
        (case getScheme [] rawURL of
           Inl e \<Rightarrow> Inl e
         | Inr (scheme, after) \<Rightarrow>
             (case cut_query after of
                (rest, qs) \<Rightarrow>
                  let u = empty_URL\<lparr>url_Scheme := ToLower scheme, url_RawQuery := qs\<rparr>
                  in if \<not> has_prefix rest ''/'' \<and> scheme \<noteq> [] then Inr (u\<lparr>url_Opaque := rest\<rparr>)
                     else if \<not> has_prefix rest ''/'' \<and> CHR '':'' \<in> set (fst (Cut rest (CHR ''/''))) then
                       Inl (ErrMsg ''first path segment in URL cannot contain colon'')
                     else if (scheme \<noteq> [] \<or> \<not> has_prefix rest ''///'') \<and> has_prefix rest ''//'' then
                       (case parseAuthority (takeWhile (\<lambda>c. c \<noteq> CHR ''/'') (drop 2 rest)) of
                          Inl e \<Rightarrow> Inl e
                        | Inr (user, host) \<Rightarrow>
                            setPath (dropWhile (\<lambda>c. c \<noteq> CHR ''/'') (drop 2 rest)) (u\<lparr>url_User := user, url_Host := host\<rparr>))
                     else setPath rest u)))"

definition Parse :: "string \<Rightarrow> error + URL" where
  "Parse rawURL =
     (case Cut rawURL (CHR ''#'') of
        (s, frag) \<Rightarrow>
          (case parse_url s of
             Inl e \<Rightarrow> Inl (Wrapf (''parse '' @ s @ '': '') e)
           | Inr u \<Rightarrow>
               if frag = [] then Inr u
               else
                 (case unescape frag encodeFragment of
                    None \<Rightarrow> Inl (Wrapf (''parse '' @ rawURL @ '': '') (ErrMsg ''invalid URL escape''))
                  | Some f \<Rightarrow> Inr (u\<lparr>url_Fragment := f\<rparr>))))"

section \<open>Escaping is invertible\<close>

lemma upperhex_props:
  assumes "n < 16"
  shows "ishex (upperhex n)" and "unhex (upperhex n) = n" and "is_alnum (upperhex n)"
proof -
  have "\<forall>k \<in> set [0..<16]. ishex (upperhex k) \<and> unhex (upperhex k) = k \<and> is_alnum (upperhex k)"
    by (simp add: upt_rec [of _ 16] upperhex_def ishex_def unhex_def is_alnum_def less_eq_char_def)
  with assms show "ishex (upperhex n)" and "unhex (upperhex n) = n" and "is_alnum (upperhex n)" by auto
qed

lemma of_char_halves: "(of_char c :: nat) div 16 < 16" "(of_char c :: nat) mod 16 < 16"
proof -
  have "(of_char c :: nat) < 256" by (metis mod_less_divisor of_char_mod_256 zero_less_numeral)
  then show "(of_char c :: nat) div 16 < 16" by (simp add: less_mult_imp_div_less)
qed simp

lemma char_of_halves: "char_of ((of_char c :: nat) div 16 * 16 + of_char c mod 16) = c"
  by (simp only: div_mult_mod_eq char_of_char)

lemma unescape_escape_char:
  "unescape (escape_char encodeQueryComponent c @ s) encodeQueryComponent = map_option ((#) c) (unescape s encodeQueryComponent)"
proof -
  have "\<not> bad_escape encodeQueryComponent (upperhex (of_char c div 16)) (upperhex (of_char c mod 16))"
    by (simp add: bad_escape_def upperhex_props of_char_halves)
  moreover have "c \<noteq> CHR ''%''" "c \<noteq> CHR ''+''" if "\<not> shouldEscape c encodeQueryComponent"
    using that by (auto simp: shouldEscape_def is_alnum_def less_eq_char_def)
  ultimately show ?thesis
    by (auto simp: escape_char_def upperhex_props of_char_halves char_of_halves)
qed

lemma QueryUnescape_QueryEscape: "QueryUnescape (QueryEscape s) = Some s"
  by (induction s) (simp_all add: QueryUnescape_def QueryEscape_def escape_def unescape_escape_char)

text \<open>The characters of an escaped string.\<close>

definition query_safe :: "char \<Rightarrow> bool" where
  "query_safe c \<longleftrightarrow> is_alnum c \<or> c \<in> set ''-_.~%+''"

lemma QueryEscape_safe: "c \<in> set (QueryEscape s) \<Longrightarrow> query_safe c"
proof -
  have keep: "query_safe d" if "\<not> shouldEscape d encodeQueryComponent" for d
    using that by (simp add: query_safe_def shouldEscape_def split: if_splits) blast
  have "query_safe c" if "c \<in> set (escape_char encodeQueryComponent d)" for d
    using that keep [of d] by (auto simp: escape_char_def query_safe_def upperhex_props of_char_halves split: if_splits)
  then show "c \<in> set (QueryEscape s) \<Longrightarrow> query_safe c" by (auto simp: QueryEscape_def escape_def)
qed

lemma not_query_safe [simp]:
  "\<not> query_safe (CHR ''&'')" "\<not> query_safe (CHR ''='')" "\<not> query_safe (CHR '';'')" "\<not> query_safe (CHR ''?'')"
  "\<not> query_safe (CHR ''#'')" "\<not> query_safe (CHR ''/'')"
  by (simp_all add: query_safe_def is_alnum_def less_eq_char_def)

lemma QueryEscape_no_sep [simp]:
  "CHR ''&'' \<notin> set (QueryEscape s)" "CHR ''='' \<notin> set (QueryEscape s)" "CHR '';'' \<notin> set (QueryEscape s)"
  "CHR ''?'' \<notin> set (QueryEscape s)" "CHR ''#'' \<notin> set (QueryEscape s)"
  using QueryEscape_safe not_query_safe by blast+

lemma query_safe_not_ctl: "query_safe c \<Longrightarrow> \<not> is_ctl c"
  by (auto simp: query_safe_def is_ctl_def is_alnum_def less_eq_char_def)

lemma unescape_plain: "\<forall>c \<in> set s. c \<noteq> CHR ''%'' \<and> c \<noteq> CHR ''+'' \<Longrightarrow> mode \<notin> {encodeHost, encodeZone} \<Longrightarrow> unescape s mode = Some s"
  by (induction s) auto

section \<open>Queries\<close>

lemma Cut_append [simp]: "sep \<notin> set a \<Longrightarrow> Cut (a @ sep # b) sep = (a, b)"
  by (induction a) (auto simp: Cut_def)

lemma Cut_none: "sep \<notin> set a \<Longrightarrow> Cut a sep = (a, [])"
  by (induction a) (auto simp: Cut_def)

lemma parse_pair_escaped: "parse_pair (QueryEscape k @ CHR ''='' # QueryEscape v) = [(k, v)]"
  by (simp add: parse_pair_def QueryUnescape_QueryEscape)

text \<open>A query of escaped pairs is read back.\<close>

lemma parseQuery_pairs: "parseQuery (Join (map (\<lambda>(k, v). QueryEscape k @ ''='' @ QueryEscape v) kvs) (CHR ''&'')) = kvs"
proof (cases "kvs = []")
  case False
  then have "Split (Join (map (\<lambda>(k, v). QueryEscape k @ ''='' @ QueryEscape v) kvs) (CHR ''&'')) (CHR ''&'') =
      map (\<lambda>(k, v). QueryEscape k @ ''='' @ QueryEscape v) kvs"
    by (intro Split_Join) auto
  moreover have "concat (map (\<lambda>x. parse_pair (case x of (k, v) \<Rightarrow> QueryEscape k @ ''='' @ QueryEscape v)) kvs) = kvs"
    by (induction kvs) (auto simp: parse_pair_escaped)
  ultimately show ?thesis by (simp add: parseQuery_def comp_def)
qed (simp add: parseQuery_def parse_pair_def)

lemma parseQuery_Encode: "parseQuery (Values_Encode vs) = sort_key fst vs"
  unfolding Values_Encode_def by (rule parseQuery_pairs)

lemma Get_Set: "Values_Get (Values_Set vs k v) k' = (if k' = k then v else Values_Get vs k')"
proof -
  have "map_of (filter (\<lambda>(k', v). k' \<noteq> k) vs) k' = (if k' = k then None else map_of vs k')"
    by (induction vs) auto
  then show ?thesis by (auto simp: Values_Get_def Values_Set_def map_add_def split: option.splits)
qed

section \<open>Parsing an absolute URL\<close>

text \<open>Letters of a lower-case scheme, characters of a host name, of a path that needs no escaping.\<close>

definition scheme_char :: "char \<Rightarrow> bool" where
  "scheme_char c \<longleftrightarrow> CHR ''a'' \<le> c \<and> c \<le> CHR ''z''"

definition name_char :: "char \<Rightarrow> bool" where
  "name_char c \<longleftrightarrow> is_alnum c \<or> c = CHR ''-'' \<or> c = CHR ''.''"

definition path_char :: "char \<Rightarrow> bool" where
  "path_char c \<longleftrightarrow> is_alnum c \<or> c = CHR ''/''"

definition raw_query_char :: "char \<Rightarrow> bool" where
  "raw_query_char c \<longleftrightarrow> query_safe c \<or> c = CHR ''&'' \<or> c = CHR ''=''"

lemma alnum_not: "is_alnum c \<Longrightarrow> \<not> is_ctl c \<and> c \<notin> set ''#?/:@[%+'' \<and> (of_char c :: nat) < 128"
  by (auto simp: is_alnum_def is_ctl_def less_eq_char_def)

lemma digit_alnum: "is_digit c \<Longrightarrow> is_alnum c"
  by (simp add: is_digit_def is_alnum_def less_eq_char_def)

lemma scheme_alnum: "scheme_char c \<Longrightarrow> is_alnum c"
  by (simp add: scheme_char_def is_alnum_def)

lemma getScheme_ok:
  "list_all scheme_char sch \<Longrightarrow> pre @ sch \<noteq> [] \<Longrightarrow> getScheme pre (sch @ CHR '':'' # rest) = Inr (pre @ sch, rest)"
  by (induction sch arbitrary: pre) (auto simp: scheme_char_def less_eq_char_def)

lemma ToLower_scheme: "list_all scheme_char sch \<Longrightarrow> ToLower sch = sch"
  by (intro ToLower_same) (auto simp: list_all_iff scheme_char_def lower_char_def less_eq_char_def)

lemma unescape_host_ok: "list_all (\<lambda>c. name_char c \<or> c = CHR '':'') h \<Longrightarrow> unescape h encodeHost = Some h"
proof (induction h)
  case (Cons c h)
  then have "c \<noteq> CHR ''%''" "c \<noteq> CHR ''+''" "\<not> shouldEscape c encodeHost"
    using alnum_not [of c] by (auto simp: name_char_def shouldEscape_def)
  with Cons show ?case by simp
qed simp

lemma split_last_append: "c \<notin> set b \<Longrightarrow> split_last c (a @ c # b) = Some (a, c # b)"
  by (simp add: split_last_def takeWhile_upto)

lemma name_not: "name_char c \<Longrightarrow> \<not> is_ctl c \<and> c \<notin> set ''#?/:@[%+''"
  using alnum_not [of c] by (auto simp: name_char_def is_ctl_def)

lemma parseAuthority_ok:
  assumes "list_all name_char h" and "h \<noteq> []" and "list_all is_digit port"
  shows "parseAuthority (h @ CHR '':'' # port) = Inr (None, h @ CHR '':'' # port)"
proof -
  have at: "CHR ''@'' \<notin> set (h @ CHR '':'' # port)"
    using assms(1,3) name_not alnum_not [OF digit_alnum] by (fastforce simp: list_all_iff)
  have colon: "CHR '':'' \<notin> set port" using assms(3) alnum_not [OF digit_alnum] by (fastforce simp: list_all_iff)
  have hd: "hd (h @ CHR '':'' # port) \<noteq> CHR ''[''"
    using assms(1,2) name_not [of "hd h"] by (cases h) auto
  have "list_all (\<lambda>c. name_char c \<or> c = CHR '':'') (h @ CHR '':'' # port)"
    using assms(1,3) digit_alnum by (auto simp: list_all_iff name_char_def)
  then have "parseHost (h @ CHR '':'' # port) = Inr (h @ CHR '':'' # port)"
    using hd assms(2,3) by (simp add: parseHost_def split_last_append [OF colon] validOptionalPort_def unescape_host_def unescape_host_ok)
  then show ?thesis using at by (simp add: parseAuthority_def split_last_def)
qed

lemma setPath_ok:
  assumes "list_all path_char p"
  shows "setPath p u = Inr (u\<lparr>url_Path := p, url_RawPath := []\<rparr>)"
proof -
  have "unescape p encodePath = Some p"
    using assms alnum_not by (intro unescape_plain) (fastforce simp: list_all_iff path_char_def)+
  moreover have "\<not> shouldEscape c encodePath" if "path_char c" for c
    using that by (auto simp: path_char_def shouldEscape_def)
  then have "escape p encodePath = p"
    using assms by (induction p) (auto simp: escape_def escape_char_def)
  ultimately show ?thesis by (simp add: setPath_def)
qed

lemma Parse_absolute:
  assumes "list_all scheme_char sch" and "sch \<noteq> []" and "list_all name_char h" and "h \<noteq> []"
    and "list_all is_digit port" and "list_all path_char p" and "p = [] \<or> hd p = CHR ''/''" and "list_all raw_query_char q"
    and "qtail = (if q = [] then [] else CHR ''?'' # q)"
  shows "Parse (sch @ ''://'' @ h @ '':'' @ port @ p @ qtail) = Inr (empty_URL\<lparr>url_Scheme := sch,
     url_Host := h @ '':'' @ port, url_Path := p, url_RawQuery := q\<rparr>)"
proof -
  let ?front = "''//'' @ h @ '':'' @ port @ p"
  let ?raw = "sch @ CHR '':'' # ?front @ qtail"
  have kinds: "is_alnum c \<or> name_char c \<or> path_char c \<or> raw_query_char c \<or> c = CHR ''?'' \<or> c = CHR '':''" if "c \<in> set ?raw" for c
    using that assms(1,3,5,6,8,9) scheme_alnum digit_alnum by (auto simp: list_all_iff path_char_def split: if_splits)
  have chars: "\<not> is_ctl c \<and> c \<noteq> CHR ''#''" if "c \<in> set ?raw" for c
    using kinds [OF that] alnum_not [of c] name_not [of c] query_safe_not_ctl [of c] not_query_safe(5)
    by (auto simp: path_char_def raw_query_char_def is_ctl_def)
  have host: "CHR ''/'' \<notin> set (h @ CHR '':'' # port)" and front: "CHR ''?'' \<notin> set ?front"
    using assms(3,5,6) name_not alnum_not [OF digit_alnum] alnum_not by (fastforce simp: list_all_iff path_char_def)+
  have cut: "cut_query (?front @ qtail) = (?front, q)"
    unfolding cut_query_def assms(9) using Cut_append [OF front, of q] Cut_none [OF front] by simp
  have "takeWhile (\<lambda>c. c \<noteq> CHR ''/'') (h @ CHR '':'' # port @ p) = h @ CHR '':'' # port"
    "dropWhile (\<lambda>c. c \<noteq> CHR ''/'') (h @ CHR '':'' # port @ p) = p"
    using host takeWhile_upto [of "CHR ''/''" "h @ CHR '':'' # port" "tl p"] takeWhile_none [of "CHR ''/''" "h @ CHR '':'' # port"] assms(7)
    by (cases p; simp)+
  moreover have "\<not> list_ex is_ctl ?raw" "?raw \<noteq> ''*''" "CHR ''#'' \<notin> set ?raw"
    using chars by (auto simp: list_ex_iff)
  ultimately have "parse_url ?raw = Inr (empty_URL\<lparr>url_Scheme := sch, url_RawQuery := q, url_User := None,
      url_Host := h @ CHR '':'' # port, url_Path := p, url_RawPath := []\<rparr>)"
    using getScheme_ok [OF assms(1), of "[]" "?front @ qtail"] assms(2) cut
    by (simp add: parse_url_def Let_def has_prefix_def parseAuthority_ok [OF assms(3-5)] setPath_ok [OF assms(6)]
        ToLower_scheme [OF assms(1)])
  with \<open>CHR ''#'' \<notin> set ?raw\<close> show ?thesis by (simp add: Parse_def Cut_none empty_URL_def)
qed

end
