(* ===== verification/ServiceCtl.thy ===== *)
theory ServiceCtl
  imports ClientResolver GoUrl
begin

text \<open>
  The service controller of \<open>internal/controller/dockerservice/reconciler.go\<close>: for a
  \<open>DockerService\<close> it runs a tunnel server in the cluster (a Service, a Deployment, an
  authentication secret, a ConfigMap with the targets) and one tunnel client container on the
  Docker host of the first target container.
\<close>

section \<open>The calls of the service controller\<close>

text \<open>
  \<open>sv_base\<close> has the calls shared with the other controllers. \<open>CreateOrUpdate\<close> of the
  controller library takes the owner, whose reference it sets, and the desired object.
  \<open>sv_mapOrder\<close> is the order in which a Go map of containers is iterated.
\<close>

record Pod =
  pod_Name :: string
  pod_Phase :: string
  pod_IP :: string

record 'w svc_api =
  sv_base :: "'w api"
  sv_getDockerService :: "ObjectKey \<Rightarrow> ('w, DockerService) call"
  sv_listDockerServices :: "string \<Rightarrow> ('w, DockerService list) call"
  sv_updateDockerService :: "DockerService \<Rightarrow> ('w, DockerService) call"
  sv_statusDockerService :: "DockerService \<Rightarrow> ('w, DockerService) call"
  sv_LabelSelectorAsSelector :: "LabelSelector \<Rightarrow> error option"
  sv_Matches :: "LabelSelector \<Rightarrow> (string \<times> string) list \<Rightarrow> bool"
  sv_selectContainers :: "string \<Rightarrow> LabelSelector \<Rightarrow> ('w, DockerContainer list) call"
  sv_applyService :: "ObjectMeta \<Rightarrow> K8sService \<Rightarrow> ('w, OperationResult) call"
  sv_applyConfigMap :: "ObjectMeta \<Rightarrow> ConfigMap \<Rightarrow> ('w, OperationResult) call"
  sv_applyDeployment :: "ObjectMeta \<Rightarrow> K8sDeployment \<Rightarrow> ('w, OperationResult) call"
  sv_createSecret :: "Secret \<Rightarrow> ('w, unit) call"
  sv_listPods :: "string \<Rightarrow> string \<Rightarrow> ('w, Pod list) call"
  sv_listControlPlaneNodes :: "('w, string list) call"
  sv_ImageInspect :: "client \<Rightarrow> string \<Rightarrow> ('w, unit) call"
  sv_NetworkConnect :: "client \<Rightarrow> string \<Rightarrow> string \<Rightarrow> ('w, unit) call"
  sv_Post :: "string \<Rightarrow> ('w, unit) call"
  sv_randRead :: "nat \<Rightarrow> 'w \<Rightarrow> nat list \<times> 'w"
  sv_operatorImage :: string
  sv_mapOrder :: "DockerContainer list \<Rightarrow> DockerContainer list"

definition updateDockerService where
  "updateDockerService api ds = invoke (sv_updateDockerService api ds) (\<lambda>r. [EvUpdateService ds r])"
definition statusDockerService where
  "statusDockerService api ds = invoke (sv_statusDockerService api ds) (\<lambda>r. [EvStatusService ds r])"
definition applyService where
  "applyService api own svc = invoke (sv_applyService api own svc) (\<lambda>r. [EvApplyService svc r])"
definition applyConfigMap where
  "applyConfigMap api own cm = invoke (sv_applyConfigMap api own cm) (\<lambda>r. [EvApplyConfigMap cm r])"
definition applyDeployment where
  "applyDeployment api own dep = invoke (sv_applyDeployment api own dep) (\<lambda>r. [EvApplyDeployment dep r])"
definition createSecret where
  "createSecret api sec = invoke (sv_createSecret api sec) (\<lambda>r. [EvCreateSecret sec r])"
definition NetworkConnect where
  "NetworkConnect api cli net c = invoke (sv_NetworkConnect api cli net c) (\<lambda>r. [EvNetworkConnect cli net c r])"
definition httpPost where
  "httpPost api url = invoke (sv_Post api url) (\<lambda>r. [EvPost url])"

lemmas svc_call_defs = updateDockerService_def statusDockerService_def applyService_def applyConfigMap_def
  applyDeployment_def createSecret_def NetworkConnect_def httpPost_def

section \<open>Definitions\<close>

definition ds_ensureTunnelAuthSecret :: "'w svc_api \<Rightarrow> DockerService \<Rightarrow> ('w, error + string) io" where
  "ds_ensureTunnelAuthSecret api ds =
     (let secretName = om_Name (ds_Meta ds) @ ''-tunnel-auth'';
          generate = do {
            b \<leftarrow> query (sv_randRead api 16);
            let token = EncodeToString b;
            case lib_SetControllerReference (sv_base api) (ds_Meta ds)
                \<lparr>om_Name = secretName, om_Namespace = om_Namespace (ds_Meta ds), om_UID = [], om_Labels = [],
                 om_CreationTimestamp = 0, om_DeletionTimestamp = None, om_Finalizers = [], om_OwnerReferences = []\<rparr> of
              Inl err \<Rightarrow> ret (Inl err)
            | Inr _ \<Rightarrow>
                bindE (createSecret api \<lparr>sec_Name = secretName, sec_Namespace = om_Namespace (ds_Meta ds),
                  sec_Data = [(''token'', token)]\<rparr>) (\<lambda>_. ret (Inr token)) }
      in do {
        r \<leftarrow> getSecret (sv_base api) \<lparr>key_Namespace = om_Namespace (ds_Meta ds), key_Name = secretName\<rparr>;
        case r of
          Inr secret \<Rightarrow>
            (case map_of (sec_Data secret) ''token'' of Some token \<Rightarrow> ret (Inr token) | None \<Rightarrow> generate)
        | Inl err \<Rightarrow> if \<not> IsNotFound err then ret (Inl err) else generate })"

definition reload_url :: "string \<Rightarrow> string \<Rightarrow> string" where
  "reload_url podIP targetsCSV = ''http://'' @ podIP @ '':8081/reload?targets='' @ QueryEscape targetsCSV"

text \<open>One request per running pod with an address; the requests run in parallel and only log.\<close>

fun post_each :: "'w svc_api \<Rightarrow> string \<Rightarrow> Pod list \<Rightarrow> ('w, unit) io" where
  "post_each api targetsCSV [] = ret ()"
| "post_each api targetsCSV (pod # pods) =
     (if pod_Phase pod \<noteq> ''Running'' \<or> pod_IP pod = [] then post_each api targetsCSV pods
      else do {
        _ \<leftarrow> httpPost api (reload_url (pod_IP pod) targetsCSV);
        post_each api targetsCSV pods })"

definition triggerTunnelReload :: "'w svc_api \<Rightarrow> string \<Rightarrow> string \<Rightarrow> string \<Rightarrow> ('w, unit) io" where
  "triggerTunnelReload api namespace appName targetsCSV = do {
     r \<leftarrow> query (sv_listPods api namespace appName);
     case r of Inl err \<Rightarrow> ret () | Inr pods \<Rightarrow> post_each api targetsCSV pods }"

definition operator_image :: "'w svc_api \<Rightarrow> string" where
  "operator_image api = (if sv_operatorImage api = [] then ''hvtung/k8s-docker-operator:latest'' else sv_operatorImage api)"

definition tunnel_service :: "DockerService \<Rightarrow> K8sService" where
  "tunnel_service ds =
     (let name = ''tunnel-'' @ om_Name (ds_Meta ds)
      in \<lparr>ksv_Name = name, ksv_Namespace = om_Namespace (ds_Meta ds), ksv_Labels = [(''app'', name)],
          ksv_Selector = [(''app'', name)],
          ksv_Ports = \<lparr>svp_Name = ''ws'', svp_Port = 8081, svp_TargetPort = 8081\<rparr> #
            map (\<lambda>p. \<lparr>svp_Name = sp_Name p, svp_Port = sp_Port p, svp_TargetPort = sp_Port p\<rparr>)
              (dss_Ports (ds_Spec ds))\<rparr>)"

definition targets_csv :: "string list \<Rightarrow> string" where
  "targets_csv targetIPs = Join (sort targetIPs) (CHR '','')"

definition tunnel_configmap :: "DockerService \<Rightarrow> string \<Rightarrow> ConfigMap" where
  "tunnel_configmap ds targetsCSV = \<lparr>cm_Name = ''tunnel-'' @ om_Name (ds_Meta ds) @ ''-targets'',
     cm_Namespace = om_Namespace (ds_Meta ds), cm_Data = [(''targets'', targetsCSV)]\<rparr>"

definition tunnel_deployment :: "'w svc_api \<Rightarrow> DockerService \<Rightarrow> string \<Rightarrow> K8sDeployment" where
  "tunnel_deployment api ds authToken =
     (let name = ''tunnel-'' @ om_Name (ds_Meta ds)
      in \<lparr>dep_Name = name, dep_Namespace = om_Namespace (ds_Meta ds), dep_Labels = [(''app'', name)],
          dep_Replicas = 1, dep_Selector = [(''app'', name)], dep_Image = operator_image api, dep_Command = [],
          dep_Args = [''tunnel'', ''-mode=server'', ''-ws-addr=:8081'', ''-auth-token='' @ authToken,
              ''-targets-file=/etc/tunnel/targets''] @
            map (\<lambda>p. ''-listen-addr=:'' @ show_int (sp_Port p)) (dss_Ports (ds_Spec ds)),
          dep_ContainerPorts = [8081], dep_MountPath = ''/etc/tunnel'', dep_ConfigMap = name @ ''-targets''\<rparr>)"

definition tunnel_ws_url :: "DockerService \<Rightarrow> string" where
  "tunnel_ws_url ds = ''ws://tunnel-'' @ om_Name (ds_Meta ds) @ ''.'' @ om_Namespace (ds_Meta ds) @ ''.svc:8081/ws''"

text \<open>The number of targets is a parameter that the function does not use.\<close>

definition ds_reconcileTunnelServer ::
    "'w svc_api \<Rightarrow> DockerService \<Rightarrow> int \<Rightarrow> string list \<Rightarrow> ('w, error + string) io" where
  "ds_reconcileTunnelServer api ds targetCount targetIPs =
     (let name = ''tunnel-'' @ om_Name (ds_Meta ds);
          namespace = om_Namespace (ds_Meta ds);
          targetsCSV = targets_csv targetIPs
      in bindE (applyService api (ds_Meta ds) (tunnel_service ds)) (\<lambda>_.
         bindE (ds_ensureTunnelAuthSecret api ds) (\<lambda>authToken.
         bindE (applyConfigMap api (ds_Meta ds) (tunnel_configmap ds targetsCSV)) (\<lambda>opResult. do {
           _ \<leftarrow> (if opResult = OperationResultUpdated then triggerTunnelReload api namespace name targetsCSV else ret ());
           bindE (applyDeployment api (ds_Meta ds) (tunnel_deployment api ds authToken)) (\<lambda>_.
             ret (Inr (tunnel_ws_url ds))) }))))"

section \<open>The tunnel client\<close>

definition tunnel_client_name :: "DockerService \<Rightarrow> string" where
  "tunnel_client_name ds = ''tunnel-client-'' @ om_Name (ds_Meta ds)"

definition gateway_host :: "'w svc_api \<Rightarrow> string \<Rightarrow> ('w, string) io" where
  "gateway_host api netMode =
     (if netMode = ''kind'' then do {
        r \<leftarrow> query (sv_listControlPlaneNodes api);
        ret (case r of Inr (n # _) \<Rightarrow> n | _ \<Rightarrow> ''localhost'') }
      else ret ''localhost'')"

definition mark_active :: "'w svc_api \<Rightarrow> DockerService \<Rightarrow> string \<Rightarrow> ('w, error + unit) io" where
  "mark_active api ds wsURL =
     bindE (statusDockerService api (ds\<lparr>ds_Status := (ds_Status ds)\<lparr>dst_Phase := ''Active'',
       dst_TunnelClients := 1, dst_TunnelServerURL := wsURL\<rparr>\<rparr>)) (\<lambda>_. ret (Inr ()))"

definition tunnel_client_cmd :: "string \<Rightarrow> string \<Rightarrow> string list" where
  "tunnel_client_cmd url authToken =
     [''tunnel'', ''-mode=client'', ''-server-url='' @ url, ''-auth-token='' @ authToken]"

definition create_tunnel_client ::
    "'w svc_api \<Rightarrow> client \<Rightarrow> DockerService \<Rightarrow> string \<Rightarrow> string \<Rightarrow> string \<Rightarrow> string \<Rightarrow> string \<Rightarrow> ('w, error + unit) io" where
  "create_tunnel_client api cli ds img url authToken net wsURL =
     (let config = \<lparr>cfg_Image = img, cfg_Cmd = tunnel_client_cmd url authToken, cfg_Env = [], cfg_Healthcheck = None, cfg_ExposedPorts = {}\<rparr>;
          netMode = dss_NetworkMode (ds_Spec ds);
          hostConfig = \<lparr>hc_RestartPolicy = ''always'', hc_PortBindings = Map.empty, hc_Binds = [],
            hc_Resources = empty_Resources,
            hc_NetworkMode = (if netMode = ''host'' then ''host'' else if netMode = ''kind'' then ''kind'' else [])\<rparr>
      in bindE (ContainerCreate (sv_base api) cli config hostConfig (tunnel_client_name ds)) (\<lambda>_.
         bindE (ContainerStart (sv_base api) cli (tunnel_client_name ds)) (\<lambda>_. do {
           _ \<leftarrow> (if net \<noteq> [] \<and> net \<noteq> ''host'' \<and> net \<noteq> ''none''
             then do { _ \<leftarrow> NetworkConnect api cli net (tunnel_client_name ds); ret () } else ret ());
           mark_active api ds wsURL })))"

text \<open>From the inspection of the client container on: reuse it, start it, or replace it.\<close>

definition sync_tunnel_client ::
    "'w svc_api \<Rightarrow> client \<Rightarrow> DockerService \<Rightarrow> string \<Rightarrow> string \<Rightarrow> string \<Rightarrow> string \<Rightarrow> string \<Rightarrow> ('w, error + unit) io" where
  "sync_tunnel_client api cli ds img url authToken net wsURL =
     (let create = create_tunnel_client api cli ds img url authToken net wsURL
      in do {
        er \<leftarrow> ContainerInspect (sv_base api) cli (tunnel_client_name ds);
        case er of
          Inl err \<Rightarrow> if \<not> IsErrNotFound err then ret (Inl err) else create
        | Inr existing \<Rightarrow>
            (case cj_Config existing of
               None \<Rightarrow> ret (Inl (GoPanic ''nil pointer dereference''))
             | Some cfg \<Rightarrow>
                 if cfg_Image cfg \<noteq> img then
                   bindE (ContainerRemove (sv_base api) cli (tunnel_client_name ds)) (\<lambda>_. create)
                 else
                   (case cj_State existing of
                      None \<Rightarrow> ret (Inl (GoPanic ''nil pointer dereference''))
                    | Some st \<Rightarrow>
                        bindE (if \<not> cs_Running st then ContainerStart (sv_base api) cli (tunnel_client_name ds)
                          else ret (Inr ()))
                          (\<lambda>_. mark_active api ds wsURL))) })"

definition client_connect_url :: "string \<Rightarrow> string \<Rightarrow> string \<Rightarrow> string" where
  "client_connect_url gatewayHost wsURL authToken = ''ws://'' @ gatewayHost @ '':30000/ws?target='' @
     QueryEscape wsURL @ ''&token='' @ QueryEscape authToken"

definition ds_reconcileTunnelClient ::
    "'w svc_api \<Rightarrow> client \<Rightarrow> DockerService \<Rightarrow> DockerContainer \<Rightarrow> string \<Rightarrow> ('w, error + unit) io" where
  "ds_reconcileTunnelClient api cli ds representative wsURL = do {
     r \<leftarrow> ContainerInspect (sv_base api) cli (dcs_ContainerName (dc_Spec representative));
     case r of
       Inl err \<Rightarrow> if IsErrNotFound err then ret (Inr ()) else ret (Inl err)
     | Inr mainContainer \<Rightarrow>
         (case cj_Networks mainContainer of
            None \<Rightarrow> ret (Inl (GoPanic ''nil pointer dereference''))
          | Some networks \<Rightarrow> do {
              let net = (case networks of [] \<Rightarrow> [] | (_, es) # _ \<Rightarrow> es_NetworkID es);
              gatewayHost \<leftarrow> gateway_host api (dss_NetworkMode (ds_Spec ds));
              bindE (ds_ensureTunnelAuthSecret api ds) (\<lambda>authToken. do {
                let img = operator_image api;
                ir \<leftarrow> query (sv_ImageInspect api cli img);
                _ \<leftarrow> (case ir of Inl _ \<Rightarrow> do { _ \<leftarrow> ImagePull (sv_base api) cli img []; ret () } | Inr _ \<Rightarrow> ret ());
                sync_tunnel_client api cli ds img (client_connect_url gatewayHost wsURL authToken) authToken net wsURL }) }) }"

section \<open>Clean-up\<close>

definition refetch_targets :: "'w svc_api \<Rightarrow> DockerService \<Rightarrow> ('w, DockerContainer list) io" where
  "refetch_targets api ds =
     (case dss_Selector (ds_Spec ds) of
        Some sel \<Rightarrow>
          (case sv_LabelSelectorAsSelector api sel of
             Some err \<Rightarrow> ret []
           | None \<Rightarrow> do {
               r \<leftarrow> query (sv_selectContainers api (om_Namespace (ds_Meta ds)) sel);
               ret (case r of Inl _ \<Rightarrow> [] | Inr items \<Rightarrow> items) })
      | None \<Rightarrow>
          if dss_ContainerRef (ds_Spec ds) \<noteq> [] then do {
            r \<leftarrow> getDockerContainer (sv_base api)
              \<lparr>key_Namespace = om_Namespace (ds_Meta ds), key_Name = dss_ContainerRef (ds_Spec ds)\<rparr>;
            ret (case r of Inl _ \<Rightarrow> [] | Inr c \<Rightarrow> [c]) }
          else ret [])"

text \<open>The map from host reference to container: one container per reference, the last one.\<close>

fun host_map :: "DockerContainer list \<Rightarrow> DockerContainer list" where
  "host_map [] = []"
| "host_map (tc # tcs) =
     (if list_ex (\<lambda>d. dcs_DockerHostRef (dc_Spec d) = dcs_DockerHostRef (dc_Spec tc)) tcs then host_map tcs
      else tc # host_map tcs)"

fun cleanup_hosts :: "'w svc_api \<Rightarrow> client option \<Rightarrow> DockerService \<Rightarrow> DockerContainer list \<Rightarrow> ('w, unit) io" where
  "cleanup_hosts api own ds [] = ret ()"
| "cleanup_hosts api own ds (tc # tcs) = do {
     r \<leftarrow> ds_getDockerClient (sv_base api) own tc;
     case r of
       Inl err \<Rightarrow> cleanup_hosts api own ds tcs
     | Inr cli \<Rightarrow> do {
         _ \<leftarrow> ContainerRemove (sv_base api) cli (tunnel_client_name ds);
         _ \<leftarrow> ContainerRemove (sv_base api) cli (om_Name (ds_Meta ds) @ ''-tunnel'');
         cleanup_hosts api own ds tcs } }"

definition ds_deleteExternalResources ::
    "'w svc_api \<Rightarrow> client option \<Rightarrow> DockerService \<Rightarrow> ('w, error + unit) io" where
  "ds_deleteExternalResources api own ds = do {
     targetContainers \<leftarrow> refetch_targets api ds;
     _ \<leftarrow> cleanup_hosts api own ds (sv_mapOrder api (host_map targetContainers));
     ret (Inr ()) }"

section \<open>The reconcile loop\<close>

definition ds_finalizerName :: string where
  "ds_finalizerName = ''dockerservice.kdop.io.vn/finalizer''"

text \<open>The addresses of the containers that have one, with the target port of the first service port.\<close>

fun gather_targets :: "DockerService \<Rightarrow> DockerContainer list \<Rightarrow> error + string list" where
  "gather_targets ds [] = Inr []"
| "gather_targets ds (tc # tcs) =
     (if dct_IPv4 (dc_Status tc) \<noteq> [] then
        (case dss_Ports (ds_Spec ds) of
           [] \<Rightarrow> Inl (GoPanic ''index out of range'')
         | p # _ \<Rightarrow>
             (case gather_targets ds tcs of
                Inl err \<Rightarrow> Inl err
              | Inr ts \<Rightarrow> Inr ((dct_IPv4 (dc_Status tc) @ '':'' @ show_int (sp_TargetPort p)) # ts)))
      else gather_targets ds tcs)"

text \<open>An error of the tunnel client is logged and dropped; a panic is not an error value and passes.\<close>

definition ds_proceed :: "'w svc_api \<Rightarrow> client option \<Rightarrow> DockerService \<Rightarrow> DockerContainer list \<Rightarrow> ('w, error + Result) io" where
  "ds_proceed api own ds targetContainers =
     (case gather_targets ds targetContainers of
        Inl err \<Rightarrow> ret (Inl err)
      | Inr targetIPs \<Rightarrow>
          bindE (ds_reconcileTunnelServer api ds (if length targetContainers = 0 then 0 else 1) targetIPs) (\<lambda>wsURL.
            (case targetContainers of
               [] \<Rightarrow> ret (Inr (requeue (30 * second)))
             | firstContainer # _ \<Rightarrow>
                 bindE (ds_getDockerClient (sv_base api) own firstContainer) (\<lambda>cli. do {
                   r \<leftarrow> ds_reconcileTunnelClient api cli ds firstContainer wsURL;
                   ret (case r of Inl (GoPanic m) \<Rightarrow> Inl (GoPanic m) | _ \<Rightarrow> Inr (requeue (30 * second))) }))))"

definition ds_with_targets :: "'w svc_api \<Rightarrow> client option \<Rightarrow> DockerService \<Rightarrow> DockerContainer list \<Rightarrow> ('w, error + Result) io" where
  "ds_with_targets api own ds targetContainers =
     (if om_DeletionTimestamp (ds_Meta ds) = None then
        if \<not> lib_ContainsFinalizer (sv_base api) (ds_Meta ds) ds_finalizerName then
          bindE (updateDockerService api (ds\<lparr>ds_Meta := lib_AddFinalizer (sv_base api) (ds_Meta ds) ds_finalizerName\<rparr>))
            (\<lambda>ds'. ds_proceed api own ds' targetContainers)
        else ds_proceed api own ds targetContainers
      else if lib_ContainsFinalizer (sv_base api) (ds_Meta ds) ds_finalizerName then
        bindE (ds_deleteExternalResources api own ds) (\<lambda>_.
        bindE (updateDockerService api (ds\<lparr>ds_Meta := lib_RemoveFinalizer (sv_base api) (ds_Meta ds) ds_finalizerName\<rparr>))
          (\<lambda>_. ret (Inr no_requeue)))
      else ret (Inr no_requeue))"

definition ds_Reconcile :: "'w svc_api \<Rightarrow> client option \<Rightarrow> ObjectKey \<Rightarrow> ('w, error + Result) io" where
  "ds_Reconcile api own req = do {
     r \<leftarrow> query (sv_getDockerService api req);
     case r of
       Inl err \<Rightarrow> if IsNotFound err then ret (Inr no_requeue) else ret (Inl err)
     | Inr ds \<Rightarrow>
         (case dss_Selector (ds_Spec ds) of
            Some sel \<Rightarrow>
              (case sv_LabelSelectorAsSelector api sel of
                 Some err \<Rightarrow> ret (Inl err)
               | None \<Rightarrow> bindE (query (sv_selectContainers api (key_Namespace req) sel)) (ds_with_targets api own ds))
          | None \<Rightarrow>
              if dss_ContainerRef (ds_Spec ds) \<noteq> [] then do {
                cr \<leftarrow> getDockerContainer (sv_base api)
                  \<lparr>key_Namespace = key_Namespace req, key_Name = dss_ContainerRef (ds_Spec ds)\<rparr>;
                case cr of
                  Inl err \<Rightarrow> if IsNotFound err then ret (Inr (requeue (10 * second))) else ret (Inl err)
                | Inr c \<Rightarrow> ds_with_targets api own ds [c] }
              else ret (Inr no_requeue)) }"

section \<open>Watching containers\<close>

definition findDockerServicesForContainer :: "'w svc_api \<Rightarrow> DockerContainer \<Rightarrow> ('w, ObjectKey list) io" where
  "findDockerServicesForContainer api c = do {
     r \<leftarrow> query (sv_listDockerServices api (om_Namespace (dc_Meta c)));
     ret (case r of
       Inl err \<Rightarrow> []
     | Inr items \<Rightarrow> concat (map (\<lambda>ds.
         (case dss_Selector (ds_Spec ds) of
            None \<Rightarrow> []
          | Some sel \<Rightarrow>
              if sv_LabelSelectorAsSelector api sel = None \<and> sv_Matches api sel (om_Labels (dc_Meta c))
              then [\<lparr>key_Namespace = om_Namespace (ds_Meta ds), key_Name = om_Name (ds_Meta ds)\<rparr>]
              else [])) items)) }"

section \<open>What the code can do\<close>

lemma emits_svc_calls [emits_intros]:
  "emits P (query f)"
  "(\<And>r. P (EvUpdateService ds r)) \<Longrightarrow> emits P (updateDockerService api ds)"
  "(\<And>r. P (EvStatusService ds r)) \<Longrightarrow> emits P (statusDockerService api ds)"
  "(\<And>r. P (EvApplyService svc r)) \<Longrightarrow> emits P (applyService api own svc)"
  "(\<And>r. P (EvApplyConfigMap cm r)) \<Longrightarrow> emits P (applyConfigMap api own cm)"
  "(\<And>r. P (EvApplyDeployment dep r)) \<Longrightarrow> emits P (applyDeployment api own dep)"
  "(\<And>r. P (EvCreateSecret sec r)) \<Longrightarrow> emits P (createSecret api sec)"
  "(\<And>r. P (EvNetworkConnect cli net cid r)) \<Longrightarrow> emits P (NetworkConnect api cli net cid)"
  "P (EvPost url) \<Longrightarrow> emits P (httpPost api url)"
  by (simp_all add: svc_call_defs emits_invoke)

lemma emits_case_list [emits_intros]:
  "emits P f \<Longrightarrow> (\<And>x xs. emits P (g x xs)) \<Longrightarrow> emits P (case l of [] \<Rightarrow> f | x # xs \<Rightarrow> g x xs)"
  by (simp split: list.splits)

lemma emits_secret:
  "(\<And>sec r. P (EvCreateSecret sec r)) \<Longrightarrow> emits P (ds_ensureTunnelAuthSecret api ds)"
  unfolding ds_ensureTunnelAuthSecret_def Let_def by (intro emits_intros; simp)

text \<open>A running pod that the cluster lists under the label of the service's tunnel server.\<close>

definition listed_pod :: "'w svc_api \<Rightarrow> string \<Rightarrow> string \<Rightarrow> Pod \<Rightarrow> bool" where
  "listed_pod api ns app pod \<longleftrightarrow> (\<exists>w pods w'. sv_listPods api ns app w = (Inr pods, w') \<and> pod \<in> set pods \<and>
     pod_Phase pod = ''Running'' \<and> pod_IP pod \<noteq> [])"

lemma emits_post_each:
  "(\<And>pod. pod \<in> set pods \<Longrightarrow> pod_Phase pod = ''Running'' \<Longrightarrow> pod_IP pod \<noteq> [] \<Longrightarrow> P (EvPost (reload_url (pod_IP pod) csv))) \<Longrightarrow>
   emits P (post_each api csv pods)"
  by (induction pods) (auto intro!: emits_intros)

lemma emits_reload:
  assumes "\<And>pod. listed_pod api ns app pod \<Longrightarrow> P (EvPost (reload_url (pod_IP pod) csv))"
  shows "emits P (triggerTunnelReload api ns app csv)"
  unfolding triggerTunnelReload_def
proof (rule emits_bind_post [where I = "\<lambda>r. \<exists>w w'. sv_listPods api ns app w = (r, w')"], goal_cases)
  case (2 s)
  then show ?case by (auto simp: wp_invoke split: prod.splits)
next
  case (3 r)
  then show ?case
    by (auto intro!: emits_intros emits_post_each assms split: sum.splits) (auto simp: listed_pod_def)
qed (intro emits_intros)

text \<open>The events of the tunnel client: its container, its secret, the status of the service.\<close>

definition tunnel_client_event :: "'w svc_api \<Rightarrow> client \<Rightarrow> DockerService \<Rightarrow> event \<Rightarrow> bool" where
  "tunnel_client_event api cli ds e \<longleftrightarrow> (case e of
     EvCreate c nm cfg hcfg r \<Rightarrow> c = cli \<and> nm = tunnel_client_name ds \<and> cfg_Image cfg = operator_image api
   | EvStart c cid r \<Rightarrow> c = cli \<and> cid = tunnel_client_name ds
   | EvRemove c cid r \<Rightarrow> c = cli \<and> cid = tunnel_client_name ds
   | EvPull c img auth r \<Rightarrow> c = cli \<and> img = operator_image api
   | EvNetworkConnect c net cid r \<Rightarrow> c = cli \<and> cid = tunnel_client_name ds
   | EvCreateSecret sec r \<Rightarrow> True
   | EvStatusService d r \<Rightarrow> ds_Meta d = ds_Meta ds \<and> ds_Spec d = ds_Spec ds \<and> dst_Phase (ds_Status d) = ''Active''
   | _ \<Rightarrow> False)"

lemma emits_create_client:
  "emits (tunnel_client_event api cli ds) (create_tunnel_client api cli ds (operator_image api) url tok net wsURL)"
  unfolding create_tunnel_client_def mark_active_def Let_def
  by (intro emits_intros; simp add: tunnel_client_event_def)

lemma emits_client:
  "emits (tunnel_client_event api cli ds) (ds_reconcileTunnelClient api cli ds tc wsURL)"
  unfolding ds_reconcileTunnelClient_def sync_tunnel_client_def gateway_host_def Let_def mark_active_def
  by (intro emits_intros emits_create_client emits_secret; simp add: tunnel_client_event_def)

section \<open>Targets\<close>

definition target_addr :: "int \<Rightarrow> DockerContainer \<Rightarrow> string" where
  "target_addr port tc = dct_IPv4 (dc_Status tc) @ '':'' @ show_int port"

definition service_targets :: "int \<Rightarrow> DockerContainer list \<Rightarrow> string list" where
  "service_targets port tcs = map (target_addr port) (filter (\<lambda>tc. dct_IPv4 (dc_Status tc) \<noteq> []) tcs)"

lemma gather_targets_eq:
  "dss_Ports (ds_Spec ds) = p # ps \<Longrightarrow> gather_targets ds tcs = Inr (service_targets (sp_TargetPort p) tcs)"
  by (induction tcs) (auto simp: service_targets_def target_addr_def)

text \<open>A character that can stand in an address of the list.\<close>

definition addr_char :: "char \<Rightarrow> bool" where
  "addr_char c \<longleftrightarrow> \<not> is_space c \<and> c \<noteq> CHR '',''"

lemma addr_char_simps [simp]: "is_digit c \<Longrightarrow> addr_char c" "addr_char (CHR '':'')" "addr_char (CHR ''-'')"
  by (auto simp: addr_char_def is_digit_def is_space_def)

lemma service_targets_addr:
  assumes "\<forall>tc \<in> set tcs. \<forall>c \<in> set (dct_IPv4 (dc_Status tc)). addr_char c"
    and "t \<in> set (service_targets port tcs)"
  shows "t \<noteq> [] \<and> (\<forall>c \<in> set t. addr_char c)"
proof -
  obtain tc where "tc \<in> set tcs" "t = dct_IPv4 (dc_Status tc) @ '':'' @ show_int port"
    using assms(2) by (auto simp: service_targets_def target_addr_def)
  moreover have "addr_char c" if "c \<in> set (show_int port)" for c
    using show_int_chars [OF that] by auto
  ultimately show ?thesis using assms(1) by auto
qed

lemma emits_proceed:
  assumes "gather_targets ds tcs = Inr ts"
    and cm: "\<And>r. P (EvApplyConfigMap (tunnel_configmap ds (targets_csv ts)) r)"
    and post: "\<And>pod. listed_pod api (om_Namespace (ds_Meta ds)) (''tunnel-'' @ om_Name (ds_Meta ds)) pod \<Longrightarrow>
      P (EvPost (reload_url (pod_IP pod) (targets_csv ts)))"
    and rest: "\<And>e. (\<forall>c r. e \<noteq> EvApplyConfigMap c r) \<Longrightarrow> (\<forall>u. e \<noteq> EvPost u) \<Longrightarrow> P e"
  shows "emits P (ds_proceed api own ds tcs)"
proof -
  have res: "emits P (ds_getDockerClient (sv_base api) own tc)" for tc
    by (rule emits_mono [OF emits_resolver(3)]) (auto simp: client_event_def intro: rest)
  have cli: "emits P (ds_reconcileTunnelClient api cli ds tc url)" for cli tc url
    by (rule emits_mono [OF emits_client]) (auto simp: tunnel_client_event_def intro: rest)
  have sec: "emits P (ds_ensureTunnelAuthSecret api ds)" by (rule emits_secret) (simp add: rest)
  show ?thesis
    unfolding ds_proceed_def assms(1) sum.case ds_reconcileTunnelServer_def Let_def
    by (intro emits_intros res cli sec emits_reload cm post; simp add: rest)
qed

section \<open>The order of the calls of the tunnel client\<close>

text \<open>
  The status is written last, and only for a client that was started in this run or that the
  inspection right before the write reported as running the operator's image: the write \<open>d\<close> with the
  answer \<open>x\<close> takes the world the inspection left to the world \<open>u\<close>.
\<close>

definition reported_up :: "'w svc_api \<Rightarrow> client \<Rightarrow> DockerService \<Rightarrow> DockerService \<Rightarrow> error + DockerService \<Rightarrow> 'w \<Rightarrow> bool" where
  "reported_up api cli ds d x u \<longleftrightarrow> (\<exists>w w' cj cfg st.
     api_ContainerInspect (sv_base api) cli (tunnel_client_name ds) w = (Inr cj, w') \<and>
     cj_Config cj = Some cfg \<and> cfg_Image cfg = operator_image api \<and> cj_State cj = Some st \<and> cs_Running st \<and>
     sv_statusDockerService api d w' = (x, u))"

definition active_last :: "'w svc_api \<Rightarrow> client \<Rightarrow> DockerService \<Rightarrow> 'w st \<Rightarrow> 'w st \<Rightarrow> bool" where
  "active_last api cli ds s s' \<longleftrightarrow> (\<forall>d x. EvStatusService d x \<in> set (new_events s s') \<longrightarrow>
     (\<exists>pre. new_events s s' = pre @ [EvStatusService d x] \<and>
       (EvStart cli (tunnel_client_name ds) (Inr ()) \<in> set pre \<or> reported_up api cli ds d x (st_world s'))))"

definition no_status_yet :: "'w st \<Rightarrow> 'w st \<Rightarrow> bool" where
  "no_status_yet s0 s \<longleftrightarrow> (\<exists>es. st_trace s = st_trace s0 @ es \<and> (\<forall>d x. EvStatusService d x \<notin> set es))"

lemma no_status_yet_refl: "no_status_yet s s"
  by (simp add: no_status_yet_def)

lemma no_status_yet_step:
  assumes "no_status_yet s0 s" and "emits (\<lambda>e. \<forall>d x. e \<noteq> EvStatusService d x) m"
    and "\<And>r s'. no_status_yet s0 s' \<Longrightarrow> Q r s'"
  shows "wp m Q s"
proof (rule wp_emitsI [OF assms(2)])
  fix r es and s' :: "'a st"
  assume "st_trace s' = st_trace s @ es" "list_all (\<lambda>e. \<forall>d x. e \<noteq> EvStatusService d x) es"
  then have "no_status_yet s0 s'" using assms(1) unfolding no_status_yet_def list_all_iff
    by (metis Un_iff append.assoc set_append)
  then show "Q r s'" by (rule assms(3))
qed

lemma no_status_yet_bind:
  assumes "no_status_yet s0 s" and "emits (\<lambda>e. \<forall>d x. e \<noteq> EvStatusService d x) m"
    and "\<And>r s'. no_status_yet s0 s' \<Longrightarrow> wp (f r) Q s'"
  shows "wp (State_Monad.bind m f) Q s"
  unfolding wp_bind by (rule no_status_yet_step [OF assms])

lemma active_last_early: "no_status_yet s0 s \<Longrightarrow> active_last api cli ds s0 s"
  by (auto simp: no_status_yet_def active_last_def)

lemma active_last_mark:
  assumes "no_status_yet s0 s"
    and "EvStart cli (tunnel_client_name ds) (Inr ()) \<in> set (new_events s0 s) \<or>
      (\<forall>d x u. sv_statusDockerService api d (st_world s) = (x, u) \<longrightarrow> reported_up api cli ds d x u)"
  shows "wp (mark_active api ds wsURL) (\<lambda>r. active_last api cli ds s0) s"
  using assms unfolding mark_active_def active_last_def no_status_yet_def
  by (auto simp: wp_simps svc_call_defs wp_invoke split: sum.splits prod.splits)

lemma active_last_bindE:
  assumes "no_status_yet s0 s" and "emits (\<lambda>e. \<forall>d x. e \<noteq> EvStatusService d x) m"
    and "\<And>x s'. no_status_yet s0 s' \<Longrightarrow> wp (f x) (\<lambda>r. active_last api cli ds s0) s'"
  shows "wp (bindE m f) (\<lambda>r. active_last api cli ds s0) s"
  unfolding wp_bindE
  by (rule no_status_yet_step [OF assms(1,2)]) (auto simp: active_last_early assms(3) split: sum.splits)

lemma active_last_create:
  assumes "no_status_yet s0 s"
  shows "wp (create_tunnel_client api cli ds img url tok net wsURL) (\<lambda>r. active_last api cli ds s0) s"
  using assms unfolding create_tunnel_client_def mark_active_def Let_def active_last_def no_status_yet_def
  by (auto simp: wp_simps call_defs svc_call_defs intro!: wp_invokeI split: sum.splits)

lemma active_last_sync:
  assumes "no_status_yet s0 s"
  shows "wp (sync_tunnel_client api cli ds (operator_image api) url tok net wsURL) (\<lambda>r. active_last api cli ds s0) s"
  unfolding sync_tunnel_client_def Let_def wp_bind ContainerInspect_def wp_invoke
proof (clarsimp, goal_cases)
  case (1 er w')
  let ?s = "s\<lparr>st_world := w'\<rparr>"
  have s: "no_status_yet s0 ?s" using assms by (simp add: no_status_yet_def)
  have start: "wp (ContainerStart (sv_base api) cli (tunnel_client_name ds)) (\<lambda>r. case r of
      Inl e \<Rightarrow> active_last api cli ds s0 | Inr x \<Rightarrow> wp (mark_active api ds wsURL) (\<lambda>r. active_last api cli ds s0)) ?s"
    unfolding ContainerStart_def
  proof (rule wp_invokeI)
    fix r w
    have "no_status_yet s0 (?s\<lparr>st_trace := st_trace ?s @ [EvStart cli (tunnel_client_name ds) r], st_world := w\<rparr>)"
      using s by (auto simp: no_status_yet_def)
    then show "(case r of Inl e \<Rightarrow> active_last api cli ds s0 | Inr x \<Rightarrow> wp (mark_active api ds wsURL) (\<lambda>r. active_last api cli ds s0))
        (?s\<lparr>st_trace := st_trace ?s @ [EvStart cli (tunnel_client_name ds) r], st_world := w\<rparr>)"
      using s by (auto simp: active_last_early no_status_yet_def intro!: active_last_mark split: sum.splits)
  qed
  have rm: "wp (ContainerRemove (sv_base api) cli (tunnel_client_name ds)) (\<lambda>r. case r of
      Inl e \<Rightarrow> active_last api cli ds s0 | Inr x \<Rightarrow> wp (create_tunnel_client api cli ds (operator_image api) url tok net wsURL) (\<lambda>r. active_last api cli ds s0)) ?s"
    by (rule no_status_yet_step [OF s]) (auto simp: active_last_early active_last_create intro!: emits_intros split: sum.splits)
  have up: "wp (mark_active api ds wsURL) (\<lambda>r. active_last api cli ds s0) ?s"
    if "er = Inr cj" "cj_Config cj = Some cfg" "cfg_Image cfg = operator_image api" "cj_State cj = Some st" "cs_Running st" for cj cfg st
    using that 1 by (intro active_last_mark [OF s] disjI2) (simp, unfold reported_up_def, blast)
  show ?case
    by (auto simp: wp_simps active_last_early [OF s] active_last_create [OF s] start rm up split: sum.splits option.splits)
qed

section \<open>A concrete API\<close>

definition demo_svc :: "DockerService list \<Rightarrow> kube_store svc_api" where
  "demo_svc services = \<lparr>
     sv_base = kube,
     sv_getDockerService = (\<lambda>k w. (store_get ds_Meta services k, w)),
     sv_listDockerServices = (\<lambda>ns w. (Inr services, w)),
     sv_updateDockerService = (\<lambda>ds w. (Inr ds, w)),
     sv_statusDockerService = (\<lambda>ds w. (Inr ds, w)),
     sv_LabelSelectorAsSelector = (\<lambda>sel. None),
     sv_Matches = (\<lambda>sel labels. set (ls_MatchLabels sel) \<subseteq> set labels),
     sv_selectContainers = (\<lambda>ns sel w. (Inr (filter (\<lambda>c. set (ls_MatchLabels sel) \<subseteq> set (om_Labels (dc_Meta c))) (ks_containers w)), w)),
     sv_applyService = (\<lambda>own svc w. (Inr OperationResultCreated, w)),
     sv_applyConfigMap = (\<lambda>own cm w. (Inr OperationResultUpdated, w)),
     sv_applyDeployment = (\<lambda>own dep w. (Inr OperationResultCreated, w)),
     sv_createSecret = (\<lambda>sec w. if \<exists>d \<in> set (ks_secrets w). sec_Namespace d = sec_Namespace sec \<and> sec_Name d = sec_Name sec
       then (Inl (ErrMsg ''already exists''), w) else (Inr (), w\<lparr>ks_secrets := sec # ks_secrets w\<rparr>)),
     sv_listPods = (\<lambda>ns app w. (Inr [\<lparr>pod_Name = app, pod_Phase = ''Running'', pod_IP = ''10.0.0.9''\<rparr>], w)),
     sv_listControlPlaneNodes = (\<lambda>w. (Inr [], w)),
     sv_ImageInspect = (\<lambda>cli img. unit_ok),
     sv_NetworkConnect = (\<lambda>cli net cid. unit_ok),
     sv_Post = (\<lambda>url. unit_ok),
     sv_randRead = (\<lambda>n w. (replicate n 171, w)),
     sv_operatorImage = [],
     sv_mapOrder = (\<lambda>cs. cs)\<rparr>"

lemmas svc_fixture_defs = demo_svc_def fixture_defs

definition plain_service :: "string \<Rightarrow> string \<Rightarrow> DockerService" where
  "plain_service n ref = \<lparr>ds_Meta = plain_meta n,
     ds_Spec = \<lparr>dss_ContainerRef = ref, dss_Selector = None,
       dss_Ports = [\<lparr>sp_Port = 80, sp_TargetPort = 8080, sp_Name = ''http''\<rparr>], dss_NetworkMode = []\<rparr>,
     ds_Status = \<lparr>dst_Phase = [], dst_TunnelClients = 0, dst_TunnelServerURL = [], dst_Message = []\<rparr>\<rparr>"

section \<open>Properties\<close>

text \<open>
  The secret of a tunnel as the API server has it: \<open>stored\<close> is the secret under the name of the
  service. A name is created at most once, since the server refuses to create an object that
  exists. A read comes from a cache: it may miss a secret that is there, but returns no other one.
  Nobody deletes or edits the secret. A failed creation may have had its effect.
\<close>

definition secret_name :: "DockerService \<Rightarrow> string" where
  "secret_name ds = om_Name (ds_Meta ds) @ ''-tunnel-auth''"

definition stays :: "('w \<Rightarrow> Secret option) \<Rightarrow> 'w \<Rightarrow> 'w \<Rightarrow> bool" where
  "stays stored w w' \<longleftrightarrow> (\<forall>sec. stored w = Some sec \<longrightarrow> stored w' = Some sec)"

definition write_once :: "'w svc_api \<Rightarrow> DockerService \<Rightarrow> ('w \<Rightarrow> Secret option) \<Rightarrow> bool" where
  "write_once api ds stored \<longleftrightarrow>
     (\<forall>w r w'. api_getSecret (sv_base api) \<lparr>key_Namespace = om_Namespace (ds_Meta ds), key_Name = secret_name ds\<rparr> w = (r, w') \<longrightarrow>
        stays stored w w' \<and> (\<forall>sec. r = Inr sec \<longrightarrow> stored w' = Some sec)) \<and>
     (\<forall>sec w r w'. sv_createSecret api sec w = (r, w') \<longrightarrow>
        stays stored w w' \<and> (r = Inr () \<and> sec_Namespace sec = om_Namespace (ds_Meta ds) \<and> sec_Name sec = secret_name ds \<longrightarrow>
          stored w = None \<and> stored w' = Some sec)) \<and>
     (\<forall>n w. stays stored w (snd (sv_randRead api n w)))"

text \<open>
  Calls that ensure the token, by whichever pass and in whatever order, with others at work in
  between; the list holds the tokens that were returned.
\<close>

inductive token_calls :: "'w svc_api \<Rightarrow> DockerService \<Rightarrow> ('w \<Rightarrow> Secret option) \<Rightarrow> 'w st \<Rightarrow> string list \<Rightarrow> 'w st \<Rightarrow> bool"
  for api ds stored s0 where
  none: "token_calls api ds stored s0 [] s0"
| call: "token_calls api ds stored s0 tokens s \<Longrightarrow> run_state (ds_ensureTunnelAuthSecret api ds) s = (r, s') \<Longrightarrow>
    token_calls api ds stored s0 (tokens @ (case r of Inl e \<Rightarrow> [] | Inr t \<Rightarrow> [t])) s'"
| others: "token_calls api ds stored s0 tokens s \<Longrightarrow> stays stored (st_world s) w \<Longrightarrow>
    token_calls api ds stored s0 tokens (s\<lparr>st_world := w\<rparr>)"

definition created_secrets :: "event list \<Rightarrow> event list" where
  "created_secrets es = filter (\<lambda>e. case e of EvCreateSecret sec (Inr u) \<Rightarrow> True | _ \<Rightarrow> False) es"

definition has_token :: "Secret option \<Rightarrow> string \<Rightarrow> bool" where
  "has_token sec t \<longleftrightarrow> (\<exists>d. sec = Some d \<and> map_of (sec_Data d) ''token'' = Some t)"

lemma staysD [dest]: "stays stored w w' \<Longrightarrow> stored w = Some sec \<Longrightarrow> stored w' = Some sec"
  by (simp add: stays_def)

lemma stays_trans [trans]: "stays stored w w1 \<Longrightarrow> stays stored w1 w2 \<Longrightarrow> stays stored w w2"
  by (simp add: stays_def)

lemma stays_None: "stays stored w w' \<Longrightarrow> stored w' = None \<Longrightarrow> stored w = None"
  by (cases "stored w") auto

lemma has_token_stays: "has_token (stored w) t \<Longrightarrow> stays stored w w' \<Longrightarrow> has_token (stored w') t"
  by (auto simp: has_token_def)

lemma has_token_unique: "has_token sec t \<Longrightarrow> has_token sec t' \<Longrightarrow> t' = t"
  by (auto simp: has_token_def)

lemma created_secrets_append: "created_secrets (es @ es') = created_secrets es @ created_secrets es'"
  by (simp add: created_secrets_def)

lemma write_onceD:
  assumes "write_once api ds stored"
  shows "api_getSecret (sv_base api) \<lparr>key_Namespace = om_Namespace (ds_Meta ds), key_Name = secret_name ds\<rparr> w = (r, w') \<Longrightarrow>
      stays stored w w'"
    and "api_getSecret (sv_base api) \<lparr>key_Namespace = om_Namespace (ds_Meta ds), key_Name = secret_name ds\<rparr> w = (Inr sec, w') \<Longrightarrow>
      stored w' = Some sec"
    and "sv_createSecret api sec w = (q, w') \<Longrightarrow> stays stored w w' \<and>
      (q = Inr () \<and> sec_Namespace sec = om_Namespace (ds_Meta ds) \<and> sec_Name sec = secret_name ds \<longrightarrow>
        stored w = None \<and> stored w' = Some sec)"
    and "stays stored w (snd (sv_randRead api n w))"
proof -
  note laws = assms [unfolded write_once_def]
  show "api_getSecret (sv_base api) \<lparr>key_Namespace = om_Namespace (ds_Meta ds), key_Name = secret_name ds\<rparr> w = (r, w') \<Longrightarrow>
      stays stored w w'"
    and "api_getSecret (sv_base api) \<lparr>key_Namespace = om_Namespace (ds_Meta ds), key_Name = secret_name ds\<rparr> w = (Inr sec, w') \<Longrightarrow>
      stored w' = Some sec"
    using laws [THEN conjunct1] by simp_all
  show "sv_createSecret api sec w = (q, w') \<Longrightarrow> stays stored w w' \<and>
      (q = Inr () \<and> sec_Namespace sec = om_Namespace (ds_Meta ds) \<and> sec_Name sec = secret_name ds \<longrightarrow>
        stored w = None \<and> stored w' = Some sec)"
    using laws [THEN conjunct2, THEN conjunct1] by simp
  show "stays stored w (snd (sv_randRead api n w))"
    using laws [THEN conjunct2, THEN conjunct2] by simp
qed

lemma ensure_token:
  assumes "write_once api ds stored"
  shows "wp (ds_ensureTunnelAuthSecret api ds) (\<lambda>r s'. stays stored (st_world s) (st_world s') \<and>
    (\<forall>t. r = Inr t \<longrightarrow> has_token (stored (st_world s')) t) \<and>
    (\<exists>es. st_trace s' = st_trace s @ es \<and> (created_secrets es = [] \<or>
      length (created_secrets es) = 1 \<and> stored (st_world s) = None \<and> stored (st_world s') \<noteq> None))) s"
proof -
  have get: "stays stored w w' \<and> (\<forall>sec. r = Inr sec \<longrightarrow> stored w' = Some sec)"
    if "api_getSecret (sv_base api) \<lparr>key_Namespace = om_Namespace (ds_Meta ds), key_Name = om_Name (ds_Meta ds) @ ''-tunnel-auth''\<rparr> w = (r, w')"
    for w r w' using write_onceD(1,2) [OF assms] that unfolding secret_name_def by blast
  have cr: "stays stored w w' \<and> (r = Inr () \<longrightarrow> stored w = None \<and>
      stored w' = Some \<lparr>sec_Name = om_Name (ds_Meta ds) @ ''-tunnel-auth'', sec_Namespace = om_Namespace (ds_Meta ds), sec_Data = d\<rparr>)"
    if "sv_createSecret api \<lparr>sec_Name = om_Name (ds_Meta ds) @ ''-tunnel-auth'',
      sec_Namespace = om_Namespace (ds_Meta ds), sec_Data = d\<rparr> w = (r, w')" for w r w' d
    using write_onceD(3) [OF assms that] by (simp add: secret_name_def)
  have rnd: "stays stored w w'" if "sv_randRead api n w = (b, w')" for n w b w'
    using write_onceD(4) [OF assms, of w n] that by simp
  show ?thesis
    unfolding ds_ensureTunnelAuthSecret_def Let_def
    by (auto simp: wp_simps svc_call_defs getSecret_def wp_invoke created_secrets_def has_token_def
        split: prod.splits sum.splits option.splits dest!: get cr rnd dest: stays_None stays_trans)
qed

text \<open>
  C18: a tunnel has one token. However many calls ensure the token of a service, in whichever
  passes, and whatever others do in between, at most one secret is created, none when one is there
  already, and every call that returns a token returns the one the API server has stored: the
  server's argument and the client's URL, which come from two such calls, agree. The API server
  refuses to create a secret whose name exists, and nobody deletes or edits the secret. Reads come
  from a cache that may miss the secret: such a call fails instead of making a second token.
\<close>

theorem tunnel_token_agreement:
  assumes "write_once api ds stored" and "token_calls api ds stored s tokens s'"
  shows "\<exists>es. st_trace s' = st_trace s @ es \<and> length (created_secrets es) \<le> 1 \<and>
    (\<forall>sec. stored (st_world s) = Some sec \<longrightarrow> created_secrets es = [] \<and> stored (st_world s') = Some sec) \<and>
    (\<forall>t \<in> set tokens. has_token (stored (st_world s')) t) \<and> (\<exists>t. set tokens \<subseteq> {t})"
proof -
  from assms(2) have "\<exists>es. st_trace s' = st_trace s @ es \<and> stays stored (st_world s) (st_world s') \<and>
    (created_secrets es = [] \<or>
      length (created_secrets es) = 1 \<and> stored (st_world s) = None \<and> stored (st_world s') \<noteq> None) \<and>
    (\<forall>t \<in> set tokens. has_token (stored (st_world s')) t)"
  proof induction
    case none
    show ?case by (simp add: created_secrets_def stays_def)
  next
    case (call tokens u r u')
    from call.IH obtain es where es: "st_trace u = st_trace s @ es" "stays stored (st_world s) (st_world u)"
        "created_secrets es = [] \<or> length (created_secrets es) = 1 \<and> stored (st_world s) = None \<and> stored (st_world u) \<noteq> None"
        "\<forall>t \<in> set tokens. has_token (stored (st_world u)) t" by blast
    from wp_runD [OF ensure_token [OF assms(1)] call.hyps(2)] obtain es' where
        stays: "stays stored (st_world u) (st_world u')" and
        tok: "\<forall>t. r = Inr t \<longrightarrow> has_token (stored (st_world u')) t" and
        es': "st_trace u' = st_trace u @ es'" "created_secrets es' = [] \<or> length (created_secrets es') = 1 \<and>
          stored (st_world u) = None \<and> stored (st_world u') \<noteq> None" by blast
    have "created_secrets (es @ es') = [] \<or>
      length (created_secrets (es @ es')) = 1 \<and> stored (st_world s) = None \<and> stored (st_world u') \<noteq> None"
      using es(2,3) es'(2) stays by (auto simp: created_secrets_append dest: stays_None)
    moreover have "\<forall>t \<in> set (tokens @ (case r of Inl e \<Rightarrow> [] | Inr t \<Rightarrow> [t])). has_token (stored (st_world u')) t"
      using es(4) stays tok by (auto intro: has_token_stays split: sum.splits)
    ultimately show ?case
      using es(1) es'(1) stays_trans [OF es(2) stays] by (intro exI [of _ "es @ es'"]) simp
  next
    case (others tokens u w)
    have "stays stored (st_world s) (st_world u) \<Longrightarrow> stays stored (st_world s) w"
      by (rule stays_trans [OF _ others.hyps(2)])
    with others.IH stays_None [OF others.hyps(2)] has_token_stays [OF _ others.hyps(2)] show ?case by (simp; blast)
  qed
  then obtain es where es: "st_trace s' = st_trace s @ es" "stays stored (st_world s) (st_world s')"
      "created_secrets es = [] \<or>
        length (created_secrets es) = 1 \<and> stored (st_world s) = None \<and> stored (st_world s') \<noteq> None"
    and tok: "\<forall>t \<in> set tokens. has_token (stored (st_world s')) t" by blast
  from tok have "set tokens \<subseteq> {hd tokens}" by (cases tokens) (auto dest: has_token_unique)
  moreover have "length (created_secrets es) \<le> 1" using es(3) by auto
  moreover have "created_secrets es = [] \<and> stored (st_world s') = Some sec" if "stored (st_world s) = Some sec" for sec
    using es(2,3) that by auto
  ultimately show ?thesis using es(1) tok by blast
qed

lemma demo_token: "EncodeToString (replicate n 171) = concat (replicate n ''ab'')"
  by (induction n) (simp_all add: EncodeToString_def hex_digit_def)

definition demo_stored :: "kube_store \<Rightarrow> Secret option" where
  "demo_stored w = (case secret_get (ks_secrets w) \<lparr>key_Namespace = ''ns'', key_Name = ''web-tunnel-auth''\<rparr> of
     Inl e \<Rightarrow> None | Inr sec \<Rightarrow> Some sec)"

lemma demo_write_once: "write_once (demo_svc []) (plain_service ''web'' ''c'') demo_stored"
  by (auto simp: write_once_def demo_stored_def stays_def secret_name_def plain_service_def svc_fixture_defs secret_get_def
      filter_empty_conv split: list.splits if_splits)

theorem tunnel_token_agreement_witness:
  "let run = run_state (ds_ensureTunnelAuthSecret (demo_svc []) (plain_service ''web'' ''c''));
       s = snd (run (start_state empty_store)); t = concat (replicate 16 ''ab'')
   in run (start_state empty_store) = (Inr t, s) \<and> run s = (Inr t, s) \<and> has_token (demo_stored (st_world s)) t \<and>
     length (created_secrets (st_trace s)) = 1"
proof -
  let ?api = "demo_svc []" and ?ds = "plain_service ''web'' ''c''"
  let ?run = "run_state (ds_ensureTunnelAuthSecret ?api ?ds)"
  define s where "s = snd (?run (start_state empty_store))"
  define t where "t = concat (replicate 16 ''ab'')"
  have r: "?run (start_state empty_store) = (Inr t, s)" "?run s = (Inr t, s)"
    and e: "length (created_secrets (st_trace s)) = 1"
    by (simp_all add: s_def t_def ds_ensureTunnelAuthSecret_def Let_def getSecret_def createSecret_def bindE_def invoke_def
        svc_fixture_defs plain_service_def demo_token secret_get_def created_secrets_def)
  have "token_calls ?api ?ds demo_stored (start_state empty_store) [t, t] s"
    using token_calls.call [OF token_calls.call [OF token_calls.none r(1)] r(2)] by simp
  from tunnel_token_agreement [OF demo_write_once this] have "has_token (demo_stored (st_world s)) t" by auto
  with r e show ?thesis unfolding Let_def s_def [symmetric] t_def [symmetric] by blast
qed

text \<open>
  C39: a service whose container is gone can not be deleted. With a container reference and no
  selector the container is looked up before the finalizer logic, and when it does not exist the
  pass over a service that is being deleted and has the finalizer ends with a retry in ten seconds:
  no update is sent, so the finalizer stays until a container of that name exists again.
\<close>

theorem service_deletion_stuck:
  assumes "sv_getDockerService api req (st_world s) = (Inr ds, w)"
    and "dss_Selector (ds_Spec ds) = None" and "dss_ContainerRef (ds_Spec ds) \<noteq> []"
    and "om_DeletionTimestamp (ds_Meta ds) \<noteq> None" and "lib_ContainsFinalizer (sv_base api) (ds_Meta ds) ds_finalizerName"
    and "api_getDockerContainer (sv_base api) \<lparr>key_Namespace = key_Namespace req, key_Name = dss_ContainerRef (ds_Spec ds)\<rparr> w
      = (Inl (KNotFound m), w')"
  shows "run_state (ds_Reconcile api own req) s = (Inr (requeue (10 * second)), s\<lparr>st_world := w'\<rparr>)"
  unfolding wp_eq_iff [symmetric] ds_Reconcile_def
  using assms by (simp add: wp_simps wp_invoke getDockerContainer_def)

definition demo_deleted_service :: DockerService where
  "demo_deleted_service = (plain_service ''web'' ''gone'')\<lparr>ds_Meta := (plain_meta ''web'')\<lparr>
     om_DeletionTimestamp := Some 5, om_Finalizers := [ds_finalizerName]\<rparr>\<rparr>"

theorem service_deletion_stuck_witness:
  "run_state (ds_Reconcile (demo_svc [demo_deleted_service]) None \<lparr>key_Namespace = ''ns'', key_Name = ''web''\<rparr>)
     (start_state empty_store) = (Inr (requeue (10 * second)), start_state empty_store)"
  using service_deletion_stuck [of "demo_svc [demo_deleted_service]" "\<lparr>key_Namespace = ''ns'', key_Name = ''web''\<rparr>"
      "start_state empty_store" demo_deleted_service empty_store "''not found''" empty_store None]
  by (simp add: svc_fixture_defs demo_deleted_service_def plain_service_def)

text \<open>
  C25: the tunnel client is reported active last. A pass over the client of a service touches only
  the container \<open>tunnel-client-<service>\<close>, creates it from the operator's image only, and ends with
  the write of the status \<open>Active\<close>, if it writes it: after a successful start of that container in
  the same pass, or right after an inspection of the same pass found it running with the operator's
  image.
\<close>

theorem tunnel_client_active_last:
  assumes "run_state (ds_reconcileTunnelClient api cli ds tc wsURL) s = (r, s')"
  shows "list_all (tunnel_client_event api cli ds) (new_events s s') \<and>
    (\<forall>d x. EvStatusService d x \<in> set (new_events s s') \<longrightarrow>
     (\<exists>pre. new_events s s' = pre @ [EvStatusService d x] \<and>
       (EvStart cli (tunnel_client_name ds) (Inr ()) \<in> set pre \<or> reported_up api cli ds d x (st_world s'))))"
proof -
  let ?Q = "\<lambda>r. active_last api cli ds s"
  let ?N = "\<lambda>e. \<forall>d x. e \<noteq> EvStatusService d x"
  have quiet: "emits ?N (gateway_host api m)" "emits ?N (ds_ensureTunnelAuthSecret api ds)"
      "emits ?N (ImagePull (sv_base api) cli img a)" "emits ?N (query f)"
      "emits ?N (ContainerInspect (sv_base api) cli nm)"
      "emits ?N (case ir of Inl e \<Rightarrow> State_Monad.bind (ImagePull (sv_base api) cli img a) (\<lambda>_. ret ()) | Inr x \<Rightarrow> ret ())"
    for m img a nm f and ir :: "error + unit"
    unfolding gateway_host_def by (intro emits_intros emits_secret; simp)+
  have "wp (ds_reconcileTunnelClient api cli ds tc wsURL) ?Q s"
    unfolding ds_reconcileTunnelClient_def Let_def
  proof (rule no_status_yet_bind [OF no_status_yet_refl quiet(5)], goal_cases)
    case (1 r s1)
    then show ?case
      by (auto simp: wp_return active_last_early split: sum.splits option.splits
          intro!: no_status_yet_bind [OF _ quiet(1)] active_last_bindE [OF _ quiet(2)] no_status_yet_bind [OF _ quiet(4)]
            no_status_yet_bind [OF _ quiet(6)] active_last_sync)
  qed
  from wp_runD [OF this assms] emits_runD [OF emits_client assms] show ?thesis
    by (auto simp: active_last_def)
qed

definition demo_inspected :: ContainerJSON where
  "demo_inspected = \<lparr>cj_ID = ''i1'', cj_Name = ''web'', cj_State = None, cj_HostConfig = None, cj_Config = None,
     cj_Networks = Some [(''bridge'', \<lparr>es_IPAddress = ''10.0.0.1'', es_NetworkID = ''n1''\<rparr>)]\<rparr>"

definition demo_tunnel :: "kube_store svc_api" where
  "demo_tunnel = (demo_svc [])\<lparr>sv_base := kube\<lparr>api_ContainerInspect :=
     (\<lambda>cli q w. if q = ''web'' then (Inr demo_inspected, w) else (Inl (DNotFound ''no such container''), w))\<rparr>\<rparr>"

theorem tunnel_client_active_last_witness:
  "\<exists>pre d x. st_trace (snd (run_state (ds_reconcileTunnelClient demo_tunnel 5 (plain_service ''svc'' ''web'')
     (plain_container ''web'') ''ws://u'') (start_state empty_store))) = pre @ [EvStatusService d x]"
proof -
  let ?run = "run_state (ds_reconcileTunnelClient demo_tunnel 5 (plain_service ''svc'' ''web'') (plain_container ''web'') ''ws://u'')
    (start_state empty_store)"
  have "\<exists>d x. EvStatusService d x \<in> set (st_trace (snd ?run))"
    by (simp add: ds_reconcileTunnelClient_def gateway_host_def ds_ensureTunnelAuthSecret_def sync_tunnel_client_def
        create_tunnel_client_def mark_active_def Let_def call_defs svc_call_defs bindE_def invoke_def
        demo_tunnel_def demo_inspected_def svc_fixture_defs plain_service_def tunnel_client_name_def operator_image_def)
  then obtain d x where "EvStatusService d x \<in> set (new_events (start_state empty_store) (snd ?run))"
    by (auto simp: start_state_def)
  with tunnel_client_active_last [OF prod.collapse [symmetric]]
  obtain pre where "new_events (start_state empty_store) (snd ?run) = pre @ [EvStatusService d x]" by blast
  then show ?thesis by (auto simp: start_state_def)
qed

end
