(* ===== verification/Gateway.thy ===== *)
theory Gateway
  imports GoUrl
begin

text \<open>
  The gateway of \<open>internal/tunnel/gateway.go\<close>, a reverse proxy at the edge of the cluster: the
  function that turns an incoming request into the request for the tunnel server named in its
  query. The proxy itself belongs to the standard library and forwards what this function returns.
\<close>

record proxy_request =
  pr_URL :: URL
  pr_Host :: string

text \<open>The target as it is when it has a scheme and a host, otherwise read as the rest of an HTTP URL.\<close>

definition gateway_target :: "string \<Rightarrow> error + URL" where
  "gateway_target target =
     (case Parse target of
        Inl err \<Rightarrow> Parse (''http://'' @ target)
      | Inr targetURL \<Rightarrow>
          if url_Scheme targetURL = [] \<or> url_Host targetURL = [] then Parse (''http://'' @ target)
          else Inr targetURL)"

definition http_scheme :: "string \<Rightarrow> string" where
  "http_scheme scheme = (if scheme = ''ws'' then ''http'' else if scheme = ''wss'' then ''https'' else scheme)"

definition Director :: "proxy_request \<Rightarrow> proxy_request" where
  "Director req =
     (let originalQuery = parseQuery (url_RawQuery (pr_URL req));
          target = Values_Get originalQuery ''target''
      in if target = [] then req
         else
           (case gateway_target target of
              Inl err \<Rightarrow> req
            | Inr targetURL \<Rightarrow>
                let targetQuery = parseQuery (url_RawQuery targetURL);
                    token = Values_Get originalQuery ''token'';
                    newQuery = (if token \<noteq> [] then Values_Set targetQuery ''token'' token else targetQuery)
                in req\<lparr>pr_URL := (pr_URL req)\<lparr>url_Scheme := http_scheme (url_Scheme targetURL),
                     url_Host := url_Host targetURL,
                     url_Path := (if url_Path targetURL \<noteq> [] then url_Path targetURL else url_Path (pr_URL req)),
                     url_RawQuery := Values_Encode newQuery\<rparr>,
                   pr_Host := url_Host targetURL\<rparr>))"

section \<open>Lemmas\<close>

lemma gateway_target_absolute:
  "Parse target = Inr u \<Longrightarrow> url_Scheme u \<noteq> [] \<Longrightarrow> url_Host u \<noteq> [] \<Longrightarrow> gateway_target target = Inr u"
  by (simp add: gateway_target_def)

lemma map_of_filter: "map_of xs k = (case filter (\<lambda>p. fst p = k) xs of [] \<Rightarrow> None | p # _ \<Rightarrow> Some (snd p))"
  by (induction xs) auto

text \<open>Encoding sorts by key and keeps the order of the values of one key, so no lookup changes.\<close>

lemma Get_Encode: "Values_Get (parseQuery (Values_Encode vs)) key = Values_Get vs key"
  by (simp add: Values_Get_def parseQuery_Encode map_of_filter [of "sort_key fst vs"] map_of_filter [of vs] sort_key_stable)

text \<open>A host and port alone has no scheme with a host: what stands before the colon is read as a scheme.\<close>

lemma getScheme_bare:
  "list_all name_char h \<Longrightarrow> getScheme pre (h @ CHR '':'' # port) = Inr ([], pre @ h @ CHR '':'' # port) \<or>
     getScheme pre (h @ CHR '':'' # port) = Inr (pre @ h, port) \<or> (\<exists>e. getScheme pre (h @ CHR '':'' # port) = Inl e)"
proof (induction h arbitrary: pre)
  case (Cons c h)
  then have "list_all name_char h" "c \<noteq> CHR '':''" using name_not [of c] by auto
  with Cons.IH [of "pre @ [c]"] show ?case by auto
qed auto

lemma gateway_target_bare:
  assumes "list_all name_char h" and "h \<noteq> []" and "list_all is_digit port"
  shows "gateway_target (h @ '':'' @ port) =
    Inr (empty_URL\<lparr>url_Scheme := ''http'', url_Host := h @ '':'' @ port\<rparr>)"
proof -
  have http: "Parse (''http://'' @ h @ '':'' @ port) = Inr (empty_URL\<lparr>url_Scheme := ''http'', url_Host := h @ '':'' @ port\<rparr>)"
    using Parse_absolute [of "''http''" h port "[]" "[]" "[]"] assms by (simp add: scheme_char_def less_eq_char_def empty_URL_def)
  let ?s = "h @ CHR '':'' # port"
  have no: "c \<notin> set ''#?/''" if "c \<in> set ?s" for c
    using that assms(1,3) name_not [of c] alnum_not [OF digit_alnum, of c] by (auto simp: list_all_iff)
  have absent: "CHR ''#'' \<notin> set ?s" "CHR ''?'' \<notin> set ?s" "CHR ''/'' \<notin> set ?s"
    using no [of "CHR ''#''"] no [of "CHR ''?''"] no [of "CHR ''/''"] by auto
  have prefix: "\<not> has_prefix w ''/''" if "CHR ''/'' \<notin> set w" for w
    using that by (cases w) (auto simp: has_prefix_def)
  have cut: "Cut ?s (CHR ''#'') = (?s, [])" "Cut ?s (CHR ''/'') = (?s, [])" "Cut ?s (CHR ''?'') = (?s, [])"
    using absent by (simp_all add: Cut_none)
  have port: "Cut port (CHR ''?'') = (port, [])" and pre: "\<not> has_prefix port ''/''" "\<not> has_prefix ?s ''/''"
    using absent by (simp_all add: Cut_none prefix)
  have "url_Host u = []" if "Parse ?s = Inr u" for u
    using that getScheme_bare [OF assms(1), of "[]" port] cut port pre
    by (auto simp: Parse_def parse_url_def cut_query_def Let_def empty_URL_def split: if_splits)
  then show ?thesis using http by (auto simp: gateway_target_def split: sum.splits)
qed

section \<open>Properties\<close>

text \<open>
  A target: a URL with a scheme, a host, a port and possibly a path and a query, or a host and port
  alone. \<open>names_target target scheme host path q\<close> tells the HTTP scheme to forward with, the
  host with its port, the path and the query.
\<close>

definition names_target :: "string \<Rightarrow> string \<Rightarrow> string \<Rightarrow> string \<Rightarrow> string \<Rightarrow> bool" where
  "names_target target scheme host path q \<longleftrightarrow>
     (\<exists>h port. host = h @ '':'' @ port \<and> h \<noteq> [] \<and> list_all name_char h \<and> list_all is_digit port) \<and>
     list_all path_char path \<and> (path = [] \<or> hd path = CHR ''/'') \<and> list_all raw_query_char q \<and>
     ((\<exists>given. (given, scheme) \<in> {(''ws'', ''http''), (''wss'', ''https''), (''http'', ''http''), (''https'', ''https'')} \<and>
         target = given @ ''://'' @ host @ path @ (if q = [] then [] else CHR ''?'' # q)) \<or>
      scheme = ''http'' \<and> path = [] \<and> q = [] \<and> target = host)"

text \<open>All values of a key in a query, in order.\<close>

definition query_values :: "string \<Rightarrow> string \<Rightarrow> string list" where
  "query_values q k = map snd (filter (\<lambda>p. fst p = k) (parseQuery q))"

lemma names_target_parsed:
  assumes "names_target target scheme host path q"
  shows "\<exists>u. gateway_target target = Inr u \<and> http_scheme (url_Scheme u) = scheme \<and> url_Host u = host \<and>
    url_Path u = path \<and> url_RawQuery u = q \<and> target \<noteq> []"
proof -
  from assms obtain h port where h: "host = h @ '':'' @ port" "h \<noteq> []" "list_all name_char h" "list_all is_digit port"
    unfolding names_target_def by blast
  from assms consider (bare) "scheme = ''http''" "path = []" "q = []" "target = host"
    | (url) given where "(given, scheme) \<in> {(''ws'', ''http''), (''wss'', ''https''), (''http'', ''http''), (''https'', ''https'')}"
      "target = given @ ''://'' @ host @ path @ (if q = [] then [] else CHR ''?'' # q)"
      "list_all path_char path" "path = [] \<or> hd path = CHR ''/''" "list_all raw_query_char q"
    unfolding names_target_def by blast
  then show ?thesis
  proof cases
    case bare
    then show ?thesis using gateway_target_bare [OF h(3,2,4)] h(1) by (simp add: http_scheme_def empty_URL_def)
  next
    case url
    have given: "list_all scheme_char given" "given \<noteq> []" "http_scheme given = scheme"
      using url(1) by (auto simp: scheme_char_def less_eq_char_def http_scheme_def)
    let ?u = "empty_URL\<lparr>url_Scheme := given, url_Host := host, url_Path := path, url_RawQuery := q\<rparr>"
    have "Parse target = Inr ?u"
      using Parse_absolute [OF given(1,2) h(3,2,4) url(3-5) refl] by (simp add: url(2) h(1))
    then have "gateway_target target = Inr ?u" using given(2) h(1) by (intro gateway_target_absolute) simp_all
    then show ?thesis using given url(2) by simp
  qed
qed

lemma query_values_Encode: "query_values (Values_Encode vs) k = map snd (filter (\<lambda>p. fst p = k) vs)"
  by (simp add: query_values_def parseQuery_Encode sort_key_stable)

lemma filter_Set: "map snd (filter (\<lambda>p. fst p = k') (Values_Set vs k v)) =
    (if k' = k then [v] else map snd (filter (\<lambda>p. fst p = k') vs))"
  by (auto simp: Values_Set_def filter_empty_conv case_prod_beta intro!: arg_cong [of _ _ "map snd"] filter_cong)

text \<open>
  C29: the gateway forwards a request to the target it names. When the query of a request names a
  target with a scheme, host and port and possibly a path and a query, or just host and port, the
  outgoing request has the host and port of the target, over \<open>https\<close> for \<open>wss\<close> and \<open>https\<close> and over \<open>http\<close>
  for \<open>ws\<close>, \<open>http\<close> and no scheme, and the path of the target, or that of the request when the target
  has none; every value of every q parameter of the target is kept, in order, except that the
  token of the incoming request, when it has one, replaces those of the target.
\<close>

theorem gateway_forwards:
  assumes "Values_Get (parseQuery (url_RawQuery (pr_URL req))) ''target'' = target"
    and "names_target target scheme host path q"
    and "Values_Get (parseQuery (url_RawQuery (pr_URL req))) ''token'' = token"
  shows "url_Scheme (pr_URL (Director req)) = scheme \<and>
    url_Host (pr_URL (Director req)) = host \<and> pr_Host (Director req) = host \<and>
    url_Path (pr_URL (Director req)) = (if path = [] then url_Path (pr_URL req) else path) \<and>
    (\<forall>k. query_values (url_RawQuery (pr_URL (Director req))) k =
      (if k = ''token'' \<and> token \<noteq> [] then [token] else query_values q k))"
proof -
  obtain u where u: "gateway_target target = Inr u" "http_scheme (url_Scheme u) = scheme" "url_Host u = host"
    "url_Path u = path" "url_RawQuery u = q" "target \<noteq> []" using names_target_parsed [OF assms(2)] by blast
  show ?thesis
    using assms(1,3) u by (auto simp: Director_def Let_def query_values_Encode filter_Set query_values_def [of q])
qed

definition demo_gateway_request :: proxy_request where
  "demo_gateway_request = \<lparr>pr_URL = empty_URL\<lparr>url_Path := ''/connect'', url_RawQuery := ''target=wss%3A%2F%2Fweb:80%3Fa%3D1%26a%3D2&token=s''\<rparr>,
     pr_Host = ''edge''\<rparr>"

lemma demo_gateway_query:
  "parseQuery ''target=wss%3A%2F%2Fweb:80%3Fa%3D1%26a%3D2&token=s'' = [(''target'', ''wss://web:80?a=1&a=2''), (''token'', ''s'')]"
  by code_simp

lemma demo_target_query: "query_values ''a=1&a=2'' ''a'' = [''1'', ''2'']"
  by code_simp

theorem gateway_forwards_witness:
  "url_Scheme (pr_URL (Director demo_gateway_request)) = ''https'' \<and> url_Host (pr_URL (Director demo_gateway_request)) = ''web:80'' \<and>
   url_Path (pr_URL (Director demo_gateway_request)) = ''/connect'' \<and>
   query_values (url_RawQuery (pr_URL (Director demo_gateway_request))) ''token'' = [''s''] \<and>
   query_values (url_RawQuery (pr_URL (Director demo_gateway_request))) ''a'' = [''1'', ''2'']"
proof -
  have "names_target ''wss://web:80?a=1&a=2'' ''https'' ''web:80'' [] ''a=1&a=2''"
    unfolding names_target_def
    by (intro conjI exI [of _ "''web''"] exI [of _ "''80''"] disjI1 exI [of _ "''wss''"])
      (simp_all add: name_char_def is_alnum_def is_digit_def less_eq_char_def raw_query_char_def query_safe_def)
  then show ?thesis
    using gateway_forwards [of demo_gateway_request "''wss://web:80?a=1&a=2''" "''https''" "''web:80''" "[]" "''a=1&a=2''" "''s''"]
    by (simp add: demo_gateway_request_def demo_gateway_query demo_target_query Values_Get_def empty_URL_def)
qed

end
