(* ===== verification/LegacyTunnel.thy ===== *)
theory LegacyTunnel
  imports ContainerCtl GoUrl
begin

text \<open>
  The tunnel functions of the container controller (the end of \<open>dockercontainer/reconciler.go\<close>): a
  tunnel server in the cluster for a container that lists services, and one tunnel client container
  per service port. \<open>Reconcile\<close> no longer calls them, the clean-up still removes what they made.
\<close>

section \<open>The calls\<close>

record 'w legacy_api =
  lt_base :: "'w api"
  lt_createSecret :: "Secret \<Rightarrow> ('w, unit) call"
  lt_randRead :: "nat \<Rightarrow> ('w, nat list) call"
  lt_listControlPlaneNodes :: "('w, string list) call"
  lt_getDeployment :: "ObjectKey \<Rightarrow> ('w, K8sDeployment) call"
  lt_createDeployment :: "K8sDeployment \<Rightarrow> ('w, unit) call"
  lt_updateDeployment :: "K8sDeployment \<Rightarrow> ('w, unit) call"
  lt_getService :: "ObjectKey \<Rightarrow> ('w, K8sService) call"
  lt_createService :: "K8sService \<Rightarrow> ('w, unit) call"
  lt_operatorImage :: string

definition legacy_createSecret where
  "legacy_createSecret api sec = invoke (lt_createSecret api sec) (\<lambda>r. [EvCreateSecret sec r])"
definition createDeployment where
  "createDeployment api dep = invoke (lt_createDeployment api dep) (\<lambda>r. [EvCreateDeployment dep r])"
definition updateDeployment where
  "updateDeployment api dep = invoke (lt_updateDeployment api dep) (\<lambda>r. [EvUpdateDeployment dep r])"
definition createService where
  "createService api svc = invoke (lt_createService api svc) (\<lambda>r. [EvCreateService svc r])"

lemmas legacy_call_defs = legacy_createSecret_def createDeployment_def updateDeployment_def createService_def

section \<open>Definitions\<close>

definition generateToken :: "'w legacy_api \<Rightarrow> ('w, error + string) io" where
  "generateToken api = bindE (query (lt_randRead api 32)) (\<lambda>b. ret (Inr (EncodeToString b)))"

definition child_meta :: "string \<Rightarrow> string \<Rightarrow> ObjectMeta" where
  "child_meta name namespace = \<lparr>om_Name = name, om_Namespace = namespace, om_UID = [], om_Labels = [],
     om_CreationTimestamp = 0, om_DeletionTimestamp = None, om_Finalizers = [], om_OwnerReferences = []\<rparr>"

definition dc_ensureTunnelAuthSecret :: "'w legacy_api \<Rightarrow> DockerContainer \<Rightarrow> ('w, error + string) io" where
  "dc_ensureTunnelAuthSecret api cr =
     (let secretName = ''tunnel-auth-'' @ om_Name (dc_Meta cr);
          namespace = om_Namespace (dc_Meta cr)
      in do {
        r \<leftarrow> getSecret (lt_base api) \<lparr>key_Namespace = namespace, key_Name = secretName\<rparr>;
        case r of
          Inr existingSecret \<Rightarrow> ret (Inr (data_get existingSecret ''token''))
        | Inl err \<Rightarrow>
            if \<not> IsNotFound err then ret (Inl err)
            else do {
              tr \<leftarrow> generateToken api;
              case tr of
                Inl err \<Rightarrow> ret (Inl (Wrapf ''failed to generate tunnel token: '' err))
              | Inr token \<Rightarrow>
                  (case lib_SetControllerReference (lt_base api) (dc_Meta cr) (child_meta secretName namespace) of
                     Inl err \<Rightarrow> ret (Inl err)
                   | Inr _ \<Rightarrow> do {
                       cr' \<leftarrow> legacy_createSecret api \<lparr>sec_Name = secretName, sec_Namespace = namespace,
                         sec_Data = [(''token'', token)]\<rparr>;
                       ret (case cr' of
                         Inl err \<Rightarrow> Inl (Wrapf ''failed to create tunnel auth secret: '' err)
                       | Inr _ \<Rightarrow> Inr token) }) } })"

definition legacy_image :: "'w legacy_api \<Rightarrow> string" where
  "legacy_image api = (if lt_operatorImage api = [] then ''controller:latest'' else lt_operatorImage api)"

definition legacy_gateway_host :: "'w legacy_api \<Rightarrow> string \<Rightarrow> ('w, string) io" where
  "legacy_gateway_host api netMode =
     (if netMode = ''kind'' then do {
        r \<leftarrow> query (lt_listControlPlaneNodes api);
        ret (case r of Inr (n # _) \<Rightarrow> n | _ \<Rightarrow> ''localhost'') }
      else ret ''localhost'')"

definition legacy_client_cmd :: "string \<Rightarrow> string \<Rightarrow> string list" where
  "legacy_client_cmd url targetAddr =
     [''tunnel'', ''-mode'', ''client'', ''-server-url'', url, ''-target-addr'', targetAddr]"

definition legacy_client_name :: "DockerContainer \<Rightarrow> nat \<Rightarrow> string" where
  "legacy_client_name cr i = dcs_ContainerName (dc_Spec cr) @ ''-tunnel-'' @ show_nat i"

text \<open>The loop over the services, from index \<open>i\<close> on.\<close>

fun legacy_clients :: "'w legacy_api \<Rightarrow> client \<Rightarrow> DockerContainer \<Rightarrow> string \<Rightarrow> string \<Rightarrow> string \<Rightarrow> nat \<Rightarrow> ServicePort list \<Rightarrow>
    ('w, error + unit) io" where
  "legacy_clients api cli cr img url targetIP i [] = ret (Inr ())"
| "legacy_clients api cli cr img url targetIP i (svc # svcs) = do {
     r \<leftarrow> ContainerInspect (lt_base api) cli (legacy_client_name cr i);
     case r of
       Inr _ \<Rightarrow> legacy_clients api cli cr img url targetIP (Suc i) svcs
     | Inl err \<Rightarrow>
         if \<not> IsErrNotFound err then ret (Inl err)
         else
           (let config = \<lparr>cfg_Image = img,
                  cfg_Cmd = legacy_client_cmd url (targetIP @ '':'' @ show_int (sp_TargetPort svc)),
                  cfg_Env = [], cfg_Healthcheck = None, cfg_ExposedPorts = {}\<rparr>;
                hostConfig = \<lparr>hc_RestartPolicy = ''always'', hc_PortBindings = Map.empty, hc_Binds = [],
                  hc_Resources = empty_Resources, hc_NetworkMode = dcs_NetworkMode (dc_Spec cr)\<rparr>
            in bindE (ContainerCreate (lt_base api) cli config hostConfig (legacy_client_name cr i)) (\<lambda>cid.
               bindE (ContainerStart (lt_base api) cli cid) (\<lambda>_.
                 legacy_clients api cli cr img url targetIP (Suc i) svcs))) }"

definition legacy_connect_url :: "string \<Rightarrow> string \<Rightarrow> string \<Rightarrow> string" where
  "legacy_connect_url gatewayHost wsURL authToken = ''ws://'' @ gatewayHost @ '':30000/ws?target='' @
     QueryEscape wsURL @ ''&token='' @ QueryEscape authToken"

definition dc_reconcileTunnelClient :: "'w legacy_api \<Rightarrow> client \<Rightarrow> DockerContainer \<Rightarrow> string \<Rightarrow> ('w, error + unit) io" where
  "dc_reconcileTunnelClient api cli cr wsURL =
     (if dcs_Services (dc_Spec cr) = [] \<or> wsURL = [] then ret (Inr ())
      else do {
        r \<leftarrow> ContainerInspect (lt_base api) cli (dcs_ContainerName (dc_Spec cr));
        case r of
          Inl err \<Rightarrow> if IsErrNotFound err then ret (Inr ()) else ret (Inl err)
        | Inr mainContainer \<Rightarrow>
            (case cj_Networks mainContainer of
               None \<Rightarrow> ret (Inl (GoPanic ''nil pointer dereference''))
             | Some networks \<Rightarrow>
                 (let targetIP = (case networks of [] \<Rightarrow> [] | (_, es) # _ \<Rightarrow> es_IPAddress es)
                  in if targetIP = [] then ret (Inr ())
                     else do {
                       let img = legacy_image api;
                       _ \<leftarrow> ImagePull (lt_base api) cli img [];
                       gatewayHost \<leftarrow> legacy_gateway_host api (dcs_NetworkMode (dc_Spec cr));
                       bindE (dc_ensureTunnelAuthSecret api cr) (\<lambda>authToken.
                         legacy_clients api cli cr img (legacy_connect_url gatewayHost wsURL authToken) targetIP 0
                           (dcs_Services (dc_Spec cr))) })) })"

section \<open>The tunnel server\<close>

definition legacy_server_command :: "string \<Rightarrow> string list" where
  "legacy_server_command authToken =
     [''/manager'', ''tunnel'', ''-mode'', ''server'', ''-listen-addr'', '':8080'', ''-ws-addr'', '':8081'',
      ''-auth-token'', authToken]"

definition legacy_deployment :: "'w legacy_api \<Rightarrow> DockerContainer \<Rightarrow> string \<Rightarrow> K8sDeployment" where
  "legacy_deployment api cr authToken =
     (let name = ''tunnel-'' @ om_Name (dc_Meta cr)
      in \<lparr>dep_Name = name, dep_Namespace = om_Namespace (dc_Meta cr), dep_Labels = [], dep_Replicas = 1,
          dep_Selector = [(''app'', name)], dep_Image = legacy_image api,
          dep_Command = legacy_server_command authToken, dep_Args = [], dep_ContainerPorts = [8080, 8081],
          dep_MountPath = [], dep_ConfigMap = []\<rparr>)"

definition legacy_service_ports :: "ServicePort list \<Rightarrow> SvcPort list" where
  "legacy_service_ports sps =
     \<lparr>svp_Name = ''ws'', svp_Port = 8081, svp_TargetPort = 8081\<rparr> #
     map (\<lambda>(i, sp). \<lparr>svp_Name = (if sp_Name sp = [] then ''traffic-'' @ show_nat i else sp_Name sp),
       svp_Port = sp_Port sp, svp_TargetPort = 8080\<rparr>) (enumerate 0 sps)"

definition legacy_service :: "DockerContainer \<Rightarrow> K8sService" where
  "legacy_service cr =
     (let name = ''tunnel-'' @ om_Name (dc_Meta cr)
      in \<lparr>ksv_Name = name, ksv_Namespace = om_Namespace (dc_Meta cr), ksv_Labels = [],
          ksv_Selector = [(''app'', name)], ksv_Ports = legacy_service_ports (dcs_Services (dc_Spec cr))\<rparr>)"

text \<open>Create the deployment, or replace the containers of the one that exists.\<close>

definition apply_legacy_deployment :: "'w legacy_api \<Rightarrow> K8sDeployment \<Rightarrow> ('w, error + unit) io" where
  "apply_legacy_deployment api dep = do {
     r \<leftarrow> query (lt_getDeployment api \<lparr>key_Namespace = dep_Namespace dep, key_Name = dep_Name dep\<rparr>);
     case r of
       Inl err \<Rightarrow> if IsNotFound err then createDeployment api dep else ret (Inl err)
     | Inr foundDep \<Rightarrow>
         updateDeployment api (foundDep\<lparr>dep_Image := dep_Image dep, dep_Command := dep_Command dep,
           dep_Args := dep_Args dep, dep_ContainerPorts := dep_ContainerPorts dep, dep_MountPath := dep_MountPath dep\<rparr>) }"

definition dc_reconcileTunnelServer :: "'w legacy_api \<Rightarrow> DockerContainer \<Rightarrow> ('w, error + string) io" where
  "dc_reconcileTunnelServer api cr =
     (if dcs_Services (dc_Spec cr) = [] then ret (Inr [])
      else do {
        let name = ''tunnel-'' @ om_Name (dc_Meta cr);
        let namespace = om_Namespace (dc_Meta cr);
        let setOwner = lib_SetControllerReference (lt_base api) (dc_Meta cr) (child_meta name namespace);
        tr \<leftarrow> dc_ensureTunnelAuthSecret api cr;
        case tr of
          Inl err \<Rightarrow> ret (Inl (Wrapf ''failed to ensure tunnel auth: '' err))
        | Inr authToken \<Rightarrow>
            (case setOwner of
               Inl err \<Rightarrow> ret (Inl err)
             | Inr _ \<Rightarrow>
                 bindE (apply_legacy_deployment api (legacy_deployment api cr authToken)) (\<lambda>_. do {
                   r \<leftarrow> query (lt_getService api \<lparr>key_Namespace = namespace, key_Name = name\<rparr>);
                   case r of
                     Inl err \<Rightarrow>
                       if IsNotFound err then bindE (createService api (legacy_service cr)) (\<lambda>_. ret (Inr []))
                       else ret (Inl err)
                   | Inr foundSvc \<Rightarrow>
                       ret (Inr (''ws://'' @ ksv_Name foundSvc @ ''.'' @ ksv_Namespace foundSvc @ ''.svc:8081/ws'')) })) })"

section \<open>What the code can do\<close>

lemma emits_legacy_calls [emits_intros]:
  "(\<And>r. P (EvCreateSecret sec r)) \<Longrightarrow> emits P (legacy_createSecret api sec)"
  "(\<And>r. P (EvCreateDeployment dep r)) \<Longrightarrow> emits P (createDeployment api dep)"
  "(\<And>r. P (EvUpdateDeployment dep r)) \<Longrightarrow> emits P (updateDeployment api dep)"
  "(\<And>r. P (EvCreateService svc r)) \<Longrightarrow> emits P (createService api svc)"
  "emits P (query f)"
  by (simp_all add: legacy_call_defs emits_invoke)

lemma emits_legacy_secret:
  "(\<And>sec r. P (EvCreateSecret sec r)) \<Longrightarrow> emits P (dc_ensureTunnelAuthSecret api cr)"
  unfolding dc_ensureTunnelAuthSecret_def generateToken_def Let_def by (intro emits_intros; simp)

text \<open>The events of a pass over the clients: containers are created under the names of the clean-up only,
  with the command of a client.\<close>

definition legacy_client_event :: "client \<Rightarrow> DockerContainer \<Rightarrow> event \<Rightarrow> bool" where
  "legacy_client_event cli cr e \<longleftrightarrow> (case e of
     EvCreate c nm cfg hcfg r \<Rightarrow> c = cli \<and> nm \<in> set (tunnel_names cr) \<and> (\<exists>url addr. cfg_Cmd cfg = legacy_client_cmd url addr)
   | EvStart c cid r \<Rightarrow> c = cli
   | EvPull c img auth r \<Rightarrow> c = cli
   | EvCreateSecret sec r \<Rightarrow> True
   | _ \<Rightarrow> False)"

lemma legacy_name_cleaned: "i < length (dcs_Services (dc_Spec cr)) \<Longrightarrow> legacy_client_name cr i \<in> set (tunnel_names cr)"
  by (force simp: tunnel_names_def legacy_client_name_def Let_def)

lemma emits_legacy_clients:
  "i + length svcs \<le> length (dcs_Services (dc_Spec cr)) \<Longrightarrow>
    emits (legacy_client_event cli cr) (legacy_clients api cli cr img url targetIP i svcs)"
proof (induction svcs arbitrary: i)
  case (Cons svc svcs)
  then have name: "legacy_client_name cr i \<in> set (tunnel_names cr)"
    and rest: "emits (legacy_client_event cli cr) (legacy_clients api cli cr img url targetIP (Suc i) svcs)"
    by (simp_all add: legacy_name_cleaned)
  show ?case
    unfolding legacy_clients.simps Let_def by (intro emits_intros rest; auto simp: legacy_client_event_def name)
qed (simp add: emits_intros)

lemma emits_legacy_client_pass: "emits (legacy_client_event cli cr) (dc_reconcileTunnelClient api cli cr wsURL)"
  unfolding dc_reconcileTunnelClient_def legacy_gateway_host_def Let_def
  by (intro emits_intros emits_legacy_secret emits_legacy_clients; simp add: legacy_client_event_def)

lemma cleanup_removes:
  assumes "run_state (dc_deleteExternalResources api cli cr) s = (Inr (), s')" and "n \<in> set (tunnel_names cr)"
  shows "\<exists>x. EvRemove cli n x \<in> set (new_events s s')"
proof -
  obtain main rs where rs: "length rs = length (tunnel_names cr)" "st_trace s' = st_trace s @ cleanup_events cli cr main rs"
    using wp_runD [OF deleteExternalResources_trace assms(1)] by auto
  obtain i where "i < length (tunnel_names cr)" "tunnel_names cr ! i = n"
    using assms(2) by (auto simp: in_set_conv_nth)
  then have "EvRemove cli n (rs ! i) \<in> set (map2 (EvRemove cli) (tunnel_names cr) rs)"
    using rs(1) by (force simp: set_zip)
  then show ?thesis using rs(2) by (auto simp: cleanup_events_def)
qed

section \<open>Properties\<close>

text \<open>
  The clean-up of a container reaches every tunnel client made for it. Whatever container the
  client function creates, for however many services, a later successful deletion of the external
  resources of the same resource asks the same daemon to remove a container of that name.
\<close>

theorem legacy_clients_cleaned_up:
  assumes "run_state (dc_reconcileTunnelClient api cli cr wsURL) s = (r, s1)"
    and "EvCreate c nm cfg hcfg x \<in> set (new_events s s1)"
    and "run_state (dc_deleteExternalResources api' cli cr) s2 = (Inr (), s3)"
  shows "c = cli \<and> (\<exists>y. EvRemove c nm y \<in> set (new_events s2 s3))"
proof -
  obtain es where "st_trace s1 = st_trace s @ es" "list_all (legacy_client_event cli cr) es"
    using emits_runD [OF emits_legacy_client_pass assms(1)] by blast
  with assms(2) have "c = cli" "nm \<in> set (tunnel_names cr)"
    by (auto simp: list_all_iff legacy_client_event_def)
  with cleanup_removes [OF assms(3)] show ?thesis by blast
qed

definition demo_legacy :: "kube_store legacy_api" where
  "demo_legacy = \<lparr>
     lt_base = kube\<lparr>api_ContainerInspect := (\<lambda>cli q w. if q = ''web''
       then (Inr \<lparr>cj_ID = ''i1'', cj_Name = ''web'', cj_State = None, cj_HostConfig = None, cj_Config = None,
          cj_Networks = Some [(''bridge'', \<lparr>es_IPAddress = ''10.0.0.1'', es_NetworkID = ''n1''\<rparr>)]\<rparr>, w)
       else (Inl (DNotFound ''no such container''), w))\<rparr>,
     lt_createSecret = (\<lambda>sec. unit_ok),
     lt_randRead = (\<lambda>n w. (Inr (replicate n 171), w)),
     lt_listControlPlaneNodes = (\<lambda>w. (Inr [], w)),
     lt_getDeployment = (\<lambda>k w. (Inl (KNotFound ''not found''), w)),
     lt_createDeployment = (\<lambda>dep. unit_ok),
     lt_updateDeployment = (\<lambda>dep. unit_ok),
     lt_getService = (\<lambda>k w. (Inl (KNotFound ''not found''), w)),
     lt_createService = (\<lambda>svc. unit_ok),
     lt_operatorImage = []\<rparr>"

definition demo_served :: DockerContainer where
  "demo_served = (plain_container ''web'')\<lparr>dc_Spec := (plain_spec ''web'')\<lparr>
     dcs_Services := [\<lparr>sp_Port = 80, sp_TargetPort = 8080, sp_Name = ''http''\<rparr>]\<rparr>\<rparr>"

lemma demo_legacy_creates:
  "\<exists>cfg hcfg x. EvCreate 5 ''web-tunnel-0'' cfg hcfg x \<in> set (new_events (start_state empty_store)
     (snd (run_state (dc_reconcileTunnelClient demo_legacy 5 demo_served ''ws://u'') (start_state empty_store))))"
  by (simp add: dc_reconcileTunnelClient_def legacy_gateway_host_def dc_ensureTunnelAuthSecret_def generateToken_def
        legacy_client_name_def show_nat.simps digit_char_def char_of_def bit_0 Let_def call_defs legacy_call_defs bindE_def invoke_def
        demo_legacy_def demo_served_def fixture_defs)

theorem legacy_clients_cleaned_up_witness:
  "\<exists>y. EvRemove 5 ''web-tunnel-0'' y \<in> set (st_trace (snd (run_state (dc_deleteExternalResources kube 5 demo_served) (start_state empty_store))))"
proof -
  let ?pass = "run_state (dc_reconcileTunnelClient demo_legacy 5 demo_served ''ws://u'') (start_state empty_store)"
  let ?del = "run_state (dc_deleteExternalResources kube 5 demo_served) (start_state empty_store)"
  obtain cfg hcfg x where "EvCreate 5 ''web-tunnel-0'' cfg hcfg x \<in> set (new_events (start_state empty_store) (snd ?pass))"
    using demo_legacy_creates by blast
  moreover have "fst ?del = Inr ()"
    by (simp add: dc_deleteExternalResources_def call_defs invoke_def fixture_defs split: prod.splits)
  then have "?del = (Inr (), snd ?del)" by (metis prod.collapse)
  ultimately have "\<exists>y. EvRemove 5 ''web-tunnel-0'' y \<in> set (new_events (start_state empty_store) (snd ?del))"
    using legacy_clients_cleaned_up [OF prod.collapse [symmetric]] by blast
  then show ?thesis by (simp add: start_state_def)
qed

end
