(* ===== verification/GoFlag.thy ===== *)
theory GoFlag
  imports Prelude
begin

text \<open>
  The parsing of command lines by the package \<open>flag\<close>. A flag set is the list of its flags with
  their current values, which start as the defaults; the kind of a flag says which values it takes
  and whether it needs one.
\<close>

datatype flag_error = ErrHelp | FlagError string

definition set_flag :: "string \<Rightarrow> string \<Rightarrow> (string \<times> string) list \<Rightarrow> (string \<times> string) list" where
  "set_flag n v flags = map (\<lambda>(k, w). (k, if k = n then v else w)) flags"

text \<open>The name of a flag and its value, if the argument has one after an equals sign; the sign cannot be first.\<close>

definition split_flag :: "string \<Rightarrow> string \<times> string option" where
  "split_flag name =
     (if CHR ''='' \<in> set (tl name)
      then (hd name # takeWhile (\<lambda>c. c \<noteq> CHR ''='') (tl name), Some (tl (dropWhile (\<lambda>c. c \<noteq> CHR ''='') (tl name))))
      else (name, None))"

text \<open>\<open>strconv.ParseBool\<close>.\<close>

definition ParseBool :: "string \<Rightarrow> bool option" where
  "ParseBool s =
     (if s \<in> set [''1'', ''t'', ''T'', ''TRUE'', ''true'', ''True''] then Some True
      else if s \<in> set [''0'', ''f'', ''F'', ''FALSE'', ''false'', ''False''] then Some False
      else None)"

text \<open>
  The method \<open>Set\<close> of a flag's value, which fails with \<open>None\<close>. \<open>OtherFlag\<close> is a flag of a library
  with its own values.
\<close>

datatype flag_kind = StringFlag | BoolFlag | OtherFlag "string \<Rightarrow> string option"

fun flag_Set :: "flag_kind \<Rightarrow> string \<Rightarrow> string option" where
  "flag_Set StringFlag v = Some v"
| "flag_Set BoolFlag v = map_option (\<lambda>b. if b then ''true'' else ''false'') (ParseBool v)"
| "flag_Set (OtherFlag f) v = f v"

fun IsBoolFlag :: "flag_kind \<Rightarrow> bool" where
  "IsBoolFlag BoolFlag \<longleftrightarrow> True"
| "IsBoolFlag k \<longleftrightarrow> False"

text \<open>
  \<open>FlagSet.Parse\<close>: the values after the arguments that are flags, and the remaining arguments. A
  boolean flag takes a value only after an equals sign. The errors of \<open>Set\<close> leave out the value.
\<close>

fun flag_Parse_kinds :: "(string \<Rightarrow> flag_kind) \<Rightarrow> (string \<times> string) list \<Rightarrow> string list \<Rightarrow>
    flag_error + (string \<times> string) list \<times> string list" where
  "flag_Parse_kinds kind flags [] = Inr (flags, [])"
| "flag_Parse_kinds kind flags (s # args) =
     (if length s < 2 \<or> hd s \<noteq> CHR ''-'' then Inr (flags, s # args)
      else if s = ''--'' then Inr (flags, args)
      else
        let name = (if hd (tl s) = CHR ''-'' then drop 2 s else tl s)
        in if name = [] \<or> hd name = CHR ''-'' \<or> hd name = CHR ''='' then Inl (FlagError (''bad flag syntax: '' @ s))
           else
             (case split_flag name of
                (n, val) \<Rightarrow>
                  if map_of flags n = None then
                    (if n = ''help'' \<or> n = ''h'' then Inl ErrHelp
                     else Inl (FlagError (''flag provided but not defined: -'' @ n)))
                  else if IsBoolFlag (kind n) then
                    (case flag_Set BoolFlag (case val of None \<Rightarrow> ''true'' | Some v \<Rightarrow> v) of
                       None \<Rightarrow> Inl (FlagError (''invalid boolean value for -'' @ n))
                     | Some v \<Rightarrow> flag_Parse_kinds kind (set_flag n v flags) args)
                  else
                    (case val of
                       Some v \<Rightarrow>
                         (case flag_Set (kind n) v of
                            None \<Rightarrow> Inl (FlagError (''invalid value for flag -'' @ n))
                          | Some v' \<Rightarrow> flag_Parse_kinds kind (set_flag n v' flags) args)
                     | None \<Rightarrow>
                         (case args of
                            [] \<Rightarrow> Inl (FlagError (''flag needs an argument: -'' @ n))
                          | v # rest \<Rightarrow>
                              (case flag_Set (kind n) v of
                                 None \<Rightarrow> Inl (FlagError (''invalid value for flag -'' @ n))
                               | Some v' \<Rightarrow> flag_Parse_kinds kind (set_flag n v' flags) rest)))))"

abbreviation flag_Parse :: "(string \<times> string) list \<Rightarrow> string list \<Rightarrow> flag_error + (string \<times> string) list \<times> string list" where
  "flag_Parse \<equiv> flag_Parse_kinds (\<lambda>_. StringFlag)"

definition flag_val :: "(string \<times> string) list \<Rightarrow> string \<Rightarrow> string" where
  "flag_val flags n = (case map_of flags n of None \<Rightarrow> [] | Some v \<Rightarrow> v)"

section \<open>Lemmas\<close>

declare flag_Parse_kinds.simps(2) [simp del]

lemma map_of_set_flag: "map_of (set_flag n v flags) k = (if k = n \<and> map_of flags n \<noteq> None then Some v else map_of flags k)"
  by (induction flags) (auto simp: set_flag_def)

lemma flag_val_set_flag: "map_of flags n \<noteq> None \<Longrightarrow> flag_val (set_flag n v flags) k = (if k = n then v else flag_val flags k)"
  by (auto simp: flag_val_def map_of_set_flag)

text \<open>A name as the program writes it: a letter first, no equals sign.\<close>

definition flag_name :: "string \<Rightarrow> bool" where
  "flag_name n \<longleftrightarrow> n \<noteq> [] \<and> hd n \<noteq> CHR ''-'' \<and> CHR ''='' \<notin> set n"

lemma flag_Parse_eq:
  assumes "flag_name n" and "map_of flags n \<noteq> None"
  shows "flag_Parse flags ((CHR ''-'' # n @ CHR ''='' # v) # args) = flag_Parse (set_flag n v flags) args"
proof -
  obtain c cs where n: "n = c # cs" "c \<noteq> CHR ''-''" "c \<noteq> CHR ''=''" "CHR ''='' \<notin> set cs"
    using assms(1) by (cases n) (auto simp: flag_name_def)
  then have "split_flag (n @ CHR ''='' # v) = (n, Some v)"
    by (simp add: split_flag_def takeWhile_upto)
  moreover obtain w where "map_of flags n = Some w" using assms(2) by blast
  ultimately show ?thesis using n by (simp add: flag_Parse_kinds.simps(2) Let_def)
qed

lemma flag_Parse_next:
  assumes "flag_name n" and "map_of flags n \<noteq> None"
  shows "flag_Parse flags ((CHR ''-'' # n) # v # args) = flag_Parse (set_flag n v flags) args"
proof -
  obtain c cs where n: "n = c # cs" "c \<noteq> CHR ''-''" "c \<noteq> CHR ''=''" "CHR ''='' \<notin> set cs"
    using assms(1) by (cases n) (auto simp: flag_name_def)
  then have "split_flag n = (n, None)" by (simp add: split_flag_def)
  moreover obtain w where "map_of flags n = Some w" using assms(2) by blast
  ultimately show ?thesis using n by (simp add: flag_Parse_kinds.simps(2) Let_def)
qed

lemma flag_Parse_undefined:
  assumes "flag_name n" and "map_of flags n = None" and "n \<noteq> ''help''" and "n \<noteq> ''h''"
  shows "flag_Parse flags ((CHR ''-'' # n) # args) = Inl (FlagError (''flag provided but not defined: -'' @ n))"
proof -
  obtain c cs where n: "n = c # cs" "c \<noteq> CHR ''-''" "c \<noteq> CHR ''=''" "CHR ''='' \<notin> set cs"
    using assms(1) by (cases n) (auto simp: flag_name_def)
  then have "split_flag n = (n, None)" by (simp add: split_flag_def)
  with n assms(2-4) show ?thesis by (simp add: flag_Parse_kinds.simps(2) Let_def)
qed

text \<open>Of a repeated flag the last value counts.\<close>

lemma flag_Parse_repeat:
  assumes "flag_name n" and "map_of flags n \<noteq> None"
  shows "flag_Parse flags (map (\<lambda>v. CHR ''-'' # n @ CHR ''='' # v) vs) =
    Inr (if vs = [] then flags else set_flag n (last vs) flags, [])"
  using assms(2)
proof (induction vs arbitrary: flags)
  case (Cons v vs)
  then have "map_of (set_flag n v flags) n \<noteq> None" by (simp add: map_of_set_flag)
  with Cons flag_Parse_eq [OF assms(1) Cons.prems, of v] show ?case by (auto simp: set_flag_def comp_def case_prod_unfold)
qed simp

text \<open>A string flag with a value after an equals sign and two dashes, in a set with flags of other kinds.\<close>

lemma flag_Parse_long:
  assumes "flag_name n" and "map_of flags n \<noteq> None" and "kind n = StringFlag"
  shows "flag_Parse_kinds kind flags ((''--'' @ n @ ''='' @ v) # args) = flag_Parse_kinds kind (set_flag n v flags) args"
proof -
  obtain c cs where n: "n = c # cs" "c \<noteq> CHR ''-''" "c \<noteq> CHR ''=''" "CHR ''='' \<notin> set cs"
    using assms(1) by (cases n) (auto simp: flag_name_def)
  then have "split_flag (n @ CHR ''='' # v) = (n, Some v)"
    by (simp add: split_flag_def takeWhile_upto)
  moreover obtain w where "map_of flags n = Some w" using assms(2) by blast
  ultimately show ?thesis using n assms(3) by (simp add: flag_Parse_kinds.simps(2) Let_def)
qed

text \<open>A boolean flag without a value.\<close>

lemma flag_Parse_switch:
  assumes "flag_name n" and "map_of flags n \<noteq> None" and "kind n = BoolFlag"
  shows "flag_Parse_kinds kind flags ((CHR ''-'' # CHR ''-'' # n) # args) = flag_Parse_kinds kind (set_flag n ''true'' flags) args"
proof -
  obtain c cs where n: "n = c # cs" "c \<noteq> CHR ''-''" "c \<noteq> CHR ''=''" "CHR ''='' \<notin> set cs"
    using assms(1) by (cases n) (auto simp: flag_name_def)
  then have "split_flag n = (n, None)" by (simp add: split_flag_def)
  moreover obtain w where "map_of flags n = Some w" using assms(2) by blast
  ultimately show ?thesis using n assms(3) by (simp add: flag_Parse_kinds.simps(2) Let_def ParseBool_def)
qed

end
