(* ===== verification/TunnelServer.thy ===== *)
theory TunnelServer
  imports World
begin

text \<open>
  The tunnel server of \<open>internal/tunnel/server.go\<close>, which runs in the cluster: tunnel clients
  register sessions over WebSocket, TCP connections of the service are sent round robin to the
  targets through the sessions, and the targets are replaced by a push over HTTP or from a watched
  file. The handlers run concurrently and lock the server around every access to the fields
  modelled here, so each locked section is one atomic step of the state machine below. The
  WebSocket upgrade, the yamux session and the copying of bytes are library code; their results
  are arguments.
\<close>

section \<open>State\<close>

text \<open>A session stands for the pointer \<open>*yamux.Session\<close>; the zero time is \<open>None\<close>.\<close>

record Server =
  srv_listenAddr :: string
  srv_wsAddr :: string
  srv_authToken :: string
  srv_sessions :: "nat list"
  srv_targets :: "string list"
  srv_pushTargets :: "string list"
  srv_targetsFile :: string
  srv_lastPushTime :: "int option"
  srv_rrIndex :: "64 word"

definition NewServer :: "string \<Rightarrow> string \<Rightarrow> string \<Rightarrow> string list \<Rightarrow> Server" where
  "NewServer listenAddr wsAddr authToken targets =
     \<lparr>srv_listenAddr = listenAddr, srv_wsAddr = wsAddr, srv_authToken = authToken, srv_sessions = [],
      srv_targets = targets, srv_pushTargets = [], srv_targetsFile = [], srv_lastPushTime = None,
      srv_rrIndex = 0\<rparr>"

definition SetTargetsFile :: "string \<Rightarrow> Server \<Rightarrow> Server" where
  "SetTargetsFile path s = s\<lparr>srv_targetsFile := path\<rparr>"

section \<open>TCP connections\<close>

datatype pick_result = NoClient | NoTargets | Picked string nat

text \<open>The locked section of \<open>handleTCP\<close>.\<close>

definition pick :: "Server \<Rightarrow> pick_result \<times> Server" where
  "pick s =
     (if length (srv_sessions s) = 0 then (NoClient, s)
      else if length (srv_targets s) = 0 then (NoTargets, s)
      else
        let targetIdx = srv_rrIndex s mod word_of_nat (length (srv_targets s));
            target = srv_targets s ! unat targetIdx;
            sessionIdx = srv_rrIndex s mod word_of_nat (length (srv_sessions s));
            sess = srv_sessions s ! unat sessionIdx
        in (Picked target sess, s\<lparr>srv_rrIndex := srv_rrIndex s + 1\<rparr>))"

text \<open>
  \<open>openStream\<close> is \<open>sess.Open\<close>, whose stream is given by how its \<open>Write\<close> of the header ends;
  \<open>Some (sess, header)\<close> is the stream on which the connection goes on, with the header written to it.
\<close>

definition handleTCP :: "(nat \<Rightarrow> error + (string \<Rightarrow> error option)) \<Rightarrow> Server \<Rightarrow> (nat \<times> string) option \<times> Server" where
  "handleTCP openStream s =
     (case pick s of
        (Picked target sess, s') \<Rightarrow>
          (case openStream sess of
             Inl err \<Rightarrow> (None, s')
           | Inr streamWrite \<Rightarrow>
               let header = target @ [newline_char]
               in (case streamWrite header of
                     Some err \<Rightarrow> (None, s')
                   | None \<Rightarrow> (Some (sess, header), s')))
      | (_, s') \<Rightarrow> (None, s'))"

section \<open>Tunnel clients\<close>

datatype ws_result = Forbidden | NoUpgrade | NoSession | Registered

text \<open>
  \<open>token\<close> is the query parameter, \<open>upgrade\<close> the result of \<open>upgrader.Upgrade\<close> and
  \<open>yamuxServer\<close> that of \<open>yamux.Server\<close>.
\<close>

definition handleWS :: "string \<Rightarrow> error + unit \<Rightarrow> error + nat \<Rightarrow> Server \<Rightarrow> ws_result \<times> Server" where
  "handleWS token upgrade yamuxServer s =
     (if srv_authToken s \<noteq> [] \<and> token \<noteq> srv_authToken s then (Forbidden, s)
      else (case upgrade of
          Inl err \<Rightarrow> (NoUpgrade, s)
        | Inr _ \<Rightarrow>
            (case yamuxServer of
               Inl err \<Rightarrow> (NoSession, s)
             | Inr session \<Rightarrow> (Registered, s\<lparr>srv_sessions := srv_sessions s @ [session]\<rparr>))))"

text \<open>The deferred clean-up: the first occurrence of the session goes.\<close>

fun drop_session :: "nat \<Rightarrow> nat list \<Rightarrow> nat list" where
  "drop_session session [] = []"
| "drop_session session (x # xs) = (if x = session then xs else x # drop_session session xs)"

definition disconnectWS :: "nat \<Rightarrow> Server \<Rightarrow> Server" where
  "disconnectWS session s = s\<lparr>srv_sessions := drop_session session (srv_sessions s)\<rparr>"

section \<open>Targets\<close>

definition parse_targets :: "string \<Rightarrow> string list" where
  "parse_targets s = filter (\<lambda>t. t \<noteq> []) (map TrimSpace (Split s (CHR '','')))"

definition targetsEqual :: "string list \<Rightarrow> string list \<Rightarrow> bool" where
  "targetsEqual a b =
     (if length a \<noteq> length b then False else list_all (\<lambda>i. a ! i = b ! i) [0..<length a])"

text \<open>\<open>file\<close> is what \<open>os.ReadFile\<close> returned, \<open>now\<close> the clock.\<close>

definition loadTargetsFromFile :: "error + string \<Rightarrow> int \<Rightarrow> Server \<Rightarrow> Server" where
  "loadTargetsFromFile file now s =
     (case file of
        Inl err \<Rightarrow> s
      | Inr data \<Rightarrow>
          let content = TrimSpace data;
              newTargets = (if content \<noteq> [] then parse_targets content else []);
              recent = (case srv_lastPushTime s of None \<Rightarrow> False | Some t \<Rightarrow> time_Since now t < 2 * minute)
          in if recent \<and> \<not> targetsEqual newTargets (srv_pushTargets s) then s
             else if targetsEqual newTargets (srv_targets s) then s
             else s\<lparr>srv_targets := newTargets\<rparr>)"

datatype http_status = StatusOK | StatusMethodNotAllowed

definition handleReload :: "string \<Rightarrow> string \<Rightarrow> error + string \<Rightarrow> int \<Rightarrow> Server \<Rightarrow> http_status \<times> Server" where
  "handleReload meth targets file now s =
     (if meth \<noteq> ''POST'' then (StatusMethodNotAllowed, s)
      else if targets \<noteq> [] then
        let newTargets = parse_targets targets
        in (StatusOK, s\<lparr>srv_targets := newTargets, srv_pushTargets := newTargets, srv_lastPushTime := Some now\<rparr>)
      else (StatusOK, loadTargetsFromFile file now s))"

text \<open>The initial targets, as \<open>cmd/manager/main.go\<close> reads them from its flag.\<close>

definition main_targets :: "string \<Rightarrow> string list" where
  "main_targets targets = (if targets \<noteq> [] then parse_targets targets else [])"

definition main_server :: "string \<Rightarrow> string \<Rightarrow> string \<Rightarrow> string \<Rightarrow> string \<Rightarrow> Server" where
  "main_server listenAddr wsAddr authToken targets targetsFile =
     (let srv = NewServer listenAddr wsAddr authToken (main_targets targets)
      in if targetsFile \<noteq> [] then SetTargetsFile targetsFile srv else srv)"

section \<open>Starting the server\<close>

text \<open>
  What \<open>Start\<close> sets running before it serves: the loop that accepts connections, the watcher of the
  targets file if there is one, the two HTTP handlers. \<open>listen\<close> and \<open>serve\<close> are \<open>net.Listen\<close> and
  \<open>http.ListenAndServe\<close>.
\<close>

datatype server_task = AcceptTCP | WatchTargetsFile | HandleWS | HandleReload

definition Server_Start :: "(string \<Rightarrow> error + unit) \<Rightarrow> (string \<Rightarrow> error) \<Rightarrow> Server \<Rightarrow> server_task list \<times> error" where
  "Server_Start listen serve s =
     (case listen (srv_listenAddr s) of
        Inl err \<Rightarrow> ([], err)
      | Inr _ \<Rightarrow> ([AcceptTCP] @ (if srv_targetsFile s \<noteq> [] then [WatchTargetsFile] else []) @ [HandleWS, HandleReload],
          serve (srv_wsAddr s)))"

text \<open>One element per return of \<open>Accept\<close>: an error, which is logged, or a connection and how its session opens a stream.\<close>

fun acceptTCP :: "(error + (nat \<Rightarrow> error + (string \<Rightarrow> error option))) list \<Rightarrow> Server \<Rightarrow> (nat \<times> string) option list \<times> Server" where
  "acceptTCP [] s = ([], s)"
| "acceptTCP (Inl err # accepts) s = acceptTCP accepts s"
| "acceptTCP (Inr openStream # accepts) s =
     (case handleTCP openStream s of
        (out, s') \<Rightarrow> (case acceptTCP accepts s' of (outs, s'') \<Rightarrow> (out # outs, s'')))"

text \<open>The reads of the file, one at the start and one per tick of five seconds, with the times at which they happen.\<close>

fun watchTargetsFile :: "((error + string) \<times> int) list \<Rightarrow> Server \<Rightarrow> Server" where
  "watchTargetsFile [] s = s"
| "watchTargetsFile ((file, now) # ticks) s = watchTargetsFile ticks (loadTargetsFromFile file now s)"

section \<open>The state machine\<close>

text \<open>The locked sections, with what the environment supplies.\<close>

datatype srv_event =
    Accept
  | Connect string "error + unit" "error + nat"
  | Disconnect nat
  | Reload string string "error + string"
  | Tick "error + string"

definition srv_apply :: "srv_event \<Rightarrow> int \<Rightarrow> Server \<Rightarrow> Server" where
  "srv_apply e now s = (case e of
     Accept \<Rightarrow> snd (pick s)
   | Connect token upgrade sess \<Rightarrow> snd (handleWS token upgrade sess s)
   | Disconnect sess \<Rightarrow> disconnectWS sess s
   | Reload meth targets file \<Rightarrow> snd (handleReload meth targets file now s)
   | Tick file \<Rightarrow> loadTargetsFromFile file now s)"

text \<open>
  \<open>srv_reach s0 es now s\<close>: from \<open>s0\<close> the server reached \<open>s\<close> by the events \<open>es\<close>, each with the
  time at which it happened, latest first; the clock does not go backwards.
\<close>

inductive srv_reach :: "Server \<Rightarrow> (srv_event \<times> int) list \<Rightarrow> int \<Rightarrow> Server \<Rightarrow> bool" for s0 where
  init: "srv_reach s0 [] now s0"
| step: "srv_reach s0 es now s \<Longrightarrow> now \<le> now' \<Longrightarrow> s' = srv_apply e now' s \<Longrightarrow>
    srv_reach s0 ((e, now') # es) now' s'"

inductive_cases srv_reachE: "srv_reach s0 (e # es) now s"

section \<open>Lemmas\<close>

lemma targetsEqual_iff [simp]: "targetsEqual a b \<longleftrightarrow> a = b"
  by (auto simp: targetsEqual_def list_all_iff nth_equalityI)

lemma drop_session_remove1: "drop_session x xs = remove1 x xs"
  by (induction xs) auto

lemma rr_index_less:
  assumes "0 < n" and "n < 2 ^ 64"
  shows "unat (i mod word_of_nat n :: 64 word) = unat i mod n"
  using assms by (simp add: unat_mod unat_of_nat take_bit_nat_eq_self_iff)

text \<open>Go slices have fewer than \<open>2 ^ 63\<close> elements.\<close>

definition go_slices :: "Server \<Rightarrow> bool" where
  "go_slices s \<longleftrightarrow> length (srv_targets s) < 2 ^ 63 \<and> length (srv_sessions s) < 2 ^ 63"

lemma pick_eq:
  assumes "srv_sessions s \<noteq> []" and "srv_targets s \<noteq> []" and "go_slices s"
  shows "pick s = (Picked (srv_targets s ! (unat (srv_rrIndex s) mod length (srv_targets s)))
    (srv_sessions s ! (unat (srv_rrIndex s) mod length (srv_sessions s))), s\<lparr>srv_rrIndex := srv_rrIndex s + 1\<rparr>)"
  using assms by (auto simp: pick_def Let_def rr_index_less go_slices_def)

lemma pick_fields [simp]:
  "srv_sessions (snd (pick s)) = srv_sessions s" "srv_targets (snd (pick s)) = srv_targets s"
  "srv_pushTargets (snd (pick s)) = srv_pushTargets s" "srv_lastPushTime (snd (pick s)) = srv_lastPushTime s"
  "srv_authToken (snd (pick s)) = srv_authToken s"
  by (simp_all add: pick_def Let_def)

lemma handleWS_fields [simp]:
  "srv_targets (snd (handleWS tok u y s)) = srv_targets s"
  "srv_pushTargets (snd (handleWS tok u y s)) = srv_pushTargets s"
  "srv_lastPushTime (snd (handleWS tok u y s)) = srv_lastPushTime s"
  "srv_authToken (snd (handleWS tok u y s)) = srv_authToken s"
  by (simp_all add: handleWS_def split: sum.splits)

lemma disconnect_fields [simp]:
  "srv_targets (disconnectWS x s) = srv_targets s" "srv_pushTargets (disconnectWS x s) = srv_pushTargets s"
  "srv_lastPushTime (disconnectWS x s) = srv_lastPushTime s" "srv_authToken (disconnectWS x s) = srv_authToken s"
  "srv_sessions (disconnectWS x s) = remove1 x (srv_sessions s)"
  by (simp_all add: disconnectWS_def drop_session_remove1)

lemma load_fields [simp]:
  "srv_sessions (loadTargetsFromFile f now s) = srv_sessions s"
  "srv_pushTargets (loadTargetsFromFile f now s) = srv_pushTargets s"
  "srv_lastPushTime (loadTargetsFromFile f now s) = srv_lastPushTime s"
  "srv_authToken (loadTargetsFromFile f now s) = srv_authToken s"
  by (simp_all add: loadTargetsFromFile_def Let_def split: sum.splits)

lemma reload_fields [simp]:
  "srv_sessions (snd (handleReload m t f now s)) = srv_sessions s"
  "srv_authToken (snd (handleReload m t f now s)) = srv_authToken s"
  by (simp_all add: handleReload_def Let_def)

lemma watch_fields [simp]:
  "srv_sessions (watchTargetsFile ticks s) = srv_sessions s"
  "srv_pushTargets (watchTargetsFile ticks s) = srv_pushTargets s"
  "srv_lastPushTime (watchTargetsFile ticks s) = srv_lastPushTime s"
  "srv_authToken (watchTargetsFile ticks s) = srv_authToken s"
  by (induction ticks s rule: watchTargetsFile.induct) auto

lemma watch_snoc: "watchTargetsFile (ticks @ [(f, now)]) s = loadTargetsFromFile f now (watchTargetsFile ticks s)"
  by (induction ticks s rule: watchTargetsFile.induct) auto

text \<open>The watcher takes the steps of the machine.\<close>

lemma watch_reach:
  "srv_reach s0 es now s \<Longrightarrow> sorted (now # map snd ticks) \<Longrightarrow>
    srv_reach s0 (rev (map (\<lambda>(f, t). (Tick f, t)) ticks) @ es) (last (now # map snd ticks)) (watchTargetsFile ticks s)"
proof (induction ticks arbitrary: es now s)
  case (Cons x ticks)
  obtain f t where x: "x = (f, t)" by fastforce
  have "srv_reach s0 ((Tick f, t) # es) t (loadTargetsFromFile f t s)"
    using srv_reach.step [OF Cons.prems(1), of t _ "Tick f"] Cons.prems(2) x by (simp add: srv_apply_def)
  from Cons.IH [OF this] Cons.prems(2) x show ?case by simp
qed simp

lemma authToken_const: "srv_reach s0 es now s \<Longrightarrow> srv_authToken s = srv_authToken s0"
  by (induction rule: srv_reach.induct) (auto simp: srv_apply_def split: srv_event.splits)

section \<open>Properties\<close>

definition is_push :: "srv_event \<Rightarrow> bool" where
  "is_push e \<longleftrightarrow> (case e of Reload meth targets file \<Rightarrow> meth = ''POST'' \<and> targets \<noteq> [] | _ \<Rightarrow> False)"

definition last_push :: "(srv_event \<times> int) list \<Rightarrow> (string \<times> int) option" where
  "last_push es = (case filter (\<lambda>(e, t). is_push e) es of
     (Reload meth targets file, t) # _ \<Rightarrow> Some (targets, t) | _ \<Rightarrow> None)"

lemma last_push_simps:
  "last_push [] = None"
  "last_push ((e, t) # es) = (case e of Reload meth targets file \<Rightarrow>
     if meth = ''POST'' \<and> targets \<noteq> [] then Some (targets, t) else last_push es | _ \<Rightarrow> last_push es)"
  by (simp_all add: last_push_def is_push_def split: srv_event.splits)

definition recent_push :: "Server \<Rightarrow> int \<Rightarrow> bool" where
  "recent_push s now \<longleftrightarrow> (case srv_lastPushTime s of None \<Rightarrow> False | Some t \<Rightarrow> time_Since now t < 2 * minute)"

definition file_targets :: "string \<Rightarrow> string list" where
  "file_targets data = (if TrimSpace data \<noteq> [] then parse_targets (TrimSpace data) else [])"

lemma load_eq:
  "loadTargetsFromFile (Inr data) now s = s\<lparr>srv_targets :=
     (if recent_push s now \<and> file_targets data \<noteq> srv_pushTargets s then srv_targets s else file_targets data)\<rparr>"
  by (auto simp: loadTargetsFromFile_def file_targets_def recent_push_def Let_def)

text \<open>What a server knows of pushes: the last one, and that it is in force while it is recent.\<close>

definition push_inv :: "(srv_event \<times> int) list \<Rightarrow> int \<Rightarrow> Server \<Rightarrow> bool" where
  "push_inv es now s \<longleftrightarrow>
     (case last_push es of
        None \<Rightarrow> srv_lastPushTime s = None
      | Some (ts, t) \<Rightarrow> srv_lastPushTime s = Some t \<and> srv_pushTargets s = parse_targets ts) \<and>
     (recent_push s now \<longrightarrow> srv_targets s = srv_pushTargets s)"

lemma recent_push_mono: "recent_push s now' \<Longrightarrow> now \<le> now' \<Longrightarrow> recent_push s now"
  by (auto simp: recent_push_def intro: le_less_trans [OF time_Since_mono] split: option.splits)

lemma push_inv_load:
  assumes "push_inv es now s" and "now \<le> now'"
  shows "push_inv es now' (loadTargetsFromFile f now' s)"
proof (cases f)
  case (Inl e)
  with assms show ?thesis
    by (auto simp: loadTargetsFromFile_def push_inv_def dest: recent_push_mono)
next
  case (Inr data)
  have "recent_push (s\<lparr>srv_targets := ts\<rparr>) now' = recent_push s now'" for ts
    by (simp add: recent_push_def)
  with assms show ?thesis
    by (auto simp: Inr load_eq push_inv_def dest: recent_push_mono split: option.splits)
qed

lemma push_inv_step:
  assumes inv: "push_inv es now s" and le: "now \<le> now'"
  shows "push_inv ((e, now') # es) now' (srv_apply e now' s)"
proof (cases e)
  case (Reload meth targets f)
  show ?thesis
  proof (cases "meth = ''POST'' \<and> targets \<noteq> []")
    case True
    then show ?thesis
      by (simp add: Reload srv_apply_def handleReload_def Let_def push_inv_def last_push_simps)
  next
    case False
    have "push_inv ((e, now') # es) now' s'" if "push_inv es now' s'" for s'
      using that False by (auto simp: Reload push_inv_def last_push_simps)
    moreover have "push_inv es now' s"
      using inv le by (auto simp: push_inv_def dest: recent_push_mono)
    ultimately show ?thesis
      using push_inv_load [OF inv le] False by (auto simp: Reload srv_apply_def handleReload_def)
  qed
next
  case (Tick f)
  then show ?thesis
    using push_inv_load [OF inv le, of f] by (simp add: srv_apply_def push_inv_def last_push_simps)
qed (use inv le in \<open>auto simp: srv_apply_def push_inv_def last_push_simps recent_push_def intro: le_less_trans [OF time_Since_mono] split: option.splits\<close>)

lemma push_inv_reach:
  "srv_reach (main_server la wa tok ts tf) es now s \<Longrightarrow> push_inv es now s"
proof (induction rule: srv_reach.induct)
  case (init now)
  show ?case
    by (simp add: push_inv_def last_push_simps main_server_def NewServer_def SetTargetsFile_def recent_push_def Let_def)
next
  case (step es now s now' s' e)
  then show ?case using push_inv_step by simp
qed

text \<open>
  C5: a push stays in force for two minutes. Whatever connections, clients, file reads and reload
  requests the server sees, as long as less than two minutes have passed since the last push, its
  targets are the ones that push named, also when the watched file still lists others.
\<close>

theorem push_stays_in_force:
  assumes "srv_reach (main_server la wa tok ts tf) es now s"
    and "last_push es = Some (pushed, t)" and "time_Since now t < 2 * minute"
  shows "srv_targets s = parse_targets pushed"
  using push_inv_reach [OF assms(1)] assms(2,3) by (auto simp: push_inv_def recent_push_def)

abbreviation demo_srv :: Server where
  "demo_srv \<equiv> main_server '':8080'' '':8081'' ''secret'' ''a:1'' ''/t''"

lemma demo_push_reach:
  "srv_reach demo_srv [(Tick (Inr ''old:1''), 60 * second), (Reload ''POST'' ''b:2'' (Inl (ErrMsg [])), 0)]
     (60 * second) (srv_apply (Tick (Inr ''old:1'')) (60 * second)
       (srv_apply (Reload ''POST'' ''b:2'' (Inl (ErrMsg []))) 0 demo_srv))"
  by (rule srv_reach.step [OF srv_reach.step [OF srv_reach.init [of _ 0]]]) simp_all

theorem push_stays_in_force_witness:
  "srv_targets (srv_apply (Tick (Inr ''old:1'')) (60 * second)
     (srv_apply (Reload ''POST'' ''b:2'' (Inl (ErrMsg []))) 0 demo_srv)) = [''b:2'']"
proof -
  have "parse_targets ''b:2'' = [''b:2'']" by code_simp
  then show ?thesis
    using push_stays_in_force [OF demo_push_reach, of "''b:2''" 0] by (simp add: last_push_simps is_int64_def)
qed

text \<open>
  The watched file decides when no push is recent, and never before. Whatever the watcher read
  before, the last readable content sets the targets to its trimmed, non-empty entries, unless a push
  within the two minutes before that read named other targets; then they are left as they were. Reads
  that fail afterwards change nothing.
\<close>

theorem watched_file_effect:
  assumes "\<forall>(f, t) \<in> set fails. \<exists>err. f = Inl err"
  shows "srv_targets (watchTargetsFile (ticks @ (Inr data, now) # fails) s) =
    (if recent_push s now \<and> file_targets data \<noteq> srv_pushTargets s then srv_targets (watchTargetsFile ticks s)
     else file_targets data)"
proof -
  have "watchTargetsFile (ticks @ (Inr data, now) # fails) s = watchTargetsFile fails (watchTargetsFile (ticks @ [(Inr data, now)]) s)"
    by (induction ticks s rule: watchTargetsFile.induct) auto
  also have "\<dots> = watchTargetsFile (ticks @ [(Inr data, now)]) s"
    using assms by (induction fails) (auto simp: loadTargetsFromFile_def)
  finally show ?thesis by (simp add: watch_snoc load_eq recent_push_def)
qed

theorem watched_file_effect_witness:
  "srv_targets (watchTargetsFile [(Inr ''a:1'', 0), (Inr ''b:2, c:3'', 1), (Inl (ErrMsg ''gone''), 2)] demo_srv) = [''b:2'', ''c:3'']"
proof -
  have "file_targets ''b:2, c:3'' = [''b:2'', ''c:3'']" by code_simp
  moreover have "\<not> recent_push demo_srv 1" by (simp add: recent_push_def NewServer_def main_server_def SetTargetsFile_def)
  ultimately show ?thesis
    using watched_file_effect [of "[(Inl (ErrMsg ''gone''), 2)]" "[(Inr ''a:1'', 0)]" "''b:2, c:3''" 1 demo_srv] by simp
qed

text \<open>
  An empty list cannot be pushed. A reload request without targets is not a push but a read
  of the file, so within two minutes of a push it changes nothing unless the file names the pushed
  targets: removing the last target takes effect only after the window.
\<close>

theorem empty_push_ignored:
  assumes "recent_push s now" and "file_targets data \<noteq> srv_pushTargets s"
  shows "handleReload ''POST'' [] (Inr data) now s = (StatusOK, s)"
  using assms by (simp add: handleReload_def load_eq)

theorem empty_push_ignored_witness:
  "handleReload ''POST'' [] (Inr []) (60 * second) (snd (handleReload ''POST'' ''b:2'' (Inr []) 0 demo_srv)) =
     (StatusOK, snd (handleReload ''POST'' ''b:2'' (Inr []) 0 demo_srv))"
proof (rule empty_push_ignored)
  show "recent_push (snd (handleReload ''POST'' ''b:2'' (Inr []) 0 demo_srv)) (60 * second)"
    by (simp add: handleReload_def recent_push_def Let_def is_int64_def)
  have "parse_targets ''b:2'' = [''b:2'']" "file_targets [] = []" by code_simp+
  then show "file_targets [] \<noteq> srv_pushTargets (snd (handleReload ''POST'' ''b:2'' (Inr []) 0 demo_srv))"
    by (simp add: handleReload_def Let_def)
qed

text \<open>
  C19: only clients that know the token carry traffic. On a server with a token, every session that
  is registered at any time was opened by a client that presented that token and whose WebSocket
  upgrade succeeded.
\<close>

theorem sessions_authenticated:
  assumes "srv_reach (main_server la wa tok ts tf) es now s" and "tok \<noteq> []" and "sess \<in> set (srv_sessions s)"
  shows "\<exists>t. (Connect tok (Inr ()) (Inr sess), t) \<in> set es"
  using assms
proof (induction rule: srv_reach.induct)
  case (init now)
  then show ?case by (simp add: main_server_def NewServer_def SetTargetsFile_def Let_def split: if_splits)
next
  case (step es now s now' s' e)
  have tok: "srv_authToken s = tok"
    using authToken_const [OF step.hyps(1)] by (simp add: main_server_def NewServer_def SetTargetsFile_def Let_def)
  show ?case
  proof (cases "sess \<in> set (srv_sessions s)")
    case True
    then show ?thesis using step by auto
  next
    case False
    with step.hyps(3) step.prems(2) have "e = Connect tok (Inr ()) (Inr sess)"
      using tok step.prems(1)
      by (auto simp: srv_apply_def handleWS_def split: srv_event.splits sum.splits if_splits dest: notin_set_remove1)
    then show ?thesis by auto
  qed
qed

theorem sessions_authenticated_witness:
  "\<exists>t. (Connect ''secret'' (Inr ()) (Inr 7), t) \<in> set [(Connect ''guess'' (Inr ()) (Inr 8), 1), (Connect ''secret'' (Inr ()) (Inr 7), 0 :: int)]"
proof -
  have "srv_reach demo_srv [(Connect ''guess'' (Inr ()) (Inr 8), 1), (Connect ''secret'' (Inr ()) (Inr 7), 0)] 1
      (srv_apply (Connect ''guess'' (Inr ()) (Inr 8)) 1 (srv_apply (Connect ''secret'' (Inr ()) (Inr 7)) 0 demo_srv))"
    by (rule srv_reach.step [OF srv_reach.step [OF srv_reach.init [of _ 0]]]) simp_all
  from sessions_authenticated [OF this, of 7] show ?thesis
    by (simp add: srv_apply_def handleWS_def main_server_def NewServer_def SetTargetsFile_def)
qed

section \<open>Round robin\<close>

fun picks :: "nat \<Rightarrow> Server \<Rightarrow> pick_result list" where
  "picks 0 s = []"
| "picks (Suc n) s = fst (pick s) # picks n (snd (pick s))"

lemma picks_eq:
  assumes "srv_sessions s \<noteq> []" and "srv_targets s \<noteq> []" and "go_slices s"
    and "unat (srv_rrIndex s) + n \<le> 2 ^ 64"
  shows "picks n s = map (\<lambda>i. Picked (srv_targets s ! ((unat (srv_rrIndex s) + i) mod length (srv_targets s)))
    (srv_sessions s ! ((unat (srv_rrIndex s) + i) mod length (srv_sessions s)))) [0..<n]"
  using assms
proof (induction n arbitrary: s)
  case (Suc n)
  let ?s = "s\<lparr>srv_rrIndex := srv_rrIndex s + 1\<rparr>"
  show ?case
  proof (cases n)
    case 0
    then show ?thesis using Suc.prems by (simp add: pick_eq)
  next
    case (Suc m)
    have "unat (srv_rrIndex s + 1) = unat (srv_rrIndex s) + 1"
      using Suc.prems(4) Suc by (simp add: unat_word_ariths)
    moreover have "picks n ?s = map (\<lambda>i. Picked (srv_targets s ! ((unat (srv_rrIndex ?s) + i) mod length (srv_targets s)))
        (srv_sessions s ! ((unat (srv_rrIndex ?s) + i) mod length (srv_sessions s)))) [0..<n]"
      using Suc.IH [of ?s] Suc.prems calculation by (simp add: go_slices_def)
    ultimately show ?thesis
      using Suc.prems by (simp add: pick_eq map_upt_Suc del: upt_Suc)
  qed
qed simp

lemma map_rotate: "map (\<lambda>i. xs ! ((r + i) mod length xs)) [0..<length xs] = rotate r xs"
  by (rule nth_equalityI) (simp_all add: nth_rotate)

lemma mset_rotate: "mset (rotate r xs) = mset xs"
  by (metis append_take_drop_id mset_append rotate_drop_take union_commute)

text \<open>
  C11: round robin is fair. While the targets and sessions do not change, every run of as many
  connections as there are targets reaches each target exactly once, none is dropped and no index
  is out of range, as long as the 64-bit counter does not wrap in between.
\<close>

theorem round_robin_fair:
  assumes "srv_sessions s \<noteq> []" and "srv_targets s \<noteq> []" and "go_slices s"
    and "unat (srv_rrIndex s) + length (srv_targets s) \<le> 2 ^ 64"
  shows "\<exists>order. mset order = mset (srv_targets s) \<and>
    list_all2 (\<lambda>p t. \<exists>sess \<in> set (srv_sessions s). p = Picked t sess) (picks (length (srv_targets s)) s) order"
proof (intro exI conjI)
  let ?k = "length (srv_targets s)" and ?r = "unat (srv_rrIndex s)"
  show "mset (map (\<lambda>i. srv_targets s ! ((?r + i) mod ?k)) [0..<?k]) = mset (srv_targets s)"
    by (simp only: map_rotate mset_rotate)
  show "list_all2 (\<lambda>p t. \<exists>sess \<in> set (srv_sessions s). p = Picked t sess) (picks ?k s)
      (map (\<lambda>i. srv_targets s ! ((?r + i) mod ?k)) [0..<?k])"
    unfolding picks_eq [OF assms] using assms(1) by (simp add: list_all2_conv_all_nth)
qed

definition demo_rr :: Server where
  "demo_rr = (NewServer [] [] [] [''a:1'', ''b:2''])\<lparr>srv_sessions := [7], srv_rrIndex := 5\<rparr>"

theorem round_robin_fair_witness:
  "\<exists>order. mset order = mset [''a:1'', ''b:2''] \<and>
    list_all2 (\<lambda>p t. \<exists>sess \<in> set [7]. p = Picked t sess) (picks 2 demo_rr) order"
proof -
  have f: "srv_sessions demo_rr = [7]" "srv_targets demo_rr = [''a:1'', ''b:2'']" "srv_rrIndex demo_rr = 5"
    by (simp_all add: demo_rr_def NewServer_def)
  have "go_slices demo_rr" "unat (srv_rrIndex demo_rr) + length (srv_targets demo_rr) \<le> 2 ^ 64"
    by (simp_all add: f go_slices_def)
  from round_robin_fair [OF _ _ this] f(1,2) show ?thesis by (simp add: numeral_2_eq_2)
qed

end
