(* ===== verification/TunnelClient.thy ===== *)
theory TunnelClient
  imports World
begin

text \<open>
  The tunnel client of \<open>internal/tunnel/client.go\<close>, which runs beside the containers: for every
  stream the server opens it reads the target from the first line and connects to it. The byte
  stream below it is \<open>internal/tunnel/conn.go\<close>, which presents the messages of a WebSocket as
  one stream.
\<close>

section \<open>The byte stream of conn.go\<close>

definition EOF :: error where "EOF = ErrMsg ''EOF''"

text \<open>
  \<open>nextReader\<close> and \<open>readerRead\<close> are the calls of the WebSocket library on its connection;
  the flag says whether a message reader is kept. The recursion ends when a read returns
  something else than the end of a message.
\<close>

partial_function (option) WebSocketConn_Read ::
    "('ws \<Rightarrow> (error + unit) \<times> 'ws) \<Rightarrow> (nat \<Rightarrow> 'ws \<Rightarrow> (string \<times> error option) \<times> 'ws) \<Rightarrow>
     nat \<Rightarrow> bool \<times> 'ws \<Rightarrow> ((string \<times> error option) \<times> (bool \<times> 'ws)) option" where
  "WebSocketConn_Read nextReader readerRead n c =
     (case (if fst c then (Inr (), snd c) else nextReader (snd c)) of
        (Inl err, ws) \<Rightarrow> Some (([], Some err), (False, ws))
      | (Inr _, ws) \<Rightarrow>
          (case readerRead n ws of
             ((bs, err), ws') \<Rightarrow>
               if err = Some EOF then WebSocketConn_Read nextReader readerRead n (False, ws')
               else Some ((bs, err), (True, ws'))))"

text \<open>\<open>writeMessage\<close>, \<open>setReadDeadline\<close> and \<open>setWriteDeadline\<close> are calls of the library as well.\<close>

definition WebSocketConn_Write ::
    "(string \<Rightarrow> 'ws \<Rightarrow> error option \<times> 'ws) \<Rightarrow> string \<Rightarrow> 'ws \<Rightarrow> (nat \<times> error option) \<times> 'ws" where
  "WebSocketConn_Write writeMessage b ws =
     (case writeMessage b ws of
        (Some err, ws') \<Rightarrow> ((0, Some err), ws')
      | (None, ws') \<Rightarrow> ((length b, None), ws'))"

definition WebSocketConn_SetDeadline ::
    "(int \<Rightarrow> 'ws \<Rightarrow> error option \<times> 'ws) \<Rightarrow> (int \<Rightarrow> 'ws \<Rightarrow> error option \<times> 'ws) \<Rightarrow> int \<Rightarrow> 'ws \<Rightarrow> error option \<times> 'ws" where
  "WebSocketConn_SetDeadline setReadDeadline setWriteDeadline t ws =
     (case setReadDeadline t ws of
        (Some err, ws') \<Rightarrow> (Some err, ws')
      | (None, ws') \<Rightarrow> setWriteDeadline t ws')"

text \<open>
  The keep-alive that \<open>NewWebSocketConn\<close> sets up: a PONG moves the read deadline, and a
  goroutine sends a PING every twenty seconds until a write fails. \<open>pinger\<close> runs it for a number
  of ticks, the first at \<open>t\<close>, and returns the times of the PINGs sent.
\<close>

definition pong_handler :: "(int \<Rightarrow> 'ws \<Rightarrow> error option \<times> 'ws) \<Rightarrow> int \<Rightarrow> 'ws \<Rightarrow> error option \<times> 'ws" where
  "pong_handler setReadDeadline now ws = (None, snd (setReadDeadline (now + 60 * second) ws))"

fun pinger :: "('ws \<Rightarrow> error option \<times> 'ws) \<Rightarrow> int \<Rightarrow> nat \<Rightarrow> 'ws \<Rightarrow> int list \<times> 'ws" where
  "pinger writePing t 0 ws = ([], ws)"
| "pinger writePing t (Suc n) ws =
     (case writePing ws of
        (Some err, ws') \<Rightarrow> ([], ws')
      | (None, ws') \<Rightarrow> (case pinger writePing (t + 20 * second) n ws' of (pings, ws'') \<Rightarrow> (t # pings, ws'')))"

text \<open>
  What the code relies on of the library: \<open>cur\<close> is what is left of the current message and
  \<open>rest\<close> are the messages to come. A reader yields the bytes of its message in order and
  reports the end only when none is left; without a further message the next reader is an error.
  The library's reader never returns bytes together with the end of a message (the code would drop
  them); a connection that breaks inside a message is left out.
\<close>

definition ws_transport ::
    "('ws \<Rightarrow> (error + unit) \<times> 'ws) \<Rightarrow> (nat \<Rightarrow> 'ws \<Rightarrow> (string \<times> error option) \<times> 'ws) \<Rightarrow>
     ('ws \<Rightarrow> string) \<Rightarrow> ('ws \<Rightarrow> string list) \<Rightarrow> bool" where
  "ws_transport nextReader readerRead cur rest \<longleftrightarrow>
     (\<forall>ws m ms. rest ws = m # ms \<longrightarrow> (\<exists>ws'. nextReader ws = (Inr (), ws') \<and> cur ws' = m \<and> rest ws' = ms)) \<and>
     (\<forall>ws. rest ws = [] \<longrightarrow> (\<exists>e ws'. nextReader ws = (Inl e, ws'))) \<and>
     (\<forall>n ws. cur ws \<noteq> [] \<and> 0 < n \<longrightarrow> (\<exists>k ws'. 0 < k \<and> k \<le> n \<and> readerRead n ws = ((take k (cur ws), None), ws') \<and>
        cur ws' = drop k (cur ws) \<and> rest ws' = rest ws)) \<and>
     (\<forall>n ws. cur ws = [] \<longrightarrow> (\<exists>ws'. readerRead n ws = (([], Some EOF), ws') \<and> cur ws' = [] \<and> rest ws' = rest ws))"

section \<open>The header of a stream\<close>

text \<open>
  \<open>string(buf[0])\<close> is the UTF-8 encoding of the code point with the number of the byte, so a
  byte above 127 becomes two bytes.
\<close>

definition string_of_byte :: "char \<Rightarrow> string" where
  "string_of_byte b =
     (if (of_char b :: nat) < 128 then [b]
      else [char_of (192 + (of_char b :: nat) div 64), char_of (128 + (of_char b :: nat) mod 64)])"

fun read_header :: "string \<Rightarrow> string \<Rightarrow> error + string \<times> string" where
  "read_header targetAddr [] = Inl EOF"
| "read_header targetAddr (b # bs) =
     (if b = newline_char then Inr (targetAddr, bs)
      else
        let targetAddr' = targetAddr @ string_of_byte b
        in if length targetAddr' > 256 then Inl (ErrMsg ''Header too long'')
           else read_header targetAddr' bs)"

datatype stream_result = HeaderError error | DialError string error | Piped string string

text \<open>\<open>dial\<close> is \<open>net.Dial\<close>; \<open>Piped target rest\<close> is the connection, with the bytes that follow the header.\<close>

definition handleStream :: "(string \<Rightarrow> error + unit) \<Rightarrow> string \<Rightarrow> stream_result" where
  "handleStream dial stream =
     (case read_header [] stream of
        Inl err \<Rightarrow> HeaderError err
      | Inr (targetAddr, rest) \<Rightarrow>
          (case dial targetAddr of
             Inl err \<Rightarrow> DialError targetAddr err
           | Inr _ \<Rightarrow> Piped targetAddr rest))"

section \<open>Connecting\<close>

record Client =
  cl_serverAddr :: string
  cl_token :: string

record ws_request =
  rq_URL :: string
  rq_Header :: "(string \<times> string) list"

text \<open>The request with which \<open>connectAndServe\<close> dials the server.\<close>

definition connect_request :: "Client \<Rightarrow> ws_request" where
  "connect_request c = \<lparr>rq_URL = cl_serverAddr c,
     rq_Header = (if cl_token c \<noteq> [] then [(''X-Tunnel-Token'', cl_token c)] else [])\<rparr>"

definition NewTunnelClient :: "string \<Rightarrow> string \<Rightarrow> Client" where
  "NewTunnelClient serverAddr token = \<lparr>cl_serverAddr = serverAddr, cl_token = token\<rparr>"

text \<open>
  What the environment does in one round of the client: the dial, the start of the session, what the
  session accepts. \<open>Serve\<close> is a stream handed to \<open>handleStream\<close>; a session ends with an error of
  \<open>Accept\<close>.
\<close>

record conn_env =
  ce_dial :: "error + unit"
  ce_yamux :: "error + unit"
  ce_streams :: "string list"
  ce_acceptError :: error

datatype client_event = Dial ws_request | Serve string | Sleep int

definition connectAndServe :: "conn_env \<Rightarrow> Client \<Rightarrow> client_event list \<times> error option" where
  "connectAndServe env c =
     (case ce_dial env of
        Inl err \<Rightarrow> ([Dial (connect_request c)], Some err)
      | Inr _ \<Rightarrow>
          (case ce_yamux env of
             Inl err \<Rightarrow> ([Dial (connect_request c)], Some err)
           | Inr _ \<Rightarrow> (Dial (connect_request c) # map Serve (ce_streams env), Some (ce_acceptError env))))"

text \<open>The rounds of \<open>Start\<close>, which never returns: the events of the rounds so far.\<close>

fun Client_Start :: "conn_env list \<Rightarrow> Client \<Rightarrow> client_event list" where
  "Client_Start [] c = []"
| "Client_Start (env # envs) c =
     (case connectAndServe env c of
        (es, Some err) \<Rightarrow> es @ [Sleep (5 * second)] @ Client_Start envs c
      | (es, None) \<Rightarrow> es @ Client_Start envs c)"

section \<open>Lemmas\<close>

lemma string_of_ascii [simp]: "(of_char b :: nat) < 128 \<Longrightarrow> string_of_byte b = [b]"
  by (simp add: string_of_byte_def)

definition ascii_line :: "string \<Rightarrow> bool" where
  "ascii_line t \<longleftrightarrow> list_all (\<lambda>b. (of_char b :: nat) < 128 \<and> b \<noteq> newline_char) t"

lemma read_header_line:
  "ascii_line t \<Longrightarrow> length acc \<le> 256 \<Longrightarrow> read_header acc (t @ newline_char # rest) =
     (if length acc + length t \<le> 256 then Inr (acc @ t, rest) else Inl (ErrMsg ''Header too long''))"
  by (induction t arbitrary: acc) (auto simp: ascii_line_def Let_def)

definition conn_content :: "('ws \<Rightarrow> string) \<Rightarrow> ('ws \<Rightarrow> string list) \<Rightarrow> bool \<times> 'ws \<Rightarrow> string" where
  "conn_content cur rest c = (if fst c then cur (snd c) else []) @ concat (rest (snd c))"

text \<open>\<open>delivered n content left r\<close>: the result \<open>r\<close> delivers a non-empty prefix of \<open>content\<close> of at most \<open>n\<close>
  bytes and leaves the rest, or reports an error when \<open>content\<close> is empty.\<close>

definition delivered :: "nat \<Rightarrow> string \<Rightarrow> (bool \<times> 'ws \<Rightarrow> string) \<Rightarrow>
    ((string \<times> error option) \<times> (bool \<times> 'ws)) option \<Rightarrow> bool" where
  "delivered n content left r = (case r of
     None \<Rightarrow> False
   | Some ((bs, err), c') \<Rightarrow>
       if content = [] then bs = [] \<and> err \<noteq> None
       else err = None \<and> bs \<noteq> [] \<and> length bs \<le> n \<and> content = bs @ left c')"

lemma read_next:
  assumes "ws_transport nextReader readerRead cur rest" and "0 < n" and "rest ws = ms"
  shows "delivered n (concat ms) (conn_content cur rest) (WebSocketConn_Read nextReader readerRead n (False, ws))"
  using assms(3)
proof (induction ms arbitrary: ws)
  case Nil
  with assms(1) obtain e ws' where "nextReader ws = (Inl e, ws')" unfolding ws_transport_def by meson
  then show ?case by (subst WebSocketConn_Read.simps) (simp add: delivered_def)
next
  case (Cons m ms)
  with assms(1) obtain ws' where nr: "nextReader ws = (Inr (), ws')" "cur ws' = m" "rest ws' = ms"
    unfolding ws_transport_def by meson
  show ?case
  proof (cases "m = []")
    case True
    with assms(1) nr(2) obtain ws'' where "readerRead n ws' = (([], Some EOF), ws'')" "rest ws'' = rest ws'"
      unfolding ws_transport_def by meson
    with nr Cons.IH [of ws''] True show ?thesis
      by (subst WebSocketConn_Read.simps) simp
  next
    case False
    with assms(1,2) nr(2) obtain k ws'' where "0 < k" "k \<le> n" "readerRead n ws' = ((take k m, None), ws'')"
      "cur ws'' = drop k m" "rest ws'' = rest ws'"
      unfolding ws_transport_def by meson
    with nr False show ?thesis
      by (subst WebSocketConn_Read.simps) (simp add: delivered_def conn_content_def flip: append_assoc)
  qed
qed

lemma read_delivers:
  assumes "ws_transport nextReader readerRead cur rest" and "0 < n"
  shows "delivered n (conn_content cur rest c) (conn_content cur rest) (WebSocketConn_Read nextReader readerRead n c)"
proof (cases "fst c")
  case False
  then have "c = (False, snd c)" by (cases c) simp
  moreover from False have "conn_content cur rest c = concat (rest (snd c))" by (simp add: conn_content_def)
  ultimately show ?thesis using read_next [OF assms refl, of "snd c"] by simp
next
  case True
  show ?thesis
  proof (cases "cur (snd c) = []")
    case True
    with assms(1) obtain ws' where r: "readerRead n (snd c) = (([], Some EOF), ws')" "rest ws' = rest (snd c)"
      unfolding ws_transport_def by meson
    have "WebSocketConn_Read nextReader readerRead n c = WebSocketConn_Read nextReader readerRead n (False, ws')"
      using \<open>fst c\<close> r by (subst WebSocketConn_Read.simps) simp
    moreover have "conn_content cur rest c = concat (rest (snd c))" using \<open>fst c\<close> True by (simp add: conn_content_def)
    ultimately show ?thesis using read_next [OF assms r(2)] by simp
  next
    case False
    with assms obtain k ws' where "0 < k" "k \<le> n" "readerRead n (snd c) = ((take k (cur (snd c)), None), ws')"
      "cur ws' = drop k (cur (snd c))" "rest ws' = rest (snd c)"
      unfolding ws_transport_def by meson
    with \<open>fst c\<close> False show ?thesis
      by (subst WebSocketConn_Read.simps) (simp add: delivered_def conn_content_def flip: append_assoc)
  qed
qed

text \<open>Reads one after the other, until one reports an error.\<close>

fun read_many :: "('ws \<Rightarrow> (error + unit) \<times> 'ws) \<Rightarrow> (nat \<Rightarrow> 'ws \<Rightarrow> (string \<times> error option) \<times> 'ws) \<Rightarrow>
    nat \<Rightarrow> nat \<Rightarrow> bool \<times> 'ws \<Rightarrow> (string \<times> (bool \<times> 'ws)) option" where
  "read_many nextReader readerRead n 0 c = Some ([], c)"
| "read_many nextReader readerRead n (Suc k) c =
     (case WebSocketConn_Read nextReader readerRead n c of
        Some ((bs, None), c') \<Rightarrow> map_option (\<lambda>(rest, d). (bs @ rest, d)) (read_many nextReader readerRead n k c')
      | _ \<Rightarrow> None)"

lemma read_many_all:
  assumes "ws_transport nextReader readerRead cur rest" and "0 < n"
  shows "\<exists>k c'. read_many nextReader readerRead n k c = Some (conn_content cur rest c, c') \<and> conn_content cur rest c' = []"
proof (induction "length (conn_content cur rest c)" arbitrary: c rule: less_induct)
  case less
  show ?case
  proof (cases "conn_content cur rest c = []")
    case True
    then show ?thesis by (intro exI [of _ 0]) simp
  next
    case False
    with read_delivers [OF assms, of c] obtain bs c' where
      r: "WebSocketConn_Read nextReader readerRead n c = Some ((bs, None), c')" "bs \<noteq> []"
        "conn_content cur rest c = bs @ conn_content cur rest c'"
      by (auto simp: delivered_def split: option.splits)
    then have "length (conn_content cur rest c') < length (conn_content cur rest c)" by simp
    from less [OF this] obtain k d where
      "read_many nextReader readerRead n k c' = Some (conn_content cur rest c', d)" "conn_content cur rest d = []" by blast
    with r show ?thesis by (intro exI [of _ "Suc k"]) simp
  qed
qed

fun write_all :: "(string \<Rightarrow> 'ws \<Rightarrow> error option \<times> 'ws) \<Rightarrow> string list \<Rightarrow> 'ws \<Rightarrow> 'ws option" where
  "write_all writeMessage [] ws = Some ws"
| "write_all writeMessage (b # bs) ws =
     (case WebSocketConn_Write writeMessage b ws of
        ((_, None), ws') \<Rightarrow> write_all writeMessage bs ws'
      | _ \<Rightarrow> None)"

text \<open>A message that is written without an error is sent as one message, after those sent before.\<close>

definition ws_sender :: "(string \<Rightarrow> 'ws \<Rightarrow> error option \<times> 'ws) \<Rightarrow> ('ws \<Rightarrow> string list) \<Rightarrow> bool" where
  "ws_sender writeMessage sent \<longleftrightarrow> (\<forall>b ws ws'. writeMessage b ws = (None, ws') \<longrightarrow> sent ws' = sent ws @ [b])"

lemma write_all_sent:
  "ws_sender writeMessage sent \<Longrightarrow> write_all writeMessage bs ws = Some ws' \<Longrightarrow> sent ws' = sent ws @ bs"
  by (induction bs arbitrary: ws) (auto simp: ws_sender_def WebSocketConn_Write_def split: prod.splits option.splits)

section \<open>Properties\<close>

text \<open>
  C27: the stream of a WebSocket loses nothing at message boundaries. A read with room for at least
  one byte returns: when bytes are left in the current message or in later ones, it delivers a
  non-empty prefix of them and leaves exactly the rest; when none are left, it reports an error.
  Empty messages are skipped. The reader of a message is assumed to yield its bytes in order and to
  report the end separately from the last of them.
\<close>

theorem websocket_read_lossless:
  assumes "ws_transport nextReader readerRead cur rest" and "0 < n"
  shows "delivered n (conn_content cur rest c) (conn_content cur rest) (WebSocketConn_Read nextReader readerRead n c)"
  using assms by (rule read_delivers)

text \<open>A transport over lists: the rest of the current message and the messages to come.\<close>

definition list_next :: "string \<times> string list \<Rightarrow> (error + unit) \<times> (string \<times> string list)" where
  "list_next w = (case snd w of [] \<Rightarrow> (Inl EOF, w) | m # ms \<Rightarrow> (Inr (), (m, ms)))"

definition list_read :: "nat \<Rightarrow> string \<times> string list \<Rightarrow> (string \<times> error option) \<times> (string \<times> string list)" where
  "list_read n w = (if fst w = [] then (([], Some EOF), w) else ((take n (fst w), None), (drop n (fst w), snd w)))"

lemma list_transport: "ws_transport list_next list_read fst snd"
  by (auto simp: ws_transport_def list_next_def list_read_def)

theorem websocket_read_lossless_witness:
  "delivered 2 ''abcd'' (conn_content fst snd) (WebSocketConn_Read list_next list_read 2 (True, ([], [[], ''abc'', ''d''])))"
  using websocket_read_lossless [OF list_transport, of 2 "(True, ([], [[], ''abc'', ''d'']))"]
  by (simp add: conn_content_def)

text \<open>
  C28: what is written to a WebSocket on one side is what is read on the other. When a sequence of
  writes has succeeded and its messages arrive at the peer, reads of any positive size deliver, after
  finitely many of them, exactly the bytes written, in order, and the read after them reports an
  error; how the bytes were cut into messages cannot be seen.
\<close>

theorem websocket_round_trip:
  assumes "ws_sender writeMessage sent" and "write_all writeMessage bs ws = Some ws'" and "sent ws = []"
    and "ws_transport nextReader readerRead cur rest" and "rest peer = sent ws'" and "0 < n"
  shows "\<exists>k c'. read_many nextReader readerRead n k (False, peer) = Some (concat bs, c') \<and>
    (\<exists>e c''. WebSocketConn_Read nextReader readerRead n c' = Some (([], Some e), c''))"
proof -
  have "conn_content cur rest (False, peer) = concat bs"
    using write_all_sent [OF assms(1,2)] assms(3,5) by (simp add: conn_content_def)
  with read_many_all [OF assms(4,6), of "(False, peer)"] obtain k c' where
    "read_many nextReader readerRead n k (False, peer) = Some (concat bs, c')" and end_: "conn_content cur rest c' = []"
    by auto
  moreover from read_delivers [OF assms(4,6), of c'] end_
  have "\<exists>e c''. WebSocketConn_Read nextReader readerRead n c' = Some (([], Some e), c'')"
    by (auto simp: delivered_def split: option.splits)
  ultimately show ?thesis by blast
qed

definition list_write :: "string \<Rightarrow> string list \<Rightarrow> error option \<times> string list" where
  "list_write b out = (None, out @ [b])"

theorem websocket_round_trip_witness:
  "\<exists>k c'. read_many list_next list_read 2 k (False, ([], [''ab'', [], ''c''])) = Some (''abc'', c')"
proof -
  have "ws_sender list_write (\<lambda>out. out)" by (simp add: ws_sender_def list_write_def)
  moreover have "write_all list_write [''ab'', [], ''c''] [] = Some [''ab'', [], ''c'']"
    by (simp add: WebSocketConn_Write_def list_write_def)
  ultimately show ?thesis
    using websocket_round_trip [OF _ _ _ list_transport, of list_write "\<lambda>out. out" "[''ab'', [], ''c'']" "[]"
        "[''ab'', [], ''c'']" "([], [''ab'', [], ''c''])" 2] by auto
qed

lemma append_skip: "ys @ rest = a @ d # b \<Longrightarrow> d \<notin> set ys \<Longrightarrow> \<exists>a'. a = ys @ a' \<and> rest = a' @ d # b"
  by (induction ys arbitrary: a) (auto simp: Cons_eq_append_conv)

lemma Client_Start_round:
  "\<exists>q ss. Client_Start (env # envs) c = Dial q # (map Serve ss @ [Sleep (5 * second)]) @ Client_Start envs c"
proof (cases "connectAndServe env c = ([Dial (connect_request c)], snd (connectAndServe env c))")
  case True
  then show ?thesis
    by (intro exI [of _ "connect_request c"] exI [of _ "[]"]) (auto simp: connectAndServe_def split: sum.splits)
qed (auto simp: connectAndServe_def split: sum.splits)

text \<open>
  The intervals of the keep-alive fit together: when the peer answers every PING within forty
  seconds, each PONG arrives before the read deadline that the one before it set has passed.
  \<open>deadline_after\<close> is the read deadline after a sequence of PONGs.
\<close>

definition deadline_after :: "int list \<Rightarrow> int option" where
  "deadline_after pongs = fold (\<lambda>t d. snd (pong_handler (\<lambda>dl _. (None, Some dl)) t d)) pongs None"

lemma deadline_after_last: "pongs \<noteq> [] \<Longrightarrow> deadline_after pongs = Some (last pongs + 60 * second)"
  by (induction pongs rule: rev_induct) (auto simp: deadline_after_def pong_handler_def)

lemma pinger_times:
  "k < length (fst (pinger writePing t n ws)) \<Longrightarrow> fst (pinger writePing t n ws) ! k = t + 20 * second * int k"
proof (induction writePing t n ws arbitrary: k rule: pinger.induct)
  case (2 writePing t n ws)
  show ?case
  proof (cases "writePing ws")
    case (Pair err ws')
    with 2 show ?thesis by (cases k; cases err) (auto simp: split_beta algebra_simps)
  qed
qed simp

theorem keepalive_in_time:
  assumes "pinger writePing t n ws = (pings, ws')" and "length pongs \<le> length pings"
    and "\<forall>k < length pongs. pings ! k \<le> pongs ! k \<and> pongs ! k < pings ! k + 40 * second"
    and "Suc k < length pongs"
  shows "\<exists>d. deadline_after (take (Suc k) pongs) = Some d \<and> pongs ! Suc k < d"
proof -
  have ping: "pings ! i = t + 20 * second * int i" if "i < length pongs" for i
    using pinger_times [of i writePing t n ws] assms(1,2) that by simp
  have "pongs ! Suc k < pings ! Suc k + 40 * second" and "pings ! k \<le> pongs ! k" using assms(3,4) by simp_all
  then have "pongs ! Suc k < pongs ! k + 60 * second" using ping [of k] ping [of "Suc k"] assms(4) by simp
  moreover have "last (take (Suc k) pongs) = pongs ! k" using assms(4) by (simp add: take_Suc_conv_app_nth)
  moreover have "take (Suc k) pongs \<noteq> []" using assms(4) by auto
  ultimately show ?thesis using deadline_after_last by fastforce
qed

theorem keepalive_in_time_witness:
  "\<exists>d. deadline_after (take (Suc 0) [25 * second, 75 * second]) = Some d \<and> [25 * second, 75 * second] ! Suc 0 < d"
  by (rule keepalive_in_time [of "\<lambda>ws. (None, ws)" "20 * second" 2 "()" "[20 * second, 40 * second]" "()"])
    (simp_all add: numeral_2_eq_2 less_Suc_eq)

text \<open>
  The client never hammers the server. Between two connection attempts of the client there is
  always a pause of five seconds, however the earlier attempt ended: \<open>connectAndServe\<close> returns
  only with an error.
\<close>

theorem client_pauses_between_dials:
  assumes "Client_Start envs c = pre @ Dial r # mid @ Dial r' # post"
  shows "Sleep (5 * second) \<in> set mid"
  using assms
proof (induction envs arbitrary: pre)
  case (Cons env envs)
  obtain q ss where round: "Client_Start (env # envs) c = Dial q # (map Serve ss @ [Sleep (5 * second)]) @ Client_Start envs c"
    using Client_Start_round by blast
  show ?case
  proof (cases pre)
    case Nil
    with Cons.prems round have "(map Serve ss @ [Sleep (5 * second)]) @ Client_Start envs c = mid @ Dial r' # post" by simp
    from append_skip [OF this] show ?thesis by fastforce
  next
    case (Cons x pre')
    with Cons.prems round have "(map Serve ss @ [Sleep (5 * second)]) @ Client_Start envs c = pre' @ Dial r # mid @ Dial r' # post" by simp
    from append_skip [OF this] Cons.IH show ?thesis by fastforce
  qed
qed simp

theorem client_pauses_between_dials_witness:
  "Sleep (5 * second) \<in> set (map Serve [''a''] @ [Sleep (5 * second)])"
proof (rule client_pauses_between_dials)
  let ?c = "NewTunnelClient ''ws://h/ws'' []"
  show "Client_Start [\<lparr>ce_dial = Inr (), ce_yamux = Inr (), ce_streams = [''a''], ce_acceptError = EOF\<rparr>,
      \<lparr>ce_dial = Inl EOF, ce_yamux = Inr (), ce_streams = [], ce_acceptError = EOF\<rparr>] ?c =
    [] @ Dial (connect_request ?c) # (map Serve [''a''] @ [Sleep (5 * second)]) @ Dial (connect_request ?c) # [Sleep (5 * second)]"
    by (simp add: connectAndServe_def)
qed

end
