(* ===== verification/Manager.thy ===== *)
theory Manager
  imports GoFlag TunnelServer TunnelClient
begin

text \<open>
  The program's start, \<open>cmd/manager/main.go\<close>: the subcommand \<open>tunnel\<close>, which reads its flags and
  runs as server, client or gateway, and the start of the controllers.
\<close>

section \<open>The tunnel subcommand\<close>

definition tunnel_flags :: "(string \<times> string) list" where
  "tunnel_flags = [(''mode'', ''server''), (''listen-addr'', '':8080''), (''ws-addr'', '':8081''), (''auth-token'', []),
     (''targets'', []), (''targets-file'', []), (''server-url'', ''ws://localhost:8081/ws''), (''gateway-addr'', '':8080'')]"

datatype tunnel_action = RunServer Server | RunClient Client | RunGateway string | RunNothing

definition tunnel_action_of :: "(string \<times> string) list \<Rightarrow> tunnel_action" where
  "tunnel_action_of flags =
     (if flag_val flags ''mode'' = ''server'' then
        RunServer (main_server (flag_val flags ''listen-addr'') (flag_val flags ''ws-addr'') (flag_val flags ''auth-token'')
          (flag_val flags ''targets'') (flag_val flags ''targets-file''))
      else if flag_val flags ''mode'' = ''client'' then
        RunClient (NewTunnelClient (flag_val flags ''server-url'') (flag_val flags ''auth-token''))
      else if flag_val flags ''mode'' = ''gateway'' then RunGateway (flag_val flags ''gateway-addr'')
      else RunNothing)"

text \<open>
  The outcome for the arguments after the program's name: the exit code of a failed parse (the flag
  set exits on errors), or what is run. \<open>None\<close> is the start of the manager.
\<close>

definition main_tunnel :: "string list \<Rightarrow> (nat + tunnel_action) option" where
  "main_tunnel args =
     (case args of
        [] \<Rightarrow> None
      | cmd # rest \<Rightarrow>
          if cmd \<noteq> ''tunnel'' then None
          else Some (case flag_Parse tunnel_flags rest of
            Inl ErrHelp \<Rightarrow> Inl 0
          | Inl (FlagError msg) \<Rightarrow> Inl 2
          | Inr (flags, _) \<Rightarrow> Inr (tunnel_action_of flags)))"

text \<open>The exit code of the process, where \<open>run\<close> is how \<open>Start\<close> or \<open>RunGateway\<close> returns.\<close>

definition tunnel_exit :: "(tunnel_action \<Rightarrow> error option) \<Rightarrow> nat + tunnel_action \<Rightarrow> nat" where
  "tunnel_exit run outcome =
     (case outcome of
        Inl code \<Rightarrow> code
      | Inr RunNothing \<Rightarrow> 0
      | Inr act \<Rightarrow> if run act = None then 0 else 1)"

section \<open>The manager\<close>

text \<open>The steps of the start, in order; the logs server is a goroutine whose failure is only logged.\<close>

datatype setup_step = NewManager | Setup string | AddHealthzCheck | AddReadyzCheck | StartLogs | StartManager

definition setup_steps :: "setup_step list" where
  "setup_steps = [NewManager, Setup ''DockerContainer'', Setup ''DockerHost'', Setup ''DockerService'', Setup ''DockerJob'',
     Setup ''DockerDeployment'', AddHealthzCheck, AddReadyzCheck, StartLogs, StartManager]"

fun run_steps :: "(setup_step \<Rightarrow> error option) \<Rightarrow> setup_step list \<Rightarrow> setup_step list \<times> nat" where
  "run_steps step [] = ([], 0)"
| "run_steps step (x # xs) =
     (if x \<noteq> StartLogs \<and> step x \<noteq> None then ([x], 1)
      else (case run_steps step xs of (done_, code) \<Rightarrow> (x # done_, code)))"

text \<open>
  The flags of the manager. \<open>extra\<close> are the flags that libraries register in the same flag set
  (the logger's options, the path of the cluster's configuration), with their kinds.
\<close>

definition manager_flags :: "(string \<times> string \<times> flag_kind) list \<Rightarrow> (string \<times> string) list" where
  "manager_flags extra = [(''metrics-bind-address'', '':8080''), (''health-probe-bind-address'', '':8081''),
     (''logs-bind-address'', '':8082''), (''leader-elect'', ''false'')] @ map (\<lambda>(n, v, k). (n, v)) extra"

definition manager_flag_kind :: "(string \<times> string \<times> flag_kind) list \<Rightarrow> string \<Rightarrow> flag_kind" where
  "manager_flag_kind extra n =
     (if n = ''leader-elect'' then BoolFlag
      else case map_of (map (\<lambda>(n, v, k). (n, k)) extra) n of None \<Rightarrow> StringFlag | Some k \<Rightarrow> k)"

record manager_options =
  mo_MetricsBindAddress :: string
  mo_HealthProbeBindAddress :: string
  mo_LeaderElection :: bool
  mo_LeaderElectionID :: string
  mo_logsAddr :: string

definition manager_options_of :: "(string \<times> string) list \<Rightarrow> manager_options" where
  "manager_options_of flags = \<lparr>mo_MetricsBindAddress = flag_val flags ''metrics-bind-address'',
     mo_HealthProbeBindAddress = flag_val flags ''health-probe-bind-address'',
     mo_LeaderElection = (flag_val flags ''leader-elect'' = ''true''),
     mo_LeaderElectionID = ''94c73569.kdop.io.vn'',
     mo_logsAddr = flag_val flags ''logs-bind-address''\<rparr>"

text \<open>The steps that were taken and the exit code, where \<open>step\<close> is how each step returns.\<close>

definition main_manager :: "(string \<times> string \<times> flag_kind) list \<Rightarrow> (manager_options \<Rightarrow> setup_step \<Rightarrow> error option) \<Rightarrow>
    string list \<Rightarrow> setup_step list \<times> nat" where
  "main_manager extra step args =
     (case flag_Parse_kinds (manager_flag_kind extra) (manager_flags extra) args of
        Inl ErrHelp \<Rightarrow> ([], 0)
      | Inl (FlagError msg) \<Rightarrow> ([], 2)
      | Inr (flags, _) \<Rightarrow> run_steps (step (manager_options_of flags)) setup_steps)"

text \<open>The program: the subcommand \<open>tunnel\<close>, or else the manager.\<close>

definition main :: "(string \<times> string \<times> flag_kind) list \<Rightarrow> (tunnel_action \<Rightarrow> error option) \<Rightarrow>
    (manager_options \<Rightarrow> setup_step \<Rightarrow> error option) \<Rightarrow> string list \<Rightarrow> setup_step list \<times> nat" where
  "main extra run step args =
     (case main_tunnel args of
        Some outcome \<Rightarrow> ([], tunnel_exit run outcome)
      | None \<Rightarrow> main_manager extra step args)"

section \<open>Lemmas\<close>

lemma flag_names [simp]:
  "flag_name ''mode''" "flag_name ''listen-addr''" "flag_name ''ws-addr''" "flag_name ''auth-token''"
  "flag_name ''targets''" "flag_name ''targets-file''" "flag_name ''server-url''" "flag_name ''target-addr''"
  by (simp_all add: flag_name_def)

lemma main_tunnel_parse:
  "flag_Parse tunnel_flags rest = Inr (flags, left) \<Longrightarrow> main_tunnel (''tunnel'' # rest) = Some (Inr (tunnel_action_of flags))"
  by (simp add: main_tunnel_def)

text \<open>Every flag has a value at all times.\<close>

definition tunnel_flag_set :: "(string \<times> string) list \<Rightarrow> bool" where
  "tunnel_flag_set flags \<longleftrightarrow> map fst flags = map fst tunnel_flags"

lemma tunnel_flag_set_init [simp]: "tunnel_flag_set tunnel_flags"
  by (simp add: tunnel_flag_set_def)

lemma tunnel_flag_set_upd [simp]: "tunnel_flag_set (set_flag n v flags) \<longleftrightarrow> tunnel_flag_set flags"
  by (simp add: tunnel_flag_set_def set_flag_def comp_def case_prod_unfold)

lemma tunnel_flag_defined: "tunnel_flag_set flags \<Longrightarrow> n \<in> fst ` set tunnel_flags \<Longrightarrow> map_of flags n \<noteq> None"
  unfolding tunnel_flag_set_def by (metis list.set_map map_of_eq_None_iff)

lemma tunnel_flag_val:
  "tunnel_flag_set flags \<Longrightarrow> n \<in> fst ` set tunnel_flags \<Longrightarrow>
    flag_val (set_flag n v flags) k = (if k = n then v else flag_val flags k)"
  by (rule flag_val_set_flag [OF tunnel_flag_defined])

lemma tunnel_parse_eq:
  "tunnel_flag_set flags \<Longrightarrow> n \<in> fst ` set tunnel_flags \<Longrightarrow> flag_name n \<Longrightarrow>
    flag_Parse flags ((CHR ''-'' # n @ CHR ''='' # v) # args) = flag_Parse (set_flag n v flags) args"
  by (rule flag_Parse_eq [OF _ tunnel_flag_defined])

lemma tunnel_parse_next:
  "tunnel_flag_set flags \<Longrightarrow> n \<in> fst ` set tunnel_flags \<Longrightarrow> flag_name n \<Longrightarrow>
    flag_Parse flags ((CHR ''-'' # n) # v # args) = flag_Parse (set_flag n v flags) args"
  by (rule flag_Parse_next [OF _ tunnel_flag_defined])

lemma tunnel_steps_eq:
  assumes "tunnel_flag_set flags"
  shows "flag_Parse flags ((''-mode='' @ v) # args) = flag_Parse (set_flag ''mode'' v flags) args"
    "flag_Parse flags ((''-ws-addr='' @ v) # args) = flag_Parse (set_flag ''ws-addr'' v flags) args"
    "flag_Parse flags ((''-auth-token='' @ v) # args) = flag_Parse (set_flag ''auth-token'' v flags) args"
    "flag_Parse flags ((''-targets-file='' @ v) # args) = flag_Parse (set_flag ''targets-file'' v flags) args"
    "flag_Parse flags ((''-server-url='' @ v) # args) = flag_Parse (set_flag ''server-url'' v flags) args"
    "flag_Parse flags ((''-listen-addr='' @ v) # args) = flag_Parse (set_flag ''listen-addr'' v flags) args"
  using tunnel_parse_eq [OF assms, of "''mode''" v args]
    tunnel_parse_eq [OF assms, of "''ws-addr''" v args]
    tunnel_parse_eq [OF assms, of "''auth-token''" v args]
    tunnel_parse_eq [OF assms, of "''targets-file''" v args]
    tunnel_parse_eq [OF assms, of "''server-url''" v args]
    tunnel_parse_eq [OF assms, of "''listen-addr''" v args] by (simp_all add: tunnel_flags_def)

lemma tunnel_steps_next:
  assumes "tunnel_flag_set flags"
  shows "flag_Parse flags (''-mode'' # v # args) = flag_Parse (set_flag ''mode'' v flags) args"
    "flag_Parse flags (''-ws-addr'' # v # args) = flag_Parse (set_flag ''ws-addr'' v flags) args"
    "flag_Parse flags (''-auth-token'' # v # args) = flag_Parse (set_flag ''auth-token'' v flags) args"
    "flag_Parse flags (''-server-url'' # v # args) = flag_Parse (set_flag ''server-url'' v flags) args"
    "flag_Parse flags (''-listen-addr'' # v # args) = flag_Parse (set_flag ''listen-addr'' v flags) args"
  using tunnel_parse_next [OF assms, of "''mode''" v args]
    tunnel_parse_next [OF assms, of "''ws-addr''" v args]
    tunnel_parse_next [OF assms, of "''auth-token''" v args]
    tunnel_parse_next [OF assms, of "''server-url''" v args]
    tunnel_parse_next [OF assms, of "''listen-addr''" v args] by (simp_all add: tunnel_flags_def)

lemma tunnel_listen_addrs:
  assumes "tunnel_flag_set flags"
  shows "flag_Parse flags (map (\<lambda>p. ''-listen-addr='' @ g p) ps) =
    Inr (if ps = [] then flags else set_flag ''listen-addr'' (g (last ps)) flags, [])"
  using flag_Parse_repeat [OF flag_names(2) tunnel_flag_defined [OF assms], of "map g ps"]
  by (simp add: tunnel_flags_def comp_def last_map)

lemma run_steps_prefix: "\<exists>rest. xs = fst (run_steps step xs) @ rest"
  by (induction xs) (auto split: prod.splits)

lemma run_steps_ok: "x \<in> set (fst (run_steps step xs)) \<Longrightarrow> x \<noteq> last (fst (run_steps step xs)) \<Longrightarrow> x \<noteq> StartLogs \<Longrightarrow> step x = None"
  by (induction xs) (auto split: prod.splits if_splits)

end
