(* ===== verification/TunnelChain.thy ===== *)
theory TunnelChain
  imports ServiceCtl Gateway LegacyTunnel Manager
begin

text \<open>
  The way from the service controller to a tunnel session: the arguments the controllers write are
  read by \<open>main\<close>, the URL of the client passes the gateway, the server accepts the token. The
  parts meet only in strings, command lines and URLs, and here it is shown that they fit.
\<close>

section \<open>From the service controller to the tunnel\<close>

definition dns_name :: "string \<Rightarrow> bool" where
  "dns_name h \<longleftrightarrow> h \<noteq> [] \<and> list_all name_char h"

lemma dns_localhost [simp]: "dns_name ''localhost''"
  by (simp add: dns_name_def name_char_def is_alnum_def less_eq_char_def)

lemma QueryEscape_raw: "list_all raw_query_char (QueryEscape s)"
  using QueryEscape_safe by (auto simp: list_all_iff raw_query_char_def)

lemma QueryEscape_alnum: "list_all is_alnum s \<Longrightarrow> QueryEscape s = s"
  by (induction s) (auto simp: QueryEscape_def escape_def escape_char_def shouldEscape_def is_alnum_def less_eq_char_def)

lemma parse_ws_url:
  assumes "dns_name h" and "list_all is_digit port" and "list_all raw_query_char q" and "q \<noteq> []"
  shows "Parse (''ws://'' @ h @ '':'' @ port @ ''/ws'' @ CHR ''?'' # q) =
    Inr (empty_URL\<lparr>url_Scheme := ''ws'', url_Host := h @ '':'' @ port, url_Path := ''/ws'', url_RawQuery := q\<rparr>)"
    and "Parse (''ws://'' @ h @ '':'' @ port @ ''/ws'') =
    Inr (empty_URL\<lparr>url_Scheme := ''ws'', url_Host := h @ '':'' @ port, url_Path := ''/ws''\<rparr>)"
proof -
  have p: "list_all path_char ''/ws''" "list_all scheme_char ''ws''"
    by (simp_all add: path_char_def scheme_char_def is_alnum_def less_eq_char_def)
  show "Parse (''ws://'' @ h @ '':'' @ port @ ''/ws'' @ CHR ''?'' # q) =
    Inr (empty_URL\<lparr>url_Scheme := ''ws'', url_Host := h @ '':'' @ port, url_Path := ''/ws'', url_RawQuery := q\<rparr>)"
    using Parse_absolute [of "''ws''" h port "''/ws''" q] assms p by (simp add: dns_name_def)
  show "Parse (''ws://'' @ h @ '':'' @ port @ ''/ws'') =
    Inr (empty_URL\<lparr>url_Scheme := ''ws'', url_Host := h @ '':'' @ port, url_Path := ''/ws''\<rparr>)"
    using Parse_absolute [of "''ws''" h port "''/ws''" "[]"] assms(1,2) p by (simp add: dns_name_def empty_URL_def)
qed

text \<open>The query of the client's URL, and what the gateway reads from it.\<close>

definition connect_query :: "string \<Rightarrow> string \<Rightarrow> string" where
  "connect_query wsURL token = ''target='' @ QueryEscape wsURL @ ''&token='' @ QueryEscape token"

lemma connect_query_values: "parseQuery (connect_query wsURL token) = [(''target'', wsURL), (''token'', token)]"
proof -
  have "QueryEscape ''target'' = ''target''" "QueryEscape ''token'' = ''token''"
    by (intro QueryEscape_alnum; simp add: is_alnum_def less_eq_char_def)+
  then have "connect_query wsURL token =
      Join (map (\<lambda>(k, v). QueryEscape k @ ''='' @ QueryEscape v) [(''target'', wsURL), (''token'', token)]) (CHR ''&'')"
    by (simp add: connect_query_def)
  then show ?thesis using parseQuery_pairs [of "[(''target'', wsURL), (''token'', token)]"] by simp
qed

lemma connect_query_raw: "list_all raw_query_char (connect_query wsURL token)"
  using QueryEscape_raw [of wsURL] QueryEscape_raw [of token]
  by (simp add: connect_query_def) (simp add: raw_query_char_def query_safe_def is_alnum_def less_eq_char_def)

lemma parse_connect_url:
  assumes "dns_name gh"
  shows "Parse (client_connect_url gh wsURL token) = Inr (empty_URL\<lparr>url_Scheme := ''ws'', url_Host := gh @ '':30000'',
    url_Path := ''/ws'', url_RawQuery := connect_query wsURL token\<rparr>)"
  using parse_ws_url(1) [OF assms _ connect_query_raw, of "''30000''" wsURL token]
  by (simp add: client_connect_url_def connect_query_def is_digit_def)

definition tunnel_host :: "DockerService \<Rightarrow> string" where
  "tunnel_host ds = ''tunnel-'' @ om_Name (ds_Meta ds) @ ''.'' @ om_Namespace (ds_Meta ds) @ ''.svc''"

lemma tunnel_host_dns: "dns_name (om_Name (ds_Meta ds)) \<Longrightarrow> dns_name (om_Namespace (ds_Meta ds)) \<Longrightarrow> dns_name (tunnel_host ds)"
  by (simp add: dns_name_def tunnel_host_def name_char_def is_alnum_def less_eq_char_def)

lemma gateway_to_tunnel:
  assumes "dns_name (om_Name (ds_Meta ds))" and "dns_name (om_Namespace (ds_Meta ds))"
    and "url_RawQuery (pr_URL req) = connect_query (tunnel_ws_url ds) token"
  shows "url_Scheme (pr_URL (Director req)) = ''http''" and "url_Host (pr_URL (Director req)) = tunnel_host ds @ '':8081''"
    and "url_Path (pr_URL (Director req)) = ''/ws''"
    and "Values_Get (parseQuery (url_RawQuery (pr_URL (Director req)))) ''token'' = token"
proof -
  have "Parse (tunnel_ws_url ds) = Inr (empty_URL\<lparr>url_Scheme := ''ws'', url_Host := tunnel_host ds @ '':8081'', url_Path := ''/ws''\<rparr>)"
    using parse_ws_url(2) [OF tunnel_host_dns [OF assms(1,2)], of "''8081''" "''a''"]
    by (simp add: tunnel_ws_url_def tunnel_host_def is_digit_def raw_query_char_def query_safe_def is_alnum_def less_eq_char_def)
  then have "gateway_target (tunnel_ws_url ds) = Inr (empty_URL\<lparr>url_Scheme := ''ws'', url_Host := tunnel_host ds @ '':8081'', url_Path := ''/ws''\<rparr>)"
    by (rule gateway_target_absolute) (simp_all add: tunnel_host_def)
  moreover have "tunnel_ws_url ds \<noteq> []" by (simp add: tunnel_ws_url_def)
  moreover have "parseQuery [] = []" by (simp add: parseQuery_def parse_pair_def)
  ultimately show "url_Scheme (pr_URL (Director req)) = ''http''" "url_Host (pr_URL (Director req)) = tunnel_host ds @ '':8081''"
    "url_Path (pr_URL (Director req)) = ''/ws''"
    "Values_Get (parseQuery (url_RawQuery (pr_URL (Director req)))) ''token'' = token"
    by (simp_all add: Director_def assms(3) connect_query_values Values_Get_def [of "[(''target'', tunnel_ws_url ds), (''token'', token)]"]
        http_scheme_def empty_URL_def Let_def Get_Encode Get_Set) (simp add: Values_Get_def)
qed

lemma server_flags:
  "main_tunnel (dep_Args (tunnel_deployment api ds token)) = Some (Inr (RunServer (main_server
     (if dss_Ports (ds_Spec ds) = [] then '':8080'' else '':'' @ show_int (sp_Port (last (dss_Ports (ds_Spec ds)))))
     '':8081'' token [] ''/etc/tunnel/targets'')))"
proof -
  let ?f = "set_flag ''targets-file'' ''/etc/tunnel/targets'' (set_flag ''auth-token'' token (set_flag ''ws-addr'' '':8081''
    (set_flag ''mode'' ''server'' tunnel_flags)))"
  let ?g = "if dss_Ports (ds_Spec ds) = [] then ?f
    else set_flag ''listen-addr'' ('':'' @ show_int (sp_Port (last (dss_Ports (ds_Spec ds))))) ?f"
  have "flag_Parse tunnel_flags (tl (dep_Args (tunnel_deployment api ds token))) = Inr (?g, [])"
    using tunnel_listen_addrs [of ?f "\<lambda>p. '':'' @ show_int (sp_Port p)" "dss_Ports (ds_Spec ds)"]
    by (simp add: tunnel_deployment_def Let_def tunnel_steps_eq [simplified])
  then have "main_tunnel (''tunnel'' # tl (dep_Args (tunnel_deployment api ds token))) = Some (Inr (tunnel_action_of ?g))"
    by (rule main_tunnel_parse)
  moreover have "tunnel_action_of ?g = RunServer (main_server
     (if dss_Ports (ds_Spec ds) = [] then '':8080'' else '':'' @ show_int (sp_Port (last (dss_Ports (ds_Spec ds)))))
     '':8081'' token [] ''/etc/tunnel/targets'')"
    by (simp add: tunnel_action_of_def set_flag_def flag_val_def tunnel_flags_def)
  moreover have "''tunnel'' # tl (dep_Args (tunnel_deployment api ds token)) = dep_Args (tunnel_deployment api ds token)"
    by (simp add: tunnel_deployment_def Let_def)
  ultimately show ?thesis by simp
qed

lemma client_flags:
  "main_tunnel (tunnel_client_cmd url token) = Some (Inr (RunClient (NewTunnelClient url token)))"
proof -
  let ?f = "set_flag ''auth-token'' token (set_flag ''server-url'' url (set_flag ''mode'' ''client'' tunnel_flags))"
  have "flag_Parse tunnel_flags (tl (tunnel_client_cmd url token)) = Inr (?f, [])"
    by (simp add: tunnel_client_cmd_def tunnel_steps_eq [simplified])
  then have "main_tunnel (''tunnel'' # tl (tunnel_client_cmd url token)) = Some (Inr (tunnel_action_of ?f))"
    by (rule main_tunnel_parse)
  moreover have "tunnel_action_of ?f = RunClient (NewTunnelClient url token)"
    by (simp add: tunnel_action_of_def set_flag_def flag_val_def tunnel_flags_def)
  ultimately show ?thesis by (simp add: tunnel_client_cmd_def)
qed

lemma legacy_client_flags: "main_tunnel (legacy_client_cmd url targetAddr) = Some (Inl 2)"
proof -
  have "flag_Parse tunnel_flags (tl (legacy_client_cmd url targetAddr)) = Inl (FlagError ''flag provided but not defined: -target-addr'')"
    using flag_Parse_undefined [OF flag_names(8), of "set_flag ''server-url'' url (set_flag ''mode'' ''client'' tunnel_flags)" "[targetAddr]"]
    by (simp add: legacy_client_cmd_def tunnel_steps_next [simplified]) (simp add: set_flag_def tunnel_flags_def)
  then show ?thesis by (simp add: main_tunnel_def legacy_client_cmd_def)
qed

lemma legacy_server_flags:
  "main_tunnel (tl (legacy_server_command token)) = Some (Inr (RunServer (main_server '':8080'' '':8081'' token [] [])))"
proof -
  let ?f = "set_flag ''auth-token'' token (set_flag ''ws-addr'' '':8081'' (set_flag ''listen-addr'' '':8080''
    (set_flag ''mode'' ''server'' tunnel_flags)))"
  have "flag_Parse tunnel_flags (tl (tl (legacy_server_command token))) = Inr (?f, [])"
    by (simp add: legacy_server_command_def tunnel_steps_next [simplified])
  then have "main_tunnel (''tunnel'' # tl (tl (legacy_server_command token))) = Some (Inr (tunnel_action_of ?f))"
    by (rule main_tunnel_parse)
  moreover have "tunnel_action_of ?f = RunServer (main_server '':8080'' '':8081'' token [] [])"
    by (simp add: tunnel_action_of_def set_flag_def flag_val_def tunnel_flags_def)
  ultimately show ?thesis by (simp add: legacy_server_command_def)
qed
definition client_cmd_ok :: "string \<Rightarrow> event \<Rightarrow> bool" where
  "client_cmd_ok wsURL e \<longleftrightarrow> (case e of
     EvCreate c nm cfg hcfg r \<Rightarrow> (\<exists>gh tok. dns_name gh \<and> cfg_Cmd cfg = tunnel_client_cmd (client_connect_url gh wsURL tok) tok)
   | _ \<Rightarrow> True)"

lemma emits_gateway:
  assumes "\<And>w ns w'. sv_listControlPlaneNodes api w = (Inr ns, w') \<Longrightarrow> list_all dns_name ns"
    and "\<And>gh. dns_name gh \<Longrightarrow> emits P (f gh)"
  shows "emits P (State_Monad.bind (gateway_host api netMode) f)"
proof (rule emits_bind_post [where I = dns_name])
  show "emits P (gateway_host api netMode)" unfolding gateway_host_def by (intro emits_intros)
  show "wp (gateway_host api netMode) (\<lambda>gh s'. dns_name gh) s" for s
    unfolding gateway_host_def
    by (auto simp: wp_simps wp_invoke dest: assms(1) split: prod.splits sum.splits list.splits)
qed (rule assms(2))

lemma emits_client_cmd:
  assumes "\<And>w ns w'. sv_listControlPlaneNodes api w = (Inr ns, w') \<Longrightarrow> list_all dns_name ns"
  shows "emits (client_cmd_ok wsURL) (ds_reconcileTunnelClient api cli ds tc wsURL)"
proof -
  have sync: "emits (client_cmd_ok wsURL) (sync_tunnel_client api cli ds img (client_connect_url gh wsURL tok) tok net wsURL)"
    if "dns_name gh" for img gh tok net
    using that unfolding sync_tunnel_client_def create_tunnel_client_def mark_active_def Let_def
    by (intro emits_intros; auto simp: client_cmd_ok_def)
  have secret: "emits (client_cmd_ok wsURL) (ds_ensureTunnelAuthSecret api ds)"
    by (rule emits_secret) (simp add: client_cmd_ok_def)
  show ?thesis
    unfolding ds_reconcileTunnelClient_def Let_def
    by (rule emits_gateway [OF assms] secret sync emits_intros | assumption | simp add: client_cmd_ok_def)+
qed

text \<open>The request the gateway receives for the URL a client dials.\<close>

definition dialled_request :: "URL \<Rightarrow> proxy_request" where
  "dialled_request u = \<lparr>pr_URL = empty_URL\<lparr>url_Path := url_Path u, url_RawQuery := url_RawQuery u\<rparr>, pr_Host = url_Host u\<rparr>"

section \<open>Properties\<close>

text \<open>
  C15: a tunnel client that the service controller creates connects to the tunnel server it deploys.
  The command of the created container starts a tunnel client; the URL it dials is well formed; the
  gateway turns its request into one for the server's host, port and path; and a server started with
  the arguments of the deployment, with the same token, registers the session. Names of objects and
  of nodes are DNS names.
\<close>

theorem created_tunnel_client_connects:
  assumes "dns_name (om_Name (ds_Meta ds))" and "dns_name (om_Namespace (ds_Meta ds))"
    and "\<And>w ns w'. sv_listControlPlaneNodes api w = (Inr ns, w') \<Longrightarrow> list_all dns_name ns"
    and "run_state (ds_reconcileTunnelClient api cli ds tc (tunnel_ws_url ds)) s = (r, s')"
    and "EvCreate c nm cfg hcfg x \<in> set (new_events s s')"
  shows "\<exists>client u. main_tunnel (cfg_Cmd cfg) = Some (Inr (RunClient client)) \<and>
    Parse (rq_URL (connect_request client)) = Inr u \<and>
    url_Scheme (pr_URL (Director (dialled_request u))) = ''http'' \<and>
    url_Host (pr_URL (Director (dialled_request u))) = ''tunnel-'' @ om_Name (ds_Meta ds) @ ''.'' @ om_Namespace (ds_Meta ds) @ ''.svc:8081'' \<and>
    url_Path (pr_URL (Director (dialled_request u))) = ''/ws'' \<and>
    (\<forall>srv sess. main_tunnel (dep_Args (tunnel_deployment api ds (cl_token client))) = Some (Inr (RunServer srv)) \<longrightarrow>
      handleWS (Values_Get (parseQuery (url_RawQuery (pr_URL (Director (dialled_request u))))) ''token'') (Inr ()) (Inr sess) srv
        = (Registered, srv\<lparr>srv_sessions := srv_sessions srv @ [sess]\<rparr>))"
proof -
  obtain gh tok where gh: "dns_name gh" and cmd: "cfg_Cmd cfg = tunnel_client_cmd (client_connect_url gh (tunnel_ws_url ds) tok) tok"
    using emits_runD [OF emits_client_cmd [OF assms(3)] assms(4)] assms(5) by (fastforce simp: client_cmd_ok_def list_all_iff)
  let ?client = "NewTunnelClient (client_connect_url gh (tunnel_ws_url ds) tok) tok"
  let ?u = "empty_URL\<lparr>url_Scheme := ''ws'', url_Host := gh @ '':30000'', url_Path := ''/ws'',
    url_RawQuery := connect_query (tunnel_ws_url ds) tok\<rparr>"
  have u: "Parse (rq_URL (connect_request ?client)) = Inr ?u"
    using parse_connect_url [OF gh] by (simp add: connect_request_def NewTunnelClient_def)
  have q: "url_RawQuery (pr_URL (dialled_request ?u)) = connect_query (tunnel_ws_url ds) tok" by (simp add: dialled_request_def)
  note gw = gateway_to_tunnel [OF assms(1,2) q]
  have srv: "handleWS tok (Inr ()) (Inr sess) srv = (Registered, srv\<lparr>srv_sessions := srv_sessions srv @ [sess]\<rparr>)"
    if "main_tunnel (dep_Args (tunnel_deployment api ds tok)) = Some (Inr (RunServer srv))" for srv sess
    using that by (auto simp: server_flags handleWS_def main_server_def SetTargetsFile_def NewServer_def Let_def)
  have "main_tunnel (cfg_Cmd cfg) = Some (Inr (RunClient ?client))" by (simp only: cmd client_flags)
  moreover have "cl_token ?client = tok" by (simp add: NewTunnelClient_def)
  ultimately show ?thesis
    using u gw srv by (intro exI [of _ ?client] exI [of _ ?u]) (simp add: tunnel_host_def)
qed

theorem created_tunnel_client_connects_witness:
  "\<exists>client u. url_Host (pr_URL (Director (dialled_request u))) = ''tunnel-svc.ns.svc:8081'' \<and>
     Parse (rq_URL (connect_request client)) = Inr u"
proof -
  let ?ds = "plain_service ''svc'' ''web''"
  let ?run = "run_state (ds_reconcileTunnelClient demo_tunnel 5 ?ds (plain_container ''web'') (tunnel_ws_url ?ds)) (start_state empty_store)"
  have "\<exists>c nm cfg hcfg x. EvCreate c nm cfg hcfg x \<in> set (new_events (start_state empty_store) (snd ?run))"
    by (simp add: ds_reconcileTunnelClient_def gateway_host_def ds_ensureTunnelAuthSecret_def sync_tunnel_client_def
        create_tunnel_client_def mark_active_def Let_def call_defs svc_call_defs bindE_def invoke_def
        demo_tunnel_def demo_inspected_def svc_fixture_defs plain_service_def tunnel_client_name_def operator_image_def)
  then obtain c nm cfg hcfg x where "EvCreate c nm cfg hcfg x \<in> set (new_events (start_state empty_store) (snd ?run))" by blast
  moreover have "om_Name (ds_Meta ?ds) = ''svc''" "om_Namespace (ds_Meta ?ds) = ''ns''"
    by (simp_all add: plain_service_def plain_meta_def)
  moreover have "dns_name ''svc''" "dns_name ''ns''"
    by (simp_all add: dns_name_def name_char_def is_alnum_def less_eq_char_def)
  moreover have "list_all dns_name ns" if "sv_listControlPlaneNodes demo_tunnel w = (Inr ns, w')" for w ns w'
    using that by (simp add: demo_tunnel_def demo_svc_def)
  ultimately show ?thesis
    using created_tunnel_client_connects [of ?ds demo_tunnel 5 "plain_container ''web''" "start_state empty_store" "fst ?run" "snd ?run"]
    by fastforce
qed

text \<open>
  The tunnel server runs with what the service controller decided. The arguments of the
  deployment start a server with the token, the WebSocket address and the targets file of the
  controller and no targets of its own. Of several service ports only the last is listened on, and
  without any the default address is used.
\<close>

theorem tunnel_server_arguments:
  "main_tunnel (dep_Args (tunnel_deployment api ds token)) = Some (Inr (RunServer
     \<lparr>srv_listenAddr = (if dss_Ports (ds_Spec ds) = [] then '':8080'' else '':'' @ show_int (sp_Port (last (dss_Ports (ds_Spec ds))))),
      srv_wsAddr = '':8081'', srv_authToken = token, srv_sessions = [], srv_targets = [], srv_pushTargets = [],
      srv_targetsFile = ''/etc/tunnel/targets'', srv_lastPushTime = None, srv_rrIndex = 0\<rparr>))"
  by (simp add: server_flags main_server_def NewServer_def SetTargetsFile_def main_targets_def Let_def)

text \<open>
  The tunnel clients of the container controller cannot start. Their command has the flag
  \<open>-target-addr\<close>, which the program no longer defines: the process exits with code 2 before it
  connects, for every service and every server URL.
\<close>

theorem legacy_client_exits:
  assumes "run_state (dc_reconcileTunnelClient api cli cr wsURL) s = (r, s')"
    and "EvCreate c nm cfg hcfg x \<in> set (new_events s s')"
  shows "main_tunnel (cfg_Cmd cfg) = Some (Inl 2)"
proof -
  obtain es where "st_trace s' = st_trace s @ es" "list_all (legacy_client_event cli cr) es"
    using emits_runD [OF emits_legacy_client_pass assms(1)] by blast
  with assms(2) obtain url addr where "cfg_Cmd cfg = legacy_client_cmd url addr"
    by (fastforce simp: list_all_iff legacy_client_event_def)
  then show ?thesis by (simp only: legacy_client_flags)
qed

theorem legacy_client_exits_witness:
  "\<exists>cfg :: Config. cfg_Cmd cfg \<noteq> [] \<and> main_tunnel (cfg_Cmd cfg) = Some (Inl 2)"
proof -
  let ?run = "run_state (dc_reconcileTunnelClient demo_legacy 5 demo_served ''ws://u'') (start_state empty_store)"
  obtain c nm cfg hcfg x where ev: "EvCreate c nm cfg hcfg x \<in> set (new_events (start_state empty_store) (snd ?run))"
    using demo_legacy_creates by blast
  have "main_tunnel (cfg_Cmd cfg) = Some (Inl 2)"
    by (rule legacy_client_exits [OF prod.collapse [symmetric] ev])
  moreover have "main_tunnel [] = None" by (simp add: main_tunnel_def)
  ultimately show ?thesis by (intro exI [of _ cfg]) auto
qed

end
