(* ===== verification/Logs.thy ===== *)
theory Logs
  imports KubeStore GoUrl
begin

text \<open>
  The log endpoint, \<open>dockercontainer/logs.go\<close>: an HTTP handler that streams the output of a container,
  and the function that fetches it at once. A reader of the daemon is the list of what its successive
  reads return, the end of the file after the last.
\<close>

section \<open>Definitions\<close>

record LogsOptions =
  lo_ShowStdout :: bool
  lo_ShowStderr :: bool
  lo_Follow :: bool
  lo_Tail :: string
  lo_Timestamps :: bool

type_synonym reads = "(string \<times> error option) list"

record 'w logs_api =
  lg_base :: "'w api"
  lg_ContainerLogs :: "client \<Rightarrow> string \<Rightarrow> LogsOptions \<Rightarrow> ('w, reads) call"

record http_response =
  hr_Status :: nat
  hr_Header :: "(string \<times> string) list"
  hr_Body :: string

definition http_Error :: "string \<Rightarrow> nat \<Rightarrow> http_response" where
  "http_Error msg code = \<lparr>hr_Status = code,
     hr_Header = [(''Content-Type'', ''text/plain; charset=utf-8''), (''X-Content-Type-Options'', ''nosniff'')],
     hr_Body = msg @ [newline_char]\<rparr>"

definition getLogsClient :: "'w logs_api \<Rightarrow> client option \<Rightarrow> ('w, error + client) io" where
  "getLogsClient api own = (case own of Some c \<Rightarrow> ret (Inr c) | None \<Rightarrow> NewClient (lg_base api) FromEnv)"

text \<open>The loop of the handler: write what was read, stop at an error.\<close>

fun stream_logs :: "reads \<Rightarrow> string list" where
  "stream_logs [] = []"
| "stream_logs ((buf, readErr) # rest) =
     (if buf \<noteq> [] then [buf] else []) @ (if readErr \<noteq> None then [] else stream_logs rest)"

text \<open>\<open>io.Copy\<close>, for a writer that cannot flush, and \<open>io.ReadAll\<close>.\<close>

fun io_Copy :: "reads \<Rightarrow> string" where
  "io_Copy [] = []"
| "io_Copy ((buf, readErr) # rest) = buf @ (case readErr of None \<Rightarrow> io_Copy rest | Some e \<Rightarrow> [])"

definition io_EOF :: error where "io_EOF = ErrMsg ''EOF''"

fun io_ReadAll :: "reads \<Rightarrow> string \<times> error option" where
  "io_ReadAll [] = ([], None)"
| "io_ReadAll ((buf, readErr) # rest) =
     (case readErr of
        None \<Rightarrow> (case io_ReadAll rest of (data, err) \<Rightarrow> (buf @ data, err))
      | Some e \<Rightarrow> (buf, if e = io_EOF then None else Some e))"

definition HandleLogs :: "'w logs_api \<Rightarrow> client option \<Rightarrow> bool \<Rightarrow> string \<Rightarrow> ('w, http_response) io" where
  "HandleLogs api own flusher rawQuery =
     (let vals = parseQuery rawQuery;
          containerName = Values_Get vals ''name'';
          follow = (Values_Get vals ''follow'' = ''true'');
          tail = (if Values_Get vals ''tail'' = [] then ''100'' else Values_Get vals ''tail'');
          logsOpts = \<lparr>lo_ShowStdout = True, lo_ShowStderr = True, lo_Follow = follow, lo_Tail = tail, lo_Timestamps = True\<rparr>
      in if containerName = [] then ret (http_Error (''missing '' @ CHR 0x27 # ''name'' @ CHR 0x27 # '' query parameter'') 400)
         else do {
           cr \<leftarrow> getLogsClient api own;
           case cr of
             Inl err \<Rightarrow> ret (http_Error (''failed to create docker client: '' @ error_Error err) 500)
           | Inr cli \<Rightarrow> do {
               lr \<leftarrow> query (lg_ContainerLogs api cli containerName logsOpts);
               ret (case lr of
                 Inl err \<Rightarrow>
                   if IsErrNotFound err
                   then http_Error (''container '' @ CHR 0x27 # containerName @ CHR 0x27 # '' not found'') 404
                   else http_Error (''failed to get logs: '' @ error_Error err) 500
               | Inr reader \<Rightarrow> \<lparr>hr_Status = 200,
                   hr_Header = [(''Content-Type'', ''text/plain; charset=utf-8''), (''Transfer-Encoding'', ''chunked'')],
                   hr_Body = (if flusher then concat (stream_logs reader) else io_Copy reader)\<rparr>) } })"

definition GetContainerLogs :: "'w logs_api \<Rightarrow> client option \<Rightarrow> string \<Rightarrow> string \<Rightarrow> ('w, error + string) io" where
  "GetContainerLogs api own containerName tail =
     bindE (getLogsClient api own) (\<lambda>cli.
     bindE (query (lg_ContainerLogs api cli containerName \<lparr>lo_ShowStdout = True, lo_ShowStderr = True, lo_Follow = False,
         lo_Tail = (if tail = [] then ''100'' else tail), lo_Timestamps = False\<rparr>)) (\<lambda>reader.
       ret (case io_ReadAll reader of (data, None) \<Rightarrow> Inr data | (data, Some err) \<Rightarrow> Inl err)))"

section \<open>Lemmas\<close>

text \<open>All bytes up to the first error, those of the failing read included.\<close>

definition bytes_until_error :: "reads \<Rightarrow> string" where
  "bytes_until_error rs = concat (map fst (takeWhile (\<lambda>r. snd r = None) rs)) @
     (case dropWhile (\<lambda>r. snd r = None) rs of [] \<Rightarrow> [] | r # _ \<Rightarrow> fst r)"

lemma stream_logs_bytes: "concat (stream_logs rs) = bytes_until_error rs"
  by (induction rs rule: stream_logs.induct) (auto simp: bytes_until_error_def)

lemma io_Copy_bytes: "io_Copy rs = bytes_until_error rs"
  by (induction rs rule: io_Copy.induct) (auto simp: bytes_until_error_def split: option.splits)

lemma io_ReadAll_bytes: "fst (io_ReadAll rs) = bytes_until_error rs"
  by (induction rs rule: io_ReadAll.induct) (auto simp: bytes_until_error_def split: option.splits prod.splits)

section \<open>Properties\<close>

text \<open>
  C31: the log endpoint reports what happened. For a request that names a container, with a client
  at hand, the response is 404 when the daemon does not know the container, 500 for any other error
  of the daemon, and otherwise 200 with exactly the bytes the daemon sent up to the end or the first
  failure, whether or not the connection can flush; the daemon is asked for that container, for the
  number of lines of the request or the last hundred, and nothing is changed.
\<close>

theorem logs_response:
  assumes "Values_Get (parseQuery rawQuery) ''name'' = nm" and "nm \<noteq> []"
    and "lg_ContainerLogs api cli nm \<lparr>lo_ShowStdout = True, lo_ShowStderr = True,
        lo_Follow = (Values_Get (parseQuery rawQuery) ''follow'' = ''true''),
        lo_Tail = (if Values_Get (parseQuery rawQuery) ''tail'' = [] then ''100'' else Values_Get (parseQuery rawQuery) ''tail''),
        lo_Timestamps = True\<rparr> (st_world s) = (result, w)"
  shows "\<exists>resp. run_state (HandleLogs api (Some cli) flusher rawQuery) s = (resp, s\<lparr>st_world := w\<rparr>) \<and>
    (case result of
       Inl err \<Rightarrow> hr_Status resp = (if IsErrNotFound err then 404 else 500)
     | Inr reader \<Rightarrow> hr_Status resp = 200 \<and> hr_Body resp = bytes_until_error reader)"
proof -
  let ?resp = "fst (run_state (HandleLogs api (Some cli) flusher rawQuery) s)"
  have "run_state (HandleLogs api (Some cli) flusher rawQuery) s = (?resp, s\<lparr>st_world := w\<rparr>) \<and>
    (case result of
       Inl err \<Rightarrow> hr_Status ?resp = (if IsErrNotFound err then 404 else 500)
     | Inr reader \<Rightarrow> hr_Status ?resp = 200 \<and> hr_Body ?resp = bytes_until_error reader)"
    using assms by (simp add: HandleLogs_def getLogsClient_def Let_def invoke_def http_Error_def stream_logs_bytes io_Copy_bytes
        split: sum.splits)
  then show ?thesis by blast
qed

definition demo_logs :: "kube_store logs_api" where
  "demo_logs = \<lparr>lg_base = kube, lg_ContainerLogs = (\<lambda>cli nm opts w. (Inr [(''ab'', None), ([], None), (''c'', Some io_EOF)], w))\<rparr>"

theorem logs_response_witness:
  "hr_Body (fst (run_state (HandleLogs demo_logs (Some 5) True ''name=web'') (start_state empty_store))) = ''abc''"
proof -
  have "parseQuery ''name=web'' = [(''name'', ''web'')]" by code_simp
  moreover have "bytes_until_error [(''ab'', None), ([], None), (''c'', Some io_EOF)] = ''abc''"
    by (simp add: bytes_until_error_def)
  ultimately show ?thesis
    using logs_response [of "''name=web''" "''web''" demo_logs 5 "start_state empty_store"
        "Inr [(''ab'', None), ([], None), (''c'', Some io_EOF)]" "st_world (start_state empty_store)" True]
    by (auto simp: Values_Get_def demo_logs_def)
qed

text \<open>
  Fetching the logs at once returns what streaming them delivers. For the same answer of the
  daemon, the text \<open>GetContainerLogs\<close> returns is the body that the handler would stream, and it returns
  an error exactly when the reader failed before its end.
\<close>

theorem fetched_logs_complete:
  assumes "lg_ContainerLogs api cli nm \<lparr>lo_ShowStdout = True, lo_ShowStderr = True, lo_Follow = False,
      lo_Tail = (if tail = [] then ''100'' else tail), lo_Timestamps = False\<rparr> (st_world s) = (Inr reader, w)"
  shows "fst (run_state (GetContainerLogs api (Some cli) nm tail) s) =
    (case find (\<lambda>r. snd r \<noteq> None) reader of
       Some (_, Some e) \<Rightarrow> if e = io_EOF then Inr (concat (stream_logs reader)) else Inl e
     | _ \<Rightarrow> Inr (concat (stream_logs reader)))"
proof -
  have "snd (io_ReadAll reader) = (case find (\<lambda>r. snd r \<noteq> None) reader of
      Some (_, Some e) \<Rightarrow> if e = io_EOF then None else Some e | _ \<Rightarrow> None)"
    by (induction reader rule: io_ReadAll.induct) (auto split: option.splits prod.splits)
  moreover have "fst (io_ReadAll reader) = concat (stream_logs reader)" by (simp add: io_ReadAll_bytes stream_logs_bytes)
  ultimately show ?thesis
    using assms by (cases "io_ReadAll reader")
      (auto simp: GetContainerLogs_def getLogsClient_def bindE_def invoke_def split: option.splits prod.splits if_splits)
qed

theorem fetched_logs_complete_witness:
  "fst (run_state (GetContainerLogs demo_logs (Some 5) ''web'' []) (start_state empty_store)) = Inr ''abc''"
  using fetched_logs_complete [of demo_logs 5 "''web''" "[]" "start_state empty_store" "[(''ab'', None), ([], None), (''c'', Some io_EOF)]"
      "st_world (start_state empty_store)"]
  by (simp add: demo_logs_def)

end
