(* ===== verification/GoHeap.thy ===== *)
theory GoHeap
  imports Main "HOL-Library.Monad_Syntax" "HOL-Library.AList"
begin

text \<open>
  Go's memory as the generated copy functions of \<open>api/v1alpha1\<close> see it. A heap maps
  addresses to cells and knows the next free address; a cell is an array of values of one Go
  type or a map. A pointer is the address of an array with an index into it (\<open>new(T)\<close> is
  an array of length one), a slice an address with an offset and a length, and \<open>nil\<close> is
  \<open>None\<close>. The type of the cells is a parameter: a \<open>kind\<close> injects the arrays of one Go
  type into it and projects them out again, and using a cell at another type is stuck
  (\<open>None\<close>), which Go's type system rules out.

  A copy function computes in the heap monad \<open>hm\<close> and returns the value that Go stores in
  \<open>*out\<close>; \<open>out\<close> is fresh storage, distinct from \<open>*in\<close>, at every call. The locale
  \<open>readable\<close> says what it means to read a structure from the heap and which cells that
  depends on, the locale \<open>deep_copier\<close> what a deep copy promises; the rest of the theory
  derives these contracts for slices, pointers and maps from those of their elements, and gives
  a rule for functions that copy field by field.
\<close>

section \<open>Heaps and kinds\<close>

type_synonym addr = nat

record 'o gheap =
  h_cells :: "addr \<Rightarrow> 'o option"
  h_next :: addr

record ('o, 'a) kind =
  inj :: "'a list \<Rightarrow> 'o"
  prj :: "'o \<Rightarrow> 'a list option"

type_synonym ptr = "(addr \<times> nat) option"
type_synonym slice = "(addr \<times> nat \<times> nat) option"
type_synonym ('o, 'a) hm = "'o gheap \<Rightarrow> ('a \<times> 'o gheap) option"

definition heap_ok :: "'o gheap \<Rightarrow> bool" where
  "heap_ok h \<longleftrightarrow> (\<forall>a. h_next h \<le> a \<longrightarrow> h_cells h a = None)"

definition extends :: "'o gheap \<Rightarrow> 'o gheap \<Rightarrow> bool" where
  "extends h h' \<longleftrightarrow> h_next h \<le> h_next h' \<and> (\<forall>a. h_cells h a \<noteq> None \<longrightarrow> h_cells h' a = h_cells h a)"

definition agree :: "addr set \<Rightarrow> 'o gheap \<Rightarrow> 'o gheap \<Rightarrow> bool" where
  "agree A h h' \<longleftrightarrow> (\<forall>a\<in>A. h_cells h' a = h_cells h a)"

lemma extends_refl [simp]: "extends h h"
  by (simp add: extends_def)

lemma extends_trans [trans]: "extends h h1 \<Longrightarrow> extends h1 h2 \<Longrightarrow> extends h h2"
  unfolding extends_def by (metis order_trans)

lemma extends_next: "extends h h' \<Longrightarrow> h_next h \<le> h_next h'"
  by (simp add: extends_def)

lemma agree_simps [simp]:
  "agree {} h h'"
  "agree (A \<union> B) h h' \<longleftrightarrow> agree A h h' \<and> agree B h h'"
  "agree (insert a A) h h' \<longleftrightarrow> h_cells h' a = h_cells h a \<and> agree A h h'"
  "agree (\<Union>x\<in>X. f x) h h' \<longleftrightarrow> (\<forall>x\<in>X. agree (f x) h h')"
  by (auto simp: agree_def)

lemma agree_extends: "A \<subseteq> dom (h_cells h) \<Longrightarrow> extends h h' \<Longrightarrow> agree A h h'"
  by (auto simp: agree_def extends_def)

lemma heap_ok_dom: "heap_ok h \<Longrightarrow> dom (h_cells h) \<subseteq> {..<h_next h}"
  by (auto simp: heap_ok_def not_le [symmetric])

definition kind_ok :: "('o, 'a) kind \<Rightarrow> bool" where
  "kind_ok K \<longleftrightarrow> (\<forall>xs. prj K (inj K xs) = Some xs)"

section \<open>The heap monad\<close>

definition hret :: "'a \<Rightarrow> ('o, 'a) hm" where
  "hret x = (\<lambda>h. Some (x, h))"

definition hbind :: "('o, 'a) hm \<Rightarrow> ('a \<Rightarrow> ('o, 'b) hm) \<Rightarrow> ('o, 'b) hm" where
  "hbind m k = (\<lambda>h. case m h of None \<Rightarrow> None | Some (x, h') \<Rightarrow> k x h')"

definition halloc :: "'o \<Rightarrow> ('o, addr) hm" where
  "halloc ob = (\<lambda>h. Some (h_next h,
     h\<lparr>h_cells := (h_cells h)(h_next h \<mapsto> ob), h_next := Suc (h_next h)\<rparr>))"

definition cell :: "('o, 'a) kind \<Rightarrow> 'o gheap \<Rightarrow> addr \<Rightarrow> 'a list option" where
  "cell K h a = Option.bind (h_cells h a) (prj K)"

definition hread :: "('o, 'a) kind \<Rightarrow> addr \<Rightarrow> ('o, 'a list) hm" where
  "hread K a = (\<lambda>h. case cell K h a of None \<Rightarrow> None | Some xs \<Rightarrow> Some (xs, h))"

primrec hmap :: "('a \<Rightarrow> ('o, 'b) hm) \<Rightarrow> 'a list \<Rightarrow> ('o, 'b list) hm" where
  "hmap f [] = hret []"
| "hmap f (x # xs) = hbind (f x) (\<lambda>y. hbind (hmap f xs) (\<lambda>ys. hret (y # ys)))"

text \<open>
  \<open>make([]T, len(*in))\<close> followed by the element-wise copy; \<open>new(T)\<close> followed by
  \<open>(*in).DeepCopyInto(*out)\<close>; \<open>make(map[string]string, len(*in))\<close> followed by the
  \<open>range\<close> loop, whose order does not matter for the resulting map. The cell is allocated
  with its final content, after the copies of its elements: which address Go picks first is not
  observable. An element copy that is an assignment (\<open>copy\<close>, \<open>**out = **in\<close>) is
  \<open>hret\<close>.
\<close>

definition copy_slice :: "('o, 'a) kind \<Rightarrow> ('a \<Rightarrow> ('o, 'a) hm) \<Rightarrow> slice \<Rightarrow> ('o, slice) hm" where
  "copy_slice K cp s = (case s of
     None \<Rightarrow> hret None
   | Some (a, off, n) \<Rightarrow> hbind (hread K a) (\<lambda>xs.
       if off + n \<le> length xs then
         hbind (hmap cp (take n (drop off xs))) (\<lambda>ys.
           hbind (halloc (inj K ys)) (\<lambda>a'. hret (Some (a', 0, n))))
       else (\<lambda>_. None)))"

definition copy_ptr :: "('o, 'a) kind \<Rightarrow> ('a \<Rightarrow> ('o, 'a) hm) \<Rightarrow> ptr \<Rightarrow> ('o, ptr) hm" where
  "copy_ptr K cp p = (case p of
     None \<Rightarrow> hret None
   | Some (a, i) \<Rightarrow> hbind (hread K a) (\<lambda>xs.
       if i < length xs then
         hbind (cp (xs ! i)) (\<lambda>y. hbind (halloc (inj K [y])) (\<lambda>a'. hret (Some (a', 0))))
       else (\<lambda>_. None)))"

definition map_put :: "(string \<times> string) list \<Rightarrow> string \<times> string \<Rightarrow> (string \<times> string) list" where
  "map_put m kv = AList.update (fst kv) (snd kv) m"

definition copy_map :: "('o, string \<times> string) kind \<Rightarrow> addr option \<Rightarrow> ('o, addr option) hm" where
  "copy_map K m = (case m of
     None \<Rightarrow> hret None
   | Some a \<Rightarrow> hbind (hread K a) (\<lambda>kvs.
       hbind (halloc (inj K (foldl map_put [] kvs))) (\<lambda>a'. hret (Some a'))))"

text \<open>
  The statements of a \<open>DeepCopyInto\<close>: \<open>*out = *in\<close> followed by one statement per field that
  needs work.
\<close>

definition field :: "('s \<Rightarrow> 'a) \<Rightarrow> (('a \<Rightarrow> 'a) \<Rightarrow> 's \<Rightarrow> 's) \<Rightarrow> ('a \<Rightarrow> ('o, 'a) hm) \<Rightarrow> 's \<Rightarrow> 's \<Rightarrow> ('o, 's) hm" where
  "field sel upd cp i out = hbind (cp (sel i)) (\<lambda>v. hret (upd (\<lambda>_. v) out))"

primrec copy_into :: "('s \<Rightarrow> 's \<Rightarrow> ('o, 's) hm) list \<Rightarrow> 's \<Rightarrow> 's \<Rightarrow> ('o, 's) hm" where
  "copy_into [] i out = hret out"
| "copy_into (f # fs) i out = hbind (f i out) (\<lambda>out'. copy_into fs i out')"

definition copy_fields :: "('s \<Rightarrow> 's \<Rightarrow> ('o, 's) hm) list \<Rightarrow> 's \<Rightarrow> ('o, 's) hm" where
  "copy_fields fs i = copy_into fs i i"

section \<open>Reading a structure\<close>

definition rd_slice :: "('o, 'a) kind \<Rightarrow> ('o gheap \<Rightarrow> 'a \<Rightarrow> 'b option) \<Rightarrow> 'o gheap \<Rightarrow> slice \<Rightarrow> 'b list option" where
  "rd_slice K rd h s = (case s of
     None \<Rightarrow> Some []
   | Some (a, off, n) \<Rightarrow> do {
       xs \<leftarrow> cell K h a;
       if off + n \<le> length xs then those (map (rd h) (take n (drop off xs))) else None })"

definition rd_ptr :: "('o, 'a) kind \<Rightarrow> ('o gheap \<Rightarrow> 'a \<Rightarrow> 'b option) \<Rightarrow> 'o gheap \<Rightarrow> ptr \<Rightarrow> 'b option option" where
  "rd_ptr K rd h p = (case p of
     None \<Rightarrow> Some None
   | Some (a, i) \<Rightarrow> do {
       xs \<leftarrow> cell K h a;
       if i < length xs then map_option Some (rd h (xs ! i)) else None })"

definition rd_map :: "('o, string \<times> string) kind \<Rightarrow> 'o gheap \<Rightarrow> addr option \<Rightarrow> (string \<times> string) list option" where
  "rd_map K h m = (case m of
     None \<Rightarrow> Some []
   | Some a \<Rightarrow> do {
       kvs \<leftarrow> cell K h a;
       if distinct (map fst kvs) then Some kvs else None })"

definition rd_flat :: "'o gheap \<Rightarrow> 'a \<Rightarrow> 'a option" where
  "rd_flat h x = Some x"

definition reach_slice :: "('o, 'a) kind \<Rightarrow> ('o gheap \<Rightarrow> 'a \<Rightarrow> addr set) \<Rightarrow> 'o gheap \<Rightarrow> slice \<Rightarrow> addr set" where
  "reach_slice K reach h s = (case s of
     None \<Rightarrow> {}
   | Some (a, off, n) \<Rightarrow> insert a (case cell K h a of
       None \<Rightarrow> {}
     | Some xs \<Rightarrow> (\<Union>x\<in>set (take n (drop off xs)). reach h x)))"

definition reach_ptr :: "('o, 'a) kind \<Rightarrow> ('o gheap \<Rightarrow> 'a \<Rightarrow> addr set) \<Rightarrow> 'o gheap \<Rightarrow> ptr \<Rightarrow> addr set" where
  "reach_ptr K reach h p = (case p of
     None \<Rightarrow> {}
   | Some (a, i) \<Rightarrow> insert a (case cell K h a of
       None \<Rightarrow> {}
     | Some xs \<Rightarrow> if i < length xs then reach h (xs ! i) else {}))"

definition reach_map :: "'o gheap \<Rightarrow> addr option \<Rightarrow> addr set" where
  "reach_map h m = (case m of None \<Rightarrow> {} | Some a \<Rightarrow> {a})"

definition reach_flat :: "'o gheap \<Rightarrow> 'a \<Rightarrow> addr set" where
  "reach_flat h x = {}"

text \<open>
  What reading depends on: the cells that are reachable, all of them allocated.
\<close>

locale readable =
  fixes rd :: "'o gheap \<Rightarrow> 'g \<Rightarrow> 'a option"
    and reach :: "'o gheap \<Rightarrow> 'g \<Rightarrow> addr set"
  assumes rd_frame: "rd h g = Some x \<Longrightarrow> agree (reach h g) h h' \<Longrightarrow> rd h' g = Some x"
    and reach_frame: "rd h g = Some x \<Longrightarrow> agree (reach h g) h h' \<Longrightarrow> reach h' g = reach h g"
    and reach_dom: "rd h g = Some x \<Longrightarrow> reach h g \<subseteq> dom (h_cells h)"
begin

lemma rd_extends: "rd h g = Some x \<Longrightarrow> extends h h' \<Longrightarrow> rd h' g = Some x"
  using rd_frame reach_dom agree_extends by metis

lemma reach_extends: "rd h g = Some x \<Longrightarrow> extends h h' \<Longrightarrow> reach h' g = reach h g"
  using reach_frame reach_dom agree_extends by metis

end

text \<open>
  The promise of a deep copy: it returns, allocates only, yields the value it was given, and
  every cell the copy consists of is new.
\<close>

locale deep_copier = readable rd reach
  for rd :: "'o gheap \<Rightarrow> 'g \<Rightarrow> 'a option" and reach :: "'o gheap \<Rightarrow> 'g \<Rightarrow> addr set" +
  fixes cp :: "'g \<Rightarrow> ('o, 'g) hm"
  assumes copies: "heap_ok h \<Longrightarrow> rd h g = Some x \<Longrightarrow>
    \<exists>g' h'. cp g h = Some (g', h') \<and> heap_ok h' \<and> extends h h' \<and> rd h' g' = Some x \<and>
      reach h' g' \<subseteq> {h_next h..<h_next h'}"
begin

lemma copy_disjoint:
  assumes "heap_ok h" and "rd h g = Some x" and "extends h h'" and "rd h' g' = Some x"
    and "reach h' g' \<subseteq> {h_next h..<h_next h'}"
  shows "reach h' g \<inter> reach h' g' = {}"
proof -
  have "reach h' g = reach h g" using assms(2,3) by (rule reach_extends)
  moreover have "reach h g \<subseteq> {..<h_next h}"
    using reach_dom [OF assms(2)] heap_ok_dom [OF assms(1)] by (rule order_trans)
  ultimately show ?thesis using assms(5) by fastforce
qed

text \<open>
  The consequence a caller relies on: whatever is later written to the cells of the copy, the
  original reads as before, and the other way round.
\<close>

lemma independent:
  assumes "heap_ok h" and "rd h g = Some x"
  shows "\<exists>g' h'. cp g h = Some (g', h') \<and> rd h' g = Some x \<and> rd h' g' = Some x \<and>
    (\<forall>h2. agree (- reach h' g') h' h2 \<longrightarrow> rd h2 g = Some x) \<and>
    (\<forall>h2. agree (- reach h' g) h' h2 \<longrightarrow> rd h2 g' = Some x)"
proof -
  obtain g' h' where c: "cp g h = Some (g', h')" "heap_ok h'" "extends h h'" "rd h' g' = Some x"
      "reach h' g' \<subseteq> {h_next h..<h_next h'}"
    using copies [OF assms] by blast
  have r: "rd h' g = Some x" using assms(2) c(3) by (rule rd_extends)
  have d: "reach h' g \<inter> reach h' g' = {}" using assms c(3-5) by (rule copy_disjoint)
  have "rd h2 g = Some x" if "agree (- reach h' g') h' h2" for h2
    using r by (rule rd_frame) (use that d in \<open>auto simp: agree_def\<close>)
  moreover have "rd h2 g' = Some x" if "agree (- reach h' g) h' h2" for h2
    using c(4) by (rule rd_frame) (use that d in \<open>auto simp: agree_def\<close>)
  ultimately show ?thesis using c(1,4) r by blast
qed

end

section \<open>Triples\<close>

text \<open>
  Total correctness of a computation that only allocates: it returns in every heap that
  satisfies the precondition. Preconditions are kept by extending the heap, so what is known of
  the fields copied so far survives the rest of the function.
\<close>

definition htriple :: "('o gheap \<Rightarrow> bool) \<Rightarrow> ('o, 'a) hm \<Rightarrow> ('a \<Rightarrow> 'o gheap \<Rightarrow> bool) \<Rightarrow> bool" where
  "htriple P m Q \<longleftrightarrow> (\<forall>h. heap_ok h \<and> P h \<longrightarrow>
     (\<exists>r h'. m h = Some (r, h') \<and> heap_ok h' \<and> extends h h' \<and> Q r h'))"

definition persistent :: "('o gheap \<Rightarrow> bool) \<Rightarrow> bool" where
  "persistent P \<longleftrightarrow> (\<forall>h h'. P h \<and> extends h h' \<longrightarrow> P h')"

definition copied :: "('o gheap \<Rightarrow> 'g \<Rightarrow> 'a option) \<Rightarrow> ('o gheap \<Rightarrow> 'g \<Rightarrow> addr set) \<Rightarrow> 'o gheap \<Rightarrow> 'g \<Rightarrow> 'a \<Rightarrow> 'o gheap \<Rightarrow> bool" where
  "copied rd reach h0 g x h \<longleftrightarrow> rd h g = Some x \<and> reach h g \<subseteq> {h_next h0..<h_next h}"

lemma persistent_conj: "persistent P \<Longrightarrow> persistent Q \<Longrightarrow> persistent (\<lambda>h. P h \<and> Q h)"
  unfolding persistent_def by blast

lemma persistent_extends: "persistent (extends h0)"
  unfolding persistent_def using extends_trans by blast

lemma persistent_copied: "readable rd reach \<Longrightarrow> persistent (copied rd reach h0 g x)"
  unfolding persistent_def copied_def
proof (intro allI impI, elim conjE)
  fix h h' assume r: "readable rd reach" and x: "rd h g = Some x" and e: "extends h h'"
    and n: "reach h g \<subseteq> {h_next h0..<h_next h}"
  have "reach h' g = reach h g" using r x e by (rule readable.reach_extends)
  then have "reach h' g \<subseteq> {h_next h0..<h_next h'}"
    using n extends_next [OF e] by (auto intro: less_le_trans)
  then show "rd h' g = Some x \<and> reach h' g \<subseteq> {h_next h0..<h_next h'}"
    using readable.rd_extends [OF r x e] by blast
qed

lemma htriple_hret: "(\<And>h. heap_ok h \<Longrightarrow> P h \<Longrightarrow> Q x h) \<Longrightarrow> htriple P (hret x) Q"
  by (simp add: htriple_def hret_def)

lemma htriple_hbind:
  assumes "htriple P m R" and "\<And>x. htriple (R x) (k x) Q"
  shows "htriple P (hbind m k) Q"
  unfolding htriple_def hbind_def
proof (intro allI impI)
  fix h assume "heap_ok h \<and> P h"
  then obtain x h1 where 1: "m h = Some (x, h1)" "heap_ok h1" "extends h h1" "R x h1"
    using assms(1) unfolding htriple_def by blast
  then obtain y h2 where "k x h1 = Some (y, h2)" "heap_ok h2" "extends h1 h2" "Q y h2"
    using assms(2) [of x] unfolding htriple_def by blast
  then show "\<exists>r h'. (case m h of None \<Rightarrow> None | Some (x, h') \<Rightarrow> k x h') = Some (r, h') \<and>
      heap_ok h' \<and> extends h h' \<and> Q r h'"
    using 1 extends_trans by fastforce
qed

lemma htriple_copy:
  assumes "deep_copier rd reach cp" and "persistent P" and "\<And>h. P h \<Longrightarrow> extends h0 h"
    and "rd h0 g = Some x"
  shows "htriple P (cp g) (\<lambda>g' h. P h \<and> copied rd reach h0 g' x h)"
  unfolding htriple_def copied_def
proof (intro allI impI, elim conjE)
  fix h assume h: "heap_ok h" "P h"
  have rr: "readable rd reach" using assms(1) by (rule deep_copier.axioms(1))
  have "extends h0 h" using h(2) by (rule assms(3))
  then have "rd h g = Some x" using readable.rd_extends [OF rr assms(4)] by blast
  from deep_copier.copies [OF assms(1) h(1) this] obtain g' h' where
    "cp g h = Some (g', h')" "heap_ok h'" "extends h h'" "rd h' g' = Some x"
    "reach h' g' \<subseteq> {h_next h..<h_next h'}" by blast
  moreover have "P h'" using assms(2) h(2) calculation(3) unfolding persistent_def by blast
  moreover have "h_next h0 \<le> h_next h" using \<open>extends h0 h\<close> by (rule extends_next)
  ultimately show "\<exists>r h'. cp g h = Some (r, h') \<and> heap_ok h' \<and> extends h h' \<and> P h' \<and>
      rd h' r = Some x \<and> reach h' r \<subseteq> {h_next h0..<h_next h'}"
    by fastforce
qed

text \<open>
  A statement of a \<open>DeepCopyInto\<close>, and the rule that turns the triple of the whole body into
  the contract.
\<close>

lemma copy_into_field:
  assumes "deep_copier rd reach cp" and "rd h0 (sel i) = Some x"
    and "persistent P" and "\<And>h. P h \<Longrightarrow> extends h0 h"
    and "\<And>v. htriple (\<lambda>h. P h \<and> copied rd reach h0 v x h) (copy_into fs i (upd (\<lambda>_. v) out)) Q"
  shows "htriple P (copy_into (field sel upd cp # fs) i out) Q"
proof -
  have "htriple P (hbind (cp (sel i)) (\<lambda>v. copy_into fs i (upd (\<lambda>_. v) out))) Q"
    by (rule htriple_hbind [OF htriple_copy [OF assms(1,3,4,2)] assms(5)])
  then show ?thesis by (simp add: field_def hbind_def hret_def option.case_distrib prod.case_distrib
    cong: option.case_cong)
qed

lemma copy_into_next:
  assumes "deep_copier rd reach cp" and "rd h0 (sel i) = Some x" and "persistent R"
    and "\<And>v. htriple (\<lambda>h. extends h0 h \<and> copied rd reach h0 v x h \<and> R h) (copy_into fs i (upd (\<lambda>_. v) out)) Q"
  shows "htriple (\<lambda>h. extends h0 h \<and> R h) (copy_into (field sel upd cp # fs) i out) Q"
proof (rule copy_into_field [where ?h0.0 = h0 and sel = sel and i = i and x = x, OF assms(1)])
  show "persistent (\<lambda>h. extends h0 h \<and> R h)" by (rule persistent_conj [OF persistent_extends assms(3)])
  show "htriple (\<lambda>h. (extends h0 h \<and> R h) \<and> copied rd reach h0 v x h) (copy_into fs i (upd (\<lambda>_. v) out)) Q" for v
    using assms(4) [of v] by (simp add: conj_ac)
qed (use assms(2) in simp_all)

lemma copy_into_done:
  "(\<And>h. heap_ok h \<Longrightarrow> P h \<Longrightarrow> Q out h) \<Longrightarrow> htriple P (copy_into [] i out) Q"
  by (simp add: htriple_hret)

lemma deep_copierI:
  assumes "readable rd reach"
    and "\<And>h0 g x. heap_ok h0 \<Longrightarrow> rd h0 g = Some x \<Longrightarrow> htriple (extends h0) (cp g) (\<lambda>g' h. copied rd reach h0 g' x h)"
  shows "deep_copier rd reach cp"
proof (intro deep_copier.intro deep_copier_axioms.intro)
  show "readable rd reach" by (rule assms(1))
  fix h g x assume "heap_ok h" "rd h g = Some x"
  from assms(2) [OF this] this show "\<exists>g' h'. cp g h = Some (g', h') \<and> heap_ok h' \<and> extends h h' \<and>
      rd h' g' = Some x \<and> reach h' g' \<subseteq> {h_next h..<h_next h'}"
    unfolding htriple_def copied_def by (auto dest!: spec [of _ h])
qed

lemma deep_copier_fields:
  assumes "readable rd reach"
    and "\<And>h0 g x. rd h0 g = Some x \<Longrightarrow>
      htriple (\<lambda>h. extends h0 h \<and> True) (copy_into fs g g) (\<lambda>g' h. copied rd reach h0 g' x h)"
  shows "deep_copier rd reach (copy_fields fs)"
  using assms by (intro deep_copierI) (auto simp: copy_fields_def)

lemma persistent_True: "persistent (\<lambda>h. True)"
  by (simp add: persistent_def)

text \<open>
  Reading a structure field by field, and the cells of its fields.
\<close>

definition read_field :: "('o gheap \<Rightarrow> 'f \<Rightarrow> 'b option) \<Rightarrow> ('s \<Rightarrow> 'f) \<Rightarrow> ('b \<Rightarrow> 'o gheap \<Rightarrow> 's \<Rightarrow> 'a option) \<Rightarrow> 'o gheap \<Rightarrow> 's \<Rightarrow> 'a option" where
  "read_field rd sel k = (\<lambda>h g. Option.bind (rd h (sel g)) (\<lambda>x. k x h g))"

definition read_done :: "('s \<Rightarrow> 'a) \<Rightarrow> 'o gheap \<Rightarrow> 's \<Rightarrow> 'a option" where
  "read_done f = (\<lambda>h g. Some (f g))"

definition cells_field :: "('o gheap \<Rightarrow> 'f \<Rightarrow> addr set) \<Rightarrow> ('s \<Rightarrow> 'f) \<Rightarrow> ('o gheap \<Rightarrow> 's \<Rightarrow> addr set) \<Rightarrow> 'o gheap \<Rightarrow> 's \<Rightarrow> addr set" where
  "cells_field reach sel k = (\<lambda>h g. reach h (sel g) \<union> k h g)"

definition cells_done :: "'o gheap \<Rightarrow> 's \<Rightarrow> addr set" where
  "cells_done = (\<lambda>h g. {})"

lemma read_field_Some:
  "read_field rd sel k h g = Some y \<longleftrightarrow> (\<exists>x. rd h (sel g) = Some x \<and> k x h g = Some y)"
  by (simp add: read_field_def bind_eq_Some_conv)

lemma read_done_Some: "read_done f h g = Some y \<longleftrightarrow> f g = y"
  by (simp add: read_done_def)

lemma read_fieldE:
  assumes "read_field rd sel k h g = Some y"
  obtains x where "rd h (sel g) = Some x" and "k x h g = Some y"
  using assms by (auto simp: read_field_Some)

lemma read_doneE: "read_done f h g = Some y \<Longrightarrow> (y = f g \<Longrightarrow> P) \<Longrightarrow> P"
  by (simp add: read_done_Some)

lemma readable_done: "readable (read_done f) cells_done"
  by unfold_locales (simp_all add: read_done_def cells_done_def)

lemma readable_field:
  assumes 1: "readable rd reach" and 2: "\<And>x. readable (k x) rk"
  shows "readable (read_field rd sel k) (cells_field reach sel rk)"
proof
  fix h h' g y
  assume "read_field rd sel k h g = Some y"
  then obtain x where x: "rd h (sel g) = Some x" "k x h g = Some y" by (auto simp: read_field_Some)
  show "cells_field reach sel rk h g \<subseteq> dom (h_cells h)"
    using readable.reach_dom [OF 1 x(1)] readable.reach_dom [OF 2 x(2)] by (simp add: cells_field_def)
  assume "agree (cells_field reach sel rk h g) h h'"
  then have a: "agree (reach h (sel g)) h h'" "agree (rk h g) h h'" by (simp_all add: cells_field_def)
  show "read_field rd sel k h' g = Some y"
    using readable.rd_frame [OF 1 x(1) a(1)] readable.rd_frame [OF 2 x(2) a(2)] by (simp add: read_field_Some)
  show "cells_field reach sel rk h' g = cells_field reach sel rk h g"
    using readable.reach_frame [OF 1 x(1) a(1)] readable.reach_frame [OF 2 x(2) a(2)]
    by (simp add: cells_field_def)
qed

lemmas read_simps = read_field_Some read_done_Some cells_field_def cells_done_def copied_def

section \<open>Values, pointers, slices and maps\<close>

lemma readable_flat: "readable rd_flat reach_flat"
  by unfold_locales (simp_all add: rd_flat_def reach_flat_def)

lemma deep_copier_flat: "deep_copier rd_flat reach_flat hret"
  by (intro deep_copierI readable_flat htriple_hret) (simp add: copied_def rd_flat_def reach_flat_def)

lemma those_eq_Some_iff:
  "those xs = Some ys \<longleftrightarrow> xs = map Some ys"
proof (induction xs arbitrary: ys)
  case (Cons x xs)
  show ?case
  proof
    show "those (x # xs) = Some ys \<Longrightarrow> x # xs = map Some ys"
      using Cons.IH by (auto split: option.splits)
    show "x # xs = map Some ys \<Longrightarrow> those (x # xs) = Some ys"
      using Cons.IH by (auto split: option.splits)
  qed
qed auto

lemma map_eq_Some: "map f xs = map Some ys \<Longrightarrow> x \<in> set xs \<Longrightarrow> \<exists>y. f x = Some y"
  by (induction xs arbitrary: ys) auto

lemma map_rd_frame:
  assumes "readable rd reach" and "map (rd h) xs = map Some ys"
    and "\<forall>x\<in>set xs. agree (reach h x) h h'"
  shows "map (rd h') xs = map Some ys"
proof -
  have "rd h' x = rd h x" if x: "x \<in> set xs" for x
  proof -
    obtain y where y: "rd h x = Some y" using map_eq_Some [OF assms(2) x] ..
    moreover have "rd h' x = Some y"
      using assms(1) y by (rule readable.rd_frame) (use assms(3) x in blast)
    ultimately show ?thesis by simp
  qed
  then show ?thesis using assms(2) by (simp cong: map_cong)
qed

lemma cell_dom: "cell K h a = Some xs \<Longrightarrow> a \<in> dom (h_cells h)"
  by (auto simp: cell_def bind_eq_Some_conv)

lemma cell_cong: "h_cells h' a = h_cells h a \<Longrightarrow> cell K h' a = cell K h a"
  by (simp add: cell_def)

lemma rd_slice_Some:
  "rd_slice K rd h (Some (a, off, n)) = Some ys \<longleftrightarrow>
     (\<exists>xs. cell K h a = Some xs \<and> off + n \<le> length xs \<and> map (rd h) (take n (drop off xs)) = map Some ys)"
  by (auto simp: rd_slice_def bind_eq_Some_conv those_eq_Some_iff split: if_splits)

lemma rd_ptr_Some:
  "rd_ptr K rd h (Some (a, i)) = Some v \<longleftrightarrow>
     (\<exists>xs y. cell K h a = Some xs \<and> i < length xs \<and> rd h (xs ! i) = Some y \<and> v = Some y)"
  by (auto simp: rd_ptr_def bind_eq_Some_conv split: if_splits)

lemma rd_map_Some:
  "rd_map K h (Some a) = Some kvs \<longleftrightarrow> cell K h a = Some kvs \<and> distinct (map fst kvs)"
  by (auto simp: rd_map_def bind_eq_Some_conv split: if_splits)

lemma reach_Some:
  "cell K h a = Some xs \<Longrightarrow>
     reach_slice K reach h (Some (a, off, n)) = insert a (\<Union>x\<in>set (take n (drop off xs)). reach h x)"
  "cell K h a = Some xs \<Longrightarrow> i < length xs \<Longrightarrow>
     reach_ptr K reach h (Some (a, i)) = insert a (reach h (xs ! i))"
  "reach_map h (Some a) = {a}"
  by (simp_all add: reach_slice_def reach_ptr_def reach_map_def)

lemma nil_slice [simp]:
  "rd_slice K rd h None = Some []" "reach_slice K reach h None = {}" "copy_slice K cp None = hret None"
  by (simp_all add: rd_slice_def reach_slice_def copy_slice_def)

lemma nil_ptr [simp]:
  "rd_ptr K rd h None = Some None" "reach_ptr K reach h None = {}" "copy_ptr K cp None = hret None"
  by (simp_all add: rd_ptr_def reach_ptr_def copy_ptr_def)

lemma nil_map [simp]: "rd_map K h None = Some []" "reach_map h None = {}" "copy_map K None = hret None"
  by (simp_all add: rd_map_def reach_map_def copy_map_def)

lemma readable_slice:
  fixes rd :: "'o gheap \<Rightarrow> 'g \<Rightarrow> 'a option"
  assumes r: "readable rd reach"
  shows "readable (rd_slice K rd) (reach_slice K reach)"
proof -
  have *: "rd_slice K rd h' s = Some ys \<and> reach_slice K reach h' s = reach_slice K reach h s"
    if rd: "rd_slice K rd h s = Some ys" and ag: "agree (reach_slice K reach h s) h h'" for h h' s ys
  proof (cases s)
    case (Some t)
    obtain a off n where s: "s = Some (a, off, n)" using Some by (cases t) auto
    let ?part = "\<lambda>xs. take n (drop off xs)"
    obtain xs where xs: "cell K h a = Some xs" "off + n \<le> length xs" "map (rd h) (?part xs) = map Some ys"
      using rd by (auto simp: s rd_slice_Some)
    have ag': "h_cells h' a = h_cells h a" "\<forall>x\<in>set (?part xs). agree (reach h x) h h'"
      using ag by (simp_all add: s reach_Some(1) [OF xs(1)])
    have xs': "cell K h' a = Some xs" using xs(1) cell_cong [OF ag'(1), of K] by simp
    have "map (rd h') (?part xs) = map Some ys" using r xs(3) ag'(2) by (rule map_rd_frame)
    moreover have "reach h' x = reach h x" if "x \<in> set (?part xs)" for x
      using map_eq_Some [OF xs(3) that] ag'(2) that readable.reach_frame [OF r] by metis
    ultimately show ?thesis
      using xs' xs by (auto simp: s rd_slice_Some reach_Some(1) [OF xs'] reach_Some(1) [OF xs(1)])
  qed (use rd in simp)
  have dom: "reach_slice K reach h s \<subseteq> dom (h_cells h)" if rd: "rd_slice K rd h s = Some ys" for h s ys
  proof (cases s)
    case (Some t)
    obtain a off n where s: "s = Some (a, off, n)" using Some by (cases t) auto
    obtain xs where xs: "cell K h a = Some xs" "map (rd h) (take n (drop off xs)) = map Some ys"
      using rd by (auto simp: s rd_slice_Some)
    have "reach h x \<subseteq> dom (h_cells h)" if "x \<in> set (take n (drop off xs))" for x
      using map_eq_Some [OF xs(2) that] readable.reach_dom [OF r] by metis
    then show ?thesis using cell_dom [OF xs(1)] by (auto simp: s reach_Some(1) [OF xs(1)])
  qed simp
  show ?thesis by unfold_locales (use * dom in blast)+
qed

lemma readable_ptr:
  fixes rd :: "'o gheap \<Rightarrow> 'g \<Rightarrow> 'a option"
  assumes r: "readable rd reach"
  shows "readable (rd_ptr K rd) (reach_ptr K reach)"
proof -
  have *: "reach_ptr K reach h p \<subseteq> dom (h_cells h) \<and> (agree (reach_ptr K reach h p) h h' \<longrightarrow>
      rd_ptr K rd h' p = Some v \<and> reach_ptr K reach h' p = reach_ptr K reach h p)"
    if rd: "rd_ptr K rd h p = Some v" for h h' p v
  proof (cases p)
    case (Some t)
    obtain a i where p: "p = Some (a, i)" using Some by (cases t) auto
    obtain xs y where xs: "cell K h a = Some xs" "i < length xs" "rd h (xs ! i) = Some y" "v = Some y"
      using rd by (auto simp: p rd_ptr_Some)
    have "rd_ptr K rd h' p = Some v \<and> reach_ptr K reach h' p = reach_ptr K reach h p"
      if ag: "agree (reach_ptr K reach h p) h h'"
    proof -
      have ag': "h_cells h' a = h_cells h a" "agree (reach h (xs ! i)) h h'"
        using ag by (simp_all add: p reach_Some(2) [OF xs(1,2)])
      have xs': "cell K h' a = Some xs" using xs(1) cell_cong [OF ag'(1), of K] by simp
      show ?thesis
        using xs xs' readable.rd_frame [OF r xs(3) ag'(2)] readable.reach_frame [OF r xs(3) ag'(2)]
        by (simp add: p rd_ptr_Some reach_Some(2))
    qed
    then show ?thesis
      using cell_dom [OF xs(1)] readable.reach_dom [OF r xs(3)] by (simp add: p reach_Some(2) [OF xs(1,2)])
  qed (use rd in simp)
  show ?thesis by unfold_locales (use * in blast)+
qed

lemma readable_map: "readable (rd_map K) reach_map"
proof -
  have "reach_map h m \<subseteq> dom (h_cells h) \<and> (agree (reach_map h m) h h' \<longrightarrow>
      rd_map K h' m = Some kvs \<and> reach_map h' m = reach_map h m)"
    if "rd_map K h m = Some kvs" for h h' m kvs
  proof (cases m)
    case (Some a)
    then have "cell K h a = Some kvs" and "distinct (map fst kvs)" using that rd_map_Some by blast+
    then show ?thesis using cell_dom [of K h a kvs] cell_cong [of h' a h K]
      by (simp add: Some rd_map_Some reach_Some)
  qed (use that in simp)
  then show ?thesis by unfold_locales blast+
qed

text \<open>The copies of slices, pointers and maps keep the contract of their elements' copies.\<close>

lemma htriple_halloc:
  assumes "persistent P" and "\<And>h. P h \<Longrightarrow> extends h0 h"
  shows "htriple P (halloc ob) (\<lambda>a h. P h \<and> h_cells h a = Some ob \<and> a \<in> {h_next h0..<h_next h})"
  unfolding htriple_def halloc_def
proof (intro allI impI, elim conjE)
  fix h assume h: "heap_ok h" "P h"
  let ?h' = "h\<lparr>h_cells := (h_cells h)(h_next h \<mapsto> ob), h_next := Suc (h_next h)\<rparr>"
  have "extends h ?h'" and "heap_ok ?h'" using h(1) by (auto simp: extends_def heap_ok_def)
  moreover have "P ?h'" using assms(1) h(2) calculation(1) unfolding persistent_def by blast
  ultimately show "\<exists>r h'. Some (h_next h, ?h') = Some (r, h') \<and> heap_ok h' \<and> extends h h' \<and>
      P h' \<and> h_cells h' r = Some ob \<and> r \<in> {h_next h0..<h_next h'}"
    using extends_next [OF assms(2) [OF h(2)]] by simp
qed

lemma htriple_hread:
  assumes "cell K h0 a = Some xs" and "\<And>h. P h \<Longrightarrow> extends h0 h" and "htriple P (k xs) Q"
  shows "htriple P (hbind (hread K a) k) Q"
proof -
  have "cell K h a = Some xs" if "extends h0 h" for h
    using assms(1) that cell_dom [OF assms(1)] by (auto simp: cell_def extends_def)
  then show ?thesis using assms(2,3) by (auto simp: htriple_def hbind_def hread_def)
qed

lemma htriple_weaken: "htriple P m R \<Longrightarrow> (\<And>x h. R x h \<Longrightarrow> Q x h) \<Longrightarrow> htriple P m Q"
  unfolding htriple_def by metis

lemma htriple_hmap:
  assumes cp: "deep_copier rd reach cp"
  shows "map (rd h0) xs = map Some ys \<Longrightarrow> persistent P \<Longrightarrow> (\<And>h. P h \<Longrightarrow> extends h0 h) \<Longrightarrow>
    htriple P (hmap cp xs) (\<lambda>xs' h. P h \<and> list_all2 (\<lambda>x y. copied rd reach h0 x y h) xs' ys)"
proof (induction xs arbitrary: ys P)
  case Nil
  then show ?case by (auto intro: htriple_hret)
next
  case (Cons x xs)
  then obtain y ys' where ys: "ys = y # ys'" "rd h0 x = Some y" "map (rd h0) xs = map Some ys'"
    by (cases ys) auto
  have st: "persistent (\<lambda>h. P h \<and> copied rd reach h0 v y h)" for v
    by (intro persistent_conj persistent_copied Cons.prems(2) deep_copier.axioms(1) [OF cp])
  show ?case
    unfolding hmap.simps
  proof (rule htriple_hbind)
    show "htriple P (cp x) (\<lambda>v h. P h \<and> copied rd reach h0 v y h)"
      by (rule htriple_copy [OF cp Cons.prems(2,3) ys(2)])
    fix v
    show "htriple (\<lambda>h. P h \<and> copied rd reach h0 v y h) (hbind (hmap cp xs) (\<lambda>vs. hret (v # vs)))
        (\<lambda>xs' h. P h \<and> list_all2 (\<lambda>x y. copied rd reach h0 x y h) xs' ys)"
      by (rule htriple_hbind [OF Cons.IH [OF ys(3) st Cons.prems(3)] htriple_hret]) (auto simp: ys(1))
  qed
qed

lemma cell_inj: "kind_ok K \<Longrightarrow> h_cells h a = Some (inj K xs) \<Longrightarrow> cell K h a = Some xs"
  by (simp add: kind_ok_def cell_def)

lemma persistent_list_copied:
  assumes "readable rd reach"
  shows "persistent (\<lambda>h. list_all2 (\<lambda>x y. copied rd reach h0 x y h) xs ys)"
  unfolding persistent_def
proof (intro allI impI, elim conjE)
  fix h h' assume a: "list_all2 (\<lambda>x y. copied rd reach h0 x y h) xs ys" and e: "extends h h'"
  from a show "list_all2 (\<lambda>x y. copied rd reach h0 x y h') xs ys"
    by (rule list_all2_mono) (use persistent_copied [OF assms] e in \<open>unfold persistent_def, blast\<close>)
qed

lemma list_copied:
  assumes "list_all2 (\<lambda>x y. copied rd reach h0 x y h) xs ys"
  shows "map (rd h) xs = map Some ys \<and> (\<Union>x\<in>set xs. reach h x) \<subseteq> {h_next h0..<h_next h}"
  using assms by (induction rule: list_all2_induct) (auto simp: copied_def)

lemma deep_copier_slice:
  assumes K: "kind_ok K" and cp: "deep_copier rd reach cp"
  shows "deep_copier (rd_slice K rd) (reach_slice K reach) (copy_slice K cp)"
proof (rule deep_copierI)
  have r: "readable rd reach" by (rule deep_copier.axioms(1) [OF cp])
  then show "readable (rd_slice K rd) (reach_slice K reach)" by (rule readable_slice)
  fix h0 s ys assume rd: "rd_slice K rd h0 s = Some ys"
  show "htriple (extends h0) (copy_slice K cp s) (\<lambda>g h. copied (rd_slice K rd) (reach_slice K reach) h0 g ys h)"
  proof (cases s)
    case None
    with rd show ?thesis by (auto intro!: htriple_hret simp: copied_def)
  next
    case (Some t)
    obtain a off n where s: "s = Some (a, off, n)" using Some by (cases t) auto
    obtain xs where xs: "cell K h0 a = Some xs" "off + n \<le> length xs"
        "map (rd h0) (take n (drop off xs)) = map Some ys"
      using rd by (auto simp: s rd_slice_Some)
    have n: "length ys = n" using arg_cong [OF xs(3), of length] xs(2) by simp
    let ?P = "\<lambda>vs h. extends h0 h \<and> list_all2 (\<lambda>x y. copied rd reach h0 x y h) vs ys"
    have post: "copied (rd_slice K rd) (reach_slice K reach) h0 (Some (b, 0, n)) ys h"
      if "?P vs h \<and> h_cells h b = Some (inj K vs) \<and> b \<in> {h_next h0..<h_next h}" for vs b h
    proof -
      have c: "cell K h b = Some vs" using that cell_inj [OF K] by blast
      have "length vs = n" using that n by (auto dest: list_all2_lengthD)
      then show ?thesis using that list_copied [of rd reach h0 h vs ys]
        by (auto simp: copied_def rd_slice_Some c reach_Some(1) [OF c])
    qed
    have st: "persistent (?P vs)" for vs by (intro persistent_conj persistent_extends persistent_list_copied r)
    have alloc: "htriple (?P vs) (hbind (halloc (inj K vs)) (\<lambda>b. hret (Some (b, 0, n))))
        (\<lambda>g h. copied (rd_slice K rd) (reach_slice K reach) h0 g ys h)" for vs
      by (rule htriple_hbind [OF htriple_halloc [where ?h0.0 = h0, OF st] htriple_hret]) (simp, rule post)
    have "htriple (extends h0) (hmap cp (take n (drop off xs))) ?P"
      by (rule htriple_hmap [OF cp xs(3) persistent_extends])
    from htriple_hbind [OF this alloc] show ?thesis
      unfolding copy_slice_def s option.case prod.case
      by (intro htriple_hread [OF xs(1)]) (simp_all add: xs(2))
  qed
qed

lemma deep_copier_ptr:
  assumes K: "kind_ok K" and cp: "deep_copier rd reach cp"
  shows "deep_copier (rd_ptr K rd) (reach_ptr K reach) (copy_ptr K cp)"
proof (rule deep_copierI)
  have r: "readable rd reach" by (rule deep_copier.axioms(1) [OF cp])
  then show "readable (rd_ptr K rd) (reach_ptr K reach)" by (rule readable_ptr)
  fix h0 p v assume rd: "rd_ptr K rd h0 p = Some v"
  show "htriple (extends h0) (copy_ptr K cp p) (\<lambda>g h. copied (rd_ptr K rd) (reach_ptr K reach) h0 g v h)"
  proof (cases p)
    case None
    with rd show ?thesis by (auto intro!: htriple_hret simp: copied_def)
  next
    case (Some t)
    obtain a i where p: "p = Some (a, i)" using Some by (cases t) auto
    obtain xs y where xs: "cell K h0 a = Some xs" "i < length xs" "rd h0 (xs ! i) = Some y" "v = Some y"
      using rd by (auto simp: p rd_ptr_Some)
    let ?P = "\<lambda>z h. extends h0 h \<and> copied rd reach h0 z y h"
    have post: "copied (rd_ptr K rd) (reach_ptr K reach) h0 (Some (b, 0)) v h"
      if "?P z h \<and> h_cells h b = Some (inj K [z]) \<and> b \<in> {h_next h0..<h_next h}" for z b h
    proof -
      have c: "cell K h b = Some [z]" using that cell_inj [OF K] by blast
      show ?thesis using that by (simp add: copied_def rd_ptr_Some c reach_Some(2) [OF c] xs(4))
    qed
    have st: "persistent (?P z)" for z by (intro persistent_conj persistent_extends persistent_copied r)
    have alloc: "htriple (?P z) (hbind (halloc (inj K [z])) (\<lambda>b. hret (Some (b, 0))))
        (\<lambda>g h. copied (rd_ptr K rd) (reach_ptr K reach) h0 g v h)" for z
      by (rule htriple_hbind [OF htriple_halloc [where ?h0.0 = h0, OF st] htriple_hret]) (simp, rule post)
    have "htriple (extends h0) (cp (xs ! i)) ?P"
      by (rule htriple_copy [OF cp persistent_extends _ xs(3)])
    from htriple_hbind [OF this alloc] show ?thesis
      unfolding copy_ptr_def p option.case prod.case
      by (intro htriple_hread [OF xs(1)]) (simp_all add: xs(2))
  qed
qed

lemma update_new: "k \<notin> fst ` set m \<Longrightarrow> AList.update k v m = m @ [(k, v)]"
  by (induction m) auto

lemma foldl_map_put: "distinct (map fst (m @ kvs)) \<Longrightarrow> foldl map_put m kvs = m @ kvs"
proof (induction kvs arbitrary: m)
  case (Cons kv kvs)
  then have "AList.update (fst kv) (snd kv) m = m @ [(fst kv, snd kv)]"
    by (intro update_new) auto
  with Cons show ?case by (simp add: map_put_def)
qed simp

lemma deep_copier_map:
  assumes K: "kind_ok K"
  shows "deep_copier (rd_map K) reach_map (copy_map K)"
proof (rule deep_copierI)
  show "readable (rd_map K) reach_map" by (rule readable_map)
  fix h0 m kvs assume rd: "rd_map K h0 m = Some kvs"
  show "htriple (extends h0) (copy_map K m) (\<lambda>g h. copied (rd_map K) reach_map h0 g kvs h)"
  proof (cases m)
    case None
    with rd show ?thesis by (auto intro!: htriple_hret simp: copied_def)
  next
    case (Some a)
    with rd have c: "cell K h0 a = Some kvs" and d: "distinct (map fst kvs)" by (simp_all add: rd_map_Some)
    have "htriple (extends h0) (hbind (halloc (inj K (foldl map_put [] kvs))) (\<lambda>b. hret (Some b)))
        (\<lambda>g h. copied (rd_map K) reach_map h0 g kvs h)"
      by (rule htriple_hbind [OF htriple_halloc [where ?h0.0 = h0, OF persistent_extends] htriple_hret])
        (use d cell_inj [OF K] in \<open>auto simp: foldl_map_put copied_def rd_map_Some reach_Some(3)\<close>)
    then show ?thesis
      unfolding copy_map_def Some option.case by (intro htriple_hread [OF c]) simp_all
  qed
qed

end
