(* ===== verification/GoObjects.thy ===== *)
theory GoObjects
  imports ApiTypes GoHeap
begin

text \<open>
  The resources of \<open>api/v1alpha1\<close> as they lie in Go's memory: a record per struct with a
  slice, pointer or map in it, whose fields are references; structs without references are the
  records of \<open>ApiTypes\<close>. \<open>obj\<close> has one constructor per element type, \<open>K_T\<close> is its
  kind. For every struct, \<open>rd_T\<close> reads the value of \<open>ApiTypes\<close> it stands for and
  \<open>reach_T\<close> the cells it consists of; \<open>rd_T\<close> is \<open>None\<close> when a reference dangles or
  has the wrong type.
\<close>

section \<open>Structs\<close>

text \<open>The types of \<open>metav1\<close> (of \<open>ObjectMeta\<close>, the fields the operator uses).\<close>

record GOwnerReference =
  gor_UID :: string
  gor_Controller :: ptr

record GObjectMeta =
  gom_Name :: string
  gom_Namespace :: string
  gom_UID :: string
  gom_Labels :: "addr option"
  gom_CreationTimestamp :: int
  gom_DeletionTimestamp :: ptr
  gom_Finalizers :: slice
  gom_OwnerReferences :: slice

record GListMeta =
  glm_ResourceVersion :: string
  glm_Continue :: string
  glm_RemainingItemCount :: ptr

record GRequirement =
  grq_Key :: string
  grq_Operator :: string
  grq_Values :: slice

record GLabelSelector =
  gls_MatchLabels :: "addr option"
  gls_MatchExpressions :: slice

text \<open>
  Every resource embeds \<open>metav1.TypeMeta\<close> and \<open>metav1.ObjectMeta\<close> and has a spec and a
  status; every list embeds \<open>metav1.TypeMeta\<close> and \<open>metav1.ListMeta\<close> and has items.
\<close>

record ('s, 't) GObject =
  go_TypeMeta :: TypeMeta
  go_ObjectMeta :: GObjectMeta
  go_Spec :: 's
  go_Status :: 't

record GList =
  gl_TypeMeta :: TypeMeta
  gl_ListMeta :: GListMeta
  gl_Items :: slice

text \<open>container.go\<close>

record GHealthCheckConfig =
  ghc_Test :: slice
  ghc_Interval :: string
  ghc_Timeout :: string
  ghc_Retries :: int

record GEnvVarSource =
  gevs_SecretKeyRef :: ptr

record GEnvVar =
  gev_Name :: string
  gev_Value :: string
  gev_ValueFrom :: ptr

record GContainerSpec =
  gdcs_Image :: string
  gdcs_ContainerName :: string
  gdcs_Ports :: slice
  gdcs_Command :: slice
  gdcs_Env :: slice
  gdcs_RestartPolicy :: string
  gdcs_DockerHostRef :: string
  gdcs_ImagePullSecret :: string
  gdcs_VolumeMounts :: slice
  gdcs_Services :: slice
  gdcs_NetworkMode :: string
  gdcs_EnvVars :: slice
  gdcs_SecretVolumes :: slice
  gdcs_HealthCheck :: ptr
  gdcs_Resources :: ptr

type_synonym GContainer = "(GContainerSpec, DockerContainerStatus) GObject"

text \<open>host.go and service.go\<close>

type_synonym GHost = "(DockerHostSpec, DockerHostStatus) GObject"

record GServiceSpec =
  gdss_ContainerRef :: string
  gdss_Selector :: ptr
  gdss_Ports :: slice
  gdss_NetworkMode :: string

type_synonym GService = "(GServiceSpec, DockerServiceStatus) GObject"

text \<open>job\_types.go\<close>

record GJobSpec =
  gdjs_Image :: string
  gdjs_ContainerName :: string
  gdjs_Command :: slice
  gdjs_Args :: slice
  gdjs_Env :: slice
  gdjs_EnvVars :: slice
  gdjs_VolumeMounts :: slice
  gdjs_SecretVolumes :: slice
  gdjs_DockerHostRef :: string
  gdjs_ImagePullSecret :: string
  gdjs_RestartPolicy :: string
  gdjs_BackoffLimit :: int
  gdjs_ActiveDeadlineSeconds :: ptr
  gdjs_TTLSecondsAfterFinished :: ptr
  gdjs_Resources :: ptr

record GJobStatus =
  gdjt_Phase :: DockerJobPhase
  gdjt_ContainerID :: string
  gdjt_StartTime :: ptr
  gdjt_CompletionTime :: ptr
  gdjt_ExitCode :: ptr
  gdjt_Attempts :: int
  gdjt_Message :: string

type_synonym GJob = "(GJobSpec, GJobStatus) GObject"

text \<open>deployment\_types.go\<close>

record GTemplateMeta =
  gtm_Labels :: "addr option"
  gtm_Annotations :: "addr option"

record GTemplate =
  gtpl_Metadata :: GTemplateMeta
  gtpl_Spec :: GContainerSpec

record GDeploymentSpec =
  gdds_Replicas :: ptr
  gdds_Selector :: ptr
  gdds_Template :: GTemplate

record GDeploymentStatus =
  gddt_AvailableReplicas :: int
  gddt_Conditions :: slice

type_synonym GDeployment = "(GDeploymentSpec, GDeploymentStatus) GObject"

section \<open>Cells\<close>

datatype obj =
    OString "(string) list"
  | OInt32 "(int) list"
  | OInt64 "(int) list"
  | OBool "(bool) list"
  | OTime "(int) list"
  | OPair "(string \<times> string) list"
  | OVolumeMount "(VolumeMount) list"
  | OServicePort "(ServicePort) list"
  | OSecretVolume "(SecretVolume) list"
  | OSecretKeySelector "(SecretKeySelector) list"
  | OResourceRequirements "(ResourceRequirements) list"
  | OHealthCheckConfig "(GHealthCheckConfig) list"
  | OEnvVarSource "(GEnvVarSource) list"
  | OEnvVar "(GEnvVar) list"
  | OOwnerReference "(GOwnerReference) list"
  | ORequirement "(GRequirement) list"
  | OLabelSelector "(GLabelSelector) list"
  | OCondition "(Condition) list"
  | OContainerSpec "(GContainerSpec) list"
  | OContainerStatus "(DockerContainerStatus) list"
  | OContainer "(GContainer) list"
  | OContainerList "(GList) list"
  | OHostSpec "(DockerHostSpec) list"
  | OHostStatus "(DockerHostStatus) list"
  | OHost "(GHost) list"
  | OHostList "(GList) list"
  | OServiceSpec "(GServiceSpec) list"
  | OServiceStatus "(DockerServiceStatus) list"
  | OService "(GService) list"
  | OServiceList "(GList) list"
  | OJobSpec "(GJobSpec) list"
  | OJobStatus "(GJobStatus) list"
  | OJob "(GJob) list"
  | OJobList "(GList) list"
  | OTemplateMeta "(GTemplateMeta) list"
  | OTemplate "(GTemplate) list"
  | ODeploymentSpec "(GDeploymentSpec) list"
  | ODeploymentStatus "(GDeploymentStatus) list"
  | ODeployment "(GDeployment) list"
  | ODeploymentList "(GList) list"

definition K_String :: "(obj, string) kind" where
  "K_String = \<lparr>inj = OString, prj = (\<lambda>ob. case ob of OString xs \<Rightarrow> Some xs | _ \<Rightarrow> None)\<rparr>"

definition K_Int32 :: "(obj, int) kind" where
  "K_Int32 = \<lparr>inj = OInt32, prj = (\<lambda>ob. case ob of OInt32 xs \<Rightarrow> Some xs | _ \<Rightarrow> None)\<rparr>"

definition K_Int64 :: "(obj, int) kind" where
  "K_Int64 = \<lparr>inj = OInt64, prj = (\<lambda>ob. case ob of OInt64 xs \<Rightarrow> Some xs | _ \<Rightarrow> None)\<rparr>"

definition K_Bool :: "(obj, bool) kind" where
  "K_Bool = \<lparr>inj = OBool, prj = (\<lambda>ob. case ob of OBool xs \<Rightarrow> Some xs | _ \<Rightarrow> None)\<rparr>"

definition K_Time :: "(obj, int) kind" where
  "K_Time = \<lparr>inj = OTime, prj = (\<lambda>ob. case ob of OTime xs \<Rightarrow> Some xs | _ \<Rightarrow> None)\<rparr>"

definition K_Pair :: "(obj, string \<times> string) kind" where
  "K_Pair = \<lparr>inj = OPair, prj = (\<lambda>ob. case ob of OPair xs \<Rightarrow> Some xs | _ \<Rightarrow> None)\<rparr>"

definition K_VolumeMount :: "(obj, VolumeMount) kind" where
  "K_VolumeMount = \<lparr>inj = OVolumeMount, prj = (\<lambda>ob. case ob of OVolumeMount xs \<Rightarrow> Some xs | _ \<Rightarrow> None)\<rparr>"

definition K_ServicePort :: "(obj, ServicePort) kind" where
  "K_ServicePort = \<lparr>inj = OServicePort, prj = (\<lambda>ob. case ob of OServicePort xs \<Rightarrow> Some xs | _ \<Rightarrow> None)\<rparr>"

definition K_SecretVolume :: "(obj, SecretVolume) kind" where
  "K_SecretVolume = \<lparr>inj = OSecretVolume, prj = (\<lambda>ob. case ob of OSecretVolume xs \<Rightarrow> Some xs | _ \<Rightarrow> None)\<rparr>"

definition K_SecretKeySelector :: "(obj, SecretKeySelector) kind" where
  "K_SecretKeySelector = \<lparr>inj = OSecretKeySelector, prj = (\<lambda>ob. case ob of OSecretKeySelector xs \<Rightarrow> Some xs | _ \<Rightarrow> None)\<rparr>"

definition K_ResourceRequirements :: "(obj, ResourceRequirements) kind" where
  "K_ResourceRequirements = \<lparr>inj = OResourceRequirements, prj = (\<lambda>ob. case ob of OResourceRequirements xs \<Rightarrow> Some xs | _ \<Rightarrow> None)\<rparr>"

definition K_HealthCheckConfig :: "(obj, GHealthCheckConfig) kind" where
  "K_HealthCheckConfig = \<lparr>inj = OHealthCheckConfig, prj = (\<lambda>ob. case ob of OHealthCheckConfig xs \<Rightarrow> Some xs | _ \<Rightarrow> None)\<rparr>"

definition K_EnvVarSource :: "(obj, GEnvVarSource) kind" where
  "K_EnvVarSource = \<lparr>inj = OEnvVarSource, prj = (\<lambda>ob. case ob of OEnvVarSource xs \<Rightarrow> Some xs | _ \<Rightarrow> None)\<rparr>"

definition K_EnvVar :: "(obj, GEnvVar) kind" where
  "K_EnvVar = \<lparr>inj = OEnvVar, prj = (\<lambda>ob. case ob of OEnvVar xs \<Rightarrow> Some xs | _ \<Rightarrow> None)\<rparr>"

definition K_OwnerReference :: "(obj, GOwnerReference) kind" where
  "K_OwnerReference = \<lparr>inj = OOwnerReference, prj = (\<lambda>ob. case ob of OOwnerReference xs \<Rightarrow> Some xs | _ \<Rightarrow> None)\<rparr>"

definition K_Requirement :: "(obj, GRequirement) kind" where
  "K_Requirement = \<lparr>inj = ORequirement, prj = (\<lambda>ob. case ob of ORequirement xs \<Rightarrow> Some xs | _ \<Rightarrow> None)\<rparr>"

definition K_LabelSelector :: "(obj, GLabelSelector) kind" where
  "K_LabelSelector = \<lparr>inj = OLabelSelector, prj = (\<lambda>ob. case ob of OLabelSelector xs \<Rightarrow> Some xs | _ \<Rightarrow> None)\<rparr>"

definition K_Condition :: "(obj, Condition) kind" where
  "K_Condition = \<lparr>inj = OCondition, prj = (\<lambda>ob. case ob of OCondition xs \<Rightarrow> Some xs | _ \<Rightarrow> None)\<rparr>"

definition K_ContainerSpec :: "(obj, GContainerSpec) kind" where
  "K_ContainerSpec = \<lparr>inj = OContainerSpec, prj = (\<lambda>ob. case ob of OContainerSpec xs \<Rightarrow> Some xs | _ \<Rightarrow> None)\<rparr>"

definition K_ContainerStatus :: "(obj, DockerContainerStatus) kind" where
  "K_ContainerStatus = \<lparr>inj = OContainerStatus, prj = (\<lambda>ob. case ob of OContainerStatus xs \<Rightarrow> Some xs | _ \<Rightarrow> None)\<rparr>"

definition K_Container :: "(obj, GContainer) kind" where
  "K_Container = \<lparr>inj = OContainer, prj = (\<lambda>ob. case ob of OContainer xs \<Rightarrow> Some xs | _ \<Rightarrow> None)\<rparr>"

definition K_ContainerList :: "(obj, GList) kind" where
  "K_ContainerList = \<lparr>inj = OContainerList, prj = (\<lambda>ob. case ob of OContainerList xs \<Rightarrow> Some xs | _ \<Rightarrow> None)\<rparr>"

definition K_HostSpec :: "(obj, DockerHostSpec) kind" where
  "K_HostSpec = \<lparr>inj = OHostSpec, prj = (\<lambda>ob. case ob of OHostSpec xs \<Rightarrow> Some xs | _ \<Rightarrow> None)\<rparr>"

definition K_HostStatus :: "(obj, DockerHostStatus) kind" where
  "K_HostStatus = \<lparr>inj = OHostStatus, prj = (\<lambda>ob. case ob of OHostStatus xs \<Rightarrow> Some xs | _ \<Rightarrow> None)\<rparr>"

definition K_Host :: "(obj, GHost) kind" where
  "K_Host = \<lparr>inj = OHost, prj = (\<lambda>ob. case ob of OHost xs \<Rightarrow> Some xs | _ \<Rightarrow> None)\<rparr>"

definition K_HostList :: "(obj, GList) kind" where
  "K_HostList = \<lparr>inj = OHostList, prj = (\<lambda>ob. case ob of OHostList xs \<Rightarrow> Some xs | _ \<Rightarrow> None)\<rparr>"

definition K_ServiceSpec :: "(obj, GServiceSpec) kind" where
  "K_ServiceSpec = \<lparr>inj = OServiceSpec, prj = (\<lambda>ob. case ob of OServiceSpec xs \<Rightarrow> Some xs | _ \<Rightarrow> None)\<rparr>"

definition K_ServiceStatus :: "(obj, DockerServiceStatus) kind" where
  "K_ServiceStatus = \<lparr>inj = OServiceStatus, prj = (\<lambda>ob. case ob of OServiceStatus xs \<Rightarrow> Some xs | _ \<Rightarrow> None)\<rparr>"

definition K_Service :: "(obj, GService) kind" where
  "K_Service = \<lparr>inj = OService, prj = (\<lambda>ob. case ob of OService xs \<Rightarrow> Some xs | _ \<Rightarrow> None)\<rparr>"

definition K_ServiceList :: "(obj, GList) kind" where
  "K_ServiceList = \<lparr>inj = OServiceList, prj = (\<lambda>ob. case ob of OServiceList xs \<Rightarrow> Some xs | _ \<Rightarrow> None)\<rparr>"

definition K_JobSpec :: "(obj, GJobSpec) kind" where
  "K_JobSpec = \<lparr>inj = OJobSpec, prj = (\<lambda>ob. case ob of OJobSpec xs \<Rightarrow> Some xs | _ \<Rightarrow> None)\<rparr>"

definition K_JobStatus :: "(obj, GJobStatus) kind" where
  "K_JobStatus = \<lparr>inj = OJobStatus, prj = (\<lambda>ob. case ob of OJobStatus xs \<Rightarrow> Some xs | _ \<Rightarrow> None)\<rparr>"

definition K_Job :: "(obj, GJob) kind" where
  "K_Job = \<lparr>inj = OJob, prj = (\<lambda>ob. case ob of OJob xs \<Rightarrow> Some xs | _ \<Rightarrow> None)\<rparr>"

definition K_JobList :: "(obj, GList) kind" where
  "K_JobList = \<lparr>inj = OJobList, prj = (\<lambda>ob. case ob of OJobList xs \<Rightarrow> Some xs | _ \<Rightarrow> None)\<rparr>"

definition K_TemplateMeta :: "(obj, GTemplateMeta) kind" where
  "K_TemplateMeta = \<lparr>inj = OTemplateMeta, prj = (\<lambda>ob. case ob of OTemplateMeta xs \<Rightarrow> Some xs | _ \<Rightarrow> None)\<rparr>"

definition K_Template :: "(obj, GTemplate) kind" where
  "K_Template = \<lparr>inj = OTemplate, prj = (\<lambda>ob. case ob of OTemplate xs \<Rightarrow> Some xs | _ \<Rightarrow> None)\<rparr>"

definition K_DeploymentSpec :: "(obj, GDeploymentSpec) kind" where
  "K_DeploymentSpec = \<lparr>inj = ODeploymentSpec, prj = (\<lambda>ob. case ob of ODeploymentSpec xs \<Rightarrow> Some xs | _ \<Rightarrow> None)\<rparr>"

definition K_DeploymentStatus :: "(obj, GDeploymentStatus) kind" where
  "K_DeploymentStatus = \<lparr>inj = ODeploymentStatus, prj = (\<lambda>ob. case ob of ODeploymentStatus xs \<Rightarrow> Some xs | _ \<Rightarrow> None)\<rparr>"

definition K_Deployment :: "(obj, GDeployment) kind" where
  "K_Deployment = \<lparr>inj = ODeployment, prj = (\<lambda>ob. case ob of ODeployment xs \<Rightarrow> Some xs | _ \<Rightarrow> None)\<rparr>"

definition K_DeploymentList :: "(obj, GList) kind" where
  "K_DeploymentList = \<lparr>inj = ODeploymentList, prj = (\<lambda>ob. case ob of ODeploymentList xs \<Rightarrow> Some xs | _ \<Rightarrow> None)\<rparr>"

named_theorems kind_oks \<open>the kinds are injective\<close>

lemma kind_ok_String [kind_oks]: "kind_ok K_String" by (simp add: kind_ok_def K_String_def)
lemma kind_ok_Int32 [kind_oks]: "kind_ok K_Int32" by (simp add: kind_ok_def K_Int32_def)
lemma kind_ok_Int64 [kind_oks]: "kind_ok K_Int64" by (simp add: kind_ok_def K_Int64_def)
lemma kind_ok_Bool [kind_oks]: "kind_ok K_Bool" by (simp add: kind_ok_def K_Bool_def)
lemma kind_ok_Time [kind_oks]: "kind_ok K_Time" by (simp add: kind_ok_def K_Time_def)
lemma kind_ok_Pair [kind_oks]: "kind_ok K_Pair" by (simp add: kind_ok_def K_Pair_def)
lemma kind_ok_VolumeMount [kind_oks]: "kind_ok K_VolumeMount" by (simp add: kind_ok_def K_VolumeMount_def)
lemma kind_ok_ServicePort [kind_oks]: "kind_ok K_ServicePort" by (simp add: kind_ok_def K_ServicePort_def)
lemma kind_ok_SecretVolume [kind_oks]: "kind_ok K_SecretVolume" by (simp add: kind_ok_def K_SecretVolume_def)
lemma kind_ok_SecretKeySelector [kind_oks]: "kind_ok K_SecretKeySelector" by (simp add: kind_ok_def K_SecretKeySelector_def)
lemma kind_ok_ResourceRequirements [kind_oks]: "kind_ok K_ResourceRequirements" by (simp add: kind_ok_def K_ResourceRequirements_def)
lemma kind_ok_HealthCheckConfig [kind_oks]: "kind_ok K_HealthCheckConfig" by (simp add: kind_ok_def K_HealthCheckConfig_def)
lemma kind_ok_EnvVarSource [kind_oks]: "kind_ok K_EnvVarSource" by (simp add: kind_ok_def K_EnvVarSource_def)
lemma kind_ok_EnvVar [kind_oks]: "kind_ok K_EnvVar" by (simp add: kind_ok_def K_EnvVar_def)
lemma kind_ok_OwnerReference [kind_oks]: "kind_ok K_OwnerReference" by (simp add: kind_ok_def K_OwnerReference_def)
lemma kind_ok_Requirement [kind_oks]: "kind_ok K_Requirement" by (simp add: kind_ok_def K_Requirement_def)
lemma kind_ok_LabelSelector [kind_oks]: "kind_ok K_LabelSelector" by (simp add: kind_ok_def K_LabelSelector_def)
lemma kind_ok_Condition [kind_oks]: "kind_ok K_Condition" by (simp add: kind_ok_def K_Condition_def)
lemma kind_ok_ContainerSpec [kind_oks]: "kind_ok K_ContainerSpec" by (simp add: kind_ok_def K_ContainerSpec_def)
lemma kind_ok_ContainerStatus [kind_oks]: "kind_ok K_ContainerStatus" by (simp add: kind_ok_def K_ContainerStatus_def)
lemma kind_ok_Container [kind_oks]: "kind_ok K_Container" by (simp add: kind_ok_def K_Container_def)
lemma kind_ok_ContainerList [kind_oks]: "kind_ok K_ContainerList" by (simp add: kind_ok_def K_ContainerList_def)
lemma kind_ok_HostSpec [kind_oks]: "kind_ok K_HostSpec" by (simp add: kind_ok_def K_HostSpec_def)
lemma kind_ok_HostStatus [kind_oks]: "kind_ok K_HostStatus" by (simp add: kind_ok_def K_HostStatus_def)
lemma kind_ok_Host [kind_oks]: "kind_ok K_Host" by (simp add: kind_ok_def K_Host_def)
lemma kind_ok_HostList [kind_oks]: "kind_ok K_HostList" by (simp add: kind_ok_def K_HostList_def)
lemma kind_ok_ServiceSpec [kind_oks]: "kind_ok K_ServiceSpec" by (simp add: kind_ok_def K_ServiceSpec_def)
lemma kind_ok_ServiceStatus [kind_oks]: "kind_ok K_ServiceStatus" by (simp add: kind_ok_def K_ServiceStatus_def)
lemma kind_ok_Service [kind_oks]: "kind_ok K_Service" by (simp add: kind_ok_def K_Service_def)
lemma kind_ok_ServiceList [kind_oks]: "kind_ok K_ServiceList" by (simp add: kind_ok_def K_ServiceList_def)
lemma kind_ok_JobSpec [kind_oks]: "kind_ok K_JobSpec" by (simp add: kind_ok_def K_JobSpec_def)
lemma kind_ok_JobStatus [kind_oks]: "kind_ok K_JobStatus" by (simp add: kind_ok_def K_JobStatus_def)
lemma kind_ok_Job [kind_oks]: "kind_ok K_Job" by (simp add: kind_ok_def K_Job_def)
lemma kind_ok_JobList [kind_oks]: "kind_ok K_JobList" by (simp add: kind_ok_def K_JobList_def)
lemma kind_ok_TemplateMeta [kind_oks]: "kind_ok K_TemplateMeta" by (simp add: kind_ok_def K_TemplateMeta_def)
lemma kind_ok_Template [kind_oks]: "kind_ok K_Template" by (simp add: kind_ok_def K_Template_def)
lemma kind_ok_DeploymentSpec [kind_oks]: "kind_ok K_DeploymentSpec" by (simp add: kind_ok_def K_DeploymentSpec_def)
lemma kind_ok_DeploymentStatus [kind_oks]: "kind_ok K_DeploymentStatus" by (simp add: kind_ok_def K_DeploymentStatus_def)
lemma kind_ok_Deployment [kind_oks]: "kind_ok K_Deployment" by (simp add: kind_ok_def K_Deployment_def)
lemma kind_ok_DeploymentList [kind_oks]: "kind_ok K_DeploymentList" by (simp add: kind_ok_def K_DeploymentList_def)

lemmas kind_defs = K_String_def K_Int32_def K_Int64_def K_Bool_def K_Time_def
  K_Pair_def K_VolumeMount_def K_ServicePort_def K_SecretVolume_def K_SecretKeySelector_def
  K_ResourceRequirements_def K_HealthCheckConfig_def K_EnvVarSource_def K_EnvVar_def K_OwnerReference_def
  K_Requirement_def K_LabelSelector_def K_Condition_def K_ContainerSpec_def K_ContainerStatus_def
  K_Container_def K_ContainerList_def K_HostSpec_def K_HostStatus_def K_Host_def
  K_HostList_def K_ServiceSpec_def K_ServiceStatus_def K_Service_def K_ServiceList_def
  K_JobSpec_def K_JobStatus_def K_Job_def K_JobList_def K_TemplateMeta_def
  K_Template_def K_DeploymentSpec_def K_DeploymentStatus_def K_Deployment_def K_DeploymentList_def

section \<open>What the structs stand for\<close>

named_theorems readables \<open>the structs that can be read\<close>

lemmas readable_rules = readable_field readable_done readable_slice readable_ptr readable_map
  readable_flat

definition rd_OwnerReference :: "obj gheap \<Rightarrow> GOwnerReference \<Rightarrow> (OwnerReference) option" where
  "rd_OwnerReference =
     read_field (rd_ptr K_Bool rd_flat) gor_Controller (\<lambda>c.
     read_done (\<lambda>g. \<lparr>or_UID = gor_UID g, or_Controller = (c = Some True)\<rparr>))"

definition reach_OwnerReference :: "obj gheap \<Rightarrow> GOwnerReference \<Rightarrow> addr set" where
  "reach_OwnerReference =
     cells_field (reach_ptr K_Bool reach_flat) gor_Controller ( cells_done)"

lemma readable_OwnerReference [readables]: "readable rd_OwnerReference reach_OwnerReference"
  unfolding rd_OwnerReference_def reach_OwnerReference_def by (intro readable_rules readables)

definition rd_ObjectMeta :: "obj gheap \<Rightarrow> GObjectMeta \<Rightarrow> (ObjectMeta) option" where
  "rd_ObjectMeta =
     read_field (rd_map K_Pair) gom_Labels (\<lambda>ls.
     read_field (rd_ptr K_Time rd_flat) gom_DeletionTimestamp (\<lambda>del.
     read_field (rd_slice K_String rd_flat) gom_Finalizers (\<lambda>fs.
     read_field (rd_slice K_OwnerReference rd_OwnerReference) gom_OwnerReferences (\<lambda>os.
     read_done (\<lambda>g. \<lparr>om_Name = gom_Name g, om_Namespace = gom_Namespace g, om_UID = gom_UID g,
       om_Labels = ls, om_CreationTimestamp = gom_CreationTimestamp g, om_DeletionTimestamp =
       del, om_Finalizers = fs, om_OwnerReferences = os\<rparr>)))))"

definition reach_ObjectMeta :: "obj gheap \<Rightarrow> GObjectMeta \<Rightarrow> addr set" where
  "reach_ObjectMeta =
     cells_field reach_map gom_Labels (
     cells_field (reach_ptr K_Time reach_flat) gom_DeletionTimestamp (
     cells_field (reach_slice K_String reach_flat) gom_Finalizers (
     cells_field (reach_slice K_OwnerReference reach_OwnerReference) gom_OwnerReferences ( cells_done))))"

lemma readable_ObjectMeta [readables]: "readable rd_ObjectMeta reach_ObjectMeta"
  unfolding rd_ObjectMeta_def reach_ObjectMeta_def by (intro readable_rules readables)

definition rd_ListMeta :: "obj gheap \<Rightarrow> GListMeta \<Rightarrow> (ListMeta) option" where
  "rd_ListMeta =
     read_field (rd_ptr K_Int64 rd_flat) glm_RemainingItemCount (\<lambda>n.
     read_done (\<lambda>g. \<lparr>lm_ResourceVersion = glm_ResourceVersion g, lm_Continue = glm_Continue g,
       lm_RemainingItemCount = n\<rparr>))"

definition reach_ListMeta :: "obj gheap \<Rightarrow> GListMeta \<Rightarrow> addr set" where
  "reach_ListMeta =
     cells_field (reach_ptr K_Int64 reach_flat) glm_RemainingItemCount ( cells_done)"

lemma readable_ListMeta [readables]: "readable rd_ListMeta reach_ListMeta"
  unfolding rd_ListMeta_def reach_ListMeta_def by (intro readable_rules readables)

definition rd_Requirement :: "obj gheap \<Rightarrow> GRequirement \<Rightarrow> (string \<times> string \<times> string list) option" where
  "rd_Requirement =
     read_field (rd_slice K_String rd_flat) grq_Values (\<lambda>vs.
     read_done (\<lambda>g. (grq_Key g, grq_Operator g, vs)))"

definition reach_Requirement :: "obj gheap \<Rightarrow> GRequirement \<Rightarrow> addr set" where
  "reach_Requirement =
     cells_field (reach_slice K_String reach_flat) grq_Values ( cells_done)"

lemma readable_Requirement [readables]: "readable rd_Requirement reach_Requirement"
  unfolding rd_Requirement_def reach_Requirement_def by (intro readable_rules readables)

definition rd_LabelSelector :: "obj gheap \<Rightarrow> GLabelSelector \<Rightarrow> (LabelSelector) option" where
  "rd_LabelSelector =
     read_field (rd_map K_Pair) gls_MatchLabels (\<lambda>ls.
     read_field (rd_slice K_Requirement rd_Requirement) gls_MatchExpressions (\<lambda>es.
     read_done (\<lambda>g. \<lparr>ls_MatchLabels = ls, ls_MatchExpressions = es\<rparr>)))"

definition reach_LabelSelector :: "obj gheap \<Rightarrow> GLabelSelector \<Rightarrow> addr set" where
  "reach_LabelSelector =
     cells_field reach_map gls_MatchLabels (
     cells_field (reach_slice K_Requirement reach_Requirement) gls_MatchExpressions ( cells_done))"

lemma readable_LabelSelector [readables]: "readable rd_LabelSelector reach_LabelSelector"
  unfolding rd_LabelSelector_def reach_LabelSelector_def by (intro readable_rules readables)

definition rd_HealthCheckConfig :: "obj gheap \<Rightarrow> GHealthCheckConfig \<Rightarrow> (HealthCheckConfig) option" where
  "rd_HealthCheckConfig =
     read_field (rd_slice K_String rd_flat) ghc_Test (\<lambda>test.
     read_done (\<lambda>g. \<lparr>hcc_Test = test, hcc_Interval = ghc_Interval g, hcc_Timeout = ghc_Timeout g,
       hcc_Retries = ghc_Retries g\<rparr>))"

definition reach_HealthCheckConfig :: "obj gheap \<Rightarrow> GHealthCheckConfig \<Rightarrow> addr set" where
  "reach_HealthCheckConfig =
     cells_field (reach_slice K_String reach_flat) ghc_Test ( cells_done)"

lemma readable_HealthCheckConfig [readables]: "readable rd_HealthCheckConfig reach_HealthCheckConfig"
  unfolding rd_HealthCheckConfig_def reach_HealthCheckConfig_def by (intro readable_rules readables)

definition rd_EnvVarSource :: "obj gheap \<Rightarrow> GEnvVarSource \<Rightarrow> (EnvVarSource) option" where
  "rd_EnvVarSource =
     read_field (rd_ptr K_SecretKeySelector rd_flat) gevs_SecretKeyRef (\<lambda>ref.
     read_done (\<lambda>g. \<lparr>evs_SecretKeyRef = ref\<rparr>))"

definition reach_EnvVarSource :: "obj gheap \<Rightarrow> GEnvVarSource \<Rightarrow> addr set" where
  "reach_EnvVarSource =
     cells_field (reach_ptr K_SecretKeySelector reach_flat) gevs_SecretKeyRef ( cells_done)"

lemma readable_EnvVarSource [readables]: "readable rd_EnvVarSource reach_EnvVarSource"
  unfolding rd_EnvVarSource_def reach_EnvVarSource_def by (intro readable_rules readables)

definition rd_EnvVar :: "obj gheap \<Rightarrow> GEnvVar \<Rightarrow> (EnvVar) option" where
  "rd_EnvVar =
     read_field (rd_ptr K_EnvVarSource rd_EnvVarSource) gev_ValueFrom (\<lambda>src.
     read_done (\<lambda>g. \<lparr>ev_Name = gev_Name g, ev_Value = gev_Value g, ev_ValueFrom = src\<rparr>))"

definition reach_EnvVar :: "obj gheap \<Rightarrow> GEnvVar \<Rightarrow> addr set" where
  "reach_EnvVar =
     cells_field (reach_ptr K_EnvVarSource reach_EnvVarSource) gev_ValueFrom ( cells_done)"

lemma readable_EnvVar [readables]: "readable rd_EnvVar reach_EnvVar"
  unfolding rd_EnvVar_def reach_EnvVar_def by (intro readable_rules readables)

definition rd_ContainerSpec :: "obj gheap \<Rightarrow> GContainerSpec \<Rightarrow> (DockerContainerSpec) option" where
  "rd_ContainerSpec =
     read_field (rd_slice K_String rd_flat) gdcs_Ports (\<lambda>ports.
     read_field (rd_slice K_String rd_flat) gdcs_Command (\<lambda>command.
     read_field (rd_slice K_String rd_flat) gdcs_Env (\<lambda>env.
     read_field (rd_slice K_VolumeMount rd_flat) gdcs_VolumeMounts (\<lambda>mounts.
     read_field (rd_slice K_ServicePort rd_flat) gdcs_Services (\<lambda>services.
     read_field (rd_slice K_EnvVar rd_EnvVar) gdcs_EnvVars (\<lambda>vars.
     read_field (rd_slice K_SecretVolume rd_flat) gdcs_SecretVolumes (\<lambda>secrets.
     read_field (rd_ptr K_HealthCheckConfig rd_HealthCheckConfig) gdcs_HealthCheck (\<lambda>hc.
     read_field (rd_ptr K_ResourceRequirements rd_flat) gdcs_Resources (\<lambda>res.
     read_done (\<lambda>g. \<lparr>dcs_Image = gdcs_Image g, dcs_ContainerName = gdcs_ContainerName g, dcs_Ports =
       ports, dcs_Command = command, dcs_Env = env, dcs_RestartPolicy = gdcs_RestartPolicy g,
       dcs_DockerHostRef = gdcs_DockerHostRef g, dcs_ImagePullSecret = gdcs_ImagePullSecret g,
       dcs_VolumeMounts = mounts, dcs_Services = services, dcs_NetworkMode = gdcs_NetworkMode g,
       dcs_EnvVars = vars, dcs_SecretVolumes = secrets, dcs_HealthCheck = hc, dcs_Resources =
       res\<rparr>))))))))))"

definition reach_ContainerSpec :: "obj gheap \<Rightarrow> GContainerSpec \<Rightarrow> addr set" where
  "reach_ContainerSpec =
     cells_field (reach_slice K_String reach_flat) gdcs_Ports (
     cells_field (reach_slice K_String reach_flat) gdcs_Command (
     cells_field (reach_slice K_String reach_flat) gdcs_Env (
     cells_field (reach_slice K_VolumeMount reach_flat) gdcs_VolumeMounts (
     cells_field (reach_slice K_ServicePort reach_flat) gdcs_Services (
     cells_field (reach_slice K_EnvVar reach_EnvVar) gdcs_EnvVars (
     cells_field (reach_slice K_SecretVolume reach_flat) gdcs_SecretVolumes (
     cells_field (reach_ptr K_HealthCheckConfig reach_HealthCheckConfig) gdcs_HealthCheck (
     cells_field (reach_ptr K_ResourceRequirements reach_flat) gdcs_Resources ( cells_done)))))))))"

lemma readable_ContainerSpec [readables]: "readable rd_ContainerSpec reach_ContainerSpec"
  unfolding rd_ContainerSpec_def reach_ContainerSpec_def by (intro readable_rules readables)

definition rd_ServiceSpec :: "obj gheap \<Rightarrow> GServiceSpec \<Rightarrow> (DockerServiceSpec) option" where
  "rd_ServiceSpec =
     read_field (rd_ptr K_LabelSelector rd_LabelSelector) gdss_Selector (\<lambda>sel.
     read_field (rd_slice K_ServicePort rd_flat) gdss_Ports (\<lambda>ports.
     read_done (\<lambda>g. \<lparr>dss_ContainerRef = gdss_ContainerRef g, dss_Selector = sel, dss_Ports = ports,
       dss_NetworkMode = gdss_NetworkMode g\<rparr>)))"

definition reach_ServiceSpec :: "obj gheap \<Rightarrow> GServiceSpec \<Rightarrow> addr set" where
  "reach_ServiceSpec =
     cells_field (reach_ptr K_LabelSelector reach_LabelSelector) gdss_Selector (
     cells_field (reach_slice K_ServicePort reach_flat) gdss_Ports ( cells_done))"

lemma readable_ServiceSpec [readables]: "readable rd_ServiceSpec reach_ServiceSpec"
  unfolding rd_ServiceSpec_def reach_ServiceSpec_def by (intro readable_rules readables)

definition rd_JobSpec :: "obj gheap \<Rightarrow> GJobSpec \<Rightarrow> (DockerJobSpec) option" where
  "rd_JobSpec =
     read_field (rd_slice K_String rd_flat) gdjs_Command (\<lambda>command.
     read_field (rd_slice K_String rd_flat) gdjs_Args (\<lambda>args.
     read_field (rd_slice K_String rd_flat) gdjs_Env (\<lambda>env.
     read_field (rd_slice K_EnvVar rd_EnvVar) gdjs_EnvVars (\<lambda>vars.
     read_field (rd_slice K_VolumeMount rd_flat) gdjs_VolumeMounts (\<lambda>mounts.
     read_field (rd_slice K_SecretVolume rd_flat) gdjs_SecretVolumes (\<lambda>secrets.
     read_field (rd_ptr K_Int64 rd_flat) gdjs_ActiveDeadlineSeconds (\<lambda>deadline.
     read_field (rd_ptr K_Int32 rd_flat) gdjs_TTLSecondsAfterFinished (\<lambda>ttl.
     read_field (rd_ptr K_ResourceRequirements rd_flat) gdjs_Resources (\<lambda>res.
     read_done (\<lambda>g. \<lparr>djs_Image = gdjs_Image g, djs_ContainerName = gdjs_ContainerName g, djs_Command =
       command, djs_Args = args, djs_Env = env, djs_EnvVars = vars, djs_VolumeMounts = mounts,
       djs_SecretVolumes = secrets, djs_DockerHostRef = gdjs_DockerHostRef g,
       djs_ImagePullSecret = gdjs_ImagePullSecret g, djs_RestartPolicy = gdjs_RestartPolicy g,
       djs_BackoffLimit = gdjs_BackoffLimit g, djs_ActiveDeadlineSeconds = deadline,
       djs_TTLSecondsAfterFinished = ttl, djs_Resources = res\<rparr>))))))))))"

definition reach_JobSpec :: "obj gheap \<Rightarrow> GJobSpec \<Rightarrow> addr set" where
  "reach_JobSpec =
     cells_field (reach_slice K_String reach_flat) gdjs_Command (
     cells_field (reach_slice K_String reach_flat) gdjs_Args (
     cells_field (reach_slice K_String reach_flat) gdjs_Env (
     cells_field (reach_slice K_EnvVar reach_EnvVar) gdjs_EnvVars (
     cells_field (reach_slice K_VolumeMount reach_flat) gdjs_VolumeMounts (
     cells_field (reach_slice K_SecretVolume reach_flat) gdjs_SecretVolumes (
     cells_field (reach_ptr K_Int64 reach_flat) gdjs_ActiveDeadlineSeconds (
     cells_field (reach_ptr K_Int32 reach_flat) gdjs_TTLSecondsAfterFinished (
     cells_field (reach_ptr K_ResourceRequirements reach_flat) gdjs_Resources ( cells_done)))))))))"

lemma readable_JobSpec [readables]: "readable rd_JobSpec reach_JobSpec"
  unfolding rd_JobSpec_def reach_JobSpec_def by (intro readable_rules readables)

definition rd_JobStatus :: "obj gheap \<Rightarrow> GJobStatus \<Rightarrow> (DockerJobStatus) option" where
  "rd_JobStatus =
     read_field (rd_ptr K_Time rd_flat) gdjt_StartTime (\<lambda>start.
     read_field (rd_ptr K_Time rd_flat) gdjt_CompletionTime (\<lambda>compl.
     read_field (rd_ptr K_Int32 rd_flat) gdjt_ExitCode (\<lambda>code.
     read_done (\<lambda>g. \<lparr>djt_Phase = gdjt_Phase g, djt_ContainerID = gdjt_ContainerID g, djt_StartTime =
       start, djt_CompletionTime = compl, djt_ExitCode = code, djt_Attempts = gdjt_Attempts g,
       djt_Message = gdjt_Message g\<rparr>))))"

definition reach_JobStatus :: "obj gheap \<Rightarrow> GJobStatus \<Rightarrow> addr set" where
  "reach_JobStatus =
     cells_field (reach_ptr K_Time reach_flat) gdjt_StartTime (
     cells_field (reach_ptr K_Time reach_flat) gdjt_CompletionTime (
     cells_field (reach_ptr K_Int32 reach_flat) gdjt_ExitCode ( cells_done)))"

lemma readable_JobStatus [readables]: "readable rd_JobStatus reach_JobStatus"
  unfolding rd_JobStatus_def reach_JobStatus_def by (intro readable_rules readables)

definition rd_TemplateMeta :: "obj gheap \<Rightarrow> GTemplateMeta \<Rightarrow> (TemplateMeta) option" where
  "rd_TemplateMeta =
     read_field (rd_map K_Pair) gtm_Labels (\<lambda>ls.
     read_field (rd_map K_Pair) gtm_Annotations (\<lambda>as.
     read_done (\<lambda>g. \<lparr>tm_Labels = ls, tm_Annotations = as\<rparr>)))"

definition reach_TemplateMeta :: "obj gheap \<Rightarrow> GTemplateMeta \<Rightarrow> addr set" where
  "reach_TemplateMeta =
     cells_field reach_map gtm_Labels (
     cells_field reach_map gtm_Annotations ( cells_done))"

lemma readable_TemplateMeta [readables]: "readable rd_TemplateMeta reach_TemplateMeta"
  unfolding rd_TemplateMeta_def reach_TemplateMeta_def by (intro readable_rules readables)

definition rd_Template :: "obj gheap \<Rightarrow> GTemplate \<Rightarrow> (DockerContainerTemplate) option" where
  "rd_Template =
     read_field rd_TemplateMeta gtpl_Metadata (\<lambda>m.
     read_field rd_ContainerSpec gtpl_Spec (\<lambda>spec.
     read_done (\<lambda>g. \<lparr>dctpl_Metadata = m, dctpl_Spec = spec\<rparr>)))"

definition reach_Template :: "obj gheap \<Rightarrow> GTemplate \<Rightarrow> addr set" where
  "reach_Template =
     cells_field reach_TemplateMeta gtpl_Metadata (
     cells_field reach_ContainerSpec gtpl_Spec ( cells_done))"

lemma readable_Template [readables]: "readable rd_Template reach_Template"
  unfolding rd_Template_def reach_Template_def by (intro readable_rules readables)

definition rd_DeploymentSpec :: "obj gheap \<Rightarrow> GDeploymentSpec \<Rightarrow> (DockerDeploymentSpec) option" where
  "rd_DeploymentSpec =
     read_field (rd_ptr K_Int32 rd_flat) gdds_Replicas (\<lambda>n.
     read_field (rd_ptr K_LabelSelector rd_LabelSelector) gdds_Selector (\<lambda>sel.
     read_field rd_Template gdds_Template (\<lambda>tpl.
     read_done (\<lambda>g. \<lparr>dds_Replicas = n, dds_Selector = sel, dds_Template = tpl\<rparr>))))"

definition reach_DeploymentSpec :: "obj gheap \<Rightarrow> GDeploymentSpec \<Rightarrow> addr set" where
  "reach_DeploymentSpec =
     cells_field (reach_ptr K_Int32 reach_flat) gdds_Replicas (
     cells_field (reach_ptr K_LabelSelector reach_LabelSelector) gdds_Selector (
     cells_field reach_Template gdds_Template ( cells_done)))"

lemma readable_DeploymentSpec [readables]: "readable rd_DeploymentSpec reach_DeploymentSpec"
  unfolding rd_DeploymentSpec_def reach_DeploymentSpec_def by (intro readable_rules readables)

definition rd_DeploymentStatus :: "obj gheap \<Rightarrow> GDeploymentStatus \<Rightarrow> (DockerDeploymentStatus) option" where
  "rd_DeploymentStatus =
     read_field (rd_slice K_Condition rd_flat) gddt_Conditions (\<lambda>cs.
     read_done (\<lambda>g. \<lparr>ddt_AvailableReplicas = gddt_AvailableReplicas g, ddt_Conditions = cs\<rparr>))"

definition reach_DeploymentStatus :: "obj gheap \<Rightarrow> GDeploymentStatus \<Rightarrow> addr set" where
  "reach_DeploymentStatus =
     cells_field (reach_slice K_Condition reach_flat) gddt_Conditions ( cells_done)"

lemma readable_DeploymentStatus [readables]: "readable rd_DeploymentStatus reach_DeploymentStatus"
  unfolding rd_DeploymentStatus_def reach_DeploymentStatus_def by (intro readable_rules readables)

text \<open>
  A resource is read with its type meta, a list with its type meta, its metadata and its items.
  \<open>mk\<close> puts the parts together as the record of \<open>ApiTypes\<close>.
\<close>

definition rd_object :: "(ObjectMeta \<Rightarrow> 'a \<Rightarrow> 'b \<Rightarrow> 'r) \<Rightarrow> (obj gheap \<Rightarrow> 's \<Rightarrow> 'a option) \<Rightarrow> (obj gheap \<Rightarrow> 't \<Rightarrow> 'b option) \<Rightarrow> obj gheap \<Rightarrow> ('s, 't) GObject \<Rightarrow> (TypeMeta \<times> 'r) option" where
  "rd_object mk rs rt =
     read_field rd_flat go_TypeMeta (\<lambda>tm.
     read_field rd_ObjectMeta go_ObjectMeta (\<lambda>m.
     read_field rs go_Spec (\<lambda>spec.
     read_field rt go_Status (\<lambda>status.
     read_done (\<lambda>g. (tm, mk m spec status))))))"

definition reach_object :: "(obj gheap \<Rightarrow> 's \<Rightarrow> addr set) \<Rightarrow> (obj gheap \<Rightarrow> 't \<Rightarrow> addr set) \<Rightarrow> obj gheap \<Rightarrow> ('s, 't) GObject \<Rightarrow> addr set" where
  "reach_object rs rt =
     cells_field reach_flat go_TypeMeta (
     cells_field reach_ObjectMeta go_ObjectMeta (
     cells_field rs go_Spec (
     cells_field rt go_Status cells_done)))"

definition rd_list :: "(obj, 'i) kind \<Rightarrow> (obj gheap \<Rightarrow> 'i \<Rightarrow> 'a option) \<Rightarrow> obj gheap \<Rightarrow> GList \<Rightarrow> (TypeMeta \<times> ListMeta \<times> 'a list) option" where
  "rd_list K ri =
     read_field rd_flat gl_TypeMeta (\<lambda>tm.
     read_field rd_ListMeta gl_ListMeta (\<lambda>m.
     read_field (rd_slice K ri) gl_Items (\<lambda>is.
     read_done (\<lambda>g. (tm, m, is)))))"

definition reach_list :: "(obj, 'i) kind \<Rightarrow> (obj gheap \<Rightarrow> 'i \<Rightarrow> addr set) \<Rightarrow> obj gheap \<Rightarrow> GList \<Rightarrow> addr set" where
  "reach_list K ri =
     cells_field reach_flat gl_TypeMeta (
     cells_field reach_ListMeta gl_ListMeta (
     cells_field (reach_slice K ri) gl_Items cells_done))"

lemma readable_object:
  "readable rs cs \<Longrightarrow> readable rt ct \<Longrightarrow> readable (rd_object mk rs rt) (reach_object cs ct)"
  unfolding rd_object_def reach_object_def by (intro readable_rules readables)

lemma readable_list: "readable ri ci \<Longrightarrow> readable (rd_list K ri) (reach_list K ci)"
  unfolding rd_list_def reach_list_def by (intro readable_rules readables)

definition rd_Container :: "obj gheap \<Rightarrow> GContainer \<Rightarrow> (TypeMeta \<times> DockerContainer) option" where
  "rd_Container = rd_object (\<lambda>m spec status. \<lparr>dc_Meta = m, dc_Spec = spec, dc_Status = status\<rparr>)
     rd_ContainerSpec rd_flat"

definition reach_Container :: "obj gheap \<Rightarrow> GContainer \<Rightarrow> addr set" where
  "reach_Container = reach_object reach_ContainerSpec reach_flat"

lemma readable_Container [readables]: "readable rd_Container reach_Container"
  unfolding rd_Container_def reach_Container_def by (intro readable_object readable_rules readables)

definition rd_Host :: "obj gheap \<Rightarrow> GHost \<Rightarrow> (TypeMeta \<times> DockerHost) option" where
  "rd_Host = rd_object (\<lambda>m spec status. \<lparr>dh_Meta = m, dh_Spec = spec, dh_Status = status\<rparr>)
     rd_flat rd_flat"

definition reach_Host :: "obj gheap \<Rightarrow> GHost \<Rightarrow> addr set" where
  "reach_Host = reach_object reach_flat reach_flat"

lemma readable_Host [readables]: "readable rd_Host reach_Host"
  unfolding rd_Host_def reach_Host_def by (intro readable_object readable_rules readables)

definition rd_Service :: "obj gheap \<Rightarrow> GService \<Rightarrow> (TypeMeta \<times> DockerService) option" where
  "rd_Service = rd_object (\<lambda>m spec status. \<lparr>ds_Meta = m, ds_Spec = spec, ds_Status = status\<rparr>)
     rd_ServiceSpec rd_flat"

definition reach_Service :: "obj gheap \<Rightarrow> GService \<Rightarrow> addr set" where
  "reach_Service = reach_object reach_ServiceSpec reach_flat"

lemma readable_Service [readables]: "readable rd_Service reach_Service"
  unfolding rd_Service_def reach_Service_def by (intro readable_object readable_rules readables)

definition rd_Job :: "obj gheap \<Rightarrow> GJob \<Rightarrow> (TypeMeta \<times> DockerJob) option" where
  "rd_Job = rd_object (\<lambda>m spec status. \<lparr>dj_Meta = m, dj_Spec = spec, dj_Status = status\<rparr>)
     rd_JobSpec rd_JobStatus"

definition reach_Job :: "obj gheap \<Rightarrow> GJob \<Rightarrow> addr set" where
  "reach_Job = reach_object reach_JobSpec reach_JobStatus"

lemma readable_Job [readables]: "readable rd_Job reach_Job"
  unfolding rd_Job_def reach_Job_def by (intro readable_object readable_rules readables)

definition rd_Deployment :: "obj gheap \<Rightarrow> GDeployment \<Rightarrow> (TypeMeta \<times> DockerDeployment) option" where
  "rd_Deployment = rd_object (\<lambda>m spec status. \<lparr>dd_Meta = m, dd_Spec = spec, dd_Status = status\<rparr>)
     rd_DeploymentSpec rd_DeploymentStatus"

definition reach_Deployment :: "obj gheap \<Rightarrow> GDeployment \<Rightarrow> addr set" where
  "reach_Deployment = reach_object reach_DeploymentSpec reach_DeploymentStatus"

lemma readable_Deployment [readables]: "readable rd_Deployment reach_Deployment"
  unfolding rd_Deployment_def reach_Deployment_def by (intro readable_object readable_rules readables)

end
