(* ===== verification/DeepCopy.thy ===== *)
theory DeepCopy
  imports GoObjects
begin

text \<open>
  The copy functions of \<open>api/v1alpha1/deepcopy.go\<close> and
  \<open>api/v1alpha1/zz_generated.deepcopy.go\<close>: for every type \<open>T\<close>, \<open>T_DeepCopyInto\<close> is
  the body of \<open>(*T).DeepCopyInto\<close> (a statement per field, in the order of the code),
  \<open>T_DeepCopy\<close> is \<open>(*T).DeepCopy\<close> and \<open>T_DeepCopyObject\<close> is
  \<open>(*T).DeepCopyObject\<close>. The copy functions of \<open>metav1\<close> are the parameter
  \<open>meta_lib\<close>, and \<open>lib_ok\<close> says that they are deep copies, as their documentation states.

  All copies but one satisfy the contract \<open>deep_copier\<close>; \<open>DockerServiceSpec.DeepCopyInto\<close>
  leaves the selector of the copy shared with the original.
\<close>

section \<open>The copy functions\<close>

record meta_lib =
  lb_ObjectMeta :: "GObjectMeta \<Rightarrow> (obj, GObjectMeta) hm"
  lb_ListMeta :: "GListMeta \<Rightarrow> (obj, GListMeta) hm"
  lb_LabelSelector :: "GLabelSelector \<Rightarrow> (obj, GLabelSelector) hm"
  lb_Condition :: "Condition \<Rightarrow> (obj, Condition) hm"
  lb_Time :: "ptr \<Rightarrow> (obj, ptr) hm"

definition lib_ok :: "meta_lib \<Rightarrow> bool" where
  "lib_ok lib \<longleftrightarrow>
     deep_copier rd_ObjectMeta reach_ObjectMeta (lb_ObjectMeta lib) \<and>
     deep_copier rd_ListMeta reach_ListMeta (lb_ListMeta lib) \<and>
     deep_copier rd_LabelSelector reach_LabelSelector (lb_LabelSelector lib) \<and>
     deep_copier rd_flat reach_flat (lb_Condition lib) \<and>
     deep_copier (rd_ptr K_Time rd_flat) (reach_ptr K_Time reach_flat) (lb_Time lib)"

text \<open>\<open>if in.StartTime != nil\<close>, and then \<open>(*in).DeepCopy()\<close>\<close>

definition unless_nil :: "(ptr \<Rightarrow> (obj, ptr) hm) \<Rightarrow> ptr \<Rightarrow> (obj, ptr) hm" where
  "unless_nil cp p = (case p of None \<Rightarrow> hret None | Some _ \<Rightarrow> cp p)"

text \<open>
  A \<open>runtime.Object\<close>: the \<open>nil\<close> interface, or a pointer, which may itself be \<open>nil\<close>, with its
  dynamic type. \<open>as_object\<close> is \<open>if c := in.DeepCopy(); c != nil { return c }; return nil\<close>: without
  the test a \<open>nil\<close> pointer would become an interface that is not \<open>nil\<close>.
\<close>

datatype dyn_type = T_DockerContainer | T_DockerContainerList | T_DockerHost | T_DockerHostList
  | T_DockerService | T_DockerServiceList | T_DockerJob | T_DockerJobList
  | T_DockerDeployment | T_DockerDeploymentList

type_synonym runtime_Object = "(dyn_type \<times> ptr) option"

definition as_object :: "dyn_type \<Rightarrow> ptr \<Rightarrow> runtime_Object" where
  "as_object t c = (if c \<noteq> None then Some (t, c) else None)"

definition SecretKeySelector_DeepCopyInto :: "SecretKeySelector \<Rightarrow> (obj, SecretKeySelector) hm" where
  "SecretKeySelector_DeepCopyInto = copy_fields []"

definition SecretKeySelector_DeepCopy :: "ptr \<Rightarrow> (obj, ptr) hm" where
  "SecretKeySelector_DeepCopy = copy_ptr K_SecretKeySelector SecretKeySelector_DeepCopyInto"

definition ResourceRequirements_DeepCopyInto :: "ResourceRequirements \<Rightarrow> (obj, ResourceRequirements) hm" where
  "ResourceRequirements_DeepCopyInto = copy_fields []"

definition ResourceRequirements_DeepCopy :: "ptr \<Rightarrow> (obj, ptr) hm" where
  "ResourceRequirements_DeepCopy = copy_ptr K_ResourceRequirements ResourceRequirements_DeepCopyInto"

definition SecretVolume_DeepCopyInto :: "SecretVolume \<Rightarrow> (obj, SecretVolume) hm" where
  "SecretVolume_DeepCopyInto = copy_fields []"

definition SecretVolume_DeepCopy :: "ptr \<Rightarrow> (obj, ptr) hm" where
  "SecretVolume_DeepCopy = copy_ptr K_SecretVolume SecretVolume_DeepCopyInto"

definition ServicePort_DeepCopyInto :: "ServicePort \<Rightarrow> (obj, ServicePort) hm" where
  "ServicePort_DeepCopyInto = copy_fields []"

definition ServicePort_DeepCopy :: "ptr \<Rightarrow> (obj, ptr) hm" where
  "ServicePort_DeepCopy = copy_ptr K_ServicePort ServicePort_DeepCopyInto"

definition VolumeMount_DeepCopyInto :: "VolumeMount \<Rightarrow> (obj, VolumeMount) hm" where
  "VolumeMount_DeepCopyInto = copy_fields []"

definition VolumeMount_DeepCopy :: "ptr \<Rightarrow> (obj, ptr) hm" where
  "VolumeMount_DeepCopy = copy_ptr K_VolumeMount VolumeMount_DeepCopyInto"

definition HealthCheckConfig_DeepCopyInto :: "GHealthCheckConfig \<Rightarrow> (obj, GHealthCheckConfig) hm" where
  "HealthCheckConfig_DeepCopyInto = copy_fields [
     field ghc_Test ghc_Test_update (copy_slice K_String hret)]"

definition HealthCheckConfig_DeepCopy :: "ptr \<Rightarrow> (obj, ptr) hm" where
  "HealthCheckConfig_DeepCopy = copy_ptr K_HealthCheckConfig HealthCheckConfig_DeepCopyInto"

definition EnvVarSource_DeepCopyInto :: "GEnvVarSource \<Rightarrow> (obj, GEnvVarSource) hm" where
  "EnvVarSource_DeepCopyInto = copy_fields [
     field gevs_SecretKeyRef gevs_SecretKeyRef_update (copy_ptr K_SecretKeySelector hret)]"

definition EnvVarSource_DeepCopy :: "ptr \<Rightarrow> (obj, ptr) hm" where
  "EnvVarSource_DeepCopy = copy_ptr K_EnvVarSource EnvVarSource_DeepCopyInto"

definition EnvVar_DeepCopyInto :: "GEnvVar \<Rightarrow> (obj, GEnvVar) hm" where
  "EnvVar_DeepCopyInto = copy_fields [
     field gev_ValueFrom gev_ValueFrom_update (copy_ptr K_EnvVarSource EnvVarSource_DeepCopyInto)]"

definition EnvVar_DeepCopy :: "ptr \<Rightarrow> (obj, ptr) hm" where
  "EnvVar_DeepCopy = copy_ptr K_EnvVar EnvVar_DeepCopyInto"

definition DockerContainerSpec_DeepCopyInto :: "GContainerSpec \<Rightarrow> (obj, GContainerSpec) hm" where
  "DockerContainerSpec_DeepCopyInto = copy_fields [
     field gdcs_Ports gdcs_Ports_update (copy_slice K_String hret),
     field gdcs_Command gdcs_Command_update (copy_slice K_String hret),
     field gdcs_Env gdcs_Env_update (copy_slice K_String hret),
     field gdcs_VolumeMounts gdcs_VolumeMounts_update (copy_slice K_VolumeMount hret),
     field gdcs_Services gdcs_Services_update (copy_slice K_ServicePort hret),
     field gdcs_EnvVars gdcs_EnvVars_update (copy_slice K_EnvVar EnvVar_DeepCopyInto),
     field gdcs_SecretVolumes gdcs_SecretVolumes_update (copy_slice K_SecretVolume hret),
     field gdcs_HealthCheck gdcs_HealthCheck_update (copy_ptr K_HealthCheckConfig HealthCheckConfig_DeepCopyInto),
     field gdcs_Resources gdcs_Resources_update (copy_ptr K_ResourceRequirements hret)]"

definition DockerContainerSpec_DeepCopy :: "ptr \<Rightarrow> (obj, ptr) hm" where
  "DockerContainerSpec_DeepCopy = copy_ptr K_ContainerSpec DockerContainerSpec_DeepCopyInto"

definition DockerContainerStatus_DeepCopyInto :: "DockerContainerStatus \<Rightarrow> (obj, DockerContainerStatus) hm" where
  "DockerContainerStatus_DeepCopyInto = copy_fields []"

definition DockerContainerStatus_DeepCopy :: "ptr \<Rightarrow> (obj, ptr) hm" where
  "DockerContainerStatus_DeepCopy = copy_ptr K_ContainerStatus DockerContainerStatus_DeepCopyInto"

definition DockerContainer_DeepCopyInto :: "meta_lib \<Rightarrow> GContainer \<Rightarrow> (obj, GContainer) hm" where
  "DockerContainer_DeepCopyInto lib = copy_fields [
     field go_TypeMeta go_TypeMeta_update hret,
     field go_ObjectMeta go_ObjectMeta_update (lb_ObjectMeta lib),
     field go_Spec go_Spec_update DockerContainerSpec_DeepCopyInto,
     field go_Status go_Status_update hret]"

definition DockerContainer_DeepCopy :: "meta_lib \<Rightarrow> ptr \<Rightarrow> (obj, ptr) hm" where
  "DockerContainer_DeepCopy lib = copy_ptr K_Container (DockerContainer_DeepCopyInto lib)"

definition DockerContainer_DeepCopyObject :: "meta_lib \<Rightarrow> ptr \<Rightarrow> (obj, runtime_Object) hm" where
  "DockerContainer_DeepCopyObject lib p = hbind (DockerContainer_DeepCopy lib p) (\<lambda>c. hret (as_object T_DockerContainer c))"

definition DockerContainerList_DeepCopyInto :: "meta_lib \<Rightarrow> GList \<Rightarrow> (obj, GList) hm" where
  "DockerContainerList_DeepCopyInto lib = copy_fields [
     field gl_TypeMeta gl_TypeMeta_update hret,
     field gl_ListMeta gl_ListMeta_update (lb_ListMeta lib),
     field gl_Items gl_Items_update (copy_slice K_Container (DockerContainer_DeepCopyInto lib))]"

definition DockerContainerList_DeepCopy :: "meta_lib \<Rightarrow> ptr \<Rightarrow> (obj, ptr) hm" where
  "DockerContainerList_DeepCopy lib = copy_ptr K_ContainerList (DockerContainerList_DeepCopyInto lib)"

definition DockerContainerList_DeepCopyObject :: "meta_lib \<Rightarrow> ptr \<Rightarrow> (obj, runtime_Object) hm" where
  "DockerContainerList_DeepCopyObject lib p = hbind (DockerContainerList_DeepCopy lib p) (\<lambda>c. hret (as_object T_DockerContainerList c))"

definition DockerHostSpec_DeepCopyInto :: "DockerHostSpec \<Rightarrow> (obj, DockerHostSpec) hm" where
  "DockerHostSpec_DeepCopyInto = copy_fields []"

definition DockerHostSpec_DeepCopy :: "ptr \<Rightarrow> (obj, ptr) hm" where
  "DockerHostSpec_DeepCopy = copy_ptr K_HostSpec DockerHostSpec_DeepCopyInto"

definition DockerHostStatus_DeepCopyInto :: "DockerHostStatus \<Rightarrow> (obj, DockerHostStatus) hm" where
  "DockerHostStatus_DeepCopyInto = copy_fields []"

definition DockerHostStatus_DeepCopy :: "ptr \<Rightarrow> (obj, ptr) hm" where
  "DockerHostStatus_DeepCopy = copy_ptr K_HostStatus DockerHostStatus_DeepCopyInto"

definition DockerHost_DeepCopyInto :: "meta_lib \<Rightarrow> GHost \<Rightarrow> (obj, GHost) hm" where
  "DockerHost_DeepCopyInto lib = copy_fields [
     field go_TypeMeta go_TypeMeta_update hret,
     field go_ObjectMeta go_ObjectMeta_update (lb_ObjectMeta lib),
     field go_Spec go_Spec_update hret,
     field go_Status go_Status_update hret]"

definition DockerHost_DeepCopy :: "meta_lib \<Rightarrow> ptr \<Rightarrow> (obj, ptr) hm" where
  "DockerHost_DeepCopy lib = copy_ptr K_Host (DockerHost_DeepCopyInto lib)"

definition DockerHost_DeepCopyObject :: "meta_lib \<Rightarrow> ptr \<Rightarrow> (obj, runtime_Object) hm" where
  "DockerHost_DeepCopyObject lib p = hbind (DockerHost_DeepCopy lib p) (\<lambda>c. hret (as_object T_DockerHost c))"

definition DockerHostList_DeepCopyInto :: "meta_lib \<Rightarrow> GList \<Rightarrow> (obj, GList) hm" where
  "DockerHostList_DeepCopyInto lib = copy_fields [
     field gl_TypeMeta gl_TypeMeta_update hret,
     field gl_ListMeta gl_ListMeta_update (lb_ListMeta lib),
     field gl_Items gl_Items_update (copy_slice K_Host (DockerHost_DeepCopyInto lib))]"

definition DockerHostList_DeepCopy :: "meta_lib \<Rightarrow> ptr \<Rightarrow> (obj, ptr) hm" where
  "DockerHostList_DeepCopy lib = copy_ptr K_HostList (DockerHostList_DeepCopyInto lib)"

definition DockerHostList_DeepCopyObject :: "meta_lib \<Rightarrow> ptr \<Rightarrow> (obj, runtime_Object) hm" where
  "DockerHostList_DeepCopyObject lib p = hbind (DockerHostList_DeepCopy lib p) (\<lambda>c. hret (as_object T_DockerHostList c))"

definition DockerServiceSpec_DeepCopyInto :: "GServiceSpec \<Rightarrow> (obj, GServiceSpec) hm" where
  "DockerServiceSpec_DeepCopyInto = copy_fields [
     field gdss_Ports gdss_Ports_update (copy_slice K_ServicePort hret)]"

definition DockerServiceSpec_DeepCopy :: "ptr \<Rightarrow> (obj, ptr) hm" where
  "DockerServiceSpec_DeepCopy = copy_ptr K_ServiceSpec DockerServiceSpec_DeepCopyInto"

definition DockerServiceStatus_DeepCopyInto :: "DockerServiceStatus \<Rightarrow> (obj, DockerServiceStatus) hm" where
  "DockerServiceStatus_DeepCopyInto = copy_fields []"

definition DockerServiceStatus_DeepCopy :: "ptr \<Rightarrow> (obj, ptr) hm" where
  "DockerServiceStatus_DeepCopy = copy_ptr K_ServiceStatus DockerServiceStatus_DeepCopyInto"

definition DockerService_DeepCopyInto :: "meta_lib \<Rightarrow> GService \<Rightarrow> (obj, GService) hm" where
  "DockerService_DeepCopyInto lib = copy_fields [
     field go_TypeMeta go_TypeMeta_update hret,
     field go_ObjectMeta go_ObjectMeta_update (lb_ObjectMeta lib),
     field go_Spec go_Spec_update DockerServiceSpec_DeepCopyInto,
     field go_Status go_Status_update hret]"

definition DockerService_DeepCopy :: "meta_lib \<Rightarrow> ptr \<Rightarrow> (obj, ptr) hm" where
  "DockerService_DeepCopy lib = copy_ptr K_Service (DockerService_DeepCopyInto lib)"

definition DockerService_DeepCopyObject :: "meta_lib \<Rightarrow> ptr \<Rightarrow> (obj, runtime_Object) hm" where
  "DockerService_DeepCopyObject lib p = hbind (DockerService_DeepCopy lib p) (\<lambda>c. hret (as_object T_DockerService c))"

definition DockerServiceList_DeepCopyInto :: "meta_lib \<Rightarrow> GList \<Rightarrow> (obj, GList) hm" where
  "DockerServiceList_DeepCopyInto lib = copy_fields [
     field gl_TypeMeta gl_TypeMeta_update hret,
     field gl_ListMeta gl_ListMeta_update (lb_ListMeta lib),
     field gl_Items gl_Items_update (copy_slice K_Service (DockerService_DeepCopyInto lib))]"

definition DockerServiceList_DeepCopy :: "meta_lib \<Rightarrow> ptr \<Rightarrow> (obj, ptr) hm" where
  "DockerServiceList_DeepCopy lib = copy_ptr K_ServiceList (DockerServiceList_DeepCopyInto lib)"

definition DockerServiceList_DeepCopyObject :: "meta_lib \<Rightarrow> ptr \<Rightarrow> (obj, runtime_Object) hm" where
  "DockerServiceList_DeepCopyObject lib p = hbind (DockerServiceList_DeepCopy lib p) (\<lambda>c. hret (as_object T_DockerServiceList c))"

definition DockerJobSpec_DeepCopyInto :: "GJobSpec \<Rightarrow> (obj, GJobSpec) hm" where
  "DockerJobSpec_DeepCopyInto = copy_fields [
     field gdjs_Command gdjs_Command_update (copy_slice K_String hret),
     field gdjs_Args gdjs_Args_update (copy_slice K_String hret),
     field gdjs_Env gdjs_Env_update (copy_slice K_String hret),
     field gdjs_EnvVars gdjs_EnvVars_update (copy_slice K_EnvVar EnvVar_DeepCopyInto),
     field gdjs_VolumeMounts gdjs_VolumeMounts_update (copy_slice K_VolumeMount hret),
     field gdjs_SecretVolumes gdjs_SecretVolumes_update (copy_slice K_SecretVolume hret),
     field gdjs_ActiveDeadlineSeconds gdjs_ActiveDeadlineSeconds_update (copy_ptr K_Int64 hret),
     field gdjs_TTLSecondsAfterFinished gdjs_TTLSecondsAfterFinished_update (copy_ptr K_Int32 hret),
     field gdjs_Resources gdjs_Resources_update (copy_ptr K_ResourceRequirements hret)]"

definition DockerJobSpec_DeepCopy :: "ptr \<Rightarrow> (obj, ptr) hm" where
  "DockerJobSpec_DeepCopy = copy_ptr K_JobSpec DockerJobSpec_DeepCopyInto"

definition DockerJobStatus_DeepCopyInto :: "meta_lib \<Rightarrow> GJobStatus \<Rightarrow> (obj, GJobStatus) hm" where
  "DockerJobStatus_DeepCopyInto lib = copy_fields [
     field gdjt_StartTime gdjt_StartTime_update (unless_nil (lb_Time lib)),
     field gdjt_CompletionTime gdjt_CompletionTime_update (unless_nil (lb_Time lib)),
     field gdjt_ExitCode gdjt_ExitCode_update (copy_ptr K_Int32 hret)]"

definition DockerJobStatus_DeepCopy :: "meta_lib \<Rightarrow> ptr \<Rightarrow> (obj, ptr) hm" where
  "DockerJobStatus_DeepCopy lib = copy_ptr K_JobStatus (DockerJobStatus_DeepCopyInto lib)"

definition DockerJob_DeepCopyInto :: "meta_lib \<Rightarrow> GJob \<Rightarrow> (obj, GJob) hm" where
  "DockerJob_DeepCopyInto lib = copy_fields [
     field go_TypeMeta go_TypeMeta_update hret,
     field go_ObjectMeta go_ObjectMeta_update (lb_ObjectMeta lib),
     field go_Spec go_Spec_update DockerJobSpec_DeepCopyInto,
     field go_Status go_Status_update (DockerJobStatus_DeepCopyInto lib)]"

definition DockerJob_DeepCopy :: "meta_lib \<Rightarrow> ptr \<Rightarrow> (obj, ptr) hm" where
  "DockerJob_DeepCopy lib = copy_ptr K_Job (DockerJob_DeepCopyInto lib)"

definition DockerJob_DeepCopyObject :: "meta_lib \<Rightarrow> ptr \<Rightarrow> (obj, runtime_Object) hm" where
  "DockerJob_DeepCopyObject lib p = hbind (DockerJob_DeepCopy lib p) (\<lambda>c. hret (as_object T_DockerJob c))"

definition DockerJobList_DeepCopyInto :: "meta_lib \<Rightarrow> GList \<Rightarrow> (obj, GList) hm" where
  "DockerJobList_DeepCopyInto lib = copy_fields [
     field gl_TypeMeta gl_TypeMeta_update hret,
     field gl_ListMeta gl_ListMeta_update (lb_ListMeta lib),
     field gl_Items gl_Items_update (copy_slice K_Job (DockerJob_DeepCopyInto lib))]"

definition DockerJobList_DeepCopy :: "meta_lib \<Rightarrow> ptr \<Rightarrow> (obj, ptr) hm" where
  "DockerJobList_DeepCopy lib = copy_ptr K_JobList (DockerJobList_DeepCopyInto lib)"

definition DockerJobList_DeepCopyObject :: "meta_lib \<Rightarrow> ptr \<Rightarrow> (obj, runtime_Object) hm" where
  "DockerJobList_DeepCopyObject lib p = hbind (DockerJobList_DeepCopy lib p) (\<lambda>c. hret (as_object T_DockerJobList c))"

definition ObjectMeta_DeepCopyInto :: "GTemplateMeta \<Rightarrow> (obj, GTemplateMeta) hm" where
  "ObjectMeta_DeepCopyInto = copy_fields [
     field gtm_Labels gtm_Labels_update (copy_map K_Pair),
     field gtm_Annotations gtm_Annotations_update (copy_map K_Pair)]"

definition ObjectMeta_DeepCopy :: "ptr \<Rightarrow> (obj, ptr) hm" where
  "ObjectMeta_DeepCopy = copy_ptr K_TemplateMeta ObjectMeta_DeepCopyInto"

definition DockerContainerTemplate_DeepCopyInto :: "GTemplate \<Rightarrow> (obj, GTemplate) hm" where
  "DockerContainerTemplate_DeepCopyInto = copy_fields [
     field gtpl_Metadata gtpl_Metadata_update ObjectMeta_DeepCopyInto,
     field gtpl_Spec gtpl_Spec_update DockerContainerSpec_DeepCopyInto]"

definition DockerContainerTemplate_DeepCopy :: "ptr \<Rightarrow> (obj, ptr) hm" where
  "DockerContainerTemplate_DeepCopy = copy_ptr K_Template DockerContainerTemplate_DeepCopyInto"

definition DockerDeploymentSpec_DeepCopyInto :: "meta_lib \<Rightarrow> GDeploymentSpec \<Rightarrow> (obj, GDeploymentSpec) hm" where
  "DockerDeploymentSpec_DeepCopyInto lib = copy_fields [
     field gdds_Replicas gdds_Replicas_update (copy_ptr K_Int32 hret),
     field gdds_Selector gdds_Selector_update (copy_ptr K_LabelSelector (lb_LabelSelector lib)),
     field gdds_Template gdds_Template_update DockerContainerTemplate_DeepCopyInto]"

definition DockerDeploymentSpec_DeepCopy :: "meta_lib \<Rightarrow> ptr \<Rightarrow> (obj, ptr) hm" where
  "DockerDeploymentSpec_DeepCopy lib = copy_ptr K_DeploymentSpec (DockerDeploymentSpec_DeepCopyInto lib)"

definition DockerDeploymentStatus_DeepCopyInto :: "meta_lib \<Rightarrow> GDeploymentStatus \<Rightarrow> (obj, GDeploymentStatus) hm" where
  "DockerDeploymentStatus_DeepCopyInto lib = copy_fields [
     field gddt_Conditions gddt_Conditions_update (copy_slice K_Condition (lb_Condition lib))]"

definition DockerDeploymentStatus_DeepCopy :: "meta_lib \<Rightarrow> ptr \<Rightarrow> (obj, ptr) hm" where
  "DockerDeploymentStatus_DeepCopy lib = copy_ptr K_DeploymentStatus (DockerDeploymentStatus_DeepCopyInto lib)"

definition DockerDeployment_DeepCopyInto :: "meta_lib \<Rightarrow> GDeployment \<Rightarrow> (obj, GDeployment) hm" where
  "DockerDeployment_DeepCopyInto lib = copy_fields [
     field go_TypeMeta go_TypeMeta_update hret,
     field go_ObjectMeta go_ObjectMeta_update (lb_ObjectMeta lib),
     field go_Spec go_Spec_update (DockerDeploymentSpec_DeepCopyInto lib),
     field go_Status go_Status_update (DockerDeploymentStatus_DeepCopyInto lib)]"

definition DockerDeployment_DeepCopy :: "meta_lib \<Rightarrow> ptr \<Rightarrow> (obj, ptr) hm" where
  "DockerDeployment_DeepCopy lib = copy_ptr K_Deployment (DockerDeployment_DeepCopyInto lib)"

definition DockerDeployment_DeepCopyObject :: "meta_lib \<Rightarrow> ptr \<Rightarrow> (obj, runtime_Object) hm" where
  "DockerDeployment_DeepCopyObject lib p = hbind (DockerDeployment_DeepCopy lib p) (\<lambda>c. hret (as_object T_DockerDeployment c))"

definition DockerDeploymentList_DeepCopyInto :: "meta_lib \<Rightarrow> GList \<Rightarrow> (obj, GList) hm" where
  "DockerDeploymentList_DeepCopyInto lib = copy_fields [
     field gl_TypeMeta gl_TypeMeta_update hret,
     field gl_ListMeta gl_ListMeta_update (lb_ListMeta lib),
     field gl_Items gl_Items_update (copy_slice K_Deployment (DockerDeployment_DeepCopyInto lib))]"

definition DockerDeploymentList_DeepCopy :: "meta_lib \<Rightarrow> ptr \<Rightarrow> (obj, ptr) hm" where
  "DockerDeploymentList_DeepCopy lib = copy_ptr K_DeploymentList (DockerDeploymentList_DeepCopyInto lib)"

definition DockerDeploymentList_DeepCopyObject :: "meta_lib \<Rightarrow> ptr \<Rightarrow> (obj, runtime_Object) hm" where
  "DockerDeploymentList_DeepCopyObject lib p = hbind (DockerDeploymentList_DeepCopy lib p) (\<lambda>c. hret (as_object T_DockerDeploymentList c))"

section \<open>They are deep copies\<close>

named_theorems copiers \<open>the copy functions that satisfy their contract\<close>

lemmas copier_rules = deep_copier_slice deep_copier_ptr deep_copier_map deep_copier_flat kind_oks

lemmas field_rules = copy_into_next copier_rules persistent_conj persistent_copied persistent_True
  deep_copier.axioms(1)

lemma deep_copier_assign: "deep_copier rd_flat reach_flat (copy_fields [])"
  by (intro deep_copier_fields readable_flat copy_into_done) (simp add: copied_def rd_flat_def reach_flat_def)

lemma deep_copier_HealthCheckConfig [copiers]:
  "deep_copier rd_HealthCheckConfig reach_HealthCheckConfig HealthCheckConfig_DeepCopyInto"
  unfolding HealthCheckConfig_DeepCopyInto_def
  by (rule deep_copier_fields [OF readable_HealthCheckConfig], subst (asm) rd_HealthCheckConfig_def, elim read_fieldE read_doneE,
    (rule field_rules copiers | assumption)+, rule copy_into_done, simp add: rd_HealthCheckConfig_def reach_HealthCheckConfig_def read_simps)

lemma deep_copier_EnvVarSource [copiers]:
  "deep_copier rd_EnvVarSource reach_EnvVarSource EnvVarSource_DeepCopyInto"
  unfolding EnvVarSource_DeepCopyInto_def
  by (rule deep_copier_fields [OF readable_EnvVarSource], subst (asm) rd_EnvVarSource_def, elim read_fieldE read_doneE,
    (rule field_rules copiers | assumption)+, rule copy_into_done, simp add: rd_EnvVarSource_def reach_EnvVarSource_def read_simps)

lemma deep_copier_EnvVar [copiers]:
  "deep_copier rd_EnvVar reach_EnvVar EnvVar_DeepCopyInto"
  unfolding EnvVar_DeepCopyInto_def
  by (rule deep_copier_fields [OF readable_EnvVar], subst (asm) rd_EnvVar_def, elim read_fieldE read_doneE,
    (rule field_rules copiers | assumption)+, rule copy_into_done, simp add: rd_EnvVar_def reach_EnvVar_def read_simps)

lemma deep_copier_ContainerSpec [copiers]:
  "deep_copier rd_ContainerSpec reach_ContainerSpec DockerContainerSpec_DeepCopyInto"
  unfolding DockerContainerSpec_DeepCopyInto_def
  by (rule deep_copier_fields [OF readable_ContainerSpec], subst (asm) rd_ContainerSpec_def, elim read_fieldE read_doneE,
    (rule field_rules copiers | assumption)+, rule copy_into_done, simp add: rd_ContainerSpec_def reach_ContainerSpec_def read_simps)

lemma deep_copier_JobSpec [copiers]:
  "deep_copier rd_JobSpec reach_JobSpec DockerJobSpec_DeepCopyInto"
  unfolding DockerJobSpec_DeepCopyInto_def
  by (rule deep_copier_fields [OF readable_JobSpec], subst (asm) rd_JobSpec_def, elim read_fieldE read_doneE,
    (rule field_rules copiers | assumption)+, rule copy_into_done, simp add: rd_JobSpec_def reach_JobSpec_def read_simps)

lemma deep_copier_TemplateMeta [copiers]:
  "deep_copier rd_TemplateMeta reach_TemplateMeta ObjectMeta_DeepCopyInto"
  unfolding ObjectMeta_DeepCopyInto_def
  by (rule deep_copier_fields [OF readable_TemplateMeta], subst (asm) rd_TemplateMeta_def, elim read_fieldE read_doneE,
    (rule field_rules copiers | assumption)+, rule copy_into_done, simp add: rd_TemplateMeta_def reach_TemplateMeta_def read_simps)

lemma deep_copier_Template [copiers]:
  "deep_copier rd_Template reach_Template DockerContainerTemplate_DeepCopyInto"
  unfolding DockerContainerTemplate_DeepCopyInto_def
  by (rule deep_copier_fields [OF readable_Template], subst (asm) rd_Template_def, elim read_fieldE read_doneE,
    (rule field_rules copiers | assumption)+, rule copy_into_done, simp add: rd_Template_def reach_Template_def read_simps)

text \<open>The functions that call \<open>metav1\<close>.\<close>

lemma lib_copiers [copiers]:
  assumes "lib_ok lib"
  shows "deep_copier rd_ObjectMeta reach_ObjectMeta (lb_ObjectMeta lib)"
    and "deep_copier rd_ListMeta reach_ListMeta (lb_ListMeta lib)"
    and "deep_copier rd_LabelSelector reach_LabelSelector (lb_LabelSelector lib)"
    and "deep_copier rd_flat reach_flat (lb_Condition lib)"
    and "deep_copier (rd_ptr K_Time rd_flat) (reach_ptr K_Time reach_flat) (lb_Time lib)"
  using assms by (simp_all add: lib_ok_def)

lemma deep_copier_unless_nil [copiers]:
  assumes "deep_copier (rd_ptr K rd) (reach_ptr K reach) cp"
  shows "deep_copier (rd_ptr K rd) (reach_ptr K reach) (unless_nil cp)"
proof (rule deep_copierI [OF deep_copier.axioms(1) [OF assms]])
  fix h0 p v assume "rd_ptr K rd h0 p = Some v"
  then show "htriple (extends h0) (unless_nil cp p) (\<lambda>g h. copied (rd_ptr K rd) (reach_ptr K reach) h0 g v h)"
    using htriple_weaken [OF htriple_copy [OF assms persistent_extends, of h0 h0 p v]]
    by (cases p) (auto simp: unless_nil_def copied_def intro!: htriple_hret)
qed

lemma deep_copier_JobStatus:
  "lib_ok lib \<Longrightarrow> deep_copier rd_JobStatus reach_JobStatus (DockerJobStatus_DeepCopyInto lib)"
  unfolding DockerJobStatus_DeepCopyInto_def
  by (rule deep_copier_fields [OF readable_JobStatus], subst (asm) rd_JobStatus_def, elim read_fieldE read_doneE,
    (rule field_rules copiers | assumption)+, rule copy_into_done, simp add: rd_JobStatus_def reach_JobStatus_def read_simps)

lemma deep_copier_DeploymentSpec:
  "lib_ok lib \<Longrightarrow> deep_copier rd_DeploymentSpec reach_DeploymentSpec (DockerDeploymentSpec_DeepCopyInto lib)"
  unfolding DockerDeploymentSpec_DeepCopyInto_def
  by (rule deep_copier_fields [OF readable_DeploymentSpec], subst (asm) rd_DeploymentSpec_def, elim read_fieldE read_doneE,
    (rule field_rules copiers | assumption)+, rule copy_into_done, simp add: rd_DeploymentSpec_def reach_DeploymentSpec_def read_simps)

lemma deep_copier_DeploymentStatus:
  "lib_ok lib \<Longrightarrow> deep_copier rd_DeploymentStatus reach_DeploymentStatus (DockerDeploymentStatus_DeepCopyInto lib)"
  unfolding DockerDeploymentStatus_DeepCopyInto_def
  by (rule deep_copier_fields [OF readable_DeploymentStatus], subst (asm) rd_DeploymentStatus_def, elim read_fieldE read_doneE,
    (rule field_rules copiers | assumption)+, rule copy_into_done, simp add: rd_DeploymentStatus_def reach_DeploymentStatus_def read_simps)

lemmas lib_struct_copiers = deep_copier_JobStatus deep_copier_DeploymentSpec deep_copier_DeploymentStatus

lemma deep_copier_object:
  assumes "lib_ok lib" and s: "deep_copier rs cs cps" and t: "deep_copier rt ct cpt"
  shows "deep_copier (rd_object mk rs rt) (reach_object cs ct) (copy_fields [
    field go_TypeMeta go_TypeMeta_update hret,
    field go_ObjectMeta go_ObjectMeta_update (lb_ObjectMeta lib),
    field go_Spec go_Spec_update cps,
    field go_Status go_Status_update cpt])"
  by (rule deep_copier_fields [OF readable_object [OF s [THEN deep_copier.axioms(1)] t [THEN deep_copier.axioms(1)]]],
    subst (asm) rd_object_def, elim read_fieldE read_doneE,
    (rule field_rules copiers assms | assumption)+, rule copy_into_done,
    simp add: rd_object_def reach_object_def read_simps)

lemma deep_copier_list:
  assumes "lib_ok lib" and "kind_ok K" and i: "deep_copier ri ci cpi"
  shows "deep_copier (rd_list K ri) (reach_list K ci) (copy_fields [
    field gl_TypeMeta gl_TypeMeta_update hret,
    field gl_ListMeta gl_ListMeta_update (lb_ListMeta lib),
    field gl_Items gl_Items_update (copy_slice K cpi)])"
  by (rule deep_copier_fields [OF readable_list [OF i [THEN deep_copier.axioms(1)]]],
    subst (asm) rd_list_def, elim read_fieldE read_doneE,
    (rule field_rules copiers assms | assumption)+, rule copy_into_done,
    simp add: rd_list_def reach_list_def read_simps)

lemma deep_copier_Container:
  "lib_ok lib \<Longrightarrow> deep_copier rd_Container reach_Container (DockerContainer_DeepCopyInto lib)"
  unfolding rd_Container_def reach_Container_def DockerContainer_DeepCopyInto_def
  by (intro deep_copier_object copier_rules copiers lib_struct_copiers)

lemma deep_copier_Host:
  "lib_ok lib \<Longrightarrow> deep_copier rd_Host reach_Host (DockerHost_DeepCopyInto lib)"
  unfolding rd_Host_def reach_Host_def DockerHost_DeepCopyInto_def
  by (intro deep_copier_object copier_rules copiers lib_struct_copiers)

lemma deep_copier_Job:
  "lib_ok lib \<Longrightarrow> deep_copier rd_Job reach_Job (DockerJob_DeepCopyInto lib)"
  unfolding rd_Job_def reach_Job_def DockerJob_DeepCopyInto_def
  by (intro deep_copier_object copier_rules copiers lib_struct_copiers)

lemma deep_copier_Deployment:
  "lib_ok lib \<Longrightarrow> deep_copier rd_Deployment reach_Deployment (DockerDeployment_DeepCopyInto lib)"
  unfolding rd_Deployment_def reach_Deployment_def DockerDeployment_DeepCopyInto_def
  by (intro deep_copier_object copier_rules copiers lib_struct_copiers)

lemmas object_copiers = deep_copier_Container deep_copier_Host deep_copier_Job deep_copier_Deployment

text \<open>
  The structs without references are copied by assignment; the \<open>DeepCopy\<close> of every struct
  inherits the contract of its \<open>DeepCopyInto\<close>.
\<close>

lemma assign_copiers:
  "deep_copier rd_flat reach_flat SecretKeySelector_DeepCopyInto"
  "deep_copier rd_flat reach_flat ResourceRequirements_DeepCopyInto"
  "deep_copier rd_flat reach_flat SecretVolume_DeepCopyInto"
  "deep_copier rd_flat reach_flat ServicePort_DeepCopyInto"
  "deep_copier rd_flat reach_flat VolumeMount_DeepCopyInto"
  "deep_copier rd_flat reach_flat DockerContainerStatus_DeepCopyInto"
  "deep_copier rd_flat reach_flat DockerHostSpec_DeepCopyInto"
  "deep_copier rd_flat reach_flat DockerHostStatus_DeepCopyInto"
  "deep_copier rd_flat reach_flat DockerServiceStatus_DeepCopyInto"
  unfolding SecretKeySelector_DeepCopyInto_def
    ResourceRequirements_DeepCopyInto_def
    SecretVolume_DeepCopyInto_def
    ServicePort_DeepCopyInto_def
    VolumeMount_DeepCopyInto_def
    DockerContainerStatus_DeepCopyInto_def
    DockerHostSpec_DeepCopyInto_def
    DockerHostStatus_DeepCopyInto_def
    DockerServiceStatus_DeepCopyInto_def
  by (rule deep_copier_assign)+

lemma flat_struct_deep_copies:
  "deep_copier (rd_ptr K_SecretKeySelector rd_flat) (reach_ptr K_SecretKeySelector reach_flat) SecretKeySelector_DeepCopy"
  "deep_copier (rd_ptr K_ResourceRequirements rd_flat) (reach_ptr K_ResourceRequirements reach_flat) ResourceRequirements_DeepCopy"
  "deep_copier (rd_ptr K_SecretVolume rd_flat) (reach_ptr K_SecretVolume reach_flat) SecretVolume_DeepCopy"
  "deep_copier (rd_ptr K_ServicePort rd_flat) (reach_ptr K_ServicePort reach_flat) ServicePort_DeepCopy"
  "deep_copier (rd_ptr K_VolumeMount rd_flat) (reach_ptr K_VolumeMount reach_flat) VolumeMount_DeepCopy"
  "deep_copier (rd_ptr K_ContainerStatus rd_flat) (reach_ptr K_ContainerStatus reach_flat) DockerContainerStatus_DeepCopy"
  "deep_copier (rd_ptr K_HostSpec rd_flat) (reach_ptr K_HostSpec reach_flat) DockerHostSpec_DeepCopy"
  "deep_copier (rd_ptr K_HostStatus rd_flat) (reach_ptr K_HostStatus reach_flat) DockerHostStatus_DeepCopy"
  "deep_copier (rd_ptr K_ServiceStatus rd_flat) (reach_ptr K_ServiceStatus reach_flat) DockerServiceStatus_DeepCopy"
  unfolding SecretKeySelector_DeepCopy_def
    ResourceRequirements_DeepCopy_def
    SecretVolume_DeepCopy_def
    ServicePort_DeepCopy_def
    VolumeMount_DeepCopy_def
    DockerContainerStatus_DeepCopy_def
    DockerHostSpec_DeepCopy_def
    DockerHostStatus_DeepCopy_def
    DockerServiceStatus_DeepCopy_def
  by (intro deep_copier_ptr kind_oks assign_copiers)+

lemma struct_deep_copies:
  "deep_copier (rd_ptr K_HealthCheckConfig rd_HealthCheckConfig) (reach_ptr K_HealthCheckConfig reach_HealthCheckConfig) HealthCheckConfig_DeepCopy"
  "deep_copier (rd_ptr K_EnvVarSource rd_EnvVarSource) (reach_ptr K_EnvVarSource reach_EnvVarSource) EnvVarSource_DeepCopy"
  "deep_copier (rd_ptr K_EnvVar rd_EnvVar) (reach_ptr K_EnvVar reach_EnvVar) EnvVar_DeepCopy"
  "deep_copier (rd_ptr K_ContainerSpec rd_ContainerSpec) (reach_ptr K_ContainerSpec reach_ContainerSpec) DockerContainerSpec_DeepCopy"
  "deep_copier (rd_ptr K_JobSpec rd_JobSpec) (reach_ptr K_JobSpec reach_JobSpec) DockerJobSpec_DeepCopy"
  "deep_copier (rd_ptr K_TemplateMeta rd_TemplateMeta) (reach_ptr K_TemplateMeta reach_TemplateMeta) ObjectMeta_DeepCopy"
  "deep_copier (rd_ptr K_Template rd_Template) (reach_ptr K_Template reach_Template) DockerContainerTemplate_DeepCopy"
  unfolding HealthCheckConfig_DeepCopy_def
    EnvVarSource_DeepCopy_def
    EnvVar_DeepCopy_def
    DockerContainerSpec_DeepCopy_def
    DockerJobSpec_DeepCopy_def
    ObjectMeta_DeepCopy_def
    DockerContainerTemplate_DeepCopy_def
  by (intro deep_copier_ptr kind_oks copiers)+

lemma lib_struct_deep_copies:
  assumes "lib_ok lib"
  shows
  "deep_copier (rd_ptr K_JobStatus rd_JobStatus) (reach_ptr K_JobStatus reach_JobStatus) (DockerJobStatus_DeepCopy lib)"
  "deep_copier (rd_ptr K_DeploymentSpec rd_DeploymentSpec) (reach_ptr K_DeploymentSpec reach_DeploymentSpec) (DockerDeploymentSpec_DeepCopy lib)"
  "deep_copier (rd_ptr K_DeploymentStatus rd_DeploymentStatus) (reach_ptr K_DeploymentStatus reach_DeploymentStatus) (DockerDeploymentStatus_DeepCopy lib)"
  unfolding DockerJobStatus_DeepCopy_def
    DockerDeploymentSpec_DeepCopy_def
    DockerDeploymentStatus_DeepCopy_def
  by (intro deep_copier_ptr kind_oks lib_struct_copiers assms)+

text \<open>
  Structs whose copies need nothing from \<open>metav1\<close>, as instances of the contract.
\<close>

interpretation health_check: deep_copier rd_HealthCheckConfig reach_HealthCheckConfig HealthCheckConfig_DeepCopyInto
  by (rule deep_copier_HealthCheckConfig)

interpretation container_spec: deep_copier rd_ContainerSpec reach_ContainerSpec DockerContainerSpec_DeepCopyInto
  by (rule deep_copier_ContainerSpec)

interpretation job_spec: deep_copier rd_JobSpec reach_JobSpec DockerJobSpec_DeepCopyInto
  by (rule deep_copier_JobSpec)

interpretation template: deep_copier rd_Template reach_Template DockerContainerTemplate_DeepCopyInto
  by (rule deep_copier_Template)

interpretation service_spec: readable rd_ServiceSpec reach_ServiceSpec
  by (rule readable_ServiceSpec)

section \<open>A library and a heap\<close>

definition demo_lib :: meta_lib where
  "demo_lib = \<lparr>
     lb_ObjectMeta = copy_fields [
       field gom_Labels gom_Labels_update (copy_map K_Pair),
       field gom_DeletionTimestamp gom_DeletionTimestamp_update (copy_ptr K_Time hret),
       field gom_Finalizers gom_Finalizers_update (copy_slice K_String hret),
       field gom_OwnerReferences gom_OwnerReferences_update (copy_slice K_OwnerReference (copy_fields [
         field gor_Controller gor_Controller_update (copy_ptr K_Bool hret)]))],
     lb_ListMeta = copy_fields [
       field glm_RemainingItemCount glm_RemainingItemCount_update (copy_ptr K_Int64 hret)],
     lb_LabelSelector = copy_fields [
       field gls_MatchLabels gls_MatchLabels_update (copy_map K_Pair),
       field gls_MatchExpressions gls_MatchExpressions_update (copy_slice K_Requirement (copy_fields [
         field grq_Values grq_Values_update (copy_slice K_String hret)]))],
     lb_Condition = hret,
     lb_Time = copy_ptr K_Time hret\<rparr>"

lemma demo_copier_OwnerReference: "deep_copier rd_OwnerReference reach_OwnerReference
    (copy_fields [field gor_Controller gor_Controller_update (copy_ptr K_Bool hret)])"
  by (rule deep_copier_fields [OF readable_OwnerReference], subst (asm) rd_OwnerReference_def,
    elim read_fieldE read_doneE, (rule field_rules | assumption)+, rule copy_into_done,
    simp add: rd_OwnerReference_def reach_OwnerReference_def read_simps)

lemma demo_copier_Requirement: "deep_copier rd_Requirement reach_Requirement
    (copy_fields [field grq_Values grq_Values_update (copy_slice K_String hret)])"
  by (rule deep_copier_fields [OF readable_Requirement], subst (asm) rd_Requirement_def,
    elim read_fieldE read_doneE, (rule field_rules | assumption)+, rule copy_into_done,
    simp add: rd_Requirement_def reach_Requirement_def read_simps)

lemma demo_copier_ObjectMeta: "deep_copier rd_ObjectMeta reach_ObjectMeta (lb_ObjectMeta demo_lib)"
  unfolding demo_lib_def meta_lib.simps
  by (rule deep_copier_fields [OF readable_ObjectMeta], subst (asm) rd_ObjectMeta_def,
    elim read_fieldE read_doneE, (rule field_rules demo_copier_OwnerReference | assumption)+,
    rule copy_into_done, simp add: rd_ObjectMeta_def reach_ObjectMeta_def read_simps)

lemma demo_copier_ListMeta: "deep_copier rd_ListMeta reach_ListMeta (lb_ListMeta demo_lib)"
  unfolding demo_lib_def meta_lib.simps
  by (rule deep_copier_fields [OF readable_ListMeta], subst (asm) rd_ListMeta_def,
    elim read_fieldE read_doneE, (rule field_rules | assumption)+, rule copy_into_done,
    simp add: rd_ListMeta_def reach_ListMeta_def read_simps)

lemma demo_copier_LabelSelector:
  "deep_copier rd_LabelSelector reach_LabelSelector (lb_LabelSelector demo_lib)"
  unfolding demo_lib_def meta_lib.simps
  by (rule deep_copier_fields [OF readable_LabelSelector], subst (asm) rd_LabelSelector_def,
    elim read_fieldE read_doneE, (rule field_rules demo_copier_Requirement | assumption)+,
    rule copy_into_done, simp add: rd_LabelSelector_def reach_LabelSelector_def read_simps)

lemma demo_lib_ok: "lib_ok demo_lib"
  using demo_copier_ObjectMeta demo_copier_ListMeta demo_copier_LabelSelector deep_copier_flat
    deep_copier_ptr [OF kind_ok_Time deep_copier_flat]
  by (simp add: lib_ok_def) (simp add: demo_lib_def)

text \<open>
  A heap with a container spec (one port of a shared array of two, one environment variable
  from a secret), a service spec and a list of one deployment, whose selector and template share
  a map.
\<close>

definition demo_spec :: GContainerSpec where
  "demo_spec = \<lparr>gdcs_Image = ''nginx'', gdcs_ContainerName = ''web'', gdcs_Ports = Some (0, 1, 1),
     gdcs_Command = None, gdcs_Env = None, gdcs_RestartPolicy = [], gdcs_DockerHostRef = [],
     gdcs_ImagePullSecret = [], gdcs_VolumeMounts = None, gdcs_Services = None, gdcs_NetworkMode = [],
     gdcs_EnvVars = Some (3, 0, 1), gdcs_SecretVolumes = None, gdcs_HealthCheck = None,
     gdcs_Resources = None\<rparr>"

definition demo_service_spec :: GServiceSpec where
  "demo_service_spec = \<lparr>gdss_ContainerRef = [], gdss_Selector = Some (4, 0), gdss_Ports = Some (6, 0, 1),
     gdss_NetworkMode = []\<rparr>"

definition demo_deployment :: GDeployment where
  "demo_deployment = \<lparr>go_TypeMeta = \<lparr>tym_Kind = ''DockerDeployment'', tym_APIVersion = ''v1alpha1''\<rparr>,
     go_ObjectMeta = \<lparr>gom_Name = ''web'', gom_Namespace = ''default'', gom_UID = ''u1'', gom_Labels = None,
       gom_CreationTimestamp = 0, gom_DeletionTimestamp = None, gom_Finalizers = None, gom_OwnerReferences = None\<rparr>,
     go_Spec = \<lparr>gdds_Replicas = Some (9, 0), gdds_Selector = Some (4, 0),
       gdds_Template = \<lparr>gtpl_Metadata = \<lparr>gtm_Labels = Some 5, gtm_Annotations = None\<rparr>, gtpl_Spec = demo_spec\<rparr>\<rparr>,
     go_Status = \<lparr>gddt_AvailableReplicas = 0, gddt_Conditions = None\<rparr>\<rparr>"

definition demo_deployments :: GList where
  "demo_deployments = \<lparr>gl_TypeMeta = \<lparr>tym_Kind = ''DockerDeploymentList'', tym_APIVersion = ''v1alpha1''\<rparr>,
     gl_ListMeta = \<lparr>glm_ResourceVersion = ''7'', glm_Continue = [], glm_RemainingItemCount = None\<rparr>,
     gl_Items = Some (7, 0, 1)\<rparr>"

definition demo_heap :: "obj gheap" where
  "demo_heap = \<lparr>h_cells = [
     0 \<mapsto> OString [''80:80'', ''443:443''],
     1 \<mapsto> OSecretKeySelector [\<lparr>sks_Name = ''db'', sks_Key = ''password''\<rparr>],
     2 \<mapsto> OEnvVarSource [\<lparr>gevs_SecretKeyRef = Some (1, 0)\<rparr>],
     3 \<mapsto> OEnvVar [\<lparr>gev_Name = ''PW'', gev_Value = [], gev_ValueFrom = Some (2, 0)\<rparr>],
     4 \<mapsto> OLabelSelector [\<lparr>gls_MatchLabels = Some 5, gls_MatchExpressions = None\<rparr>],
     5 \<mapsto> OPair [(''app'', ''web'')],
     6 \<mapsto> OServicePort [\<lparr>sp_Port = 80, sp_TargetPort = 8080, sp_Name = ''http''\<rparr>],
     7 \<mapsto> ODeployment [demo_deployment],
     8 \<mapsto> ODeploymentList [demo_deployments],
     9 \<mapsto> OInt32 [3]], h_next = 10\<rparr>"

lemma demo_heap_ok: "heap_ok demo_heap"
  by (simp add: heap_ok_def demo_heap_def)

lemmas demo_read = rd_slice_def rd_ptr_def rd_map_def rd_flat_def cell_def read_field_def read_done_def
  kind_defs demo_heap_def

lemma demo_spec_read: "rd_ContainerSpec demo_heap demo_spec = Some
   \<lparr>dcs_Image = ''nginx'', dcs_ContainerName = ''web'', dcs_Ports = [''443:443''], dcs_Command = [],
    dcs_Env = [], dcs_RestartPolicy = [], dcs_DockerHostRef = [], dcs_ImagePullSecret = [],
    dcs_VolumeMounts = [], dcs_Services = [], dcs_NetworkMode = [],
    dcs_EnvVars = [\<lparr>ev_Name = ''PW'', ev_Value = [],
      ev_ValueFrom = Some \<lparr>evs_SecretKeyRef = Some \<lparr>sks_Name = ''db'', sks_Key = ''password''\<rparr>\<rparr>\<rparr>],
    dcs_SecretVolumes = [], dcs_HealthCheck = None, dcs_Resources = None\<rparr>"
  by (simp add: rd_ContainerSpec_def rd_EnvVar_def rd_EnvVarSource_def demo_spec_def demo_read)

lemma demo_service_read: "rd_ServiceSpec demo_heap demo_service_spec = Some
   \<lparr>dss_ContainerRef = [], dss_Selector = Some \<lparr>ls_MatchLabels = [(''app'', ''web'')], ls_MatchExpressions = []\<rparr>,
    dss_Ports = [\<lparr>sp_Port = 80, sp_TargetPort = 8080, sp_Name = ''http''\<rparr>], dss_NetworkMode = []\<rparr>"
  by (simp add: rd_ServiceSpec_def rd_LabelSelector_def demo_service_spec_def demo_read)

lemma demo_deployment_read: "\<exists>v. rd_Deployment demo_heap demo_deployment = Some v"
  using demo_spec_read
  by (simp add: rd_Deployment_def rd_object_def rd_ObjectMeta_def rd_DeploymentSpec_def rd_DeploymentStatus_def
    rd_Template_def rd_TemplateMeta_def rd_LabelSelector_def demo_deployment_def demo_read)

lemma demo_deployments_read:
  "\<exists>v. rd_ptr K_DeploymentList (rd_list K_Deployment rd_Deployment) demo_heap (Some (8, 0)) = Some v"
  using demo_deployment_read
  by (auto simp: rd_list_def rd_ListMeta_def demo_deployments_def demo_read)

lemma deep_copier_DeploymentList:
  "lib_ok lib \<Longrightarrow> deep_copier (rd_list K_Deployment rd_Deployment) (reach_list K_Deployment reach_Deployment)
     (DockerDeploymentList_DeepCopyInto lib)"
  unfolding DockerDeploymentList_DeepCopyInto_def by (intro deep_copier_list object_copiers kind_oks)

lemma DeploymentList_copier:
  "lib_ok lib \<Longrightarrow> deep_copier (rd_ptr K_DeploymentList (rd_list K_Deployment rd_Deployment))
     (reach_ptr K_DeploymentList (reach_list K_Deployment reach_Deployment)) (DockerDeploymentList_DeepCopy lib)"
  unfolding DockerDeploymentList_DeepCopy_def by (intro deep_copier_ptr deep_copier_DeploymentList kind_oks)

lemma rd_ptr_None_iff: "rd_ptr K rd h p = Some v \<Longrightarrow> p = None \<longleftrightarrow> v = None"
  by (cases p) (auto simp: rd_ptr_def bind_eq_Some_conv split: if_splits)

text \<open>The selector of a service spec is copied as a pointer.\<close>

lemma service_copy_shape:
  assumes "heap_ok h" and "rd_ServiceSpec h g = Some x" and "dss_Selector x \<noteq> None"
  shows "\<exists>a i g' h'. DockerServiceSpec_DeepCopyInto g h = Some (g', h') \<and> extends h h' \<and>
    rd_ServiceSpec h' g' = Some x \<and> gdss_Selector g = Some (a, i) \<and> gdss_Selector g' = Some (a, i)"
proof -
  obtain s ps where x: "rd_ptr K_LabelSelector rd_LabelSelector h (gdss_Selector g) = Some (Some s)"
      "rd_slice K_ServicePort rd_flat h (gdss_Ports g) = Some ps"
      "x = \<lparr>dss_ContainerRef = gdss_ContainerRef g, dss_Selector = Some s, dss_Ports = ps,
        dss_NetworkMode = gdss_NetworkMode g\<rparr>"
    using assms(2,3) unfolding rd_ServiceSpec_def by (auto simp: read_field_Some read_done_Some)
  have ports: "deep_copier (rd_slice K_ServicePort rd_flat) (reach_slice K_ServicePort reach_flat)
      (copy_slice K_ServicePort hret)" by (intro copier_rules)
  obtain v h' where v: "copy_slice K_ServicePort hret (gdss_Ports g) h = Some (v, h')" "extends h h'"
      "rd_slice K_ServicePort rd_flat h' v = Some ps"
    using deep_copier.copies [OF ports assms(1) x(2)] by blast
  have "rd_ptr K_LabelSelector rd_LabelSelector h' (gdss_Selector g) = Some (Some s)"
    by (rule readable.rd_extends [OF readable_ptr [OF readable_LabelSelector] x(1) v(2)])
  moreover obtain a i where "gdss_Selector g = Some (a, i)"
    using rd_ptr_None_iff [OF x(1)] by auto
  ultimately show ?thesis using v x(3)
    by (simp add: DockerServiceSpec_DeepCopyInto_def copy_fields_def field_def hbind_def hret_def
      rd_ServiceSpec_def read_field_def read_done_def)
qed

lemma selector_no_ports: "cell K_LabelSelector h a = Some xs \<Longrightarrow> cell K_ServicePort h a = None"
  by (cases "h_cells h a") (auto simp: cell_def K_LabelSelector_def K_ServicePort_def split: obj.splits)

lemma clear_selector:
  assumes "rd_ServiceSpec h g = Some x" and "gdss_Selector g = Some (a, i)"
  shows "\<exists>h2. agree (- {a}) h h2 \<and>
    rd_ServiceSpec h2 g = Some (x\<lparr>dss_Selector := Some \<lparr>ls_MatchLabels = [], ls_MatchExpressions = []\<rparr>\<rparr>)"
proof -
  obtain s ps where x: "rd_ptr K_LabelSelector rd_LabelSelector h (Some (a, i)) = Some s"
      "rd_slice K_ServicePort rd_flat h (gdss_Ports g) = Some ps"
      "x = \<lparr>dss_ContainerRef = gdss_ContainerRef g, dss_Selector = s, dss_Ports = ps,
        dss_NetworkMode = gdss_NetworkMode g\<rparr>"
    using assms unfolding rd_ServiceSpec_def by (auto simp: read_field_Some read_done_Some)
  obtain xs where xs: "cell K_LabelSelector h a = Some xs" "i < length xs"
    using x(1) by (auto simp: rd_ptr_Some)
  let ?sel = "\<lparr>gls_MatchLabels = None, gls_MatchExpressions = None\<rparr>"
  let ?h2 = "h\<lparr>h_cells := (h_cells h)(a \<mapsto> OLabelSelector (xs[i := ?sel]))\<rparr>"
  have ports: "rd_slice K_ServicePort rd_flat ?h2 (gdss_Ports g) = Some ps"
  proof (rule readable.rd_frame [OF readable_slice [OF readable_flat] x(2)])
    have "a \<notin> reach_slice K_ServicePort reach_flat h (gdss_Ports g)"
      using x(2) selector_no_ports [OF xs(1)] by (cases "gdss_Ports g")
        (auto simp: rd_slice_def reach_slice_def reach_flat_def bind_eq_Some_conv split: option.splits)
    then show "agree (reach_slice K_ServicePort reach_flat h (gdss_Ports g)) h ?h2"
      by (auto simp: agree_def)
  qed
  have "rd_ptr K_LabelSelector rd_LabelSelector ?h2 (Some (a, i)) =
      Some (Some \<lparr>ls_MatchLabels = [], ls_MatchExpressions = []\<rparr>)"
    using xs(2) by (simp add: rd_ptr_def cell_def K_LabelSelector_def rd_LabelSelector_def
      read_field_def read_done_def)
  then have "rd_ServiceSpec ?h2 g = Some (x\<lparr>dss_Selector := Some \<lparr>ls_MatchLabels = [], ls_MatchExpressions = []\<rparr>\<rparr>)"
    using ports assms(2) x(3) by (simp add: rd_ServiceSpec_def read_field_def read_done_def)
  moreover have "agree (- {a}) h ?h2" by (simp add: agree_def)
  ultimately show ?thesis by blast
qed

text \<open>The copies of pointers to resources and lists.\<close>

lemma pointer_copiers:
  assumes "lib_ok lib"
  shows "deep_copier (rd_ptr K_Container rd_Container) (reach_ptr K_Container reach_Container)
      (DockerContainer_DeepCopy lib)"
    and "deep_copier (rd_ptr K_Host rd_Host) (reach_ptr K_Host reach_Host) (DockerHost_DeepCopy lib)"
    and "deep_copier (rd_ptr K_Job rd_Job) (reach_ptr K_Job reach_Job) (DockerJob_DeepCopy lib)"
    and "deep_copier (rd_ptr K_Deployment rd_Deployment) (reach_ptr K_Deployment reach_Deployment)
      (DockerDeployment_DeepCopy lib)"
    and "deep_copier (rd_ptr K_ContainerList (rd_list K_Container rd_Container))
      (reach_ptr K_ContainerList (reach_list K_Container reach_Container)) (DockerContainerList_DeepCopy lib)"
    and "deep_copier (rd_ptr K_HostList (rd_list K_Host rd_Host))
      (reach_ptr K_HostList (reach_list K_Host reach_Host)) (DockerHostList_DeepCopy lib)"
    and "deep_copier (rd_ptr K_JobList (rd_list K_Job rd_Job))
      (reach_ptr K_JobList (reach_list K_Job reach_Job)) (DockerJobList_DeepCopy lib)"
    and "deep_copier (rd_ptr K_DeploymentList (rd_list K_Deployment rd_Deployment))
      (reach_ptr K_DeploymentList (reach_list K_Deployment reach_Deployment)) (DockerDeploymentList_DeepCopy lib)"
  unfolding DockerContainer_DeepCopy_def DockerHost_DeepCopy_def DockerJob_DeepCopy_def
    DockerDeployment_DeepCopy_def DockerContainerList_DeepCopy_def DockerHostList_DeepCopy_def
    DockerJobList_DeepCopy_def DockerContainerList_DeepCopyInto_def
    DockerHostList_DeepCopyInto_def DockerJobList_DeepCopyInto_def
  by (intro deep_copier_ptr deep_copier_list object_copiers DeploymentList_copier kind_oks assms)+

text \<open>
  What \<open>DeepCopyObject\<close> has to be for a type \<open>t\<close> whose values \<open>rd\<close> reads through a pointer: it returns
  on every well-formed heap and only allocates, the \<open>nil\<close> interface for \<open>nil\<close>, and for any other
  pointer an interface that holds a pointer, not \<open>nil\<close>, of the right dynamic type to cells that are all
  new and stand for the same resource.
\<close>

definition object_copier :: "dyn_type \<Rightarrow> (obj gheap \<Rightarrow> ptr \<Rightarrow> 'a option) \<Rightarrow> (obj gheap \<Rightarrow> ptr \<Rightarrow> addr set) \<Rightarrow>
    (ptr \<Rightarrow> (obj, runtime_Object) hm) \<Rightarrow> bool" where
  "object_copier t rd reach cp \<longleftrightarrow> (\<forall>h p x. heap_ok h \<and> rd h p = Some x \<longrightarrow>
     (\<exists>r h'. cp p h = Some (r, h') \<and> heap_ok h' \<and> extends h h' \<and>
       (if p = None then r = None
        else \<exists>q. r = Some (t, Some q) \<and> rd h' (Some q) = Some x \<and>
          fst q \<in> reach h' (Some q) \<and> reach h' (Some q) \<subseteq> {h_next h..<h_next h'})))"

lemma object_copierI:
  assumes "deep_copier (rd_ptr K rd) (reach_ptr K reach) cp"
  shows "object_copier t (rd_ptr K rd) (reach_ptr K reach) (\<lambda>p. hbind (cp p) (\<lambda>c. hret (as_object t c)))"
  unfolding object_copier_def
proof (intro allI impI, elim conjE)
  fix h p x
  assume h: "heap_ok h" and p: "rd_ptr K rd h p = Some x"
  obtain c h' where c: "cp p h = Some (c, h')" "heap_ok h'" "extends h h'" "rd_ptr K rd h' c = Some x"
      "reach_ptr K reach h' c \<subseteq> {h_next h..<h_next h'}"
    using deep_copier.copies [OF assms h p] by blast
  have "c = None \<longleftrightarrow> p = None" using rd_ptr_None_iff [OF p] rd_ptr_None_iff [OF c(4)] by simp
  moreover have "fst q \<in> reach_ptr K reach h' (Some q)" for q by (cases q) (simp add: reach_ptr_def)
  ultimately show "\<exists>r h'. hbind (cp p) (\<lambda>c. hret (as_object t c)) h = Some (r, h') \<and> heap_ok h' \<and> extends h h' \<and>
       (if p = None then r = None
        else \<exists>q. r = Some (t, Some q) \<and> rd_ptr K rd h' (Some q) = Some x \<and>
          fst q \<in> reach_ptr K reach h' (Some q) \<and> reach_ptr K reach h' (Some q) \<subseteq> {h_next h..<h_next h'})"
    using c by (cases c) (auto simp: hbind_def hret_def as_object_def)
qed

section \<open>Properties\<close>

text \<open>
  C16: The resources and their lists are deep copied. For containers, hosts, jobs and
  deployments and the lists of them, \<open>DeepCopy\<close> satisfies the contract of a deep copy: on every
  well-formed heap it returns (it never reads a cell at the wrong type or out of bounds), it only
  allocates, the copy stands for the same resource, and every cell of the copy is new.
\<close>

theorem objects_deep_copied:
  assumes "lib_ok lib"
  shows "deep_copier (rd_ptr K_Container rd_Container) (reach_ptr K_Container reach_Container)
      (DockerContainer_DeepCopy lib) \<and>
    deep_copier (rd_ptr K_Host rd_Host) (reach_ptr K_Host reach_Host) (DockerHost_DeepCopy lib) \<and>
    deep_copier (rd_ptr K_Job rd_Job) (reach_ptr K_Job reach_Job) (DockerJob_DeepCopy lib) \<and>
    deep_copier (rd_ptr K_Deployment rd_Deployment) (reach_ptr K_Deployment reach_Deployment)
      (DockerDeployment_DeepCopy lib) \<and>
    deep_copier (rd_ptr K_ContainerList (rd_list K_Container rd_Container))
      (reach_ptr K_ContainerList (reach_list K_Container reach_Container)) (DockerContainerList_DeepCopy lib) \<and>
    deep_copier (rd_ptr K_HostList (rd_list K_Host rd_Host))
      (reach_ptr K_HostList (reach_list K_Host reach_Host)) (DockerHostList_DeepCopy lib) \<and>
    deep_copier (rd_ptr K_JobList (rd_list K_Job rd_Job))
      (reach_ptr K_JobList (reach_list K_Job reach_Job)) (DockerJobList_DeepCopy lib) \<and>
    deep_copier (rd_ptr K_DeploymentList (rd_list K_Deployment rd_Deployment))
      (reach_ptr K_DeploymentList (reach_list K_Deployment reach_Deployment)) (DockerDeploymentList_DeepCopy lib)"
  by (intro conjI pointer_copiers assms)

theorem objects_deep_copied_witness:
  "lib_ok demo_lib \<and>
    deep_copier (rd_ptr K_Deployment rd_Deployment) (reach_ptr K_Deployment reach_Deployment)
      (DockerDeployment_DeepCopy demo_lib) \<and>
    deep_copier (rd_ptr K_JobList (rd_list K_Job rd_Job))
      (reach_ptr K_JobList (reach_list K_Job reach_Job)) (DockerJobList_DeepCopy demo_lib)"
  using objects_deep_copied [OF demo_lib_ok] demo_lib_ok by blast

text \<open>
  C17: A copied container spec is independent of its original: after
  \<open>DockerContainerSpec.DeepCopyInto\<close> both read as the original did, whatever is then stored in
  cells of the copy (at any depth: the environment variables, their sources, the secret keys)
  leaves the original as it was, and whatever is stored in cells of the original leaves the copy
  as it was.
\<close>

theorem container_spec_copy_independent:
  assumes "heap_ok h" and "rd_ContainerSpec h g = Some x"
  shows "\<exists>g' h'. DockerContainerSpec_DeepCopyInto g h = Some (g', h') \<and>
    rd_ContainerSpec h' g = Some x \<and> rd_ContainerSpec h' g' = Some x \<and>
    (\<forall>h2. agree (- reach_ContainerSpec h' g') h' h2 \<longrightarrow> rd_ContainerSpec h2 g = Some x) \<and>
    (\<forall>h2. agree (- reach_ContainerSpec h' g) h' h2 \<longrightarrow> rd_ContainerSpec h2 g' = Some x)"
  using assms by (rule container_spec.independent)

theorem container_spec_copy_independent_witness:
  "heap_ok demo_heap \<and> (\<exists>x. rd_ContainerSpec demo_heap demo_spec = Some x \<and>
    (\<exists>g' h'. DockerContainerSpec_DeepCopyInto demo_spec demo_heap = Some (g', h') \<and>
      (\<forall>h2. agree (- reach_ContainerSpec h' g') h' h2 \<longrightarrow> rd_ContainerSpec h2 demo_spec = Some x)))"
  using container_spec_copy_independent [OF demo_heap_ok demo_spec_read] demo_heap_ok demo_spec_read
  by blast

text \<open>
  C30: \<open>DeepCopyObject\<close> returns a fresh object or the \<open>nil\<close> interface. For containers, hosts, jobs and
  deployments and the lists of them: on every well-formed heap it returns and only allocates. For
  \<open>nil\<close> it returns the \<open>nil\<close> interface, never an interface that holds a \<open>nil\<close> pointer; for any other
  pointer it returns an interface of the right dynamic type that holds a pointer, not \<open>nil\<close>, to a copy
  that stands for the same resource and all of whose cells, the first one included, are new.
\<close>

theorem deepcopy_object_type_safe:
  assumes "lib_ok lib"
  shows "object_copier T_DockerContainer (rd_ptr K_Container rd_Container) (reach_ptr K_Container reach_Container) (DockerContainer_DeepCopyObject lib) \<and>
    object_copier T_DockerHost (rd_ptr K_Host rd_Host) (reach_ptr K_Host reach_Host) (DockerHost_DeepCopyObject lib) \<and>
    object_copier T_DockerJob (rd_ptr K_Job rd_Job) (reach_ptr K_Job reach_Job) (DockerJob_DeepCopyObject lib) \<and>
    object_copier T_DockerDeployment (rd_ptr K_Deployment rd_Deployment) (reach_ptr K_Deployment reach_Deployment) (DockerDeployment_DeepCopyObject lib) \<and>
    object_copier T_DockerContainerList (rd_ptr K_ContainerList (rd_list K_Container rd_Container))
      (reach_ptr K_ContainerList (reach_list K_Container reach_Container)) (DockerContainerList_DeepCopyObject lib) \<and>
    object_copier T_DockerHostList (rd_ptr K_HostList (rd_list K_Host rd_Host))
      (reach_ptr K_HostList (reach_list K_Host reach_Host)) (DockerHostList_DeepCopyObject lib) \<and>
    object_copier T_DockerJobList (rd_ptr K_JobList (rd_list K_Job rd_Job))
      (reach_ptr K_JobList (reach_list K_Job reach_Job)) (DockerJobList_DeepCopyObject lib) \<and>
    object_copier T_DockerDeploymentList (rd_ptr K_DeploymentList (rd_list K_Deployment rd_Deployment))
      (reach_ptr K_DeploymentList (reach_list K_Deployment reach_Deployment)) (DockerDeploymentList_DeepCopyObject lib)"
  unfolding DockerContainer_DeepCopyObject_def [abs_def] DockerContainerList_DeepCopyObject_def [abs_def] DockerHost_DeepCopyObject_def [abs_def] DockerHostList_DeepCopyObject_def [abs_def] 
    DockerJob_DeepCopyObject_def [abs_def] DockerJobList_DeepCopyObject_def [abs_def] DockerDeployment_DeepCopyObject_def [abs_def] DockerDeploymentList_DeepCopyObject_def [abs_def]
  by (intro conjI object_copierI pointer_copiers assms)

theorem deepcopy_object_type_safe_witness:
  "lib_ok demo_lib \<and> heap_ok demo_heap \<and>
   (\<exists>q h'. DockerDeploymentList_DeepCopyObject demo_lib (Some (8, 0)) demo_heap = Some (Some (T_DockerDeploymentList, Some q), h') \<and>
     h_next demo_heap \<le> fst q) \<and>
   (\<exists>h'. DockerDeploymentList_DeepCopyObject demo_lib None demo_heap = Some (None, h'))"
proof -
  obtain v where v: "rd_ptr K_DeploymentList (rd_list K_Deployment rd_Deployment) demo_heap (Some (8, 0)) = Some v"
    using demo_deployments_read ..
  have n: "rd_ptr K_DeploymentList (rd_list K_Deployment rd_Deployment) demo_heap None = Some None" by (simp add: rd_ptr_def)
  have oc: "object_copier T_DockerDeploymentList (rd_ptr K_DeploymentList (rd_list K_Deployment rd_Deployment))
      (reach_ptr K_DeploymentList (reach_list K_Deployment reach_Deployment)) (DockerDeploymentList_DeepCopyObject demo_lib)"
    using deepcopy_object_type_safe [OF demo_lib_ok] by blast
  have "\<exists>q h'. DockerDeploymentList_DeepCopyObject demo_lib (Some (8, 0)) demo_heap = Some (Some (T_DockerDeploymentList, Some q), h') \<and>
     h_next demo_heap \<le> fst q"
    using oc [unfolded object_copier_def, rule_format, OF conjI [OF demo_heap_ok v]] by fastforce
  moreover have "\<exists>h'. DockerDeploymentList_DeepCopyObject demo_lib None demo_heap = Some (None, h')"
    using oc [unfolded object_copier_def, rule_format, OF conjI [OF demo_heap_ok n]] by auto
  ultimately show ?thesis using demo_lib_ok demo_heap_ok by blast
qed

text \<open>
  C40: \<open>DockerServiceSpec.DeepCopyInto\<close> is not a deep copy: it copies the ports and leaves the
  selector shared. For every spec with a selector the copy reads as the original, and there is a
  write to the cells of the copy, the assignment of an empty label selector through its pointer,
  after which the original has an empty selector too.
\<close>

theorem service_deepcopy_shares_selector:
  assumes "heap_ok h" and "rd_ServiceSpec h g = Some x" and "dss_Selector x \<noteq> None"
  shows "\<exists>g' h' h2. DockerServiceSpec_DeepCopyInto g h = Some (g', h') \<and> rd_ServiceSpec h' g' = Some x \<and>
    agree (- reach_ServiceSpec h' g') h' h2 \<and>
    rd_ServiceSpec h2 g = Some (x\<lparr>dss_Selector := Some \<lparr>ls_MatchLabels = [], ls_MatchExpressions = []\<rparr>\<rparr>)"
proof -
  obtain a i g' h' where c: "DockerServiceSpec_DeepCopyInto g h = Some (g', h')" "extends h h'"
      "rd_ServiceSpec h' g' = Some x" "gdss_Selector g = Some (a, i)" "gdss_Selector g' = Some (a, i)"
    using service_copy_shape [OF assms] by blast
  have r: "rd_ServiceSpec h' g = Some x" using assms(2) c(2) by (rule service_spec.rd_extends)
  obtain h2 where "agree (- {a}) h' h2"
      "rd_ServiceSpec h2 g = Some (x\<lparr>dss_Selector := Some \<lparr>ls_MatchLabels = [], ls_MatchExpressions = []\<rparr>\<rparr>)"
    using clear_selector [OF r c(4)] by blast
  moreover have "a \<in> reach_ServiceSpec h' g'"
    by (simp add: reach_ServiceSpec_def read_simps c(5) reach_ptr_def)
  ultimately show ?thesis using c(1,3) by (auto simp: agree_def)
qed

theorem service_deepcopy_shares_selector_witness:
  "heap_ok demo_heap \<and> (\<exists>x. rd_ServiceSpec demo_heap demo_service_spec = Some x \<and>
    (\<exists>g' h' h2. DockerServiceSpec_DeepCopyInto demo_service_spec demo_heap = Some (g', h') \<and>
      agree (- reach_ServiceSpec h' g') h' h2 \<and> rd_ServiceSpec h2 demo_service_spec \<noteq> Some x))"
  using service_deepcopy_shares_selector [OF demo_heap_ok demo_service_read] demo_heap_ok demo_service_read
  by fastforce

end
