(* ===== verification/Pipe.thy ===== *)
theory Pipe
  imports TunnelServer TunnelClient "HOL-Library.Sublist"
begin

text \<open>
  What happens to a connection once its target is known: at both ends of a stream the program
  copies in both directions at once. \<open>handleTCP\<close> (\<open>internal/tunnel/server.go\<close>) copies between
  the TCP connection and the stream, \<open>handleStream\<close> (\<open>internal/tunnel/client.go\<close>) between
  the stream and the target; each starts two goroutines that run \<open>io.Copy\<close>, waits for the first
  of them to finish and then closes both sides.

  The goroutines are step relations, interleaved in any order: \<open>copy_step\<close> is one of them,
  \<open>pipe_step\<close> the two with the function that waits, \<open>tunnel_step\<close> the two ends joined by a
  stream that delivers in order.
\<close>

section \<open>One direction\<close>

text \<open>
  The state of \<open>io.Copy(dst, src)\<close>: the bytes that have arrived at \<open>src\<close> so far, those of them
  that are not yet read, whether the peer has closed its side, the buffer, the bytes written to
  \<open>dst\<close>, and what the copy returned, \<open>Some None\<close> being \<open>nil\<close>.
\<close>

record half =
  hf_sent :: string
  hf_rx :: string
  hf_fin :: bool
  hf_buf :: string
  hf_tx :: string
  hf_done :: "error option option"

definition new_half :: half where
  "new_half = \<lparr>hf_sent = [], hf_rx = [], hf_fin = False, hf_buf = [], hf_tx = [], hf_done = None\<rparr>"

text \<open>
  The steps of the goroutine; \<open>closed\<close> says that the connections have been closed at this end,
  after which reads and writes fail. A read yields at most the size of the buffer of \<open>io.Copy\<close>; a
  failing write may have written a part.
\<close>

inductive copy_step :: "bool \<Rightarrow> half \<Rightarrow> half \<Rightarrow> bool" where
  chunk: "hf_done h = None \<Longrightarrow> hf_buf h = [] \<Longrightarrow> hf_rx h = xs @ ys \<Longrightarrow> xs \<noteq> [] \<Longrightarrow> length xs \<le> 32768 \<Longrightarrow>
    copy_step False h (h\<lparr>hf_buf := xs, hf_rx := ys\<rparr>)"
| flush: "hf_done h = None \<Longrightarrow> hf_buf h \<noteq> [] \<Longrightarrow>
    copy_step False h (h\<lparr>hf_tx := hf_tx h @ hf_buf h, hf_buf := []\<rparr>)"
| eof: "hf_done h = None \<Longrightarrow> hf_buf h = [] \<Longrightarrow> hf_rx h = [] \<Longrightarrow> hf_fin h \<Longrightarrow>
    copy_step False h (h\<lparr>hf_done := Some None\<rparr>)"
| read_error: "hf_done h = None \<Longrightarrow> hf_buf h = [] \<Longrightarrow> copy_step closed h (h\<lparr>hf_done := Some (Some e)\<rparr>)"
| write_error: "hf_done h = None \<Longrightarrow> hf_buf h = xs @ ys \<Longrightarrow> ys \<noteq> [] \<Longrightarrow> closed \<longrightarrow> xs = [] \<Longrightarrow>
    copy_step closed h (h\<lparr>hf_tx := hf_tx h @ xs, hf_buf := ys, hf_done := Some (Some e)\<rparr>)"

text \<open>What the peer can do: send, unless it has closed, and close.\<close>

inductive peer_step :: "half \<Rightarrow> half \<Rightarrow> bool" where
  arrive: "\<not> hf_fin h \<Longrightarrow> peer_step h (h\<lparr>hf_sent := hf_sent h @ bs, hf_rx := hf_rx h @ bs\<rparr>)"
| fin: "peer_step h (h\<lparr>hf_fin := True\<rparr>)"

inductive_cases copy_stepE: "copy_step closed h h'"
inductive_cases peer_stepE: "peer_step h h'"

text \<open>Nothing is lost, repeated or reordered, and a copy that returns \<open>nil\<close> has written everything.\<close>

definition half_inv :: "half \<Rightarrow> bool" where
  "half_inv h \<longleftrightarrow> hf_sent h = hf_tx h @ hf_buf h @ hf_rx h \<and>
     (hf_done h = Some None \<longrightarrow> hf_buf h = [] \<and> hf_rx h = [] \<and> hf_fin h)"

lemma half_inv_new [simp]: "half_inv new_half"
  by (simp add: half_inv_def new_half_def)

lemma half_inv_copy: "copy_step closed h h' \<Longrightarrow> half_inv h \<Longrightarrow> half_inv h'"
  by (induction rule: copy_step.induct) (auto simp: half_inv_def)

lemma half_inv_peer: "peer_step h h' \<Longrightarrow> half_inv h \<Longrightarrow> half_inv h'"
  by (induction rule: peer_step.induct) (auto simp: half_inv_def)

lemma copy_sent: "copy_step closed h h' \<Longrightarrow> hf_sent h' = hf_sent h \<and> hf_fin h' = hf_fin h"
  by (induction rule: copy_step.induct) auto

lemma copy_tx_prefix: "copy_step closed h h' \<Longrightarrow> prefix (hf_tx h) (hf_tx h')"
  by (induction rule: copy_step.induct) auto

lemma copy_closed_tx: "copy_step True h h' \<Longrightarrow> hf_tx h' = hf_tx h"
  by (auto elim: copy_stepE)

lemma peer_tx: "peer_step h h' \<Longrightarrow> hf_tx h' = hf_tx h"
  by (auto elim: peer_stepE)

lemma half_inv_prefix: "half_inv h \<Longrightarrow> prefix (hf_tx h) (hf_sent h)"
  by (simp add: half_inv_def)

lemma half_inv_complete: "half_inv h \<Longrightarrow> hf_done h = Some None \<Longrightarrow> hf_tx h = hf_sent h"
  by (simp add: half_inv_def)

section \<open>Two directions\<close>

text \<open>
  The piping at one end. \<open>pp_out\<close> is the direction towards the target, \<open>pp_back\<close> the one towards
  the user. \<open>wait\<close> is the receive from \<open>errChan\<close>, which takes the result of whichever copy
  finished, with the return of the function and its deferred \<open>Close\<close> calls.
\<close>

record pipe =
  pp_out :: half
  pp_back :: half
  pp_closed :: bool

definition new_pipe :: pipe where
  "new_pipe = \<lparr>pp_out = new_half, pp_back = new_half, pp_closed = False\<rparr>"

inductive pipe_step :: "pipe \<Rightarrow> pipe \<Rightarrow> bool" where
  outward: "copy_step (pp_closed p) (pp_out p) h \<Longrightarrow> pipe_step p (p\<lparr>pp_out := h\<rparr>)"
| homeward: "copy_step (pp_closed p) (pp_back p) h \<Longrightarrow> pipe_step p (p\<lparr>pp_back := h\<rparr>)"
| wait: "hf_done (pp_out p) \<noteq> None \<or> hf_done (pp_back p) \<noteq> None \<Longrightarrow> pipe_step p (p\<lparr>pp_closed := True\<rparr>)"

inductive_cases pipe_stepE: "pipe_step p p'"

definition pipe_inv :: "pipe \<Rightarrow> bool" where
  "pipe_inv p \<longleftrightarrow> half_inv (pp_out p) \<and> half_inv (pp_back p) \<and>
     (pp_closed p \<longrightarrow> hf_done (pp_out p) \<noteq> None \<or> hf_done (pp_back p) \<noteq> None)"

lemma copy_keeps_done: "copy_step closed h h' \<Longrightarrow> hf_done h = None"
  by (auto elim: copy_stepE)

lemma pipe_inv_step: "pipe_step p p' \<Longrightarrow> pipe_inv p \<Longrightarrow> pipe_inv p'"
  by (induction rule: pipe_step.induct) (auto simp: pipe_inv_def dest: half_inv_copy copy_keeps_done)

lemma pipe_sent:
  "pipe_step p p' \<Longrightarrow> hf_sent (pp_out p') = hf_sent (pp_out p) \<and> hf_sent (pp_back p') = hf_sent (pp_back p)"
  by (induction rule: pipe_step.induct) (auto dest: copy_sent)

lemma pipe_tx:
  "pipe_step p p' \<Longrightarrow> prefix (hf_tx (pp_out p)) (hf_tx (pp_out p')) \<and> prefix (hf_tx (pp_back p)) (hf_tx (pp_back p'))"
  by (induction rule: pipe_step.induct) (auto dest: copy_tx_prefix)

lemma pipe_closed_tx:
  "pipe_step p p' \<Longrightarrow> pp_closed p \<Longrightarrow>
     pp_closed p' \<and> hf_tx (pp_out p') = hf_tx (pp_out p) \<and> hf_tx (pp_back p') = hf_tx (pp_back p)"
  by (induction rule: pipe_step.induct) (auto dest: copy_closed_tx)

section \<open>The two ends\<close>

text \<open>
  A connection through the tunnel: the pipe in the server, the pipe in the client, and between
  them a stream of the session, of which the code relies on delivery in order. \<open>forward\<close>
  delivers bytes the server wrote and the client has not yet got, and the end of the stream after
  the last of them once the server has closed; \<open>backward\<close> the same from the client to the
  server. The header with the target, which precedes the bytes of the connection, is read before
  the client's pipe starts.
\<close>

record tunnel =
  tn_srv :: pipe
  tn_cli :: pipe

definition new_tunnel :: tunnel where
  "new_tunnel = \<lparr>tn_srv = new_pipe, tn_cli = new_pipe\<rparr>"

inductive tunnel_step :: "tunnel \<Rightarrow> tunnel \<Rightarrow> bool" where
  server: "pipe_step (tn_srv t) p \<Longrightarrow> tunnel_step t (t\<lparr>tn_srv := p\<rparr>)"
| client: "pipe_step (tn_cli t) p \<Longrightarrow> tunnel_step t (t\<lparr>tn_cli := p\<rparr>)"
| user: "peer_step (pp_out (tn_srv t)) h \<Longrightarrow> tunnel_step t (t\<lparr>tn_srv := (tn_srv t)\<lparr>pp_out := h\<rparr>\<rparr>)"
| target: "peer_step (pp_back (tn_cli t)) h \<Longrightarrow> tunnel_step t (t\<lparr>tn_cli := (tn_cli t)\<lparr>pp_back := h\<rparr>\<rparr>)"
| forward: "hf_tx (pp_out (tn_srv t)) = hf_sent (pp_out (tn_cli t)) @ bs @ rest \<Longrightarrow> \<not> hf_fin (pp_out (tn_cli t)) \<Longrightarrow>
    h = (pp_out (tn_cli t))\<lparr>hf_sent := hf_sent (pp_out (tn_cli t)) @ bs, hf_rx := hf_rx (pp_out (tn_cli t)) @ bs\<rparr> \<Longrightarrow>
    tunnel_step t (t\<lparr>tn_cli := (tn_cli t)\<lparr>pp_out := h\<rparr>\<rparr>)"
| forward_end: "pp_closed (tn_srv t) \<Longrightarrow> hf_sent (pp_out (tn_cli t)) = hf_tx (pp_out (tn_srv t)) \<Longrightarrow>
    tunnel_step t (t\<lparr>tn_cli := (tn_cli t)\<lparr>pp_out := (pp_out (tn_cli t))\<lparr>hf_fin := True\<rparr>\<rparr>\<rparr>)"
| backward: "hf_tx (pp_back (tn_cli t)) = hf_sent (pp_back (tn_srv t)) @ bs @ rest \<Longrightarrow> \<not> hf_fin (pp_back (tn_srv t)) \<Longrightarrow>
    h = (pp_back (tn_srv t))\<lparr>hf_sent := hf_sent (pp_back (tn_srv t)) @ bs, hf_rx := hf_rx (pp_back (tn_srv t)) @ bs\<rparr> \<Longrightarrow>
    tunnel_step t (t\<lparr>tn_srv := (tn_srv t)\<lparr>pp_back := h\<rparr>\<rparr>)"
| backward_end: "pp_closed (tn_cli t) \<Longrightarrow> hf_sent (pp_back (tn_srv t)) = hf_tx (pp_back (tn_cli t)) \<Longrightarrow>
    tunnel_step t (t\<lparr>tn_srv := (tn_srv t)\<lparr>pp_back := (pp_back (tn_srv t))\<lparr>hf_fin := True\<rparr>\<rparr>\<rparr>)"

inductive tunnel_reach :: "tunnel \<Rightarrow> tunnel \<Rightarrow> bool" for t0 where
  start: "tunnel_reach t0 t0"
| step: "tunnel_reach t0 t \<Longrightarrow> tunnel_step t t' \<Longrightarrow> tunnel_reach t0 t'"

definition tunnel_inv :: "tunnel \<Rightarrow> bool" where
  "tunnel_inv t \<longleftrightarrow> pipe_inv (tn_srv t) \<and> pipe_inv (tn_cli t) \<and>
     prefix (hf_sent (pp_out (tn_cli t))) (hf_tx (pp_out (tn_srv t))) \<and>
     prefix (hf_sent (pp_back (tn_srv t))) (hf_tx (pp_back (tn_cli t))) \<and>
     (hf_fin (pp_back (tn_srv t)) \<longrightarrow> pp_closed (tn_cli t) \<and> hf_sent (pp_back (tn_srv t)) = hf_tx (pp_back (tn_cli t))) \<and>
     (hf_fin (pp_out (tn_cli t)) \<longrightarrow> pp_closed (tn_srv t) \<and> hf_sent (pp_out (tn_cli t)) = hf_tx (pp_out (tn_srv t)))"

lemma tunnel_inv_new: "tunnel_inv new_tunnel"
  by (simp add: tunnel_inv_def pipe_inv_def new_tunnel_def new_pipe_def) (simp add: new_half_def)

lemma pipe_fin: "pipe_step p p' \<Longrightarrow> hf_fin (pp_out p') = hf_fin (pp_out p) \<and> hf_fin (pp_back p') = hf_fin (pp_back p)"
  by (induction rule: pipe_step.induct) (auto dest: copy_sent)

lemma pipe_inv_out: "pipe_inv p \<Longrightarrow> half_inv h \<Longrightarrow> hf_done h = hf_done (pp_out p) \<Longrightarrow> pipe_inv (p\<lparr>pp_out := h\<rparr>)"
  by (auto simp: pipe_inv_def)

lemma pipe_inv_back: "pipe_inv p \<Longrightarrow> half_inv h \<Longrightarrow> hf_done h = hf_done (pp_back p) \<Longrightarrow> pipe_inv (p\<lparr>pp_back := h\<rparr>)"
  by (auto simp: pipe_inv_def)

lemma half_inv_arrive: "half_inv h \<Longrightarrow> \<not> hf_fin h \<Longrightarrow> half_inv (h\<lparr>hf_sent := hf_sent h @ bs, hf_rx := hf_rx h @ bs\<rparr>)"
  by (rule half_inv_peer [OF peer_step.arrive])

lemma half_inv_fin: "half_inv h \<Longrightarrow> half_inv (h\<lparr>hf_fin := True\<rparr>)"
  by (rule half_inv_peer [OF peer_step.fin])

lemma peer_done: "peer_step h h' \<Longrightarrow> hf_done h' = hf_done h"
  by (auto elim: peer_stepE)

lemma closed_out: "pipe_step p p' \<Longrightarrow> pp_closed p \<Longrightarrow> pp_closed p' \<and> hf_tx (pp_out p') = hf_tx (pp_out p)"
  and closed_back: "pipe_step p p' \<Longrightarrow> pp_closed p \<Longrightarrow> pp_closed p' \<and> hf_tx (pp_back p') = hf_tx (pp_back p)"
  by (auto dest: pipe_closed_tx)

lemma tunnel_inv_step:
  assumes "tunnel_step t t'" and "tunnel_inv t"
  shows "tunnel_inv t'"
  using assms
proof cases
  case (server p)
  note p = pipe_inv_step [OF server(2)] pipe_sent [OF server(2)] pipe_tx [OF server(2)] pipe_fin [OF server(2)]
    closed_out [OF server(2)]
  show ?thesis using assms(2) p by (auto simp: tunnel_inv_def server(1) intro: prefix_order.trans)
next
  case (client p)
  note p = pipe_inv_step [OF client(2)] pipe_sent [OF client(2)] pipe_tx [OF client(2)] pipe_fin [OF client(2)]
    closed_back [OF client(2)]
  show ?thesis using assms(2) p by (auto simp: tunnel_inv_def client(1) intro: prefix_order.trans)
next
  case (user h)
  show ?thesis using assms(2) user(2)
    by (auto simp: tunnel_inv_def user(1) peer_tx peer_done pipe_inv_def half_inv_peer)
next
  case (target h)
  show ?thesis using assms(2) target(2)
    by (auto simp: tunnel_inv_def target(1) peer_tx peer_done pipe_inv_def half_inv_peer)
next
  case (forward bs rest h)
  have "pipe_inv ((tn_cli t)\<lparr>pp_out := h\<rparr>)"
    using assms(2) forward(3,4) by (intro pipe_inv_out) (auto simp: tunnel_inv_def pipe_inv_def half_inv_arrive)
  then show ?thesis using assms(2) forward by (auto simp: tunnel_inv_def)
next
  case forward_end
  have "pipe_inv ((tn_cli t)\<lparr>pp_out := (pp_out (tn_cli t))\<lparr>hf_fin := True\<rparr>\<rparr>)"
    using assms(2) by (intro pipe_inv_out) (auto simp: tunnel_inv_def pipe_inv_def half_inv_fin)
  then show ?thesis using assms(2) forward_end by (auto simp: tunnel_inv_def)
next
  case (backward bs rest h)
  have "pipe_inv ((tn_srv t)\<lparr>pp_back := h\<rparr>)"
    using assms(2) backward(3,4) by (intro pipe_inv_back) (auto simp: tunnel_inv_def pipe_inv_def half_inv_arrive)
  then show ?thesis using assms(2) backward by (auto simp: tunnel_inv_def)
next
  case backward_end
  have "pipe_inv ((tn_srv t)\<lparr>pp_back := (pp_back (tn_srv t))\<lparr>hf_fin := True\<rparr>\<rparr>)"
    using assms(2) by (intro pipe_inv_back) (auto simp: tunnel_inv_def pipe_inv_def half_inv_fin)
  then show ?thesis using assms(2) backward_end by (auto simp: tunnel_inv_def)
qed

lemma tunnel_inv_reach: "tunnel_reach t0 t \<Longrightarrow> tunnel_inv t0 \<Longrightarrow> tunnel_inv t"
  by (induction rule: tunnel_reach.induct) (auto intro: tunnel_inv_step)

lemma tunnel_reach_trans: "tunnel_reach t1 t2 \<Longrightarrow> tunnel_reach t0 t1 \<Longrightarrow> tunnel_reach t0 t2"
  by (induction rule: tunnel_reach.induct) (auto intro: tunnel_reach.step)



text \<open>Runs of one end, and the run of a request that is sent and then closed.\<close>

lemma server_run: "pipe_step\<^sup>*\<^sup>* p p' \<Longrightarrow> tunnel_reach t0 (t\<lparr>tn_srv := p\<rparr>) \<Longrightarrow> tunnel_reach t0 (t\<lparr>tn_srv := p'\<rparr>)"
proof (induction rule: rtranclp_induct)
  case (step y z)
  from tunnel_reach.step [OF step.IH [OF step.prems] tunnel_step.server [of "t\<lparr>tn_srv := y\<rparr>" z]] step.hyps(2)
  show ?case by simp
qed

lemma client_run: "pipe_step\<^sup>*\<^sup>* p p' \<Longrightarrow> tunnel_reach t0 (t\<lparr>tn_cli := p\<rparr>) \<Longrightarrow> tunnel_reach t0 (t\<lparr>tn_cli := p'\<rparr>)"
proof (induction rule: rtranclp_induct)
  case (step y z)
  from tunnel_reach.step [OF step.IH [OF step.prems] tunnel_step.client [of "t\<lparr>tn_cli := y\<rparr>" z]] step.hyps(2)
  show ?case by simp
qed

text \<open>A copy that is left to run writes everything that has arrived, byte by byte say.\<close>

lemma pump_arrived:
  "hf_done h = None \<Longrightarrow> hf_buf h = [] \<Longrightarrow> (copy_step False)\<^sup>*\<^sup>* h (h\<lparr>hf_rx := [], hf_tx := hf_tx h @ hf_rx h\<rparr>)"
proof (induction "hf_rx h" arbitrary: h)
  case Nil
  then have "h\<lparr>hf_rx := [], hf_tx := hf_tx h @ hf_rx h\<rparr> = h" by (cases h) simp
  then show ?case by simp
next
  case (Cons x xs)
  let ?h1 = "h\<lparr>hf_buf := [x], hf_rx := xs\<rparr>"
  let ?h2 = "h\<lparr>hf_rx := xs, hf_tx := hf_tx h @ [x]\<rparr>"
  have "copy_step False h ?h1" using Cons.prems by (intro copy_step.chunk) (simp_all flip: Cons.hyps(2))
  moreover have "copy_step False ?h1 ?h2" using copy_step.flush [of ?h1] Cons.prems by (cases h) simp
  moreover have "(copy_step False)\<^sup>*\<^sup>* ?h2 (h\<lparr>hf_rx := [], hf_tx := hf_tx h @ hf_rx h\<rparr>)"
    using Cons.hyps(1) [of ?h2] Cons.prems by (simp flip: Cons.hyps(2))
  ultimately show ?case by (meson converse_rtranclp_into_rtranclp)
qed

lemma pump:
  assumes "hf_done h = None"
  shows "(copy_step False)\<^sup>*\<^sup>* h (h\<lparr>hf_rx := [], hf_buf := [], hf_tx := hf_tx h @ hf_buf h @ hf_rx h\<rparr>)"
proof (cases "hf_buf h = []")
  case True
  then have "h\<lparr>hf_rx := [], hf_buf := [], hf_tx := hf_tx h @ hf_buf h @ hf_rx h\<rparr> = h\<lparr>hf_rx := [], hf_tx := hf_tx h @ hf_rx h\<rparr>"
    by (cases h) simp
  then show ?thesis using pump_arrived [OF assms True] by simp
next
  case False
  let ?h = "h\<lparr>hf_tx := hf_tx h @ hf_buf h, hf_buf := []\<rparr>"
  have "copy_step False h ?h" using assms False by (rule copy_step.flush)
  moreover have "(copy_step False)\<^sup>*\<^sup>* ?h (h\<lparr>hf_rx := [], hf_buf := [], hf_tx := hf_tx h @ hf_buf h @ hf_rx h\<rparr>)"
    using pump_arrived [of ?h] assms by (cases h) simp
  ultimately show ?thesis by (rule converse_rtranclp_into_rtranclp)
qed

lemma outward_run: "(copy_step (pp_closed p))\<^sup>*\<^sup>* (pp_out p) h \<Longrightarrow> pipe_step\<^sup>*\<^sup>* p (p\<lparr>pp_out := h\<rparr>)"
proof (induction rule: rtranclp_induct)
  case (step y z)
  then have "pipe_step (p\<lparr>pp_out := y\<rparr>) (p\<lparr>pp_out := z\<rparr>)" using pipe_step.outward [of "p\<lparr>pp_out := y\<rparr>" z] by simp
  with step.IH show ?case by simp
qed simp

lemma homeward_run: "(copy_step (pp_closed p))\<^sup>*\<^sup>* (pp_back p) h \<Longrightarrow> pipe_step\<^sup>*\<^sup>* p (p\<lparr>pp_back := h\<rparr>)"
proof (induction rule: rtranclp_induct)
  case (step y z)
  then have "pipe_step (p\<lparr>pp_back := y\<rparr>) (p\<lparr>pp_back := z\<rparr>)" using pipe_step.homeward [of "p\<lparr>pp_back := y\<rparr>" z] by simp
  with step.IH show ?case by simp
qed simp






text \<open>What has been sent in one direction can be brought to the other side.\<close>

definition flowing :: "tunnel \<Rightarrow> bool" where
  "flowing t \<longleftrightarrow> \<not> pp_closed (tn_srv t) \<and> \<not> pp_closed (tn_cli t) \<and>
     hf_done (pp_out (tn_srv t)) = None \<and> hf_done (pp_back (tn_srv t)) = None \<and>
     hf_done (pp_out (tn_cli t)) = None \<and> hf_done (pp_back (tn_cli t)) = None"

lemma flush_out:
  assumes inv: "tunnel_inv t" and fl: "flowing t"
  shows "\<exists>t'. tunnel_reach t t' \<and> flowing t' \<and> pp_back (tn_srv t') = pp_back (tn_srv t) \<and> pp_back (tn_cli t') = pp_back (tn_cli t) \<and>
    hf_tx (pp_out (tn_cli t')) = hf_sent (pp_out (tn_srv t)) \<and> hf_sent (pp_out (tn_srv t')) = hf_sent (pp_out (tn_srv t))"
proof -
  let ?so = "pp_out (tn_srv t)" and ?co = "pp_out (tn_cli t)"
  define so where "so = ?so\<lparr>hf_rx := [], hf_buf := [], hf_tx := hf_sent ?so\<rparr>"
  have i: "hf_sent ?so = hf_tx ?so @ hf_buf ?so @ hf_rx ?so" "hf_sent ?co = hf_tx ?co @ hf_buf ?co @ hf_rx ?co"
    "prefix (hf_sent ?co) (hf_tx ?so)" "\<not> hf_fin ?co"
    using inv fl by (auto simp: tunnel_inv_def pipe_inv_def half_inv_def flowing_def)
  obtain bs where bs: "hf_sent ?so = hf_sent ?co @ bs" using i(1,3) by (auto simp: prefix_def)
  define c1 where "c1 = ?co\<lparr>hf_sent := hf_sent ?co @ bs, hf_rx := hf_rx ?co @ bs\<rparr>"
  define c2 where "c2 = c1\<lparr>hf_rx := [], hf_buf := [], hf_tx := hf_sent ?so\<rparr>"
  have "(copy_step False)\<^sup>*\<^sup>* ?so so" using pump [of ?so] fl by (simp add: so_def i(1) flowing_def)
  then have "tunnel_reach t (t\<lparr>tn_srv := (tn_srv t)\<lparr>pp_out := so\<rparr>\<rparr>)"
    using server_run [OF outward_run, of "tn_srv t" so t t] fl by (simp add: flowing_def tunnel_reach.start)
  then have "tunnel_reach t (t\<lparr>tn_srv := (tn_srv t)\<lparr>pp_out := so\<rparr>, tn_cli := (tn_cli t)\<lparr>pp_out := c1\<rparr>\<rparr>)"
    by (rule tunnel_reach.step)
      (use tunnel_step.forward [of "t\<lparr>tn_srv := (tn_srv t)\<lparr>pp_out := so\<rparr>\<rparr>" bs "[]" c1] i(4) bs in \<open>simp add: so_def c1_def\<close>)
  moreover have "(copy_step False)\<^sup>*\<^sup>* c1 c2"
    using pump [of c1] fl by (simp add: c1_def c2_def flowing_def bs i(2))
  then have "pipe_step\<^sup>*\<^sup>* ((tn_cli t)\<lparr>pp_out := c1\<rparr>) ((tn_cli t)\<lparr>pp_out := c2\<rparr>)"
    using outward_run [of "(tn_cli t)\<lparr>pp_out := c1\<rparr>" c2] fl by (simp add: flowing_def)
  ultimately have "tunnel_reach t (t\<lparr>tn_srv := (tn_srv t)\<lparr>pp_out := so\<rparr>, tn_cli := (tn_cli t)\<lparr>pp_out := c2\<rparr>\<rparr>)"
    using client_run [of _ _ t "t\<lparr>tn_srv := (tn_srv t)\<lparr>pp_out := so\<rparr>\<rparr>"] by simp
  then show ?thesis
    using fl by (intro exI [of _ "t\<lparr>tn_srv := (tn_srv t)\<lparr>pp_out := so\<rparr>, tn_cli := (tn_cli t)\<lparr>pp_out := c2\<rparr>\<rparr>"])
      (simp add: flowing_def so_def c2_def c1_def)
qed

lemma flush_back:
  assumes inv: "tunnel_inv t" and fl: "flowing t"
  shows "\<exists>t'. tunnel_reach t t' \<and> flowing t' \<and> pp_out (tn_srv t') = pp_out (tn_srv t) \<and> pp_out (tn_cli t') = pp_out (tn_cli t) \<and>
    hf_tx (pp_back (tn_srv t')) = hf_sent (pp_back (tn_cli t)) \<and> hf_sent (pp_back (tn_cli t')) = hf_sent (pp_back (tn_cli t))"
proof -
  let ?cb = "pp_back (tn_cli t)" and ?sb = "pp_back (tn_srv t)"
  define cb where "cb = ?cb\<lparr>hf_rx := [], hf_buf := [], hf_tx := hf_sent ?cb\<rparr>"
  have i: "hf_sent ?cb = hf_tx ?cb @ hf_buf ?cb @ hf_rx ?cb" "hf_sent ?sb = hf_tx ?sb @ hf_buf ?sb @ hf_rx ?sb"
    "prefix (hf_sent ?sb) (hf_tx ?cb)" "\<not> hf_fin ?sb"
    using inv fl by (auto simp: tunnel_inv_def pipe_inv_def half_inv_def flowing_def)
  obtain bs where bs: "hf_sent ?cb = hf_sent ?sb @ bs" using i(1,3) by (auto simp: prefix_def)
  define s1 where "s1 = ?sb\<lparr>hf_sent := hf_sent ?sb @ bs, hf_rx := hf_rx ?sb @ bs\<rparr>"
  define s2 where "s2 = s1\<lparr>hf_rx := [], hf_buf := [], hf_tx := hf_sent ?cb\<rparr>"
  have "(copy_step False)\<^sup>*\<^sup>* ?cb cb" using pump [of ?cb] fl by (simp add: cb_def i(1) flowing_def)
  then have "tunnel_reach t (t\<lparr>tn_cli := (tn_cli t)\<lparr>pp_back := cb\<rparr>\<rparr>)"
    using client_run [OF homeward_run, of "tn_cli t" cb t t] fl by (simp add: flowing_def tunnel_reach.start)
  then have "tunnel_reach t (t\<lparr>tn_cli := (tn_cli t)\<lparr>pp_back := cb\<rparr>, tn_srv := (tn_srv t)\<lparr>pp_back := s1\<rparr>\<rparr>)"
    by (rule tunnel_reach.step)
      (use tunnel_step.backward [of "t\<lparr>tn_cli := (tn_cli t)\<lparr>pp_back := cb\<rparr>\<rparr>" bs "[]" s1] i(4) bs in \<open>simp add: cb_def s1_def\<close>)
  moreover have "(copy_step False)\<^sup>*\<^sup>* s1 s2"
    using pump [of s1] fl by (simp add: s1_def s2_def flowing_def bs i(2))
  then have "pipe_step\<^sup>*\<^sup>* ((tn_srv t)\<lparr>pp_back := s1\<rparr>) ((tn_srv t)\<lparr>pp_back := s2\<rparr>)"
    using homeward_run [of "(tn_srv t)\<lparr>pp_back := s1\<rparr>" s2] fl by (simp add: flowing_def)
  ultimately have "tunnel_reach t (t\<lparr>tn_cli := (tn_cli t)\<lparr>pp_back := cb\<rparr>, tn_srv := (tn_srv t)\<lparr>pp_back := s2\<rparr>\<rparr>)"
    using server_run [of _ _ t "t\<lparr>tn_cli := (tn_cli t)\<lparr>pp_back := cb\<rparr>\<rparr>"] by simp
  then show ?thesis
    using fl by (intro exI [of _ "t\<lparr>tn_cli := (tn_cli t)\<lparr>pp_back := cb\<rparr>, tn_srv := (tn_srv t)\<lparr>pp_back := s2\<rparr>\<rparr>"])
      (simp add: flowing_def cb_def s2_def s1_def)
qed

section \<open>Properties\<close>

text \<open>
  C12: a tunnelled connection carries bytes faithfully in both directions, however the goroutines
  at its two ends interleave and whatever fails. At every moment the target has received a prefix
  of what the user sent and the user a prefix of what the target sent. An end closes its
  connections only after one of its two copies has ended. As long as no copy has ended and nothing
  is closed, neither direction waits for the other: there is a way on in which everything the user
  has sent has reached the target and everything the target has sent has reached the user.
\<close>

theorem tunnel_carries_both_ways:
  assumes "tunnel_reach new_tunnel t"
  shows "prefix (hf_tx (pp_out (tn_cli t))) (hf_sent (pp_out (tn_srv t))) \<and>
    prefix (hf_tx (pp_back (tn_srv t))) (hf_sent (pp_back (tn_cli t))) \<and>
    (\<forall>p \<in> {tn_srv t, tn_cli t}. pp_closed p \<longrightarrow> hf_done (pp_out p) \<noteq> None \<or> hf_done (pp_back p) \<noteq> None) \<and>
    (flowing t \<longrightarrow> (\<exists>t'. tunnel_reach t t' \<and> flowing t' \<and>
      hf_sent (pp_out (tn_srv t')) = hf_sent (pp_out (tn_srv t)) \<and> hf_tx (pp_out (tn_cli t')) = hf_sent (pp_out (tn_srv t)) \<and>
      hf_sent (pp_back (tn_cli t')) = hf_sent (pp_back (tn_cli t)) \<and> hf_tx (pp_back (tn_srv t')) = hf_sent (pp_back (tn_cli t))))"
proof -
  have inv: "tunnel_inv t" using assms tunnel_inv_new by (rule tunnel_inv_reach)
  then have h: "half_inv (pp_out (tn_srv t))" "half_inv (pp_back (tn_srv t))" "half_inv (pp_out (tn_cli t))"
      "half_inv (pp_back (tn_cli t))" and
    p: "prefix (hf_sent (pp_out (tn_cli t))) (hf_tx (pp_out (tn_srv t)))"
      "prefix (hf_sent (pp_back (tn_srv t))) (hf_tx (pp_back (tn_cli t)))" and
    c: "\<forall>p \<in> {tn_srv t, tn_cli t}. pp_closed p \<longrightarrow> hf_done (pp_out p) \<noteq> None \<or> hf_done (pp_back p) \<noteq> None"
    by (simp_all add: tunnel_inv_def pipe_inv_def)
  have "\<exists>t'. tunnel_reach t t' \<and> flowing t' \<and>
      hf_sent (pp_out (tn_srv t')) = hf_sent (pp_out (tn_srv t)) \<and> hf_tx (pp_out (tn_cli t')) = hf_sent (pp_out (tn_srv t)) \<and>
      hf_sent (pp_back (tn_cli t')) = hf_sent (pp_back (tn_cli t)) \<and> hf_tx (pp_back (tn_srv t')) = hf_sent (pp_back (tn_cli t))"
    if fl: "flowing t"
  proof -
    obtain t1 where t1: "tunnel_reach t t1" "flowing t1" "pp_back (tn_cli t1) = pp_back (tn_cli t)"
      "hf_tx (pp_out (tn_cli t1)) = hf_sent (pp_out (tn_srv t))" "hf_sent (pp_out (tn_srv t1)) = hf_sent (pp_out (tn_srv t))"
      using flush_out [OF inv fl] by blast
    obtain t2 where t2: "tunnel_reach t1 t2" "flowing t2" "pp_out (tn_srv t2) = pp_out (tn_srv t1)"
      "pp_out (tn_cli t2) = pp_out (tn_cli t1)" "hf_tx (pp_back (tn_srv t2)) = hf_sent (pp_back (tn_cli t1))"
      "hf_sent (pp_back (tn_cli t2)) = hf_sent (pp_back (tn_cli t1))"
      using flush_back [OF tunnel_inv_reach [OF t1(1) inv] t1(2)] by blast
    show ?thesis
      using tunnel_reach_trans [OF t2(1) t1(1)] t1 t2 by (intro exI [of _ t2]) simp
  qed
  then show ?thesis
    using half_inv_prefix [OF h(1)] half_inv_prefix [OF h(3)] half_inv_prefix [OF h(2)] half_inv_prefix [OF h(4)] p c
    by (blast intro: prefix_order.trans)
qed

theorem tunnel_carries_both_ways_witness:
  "\<exists>t t'. tunnel_reach new_tunnel t \<and> hf_sent (pp_out (tn_srv t)) = ''GET /'' \<and>
     tunnel_reach t t' \<and> hf_tx (pp_out (tn_cli t')) = ''GET /''"
proof -
  let ?t = "new_tunnel\<lparr>tn_srv := new_pipe\<lparr>pp_out := new_half\<lparr>hf_sent := ''GET /'', hf_rx := ''GET /''\<rparr>\<rparr>\<rparr>"
  have reach: "tunnel_reach new_tunnel ?t"
    using tunnel_reach.step [OF tunnel_reach.start tunnel_step.user [OF peer_step.arrive], of new_tunnel "''GET /''"]
    by (simp add: new_tunnel_def new_pipe_def new_half_def)
  have "flowing ?t" "hf_sent (pp_out (tn_srv ?t)) = ''GET /''" by (simp_all add: flowing_def new_tunnel_def new_pipe_def new_half_def)
  with tunnel_carries_both_ways [OF reach] reach show ?thesis by metis
qed



end
