(* ===== verification/Wiring.thy ===== *)
theory Wiring
  imports Manager ServiceCtl
begin

text \<open>
  How the program is put together: the registration of the API types (\<open>groupversion_info.go\<close> and
  the \<open>init\<close> functions of the type files), the objects each controller watches
  (\<open>SetupWithManager\<close>), which controllers hear of a change to a container, and the start of the
  manager with these parts.
\<close>

section \<open>The scheme\<close>

record GroupVersionKind =
  gvk_Group :: string
  gvk_Version :: string
  gvk_Kind :: string

definition GroupVersion :: "string \<times> string" where
  "GroupVersion = (''kdop.io.vn'', ''v1alpha1'')"

definition container_init :: "string list" where
  "container_init = [''DockerContainer'', ''DockerContainerList'']"

definition deployment_init :: "string list" where
  "deployment_init = [''DockerDeployment'', ''DockerDeploymentList'']"

definition host_init :: "string list" where
  "host_init = [''DockerHost'', ''DockerHostList'']"

definition job_init :: "string list" where
  "job_init = [''DockerJob'', ''DockerJobList'']"

definition service_init :: "string list" where
  "service_init = [''DockerService'', ''DockerServiceList'']"

text \<open>The builder after the \<open>init\<close> functions have run, and what it adds to a scheme.\<close>

definition SchemeBuilder :: "string list" where
  "SchemeBuilder = container_init @ deployment_init @ host_init @ job_init @ service_init"

definition AddToScheme :: "GroupVersionKind list \<Rightarrow> GroupVersionKind list" where
  "AddToScheme scheme = scheme @
     map (\<lambda>k. \<lparr>gvk_Group = fst GroupVersion, gvk_Version = snd GroupVersion, gvk_Kind = k\<rparr>) SchemeBuilder"

text \<open>The scheme of the program; \<open>clientgo\<close> are the types of Kubernetes itself.\<close>

definition main_init :: "GroupVersionKind list \<Rightarrow> GroupVersionKind list" where
  "main_init clientgo = AddToScheme clientgo"

section \<open>The controllers\<close>

record builder =
  b_For :: string
  b_Owns :: "string list"
  b_Watches :: "string list"

definition dc_SetupWithManager :: builder where
  "dc_SetupWithManager = \<lparr>b_For = ''DockerContainer'', b_Owns = [], b_Watches = []\<rparr>"

definition dh_SetupWithManager :: builder where
  "dh_SetupWithManager = \<lparr>b_For = ''DockerHost'', b_Owns = [], b_Watches = []\<rparr>"

definition ds_SetupWithManager :: builder where
  "ds_SetupWithManager = \<lparr>b_For = ''DockerService'', b_Owns = [], b_Watches = [''DockerContainer'']\<rparr>"

definition dj_SetupWithManager :: builder where
  "dj_SetupWithManager = \<lparr>b_For = ''DockerJob'', b_Owns = [], b_Watches = []\<rparr>"

definition dd_SetupWithManager :: builder where
  "dd_SetupWithManager = \<lparr>b_For = ''DockerDeployment'', b_Owns = [''DockerContainer''], b_Watches = []\<rparr>"

text \<open>
  The steps of the start with the controllers as they are. \<open>complete\<close> is how the builder's \<open>Complete\<close>
  returns for a scheme and a builder and \<open>lib\<close> how the other steps return; both belong to the library.
\<close>

fun program_step :: "GroupVersionKind list \<Rightarrow> (GroupVersionKind list \<Rightarrow> builder \<Rightarrow> error option) \<Rightarrow>
    (manager_options \<Rightarrow> setup_step \<Rightarrow> error option) \<Rightarrow> manager_options \<Rightarrow> setup_step \<Rightarrow> error option" where
  "program_step scheme complete lib opts (Setup name) =
     complete scheme
       (if name = ''DockerContainer'' then dc_SetupWithManager
        else if name = ''DockerHost'' then dh_SetupWithManager
        else if name = ''DockerService'' then ds_SetupWithManager
        else if name = ''DockerJob'' then dj_SetupWithManager
        else dd_SetupWithManager)"
| "program_step scheme complete lib opts x = lib opts x"

section \<open>Events of containers\<close>

text \<open>
  The requests a controller gets when a container is created, changed or deleted: for the object
  itself, for its controller of the kind the controller is for (\<open>owner\<close>, the library's handler of
  owned objects), and what the service controller's mapping returns.
\<close>

definition container_requests :: "'w svc_api \<Rightarrow> (string \<Rightarrow> ObjectMeta \<Rightarrow> ObjectKey list) \<Rightarrow> builder \<Rightarrow>
    DockerContainer \<Rightarrow> ('w, ObjectKey list) io" where
  "container_requests api owner b c = do {
     mapped \<leftarrow> (if ''DockerContainer'' \<in> set (b_Watches b) then findDockerServicesForContainer api c else ret []);
     ret ((if b_For b = ''DockerContainer''
           then [\<lparr>key_Namespace = om_Namespace (dc_Meta c), key_Name = om_Name (dc_Meta c)\<rparr>] else []) @
          (if ''DockerContainer'' \<in> set (b_Owns b) then owner (b_For b) (dc_Meta c) else []) @ mapped) }"

lemmas setup_defs = dc_SetupWithManager_def dh_SetupWithManager_def ds_SetupWithManager_def
  dj_SetupWithManager_def dd_SetupWithManager_def

lemmas init_defs = container_init_def deployment_init_def host_init_def job_init_def service_init_def

section \<open>Lemmas\<close>

text \<open>The steps with their outcomes; that of the logs server does not count.\<close>

lemma run_steps_plan:
  assumes "plan = map (\<lambda>x. (x, if x = StartLogs then None else step x)) xs"
  shows "(list_all (\<lambda>x. snd x = None) plan \<and> run_steps step xs = (map fst plan, 0)) \<or>
    (\<exists>k < length plan. list_all (\<lambda>x. snd x = None) (take k plan) \<and> snd (plan ! k) \<noteq> None \<and>
      run_steps step xs = (map fst (take (Suc k) plan), 1))"
  using assms
proof (induction xs arbitrary: plan)
  case (Cons a xs)
  let ?rest = "map (\<lambda>x. (x, if x = StartLogs then None else step x)) xs"
  show ?case
  proof (cases "a \<noteq> StartLogs \<and> step a \<noteq> None")
    case True
    then show ?thesis using Cons.prems by (intro disjI2 exI [of _ 0]) simp
  next
    case False
    from Cons.IH [OF refl] show ?thesis
    proof (elim disjE exE conjE, goal_cases)
      case 1
      with False Cons.prems show ?case by (intro disjI1) auto
    next
      case (2 k)
      with False Cons.prems show ?case by (intro disjI2 exI [of _ "Suc k"]) auto
    qed
  qed
qed simp

text \<open>The arguments that set addresses, and the value that the last one gives to a flag.\<close>

definition address_args :: "(string \<times> string) list \<Rightarrow> string list" where
  "address_args settings = map (\<lambda>(n, v). ''--'' @ n @ ''='' @ v) settings"

definition setting :: "(string \<times> string) list \<Rightarrow> string \<Rightarrow> string \<Rightarrow> string" where
  "setting settings n preset = (case map_of (rev settings) n of None \<Rightarrow> preset | Some v \<Rightarrow> v)"

definition address_flags :: "string list" where
  "address_flags = [''metrics-bind-address'', ''health-probe-bind-address'', ''logs-bind-address'']"

definition own_flag_set :: "(string \<times> string) list \<Rightarrow> bool" where
  "own_flag_set flags \<longleftrightarrow> (\<forall>n \<in> set (''leader-elect'' # address_flags). map_of flags n \<noteq> None)"

lemma own_flag_set_upd: "own_flag_set flags \<Longrightarrow> own_flag_set (set_flag n v flags)"
  by (simp add: own_flag_set_def map_of_set_flag)

lemma parse_settings:
  assumes "fst ` set settings \<subseteq> set address_flags" and "\<forall>n \<in> set address_flags. kind n = StringFlag" and "own_flag_set flags"
  shows "\<exists>flags'. flag_Parse_kinds kind flags (address_args settings @ args) = flag_Parse_kinds kind flags' args \<and>
    own_flag_set flags' \<and> (\<forall>k. flag_val flags' k = setting settings k (flag_val flags k))"
  using assms(1,3)
proof (induction settings arbitrary: flags)
  case Nil
  then show ?case by (auto simp: address_args_def setting_def)
next
  case (Cons x settings)
  obtain n v where x: "x = (n, v)" by fastforce
  with Cons.prems have n: "n \<in> set address_flags" "map_of flags n \<noteq> None" by (auto simp: own_flag_set_def)
  have name: "flag_name n" using n(1) by (auto simp: address_flags_def flag_name_def)
  have kind: "kind n = StringFlag" using assms(2) n(1) by blast
  from Cons.IH [of "set_flag n v flags"] Cons.prems obtain flags' where f:
    "flag_Parse_kinds kind (set_flag n v flags) (address_args settings @ args) = flag_Parse_kinds kind flags' args"
    "own_flag_set flags'" "\<forall>k. flag_val flags' k = setting settings k (flag_val (set_flag n v flags) k)"
    using own_flag_set_upd by auto
  have "setting settings k (flag_val (set_flag n v flags) k) = setting (x # settings) k (flag_val flags k)" for k
    by (auto simp: setting_def x flag_val_set_flag [OF n(2)] map_add_def split: option.splits)
  with f show ?case
    using flag_Parse_long [where kind = kind, OF name n(2) kind, of v "address_args settings @ args"] by (auto simp: address_args_def x)
qed

lemma manager_args:
  assumes "fst ` set settings \<subseteq> set address_flags" and "fst ` set extra \<inter> set (''leader-elect'' # address_flags) = {}"
    and "args = address_args settings @ (if elect then [''--leader-elect''] else [])"
  shows "main extra run step args = run_steps (step
     \<lparr>mo_MetricsBindAddress = setting settings ''metrics-bind-address'' '':8080'',
      mo_HealthProbeBindAddress = setting settings ''health-probe-bind-address'' '':8081'', mo_LeaderElection = elect,
      mo_LeaderElectionID = ''94c73569.kdop.io.vn'', mo_logsAddr = setting settings ''logs-bind-address'' '':8082''\<rparr>) setup_steps"
proof -
  let ?kind = "manager_flag_kind extra" and ?flags = "manager_flags extra"
  have none: "map_of (map (\<lambda>(n, v, k). (n, k)) extra) n = None" if "n \<in> set address_flags" for n
    using assms(2) that by (force simp: map_of_eq_None_iff)
  have kinds: "\<forall>n \<in> set address_flags. ?kind n = StringFlag"
    using none by (auto simp: manager_flag_kind_def) (auto simp: address_flags_def)
  have own: "own_flag_set ?flags" by (simp add: own_flag_set_def address_flags_def manager_flags_def)
  from parse_settings [OF assms(1) kinds own] obtain flags where
    p: "flag_Parse_kinds ?kind ?flags args = flag_Parse_kinds ?kind flags (if elect then [''--leader-elect''] else [])"
    "own_flag_set flags" "\<And>k. flag_val flags k = setting settings k (flag_val ?flags k)" using assms(3) by metis
  have le: "map_of flags ''leader-elect'' \<noteq> None" using p(2) by (simp add: own_flag_set_def)
  have "''leader-elect'' \<notin> fst ` set settings" using assms(1) by (auto simp: address_flags_def)
  then have "map_of (rev settings) ''leader-elect'' = None" by (simp add: map_of_eq_None_iff)
  then have "setting settings ''leader-elect'' ''false'' = ''false''" by (simp add: setting_def)
  moreover have "flag_val ?flags n = (if n = ''metrics-bind-address'' then '':8080'' else if n = ''health-probe-bind-address'' then '':8081''
      else if n = ''logs-bind-address'' then '':8082'' else ''false'')" if "n \<in> set (''leader-elect'' # address_flags)" for n
    using that by (auto simp: flag_val_def manager_flags_def address_flags_def)
  moreover have "main_tunnel args = None"
    using assms(3) by (auto simp: main_tunnel_def address_args_def split: list.splits if_splits)
  moreover have "flag_Parse_kinds ?kind flags (if elect then [''--leader-elect''] else []) =
      Inr (if elect then set_flag ''leader-elect'' ''true'' flags else flags, [])"
    using flag_Parse_switch [of "''leader-elect''" flags ?kind "[]"] le by (simp add: flag_name_def manager_flag_kind_def)
  ultimately show ?thesis
    by (simp add: main_def main_manager_def manager_options_of_def p(1,3) flag_val_set_flag [OF le] address_flags_def)
qed

section \<open>Properties\<close>

text \<open>
  C32: the start of the manager. For any values of the address flags, in any order, and with or
  without leader election, whatever types Kubernetes has and whatever other flags its libraries add:
  the manager gets the addresses that were given, or the defaults, and elects a leader just when asked
  to. Then the five controllers are set up in this order, each for its kind, the service controller
  watching containers and the deployment controller owning them, and every one of these kinds is
  registered in the scheme under the program's group and version; the health checks, the logs server
  and the manager follow. The program exits with the code 1 right after the first step that fails, the
  logs server apart, and with 0 after the last one.
\<close>

theorem manager_start_up:
  assumes "fst ` set settings \<subseteq> {''metrics-bind-address'', ''health-probe-bind-address'', ''logs-bind-address''}"
    and "fst ` set extra \<inter> {''leader-elect'', ''metrics-bind-address'', ''health-probe-bind-address'', ''logs-bind-address''} = {}"
    and "opts = \<lparr>mo_MetricsBindAddress = setting settings ''metrics-bind-address'' '':8080'',
      mo_HealthProbeBindAddress = setting settings ''health-probe-bind-address'' '':8081'', mo_LeaderElection = elect,
      mo_LeaderElectionID = ''94c73569.kdop.io.vn'', mo_logsAddr = setting settings ''logs-bind-address'' '':8082''\<rparr>"
    and "controllers = [\<lparr>b_For = ''DockerContainer'', b_Owns = [], b_Watches = []\<rparr>,
      \<lparr>b_For = ''DockerHost'', b_Owns = [], b_Watches = []\<rparr>,
      \<lparr>b_For = ''DockerService'', b_Owns = [], b_Watches = [''DockerContainer'']\<rparr>,
      \<lparr>b_For = ''DockerJob'', b_Owns = [], b_Watches = []\<rparr>,
      \<lparr>b_For = ''DockerDeployment'', b_Owns = [''DockerContainer''], b_Watches = []\<rparr>]"
    and "plan = (NewManager, lib opts NewManager) # map (\<lambda>b. (Setup (b_For b), complete (main_init clientgo) b)) controllers @
      [(AddHealthzCheck, lib opts AddHealthzCheck), (AddReadyzCheck, lib opts AddReadyzCheck), (StartLogs, None),
       (StartManager, lib opts StartManager)]"
  shows "(let outcome = main extra run (program_step (main_init clientgo) complete lib)
        (address_args settings @ (if elect then [''--leader-elect''] else []))
     in (list_all (\<lambda>x. snd x = None) plan \<and> outcome = (map fst plan, 0)) \<or>
        (\<exists>k < length plan. list_all (\<lambda>x. snd x = None) (take k plan) \<and> snd (plan ! k) \<noteq> None \<and>
          outcome = (map fst (take (Suc k) plan), 1))) \<and>
    (\<forall>b \<in> set controllers. \<forall>kind \<in> set (b_For b # b_Owns b @ b_Watches b).
      \<lparr>gvk_Group = ''kdop.io.vn'', gvk_Version = ''v1alpha1'', gvk_Kind = kind\<rparr> \<in> set (main_init clientgo))"
proof -
  let ?step = "program_step (main_init clientgo) complete lib opts"
  have main: "main extra run (program_step (main_init clientgo) complete lib)
      (address_args settings @ (if elect then [''--leader-elect''] else [])) = run_steps ?step setup_steps"
    unfolding assms(3) by (rule manager_args [OF _ _ refl]) (use assms(1,2) in \<open>auto simp: address_flags_def\<close>)
  have plan: "plan = map (\<lambda>x. (x, if x = StartLogs then None else ?step x)) setup_steps"
    unfolding assms(4,5) by (simp add: setup_steps_def setup_defs)
  have "\<forall>b \<in> set controllers. \<forall>kind \<in> set (b_For b # b_Owns b @ b_Watches b).
      \<lparr>gvk_Group = ''kdop.io.vn'', gvk_Version = ''v1alpha1'', gvk_Kind = kind\<rparr> \<in> set (main_init clientgo)"
    unfolding assms(4) by (simp add: main_init_def AddToScheme_def SchemeBuilder_def init_defs GroupVersion_def)
  moreover have "(list_all (\<lambda>x. snd x = None) plan \<and> run_steps ?step setup_steps = (map fst plan, 0)) \<or>
      (\<exists>k < length plan. list_all (\<lambda>x. snd x = None) (take k plan) \<and> snd (plan ! k) \<noteq> None \<and>
        run_steps ?step setup_steps = (map fst (take (Suc k) plan), 1))"
    by (rule run_steps_plan [OF plan])
  ultimately show ?thesis unfolding main Let_def by blast
qed

theorem manager_start_up_witness:
  "main [] (\<lambda>a. None) (program_step (main_init []) (\<lambda>scheme b. if b_For b = ''DockerJob'' then Some (ErrMsg ''controller'') else None)
      (\<lambda>opts x. None)) [''--metrics-bind-address=:9090'', ''--leader-elect''] =
    ([NewManager, Setup ''DockerContainer'', Setup ''DockerHost'', Setup ''DockerService'', Setup ''DockerJob''], 1)"
proof -
  let ?complete = "\<lambda>scheme b. if b_For b = ''DockerJob'' then Some (ErrMsg ''controller'') else None"
  have args: "[''--metrics-bind-address=:9090'', ''--leader-elect''] =
      address_args [(''metrics-bind-address'', '':9090'')] @ (if True then [''--leader-elect''] else [])"
    by (simp add: address_args_def)
  note start = manager_start_up [where settings = "[(''metrics-bind-address'', '':9090'')]" and extra = "[]" and elect = True and
      run = "\<lambda>a. None" and complete = ?complete and lib = "\<lambda>opts x. None" and clientgo = "[]", OF _ _ refl refl refl]
  show ?thesis
    unfolding args using start by (auto simp: less_Suc_eq_0_disj Let_def)
qed

text \<open>
  C26: a change of a container reaches exactly the services it matters to. When a container changes,
  the service controller is asked to look at those services of the namespace whose selector would
  select the container when the service is reconciled, and at no other. A service that names its
  container, or that has an invalid selector, is not among them. The API server is assumed to list
  the services of the namespace, whose names are unique, and to select the containers by their
  labels.
\<close>

theorem container_change_reaches_services:
  assumes "sv_listDockerServices api (om_Namespace (dc_Meta c)) (st_world s) = (Inr svcs, w)"
    and "distinct (map (\<lambda>ds. om_Name (ds_Meta ds)) svcs)"
    and "\<And>sel. sv_selectContainers api (om_Namespace (dc_Meta c)) sel now = (Inr (selected sel), now)"
    and "\<And>sel. set (selected sel) =
      {x \<in> set conts. om_Namespace (dc_Meta x) = om_Namespace (dc_Meta c) \<and> sv_Matches api sel (om_Labels (dc_Meta x))}"
    and "c \<in> set conts" and "ds \<in> set svcs"
    and "run_state (container_requests api owner ds_SetupWithManager c) s = (r, s')"
  shows "\<lparr>key_Namespace = om_Namespace (ds_Meta ds), key_Name = om_Name (ds_Meta ds)\<rparr> \<in> set r \<longleftrightarrow>
    (\<exists>sel items. dss_Selector (ds_Spec ds) = Some sel \<and> sv_LabelSelectorAsSelector api sel = None \<and>
      sv_selectContainers api (om_Namespace (dc_Meta c)) sel now = (Inr items, now) \<and> c \<in> set items)"
proof -
  let ?key = "\<lambda>ds. \<lparr>key_Namespace = om_Namespace (ds_Meta ds), key_Name = om_Name (ds_Meta ds)\<rparr>"
  let ?hit = "\<lambda>ds. \<exists>sel. dss_Selector (ds_Spec ds) = Some sel \<and> sv_LabelSelectorAsSelector api sel = None \<and>
    sv_Matches api sel (om_Labels (dc_Meta c))"
  let ?g = "\<lambda>ds. case dss_Selector (ds_Spec ds) of None \<Rightarrow> []
      | Some sel \<Rightarrow> if sv_LabelSelectorAsSelector api sel = None \<and> sv_Matches api sel (om_Labels (dc_Meta c))
          then [?key ds] else []"
  have r: "r = concat (map ?g svcs)"
    using assms(1,7)
    by (simp add: container_requests_def ds_SetupWithManager_def findDockerServicesForContainer_def invoke_def)
  have g: "k \<in> set (?g x) \<longleftrightarrow> ?hit x \<and> k = ?key x" for k x
    by (cases "dss_Selector (ds_Spec x)") auto
  have same: "x = ds" if "x \<in> set svcs" "?key x = ?key ds" for x
    using assms(2,6) that by (auto simp: distinct_map dest: inj_onD)
  have "?key ds \<in> set r \<longleftrightarrow> (\<exists>x \<in> set svcs. ?hit x \<and> ?key ds = ?key x)"
    unfolding r set_concat set_map UN_iff bex_simps g ..
  also have "\<dots> \<longleftrightarrow> ?hit ds" using same assms(6) by metis
  also have "\<dots> \<longleftrightarrow> (\<exists>sel items. dss_Selector (ds_Spec ds) = Some sel \<and> sv_LabelSelectorAsSelector api sel = None \<and>
      sv_selectContainers api (om_Namespace (dc_Meta c)) sel now = (Inr items, now) \<and> c \<in> set items)"
    using assms(3,4,5) by auto
  finally show ?thesis .
qed

definition selecting_service :: "string \<Rightarrow> (string \<times> string) list \<Rightarrow> DockerService" where
  "selecting_service n sel = (plain_service n [])\<lparr>ds_Spec := (ds_Spec (plain_service n []))\<lparr>dss_Selector :=
     Some \<lparr>ls_MatchLabels = sel, ls_MatchExpressions = []\<rparr>\<rparr>\<rparr>"

theorem container_change_reaches_services_witness:
  "\<exists>r. run_state (container_requests (demo_svc [plain_service ''a'' ''c'', selecting_service ''b'' []]) (\<lambda>k m. [])
       ds_SetupWithManager (plain_container ''c'')) (start_state (empty_store\<lparr>ks_containers := [plain_container ''c'']\<rparr>)) =
       (r, start_state (empty_store\<lparr>ks_containers := [plain_container ''c'']\<rparr>)) \<and>
     \<lparr>key_Namespace = ''ns'', key_Name = ''b''\<rparr> \<in> set r"
proof -
  let ?api = "demo_svc [plain_service ''a'' ''c'', selecting_service ''b'' []]" and ?c = "plain_container ''c''"
  let ?w = "empty_store\<lparr>ks_containers := [plain_container ''c'']\<rparr>"
  obtain r s' where run: "run_state (container_requests ?api (\<lambda>k m. []) ds_SetupWithManager ?c) (start_state ?w) = (r, s')"
    by fastforce
  have "\<lparr>key_Namespace = om_Namespace (ds_Meta (selecting_service ''b'' [])), key_Name = om_Name (ds_Meta (selecting_service ''b'' []))\<rparr>
      \<in> set r"
  proof (rule iffD2 [OF container_change_reaches_services [where conts = "[?c]" and now = ?w and w = ?w and
          svcs = "[plain_service ''a'' ''c'', selecting_service ''b'' []]" and
          selected = "\<lambda>sel. filter (\<lambda>c. set (ls_MatchLabels sel) \<subseteq> set (om_Labels (dc_Meta c))) [?c]", OF _ _ _ _ _ _ run]])
  qed (auto simp: svc_fixture_defs plain_service_def selecting_service_def)
  moreover have "s' = start_state ?w"
    using run by (simp add: container_requests_def ds_SetupWithManager_def findDockerServicesForContainer_def invoke_def svc_fixture_defs)
  ultimately show ?thesis using run by (auto simp: selecting_service_def plain_service_def plain_meta_def)
qed

end
