(* ===== verification/Spec2Isabelle.thy ===== *)
theory Spec2Isabelle
  imports ContainerConv HostCtl JobLife DeploymentConv TunnelChain Logs DeepCopy Pipe Wiring
begin

text \<open>
  Verification of k8s-docker-operator, an operator that runs Docker containers on Docker hosts
  from Kubernetes resources.

  The program. Five controllers watch one kind of resource each and bring the world in line with
  it: \<open>DockerContainer\<close> (one container on one host), \<open>DockerHost\<close> (a daemon and its
  credentials), \<open>DockerJob\<close> (a container run to completion), \<open>DockerDeployment\<close> (a number
  of \<open>DockerContainer\<close>s), \<open>DockerService\<close> (a tunnel from the cluster to containers).
  They call the Kubernetes API and the daemons through client libraries and keep a cache of
  Docker clients. The tunnel is a server in the cluster and a client beside the containers: the
  server takes TCP connections and sends them through WebSocket sessions of the client to targets,
  which the service controller names in a file and pushes over HTTP; a gateway forwards the
  client's connection into the cluster. One binary is the manager of the controllers and, with the
  subcommand \<open>tunnel\<close>, the server, the client or the gateway.

  The theories, each with the source it models (paths under \<open>src/\<close>):

  \<^item> \<open>Prelude\<close>: Go's \<open>int32\<close>/\<open>int64\<close> wrap-around, time and durations, the string, path and
    number functions of the standard library, with their lemmas.
  \<^item> \<open>ApiTypes\<close>: the resources of \<open>api/v1alpha1\<close> as records.
  \<^item> \<open>GoUrl\<close>, \<open>GoFlag\<close>: the parts of the packages \<open>net/url\<close> and \<open>flag\<close> of the standard library
    that the tunnel uses: escaping, queries, parsing of URLs and of the command line.
  \<^item> \<open>GoHeap\<close>, \<open>GoObjects\<close>, \<open>DeepCopy\<close>: \<open>api/v1alpha1/deepcopy.go\<close> and
    \<open>zz_generated.deepcopy.go\<close>. A heap of typed cells, the contracts \<open>readable\<close> and \<open>deep_copier\<close>
    and their rules; the resources as they lie in the heap and the values of \<open>ApiTypes\<close> they stand
    for; the copy functions.
  \<^item> \<open>World\<close>: the boundary. Every call to Kubernetes, to a Docker daemon or to a library is a
    field of the record \<open>api\<close>, over an arbitrary world \<open>'w\<close>; handlers run in the state monad over
    the world, the client cache and a trace of the state-changing calls, and return \<open>error + 'a\<close>.
    \<open>wp\<close> and \<open>emits\<close> are the proof rules: weakest preconditions, and which events code can issue.
    Theorems over an arbitrary \<open>api\<close> hold whatever the cluster and the daemons do.
  \<^item> \<open>MockClient\<close>: \<open>internal/controller/common/mock_client.go\<close>, the in-memory daemon, and the
    interfaces \<open>docker_daemon\<close> and \<open>clean_daemon\<close> it is an interpretation of.
  \<^item> \<open>KubeStore\<close>: a concrete cluster in memory, used only to apply theorems to concrete runs.
  \<^item> \<open>ClientResolver\<close>: \<open>common/utils.go\<close> and the \<open>getDockerClient\<close> methods of the three
    reconcilers that have one; the interfaces \<open>client_resolver\<close> and \<open>caching_resolver\<close>.
  \<^item> \<open>ContainerSpec\<close>, \<open>ContainerCtl\<close>, \<open>ContainerConv\<close>: \<open>dockercontainer/reconciler.go\<close>. The
    translation of a spec and the drift check; the handlers, ordering of their calls and clean-up;
    convergence against a \<open>docker_daemon\<close>, and, against a \<open>clean_daemon\<close>, the sync of a container that
    differs from its resource and the whole life of a container.
  \<^item> \<open>LegacyTunnel\<close>: the tunnel functions at the end of \<open>dockercontainer/reconciler.go\<close>, which
    \<open>Reconcile\<close> no longer calls; \<open>Logs\<close>: \<open>dockercontainer/logs.go\<close>.
  \<^item> \<open>HostCtl\<close>: \<open>dockerhost/reconciler.go\<close>.
  \<^item> \<open>JobCtl\<close>, \<open>JobLife\<close>: \<open>dockerjob/reconciler.go\<close>. The handlers; the abstract machine
    \<open>job_step\<close> of a job's status, the refinement, and invariants over \<open>job_history\<close>.
  \<^item> \<open>DeploymentCtl\<close>, \<open>DeploymentConv\<close>: \<open>dockerdeployment/controller.go\<close>; the interface \<open>slice_sort\<close>
    of \<open>sort.Slice\<close>. The second theory interleaves passes of the controller with the rest of the
    cluster, \<open>dep_reach\<close>.
  \<^item> \<open>ServiceCtl\<close>: \<open>dockerservice/reconciler.go\<close>; its own calls are the record \<open>svc_api\<close>, which
    contains an \<open>api\<close>.
  \<^item> \<open>TunnelServer\<close>: \<open>internal/tunnel/server.go\<close> and the server's start in
    \<open>cmd/manager/main.go\<close>, a state machine \<open>srv_reach\<close> whose steps are the locked sections.
  \<^item> \<open>TunnelClient\<close>: \<open>internal/tunnel/client.go\<close> and the stream of \<open>internal/tunnel/conn.go\<close>.
  \<^item> \<open>Pipe\<close>: the copying of bytes in \<open>handleTCP\<close> and \<open>handleStream\<close>, the goroutines of both ends
    as interleaved steps, \<open>tunnel_reach\<close>.
  \<^item> \<open>Gateway\<close>: \<open>internal/tunnel/gateway.go\<close>; \<open>Manager\<close>: \<open>cmd/manager/main.go\<close>.
  \<^item> \<open>Wiring\<close>: the scheme (\<open>groupversion_info.go\<close>, the \<open>init\<close> functions), what each controller
    watches (\<open>SetupWithManager\<close>), the requests that a change of a container causes, and the start
    of the manager with these parts.
  \<^item> \<open>TunnelChain\<close>: from the objects the service controller writes, through command line, client and
    gateway, to a session of the server.
  \<^item> This theory: further properties that span components.

  What the properties show. Containers: a successful sync leaves a running container with the
  desired configuration, after which any number of syncs is calm; on a container that exists it
  enforces the fields of the spec it checks; a container starts only with the files and variables of
  its secrets in place; only containers of the resource's name, and its own status, are touched; a
  finalizer goes only after the clean-up, and sync and clean-up together leave
  the daemon as it was. Clients: cached for five minutes,
  replaced afterwards, never the local daemon for a named host. Hosts: the status shows the answer to
  a ping over the right connection, or the failure.
  Jobs: the statuses written are steps of the machine, attempts are bounded by the back-off limit,
  the status is consistent for life, deadline and time to live are exact. Deployments: exactly the
  missing containers are created, exactly the newest surplus deleted, and however the passes are
  interleaved with the rest of the cluster the oldest containers stay. Services: a change of a
  container reaches exactly the services that select it, the
  targets written, and pushed to the server's pods, are the targets the server reads, a tunnel has one
  token however many calls make it, the client is reported active last. Tunnel: a push holds for two
  minutes, round robin is fair, sessions are authenticated, the stream loses no bytes in either
  direction, the copied bytes stay in order end to end and are deliverable both ways until a copy
  ends, and a connection reaches the target that was picked; the gateway forwards to the address the
  target names; a client that the service
  controller creates gets through the gateway to the server it deploys and is registered. Copies:
  every resource but a service, and every list of such resources, is copied deeply and without
  getting stuck, and \<open>nil\<close> becomes the \<open>nil\<close> interface. Logs: the response is what the daemon sent, or the status that fits the error.
  Manager: the addresses given reach the manager, the five controllers are set up in order for kinds
  that are registered, and the start stops at the first failure.
  The remaining properties state where the code does not do what it means to; some theorems of
  this kind stand beside them without a number.

  Choices and limits. Integers keep their width through \<open>wrap32\<close>, \<open>wrap64\<close> and 64-bit words where
  the code computes with them. Go maps that are iterated are lists in an arbitrary order. Every
  loop is structural recursion except \<open>WebSocketConn_Read\<close>, an \<open>option\<close> recursion that is proved
  to return; no fuel is used. Endless loops (the accept loop, the file watcher, the client's
  reconnects) are recursion over the finite sequence of results they have seen. A run-time panic
  is the error \<open>GoPanic\<close>. Handlers are sequential;
  concurrent actors are covered because the \<open>api\<close> may answer anything, and in the tunnel server
  because every locked section is a step of its own; the goroutines of a connection are steps too.

  Values are immutable in all theories but those of the deep copies, where aliasing is the point.

  Not modelled: logging, the seeding of the random numbers, the loop in which \<open>handleWS\<close> waits for
  its session to close (its end is the step \<open>disconnectWS\<close>), and the methods of \<open>WebSocketConn\<close> and
  of the mock daemon that only pass a call on or return a constant.
\<close>

section \<open>Properties across components\<close>

text \<open>
  C13: the tunnel delivers a connection to the target the server picked. When the server hands a
  connection to a session, this is the session and the target that \<open>pick\<close> chose for it, both
  registered; the client behind the session reads from the stream exactly that target's address,
  dials it, and passes on every byte that follows. Targets are ASCII addresses of at most 256
  bytes, and the server's lists are Go slices, shorter than \<open>2 ^ 63\<close>.
\<close>

theorem tunnel_reaches_picked_target:
  assumes "fst (handleTCP openStream s) = Some (sess, header)" and "go_slices s"
    and "\<forall>t \<in> set (srv_targets s). ascii_line t \<and> length t \<le> 256"
  shows "\<exists>t. fst (pick s) = Picked t sess \<and> t \<in> set (srv_targets s) \<and> sess \<in> set (srv_sessions s) \<and>
    (\<forall>payload. handleStream dial (header @ payload) =
      (case dial t of Inl err \<Rightarrow> DialError t err | Inr _ \<Rightarrow> Piped t payload))"
proof -
  have ne: "srv_sessions s \<noteq> []" "srv_targets s \<noteq> []"
    using assms(1) by (auto simp: handleTCP_def pick_def split: if_splits)
  obtain t where t: "fst (pick s) = Picked t sess" "header = t @ [newline_char]"
    using assms(1) by (auto simp: handleTCP_def Let_def split: prod.splits pick_result.splits sum.splits option.splits)
  then have reg: "t \<in> set (srv_targets s)" "sess \<in> set (srv_sessions s)"
    using ne by (auto simp: pick_eq [OF ne assms(2)])
  have "read_header [] (header @ payload) = Inr (t, payload)" for payload
    using read_header_line [of t "[]" payload] assms(3) reg(1) by (auto simp: t(2))
  then show ?thesis using t(1) reg by (auto simp: handleStream_def)
qed

theorem tunnel_reaches_picked_target_witness:
  "\<exists>t. fst (pick demo_rr) = Picked t 7 \<and> (\<forall>payload. handleStream (\<lambda>a. Inr ()) (''b:2'' @ [newline_char] @ payload) = Piped t payload)"
proof -
  have f: "srv_targets demo_rr = [''a:1'', ''b:2'']" by (simp add: demo_rr_def NewServer_def)
  have "fst (handleTCP (\<lambda>sess. Inr (\<lambda>hdr. None)) demo_rr) = Some (7, ''b:2'' @ [newline_char])"
    by (simp add: handleTCP_def Let_def pick_def demo_rr_def NewServer_def unat_mod)
  moreover have "go_slices demo_rr" by (simp add: go_slices_def demo_rr_def NewServer_def)
  moreover have "\<forall>t \<in> set (srv_targets demo_rr). ascii_line t \<and> length t \<le> 256"
    by (simp add: f ascii_line_def)
  ultimately show ?thesis
    using tunnel_reaches_picked_target [where dial = "\<lambda>a. Inr ()"] by fastforce
qed

text \<open>
  The token flag of the tunnel client has no effect on the server. The client sends its token
  in a header, the server reads it from the query of the request URL: a client whose server URL
  does not carry the token is refused whatever its token flag says.
\<close>

theorem client_token_header_unread:
  assumes "srv_authToken s \<noteq> []" and "queryToken (rq_URL (connect_request c)) \<noteq> srv_authToken s"
  shows "handleWS (queryToken (rq_URL (connect_request (c\<lparr>cl_token := tok\<rparr>)))) upgrade yamuxServer s = (Forbidden, s)"
  using assms by (simp add: handleWS_def connect_request_def)

theorem client_token_header_unread_witness:
  "handleWS ((\<lambda>url. []) (rq_URL (connect_request \<lparr>cl_serverAddr = ''ws://h:8081/ws'', cl_token = ''secret''\<rparr>)))
     (Inr ()) (Inr 7) (NewServer '':8080'' '':8081'' ''secret'' []) = (Forbidden, NewServer '':8080'' '':8081'' ''secret'' [])"
  using client_token_header_unread [of "NewServer '':8080'' '':8081'' ''secret'' []" "\<lambda>url. []"
      "\<lparr>cl_serverAddr = ''ws://h:8081/ws'', cl_token = []\<rparr>" "''secret''"]
  by (simp add: NewServer_def)

text \<open>
  A host of the \<open>system\<close> namespace with a TLS secret works only where the secret is copied to.
  The host controller reads the secret in the namespace of the host and can report the host as
  connected; the container controller reads it in the namespace of the container, and when it is
  missing there every pass over the container fails and touches nothing.
\<close>

theorem system_tls_host_unusable:
  assumes "api_getDockerContainer api req (st_world s) = (Inr cr, w)"
    and "st_dockerClients s (dc_key cr) = None"
    and "om_Namespace (dc_Meta cr) \<noteq> ''system''"
    and "api_getDockerHost api \<lparr>key_Namespace = om_Namespace (dc_Meta cr), key_Name = host_name (dcs_DockerHostRef (dc_Spec cr))\<rparr> w
      = (Inl (KNotFound m), w1)"
    and "api_getDockerHost api \<lparr>key_Namespace = ''system'', key_Name = host_name (dcs_DockerHostRef (dc_Spec cr))\<rparr> w1 = (Inr host, w2)"
    and "dhs_TLSSecretName (dh_Spec host) \<noteq> []"
    and "api_getSecret api \<lparr>key_Namespace = om_Namespace (dc_Meta cr), key_Name = dhs_TLSSecretName (dh_Spec host)\<rparr> w2 = (Inl err, w3)"
  shows "run_state (dc_Reconcile api own req) s =
    (Inl (Wrapf (quoted ''failed to get TLS Secret'' (dhs_TLSSecretName (dh_Spec host))) err), s\<lparr>st_world := w3\<rparr>)"
  unfolding wp_eq_iff [symmetric] dc_Reconcile_def dc_getDockerClient_def dc_connect_def load_cached_def Let_def
  using assms by (simp add: wp_simps call_defs wp_invoke dc_key_def)

definition demo_tls_host :: DockerHost where
  "demo_tls_host = (plain_host ''default'')\<lparr>dh_Meta := (plain_meta ''default'')\<lparr>om_Namespace := ''system''\<rparr>,
     dh_Spec := \<lparr>dhs_HostURL = ''tcp://1.2.3.4:2376'', dhs_TLSSecretName = ''certs''\<rparr>\<rparr>"

definition demo_tls_store :: kube_store where
  "demo_tls_store = empty_store\<lparr>ks_containers := [plain_container ''web''], ks_hosts := [demo_tls_host],
     ks_secrets := [\<lparr>sec_Name = ''certs'', sec_Namespace = ''system'',
       sec_Data = [(''ca.pem'', ''c''), (''cert.pem'', ''c''), (''key.pem'', ''k'')]\<rparr>]\<rparr>"

theorem system_tls_host_unusable_witness:
  "fst (run_state (pingDockerHost kube demo_tls_host) (start_state demo_tls_store)) = Inr () \<and>
   run_state (dc_Reconcile kube None \<lparr>key_Namespace = ''ns'', key_Name = ''web''\<rparr>) (start_state demo_tls_store) =
     (Inl (Wrapf (quoted ''failed to get TLS Secret'' ''certs'') (KNotFound ''not found'')), start_state demo_tls_store)"
proof
  show "fst (run_state (pingDockerHost kube demo_tls_host) (start_state demo_tls_store)) = Inr ()"
    by (simp add: pingDockerHost_def ping_client_def GetTLSConfig_def bindE_def call_defs invoke_def
        demo_tls_host_def demo_tls_store_def fixture_defs)
  have "st_dockerClients (start_state demo_tls_store) (dc_key (plain_container ''web'')) = None"
    "api_getSecret kube \<lparr>key_Namespace = ''ns'', key_Name = ''certs''\<rparr> demo_tls_store = (Inl (KNotFound ''not found''), demo_tls_store)"
    by (simp_all add: demo_tls_store_def fixture_defs)
  with system_tls_host_unusable [of kube "\<lparr>key_Namespace = ''ns'', key_Name = ''web''\<rparr>" "start_state demo_tls_store"
      "plain_container ''web''" demo_tls_store "''not found''" demo_tls_store demo_tls_host demo_tls_store
      "KNotFound ''not found''" demo_tls_store None]
  show "run_state (dc_Reconcile kube None \<lparr>key_Namespace = ''ns'', key_Name = ''web''\<rparr>) (start_state demo_tls_store) =
     (Inl (Wrapf (quoted ''failed to get TLS Secret'' ''certs'') (KNotFound ''not found'')), start_state demo_tls_store)"
    by (simp add: demo_tls_host_def demo_tls_store_def host_name_def fixture_defs)
qed

text \<open>The server reads back the list the service controller writes.\<close>

lemma parse_targets_csv:
  assumes "\<And>t. t \<in> set xs \<Longrightarrow> t \<noteq> [] \<and> (\<forall>c \<in> set t. addr_char c)"
  shows "xs \<noteq> [] \<Longrightarrow> targets_csv xs \<noteq> []"
    and "xs \<noteq> [] \<Longrightarrow> parse_targets (targets_csv xs) = sort xs"
    and "file_targets (targets_csv xs) = sort xs"
proof -
  have "map TrimSpace (sort xs) = sort xs"
    using assms by (intro map_idI TrimSpace_id) (auto simp: addr_char_def)
  moreover have "filter (\<lambda>t. t \<noteq> []) (sort xs) = sort xs" using assms by (intro filter_True) auto
  moreover have split: "Split (targets_csv xs) (CHR '','') = sort xs" if "xs \<noteq> []"
    unfolding targets_csv_def using assms that
    by (intro Split_Join) (auto simp: addr_char_def simp flip: set_empty)
  ultimately show parse: "parse_targets (targets_csv xs) = sort xs" if "xs \<noteq> []"
    using that by (simp add: parse_targets_def)
  show ne: "targets_csv xs \<noteq> []" if "xs \<noteq> []"
  proof
    assume "targets_csv xs = []"
    with split [OF that] have "[] \<in> set (sort xs)" by (metis Split.simps(1) list.set_intros(1))
    with assms show False by auto
  qed
  have "\<not> is_space c" if c: "c \<in> set (targets_csv xs)" for c
  proof -
    from c set_Join [of "sort xs" "CHR '',''"] have "c = CHR '','' \<or> (\<exists>t \<in> set xs. c \<in> set t)"
      unfolding targets_csv_def by auto
    moreover have "\<not> is_space (CHR '','')" by (simp add: is_space_def)
    ultimately show ?thesis using assms by (auto simp: addr_char_def)
  qed
  then have "TrimSpace (targets_csv xs) = targets_csv xs" by (intro TrimSpace_id) blast
  with ne parse show "file_targets (targets_csv xs) = sort xs"
    by (cases "xs = []") (auto simp: file_targets_def targets_csv_def)
qed

text \<open>A push is a request to the server's reload handler that carries the list.\<close>

lemma parse_reload_url:
  assumes "dns_name ip"
  shows "\<exists>u. Parse (reload_url ip csv) = Inr u \<and> url_Scheme u = ''http'' \<and> url_Host u = ip @ '':8081'' \<and> url_Path u = ''/reload'' \<and>
    Values_Get (parseQuery (url_RawQuery u)) ''targets'' = csv"
proof -
  have q: "parseQuery (''targets='' @ QueryEscape csv) = [(''targets'', csv)]"
    using parseQuery_pairs [of "[(''targets'', csv)]"] QueryEscape_alnum [of "''targets''"]
    by (simp add: is_alnum_def less_eq_char_def)
  have "list_all raw_query_char (''targets='' @ QueryEscape csv)"
    using QueryEscape_raw [of csv] by (simp add: raw_query_char_def query_safe_def is_alnum_def less_eq_char_def)
  then have "Parse (reload_url ip csv) = Inr (empty_URL\<lparr>url_Scheme := ''http'', url_Host := ip @ '':8081'',
      url_Path := ''/reload'', url_RawQuery := ''targets='' @ QueryEscape csv\<rparr>)"
    using Parse_absolute [of "''http''" ip "''8081''" "''/reload''" "''targets='' @ QueryEscape csv"] assms
    by (simp add: reload_url_def dns_name_def is_digit_def scheme_char_def path_char_def is_alnum_def less_eq_char_def)
  then show ?thesis using q by (simp add: Values_Get_def)
qed

text \<open>
  C14: the targets of a service arrive at its tunnel server. Every targets file and every push of a
  pass of the service controller is read by the server as the sorted list of the addresses, with
  the target port of the first service port, of the containers that have one: the file outside the
  window of a recent push, and a push unless the list is empty. A push goes to a running pod that the
  cluster lists under the label of the service's tunnel server: its URL names port 8081 and the
  reload handler of that pod and carries the list in its query. Addresses of containers contain no
  comma and no white space; the address of the pod is a host name or an IPv4 address.
\<close>

theorem service_targets_reach_server:
  assumes "dss_Ports (ds_Spec ds) = p # ps"
    and "\<forall>tc \<in> set tcs. \<forall>c \<in> set (dct_IPv4 (dc_Status tc)). addr_char c"
  shows "emits (\<lambda>e. case e of
      EvApplyConfigMap cm r \<Rightarrow> (\<exists>data. map_of (cm_Data cm) ''targets'' = Some data \<and>
        (\<forall>now srv. \<not> recent_push srv now \<longrightarrow>
          srv_targets (loadTargetsFromFile (Inr data) now srv) = sort (service_targets (sp_TargetPort p) tcs)))
    | EvPost url \<Rightarrow> (\<exists>pod. listed_pod api (om_Namespace (ds_Meta ds)) (''tunnel-'' @ om_Name (ds_Meta ds)) pod \<and>
        (service_targets (sp_TargetPort p) tcs \<noteq> [] \<and> dns_name (pod_IP pod) \<longrightarrow>
          (\<exists>u. Parse url = Inr u \<and> url_Scheme u = ''http'' \<and> url_Host u = pod_IP pod @ '':8081'' \<and> url_Path u = ''/reload'' \<and>
            (\<forall>file now srv. srv_targets (snd (handleReload ''POST''
                (Values_Get (parseQuery (url_RawQuery u)) ''targets'') file now srv)) =
              sort (service_targets (sp_TargetPort p) tcs)))))
    | _ \<Rightarrow> True) (ds_proceed api own ds tcs)"
proof -
  let ?ts = "service_targets (sp_TargetPort p) tcs"
  note csv = parse_targets_csv [OF service_targets_addr [OF assms(2), where port = "sp_TargetPort p"], of ?ts]
  show ?thesis
  proof (rule emits_proceed [OF gather_targets_eq [OF assms(1)]], goal_cases)
    case (1 r)
    show ?case using csv(3) by (simp add: tunnel_configmap_def load_eq)
  next
    case (2 pod)
    have "srv_targets (snd (handleReload ''POST'' (targets_csv ?ts) f now srv)) = sort ?ts" if "?ts \<noteq> []" for f now srv
      using csv(1,2) [OF _ that] by (simp add: handleReload_def Let_def)
    then show ?case using parse_reload_url [of "pod_IP pod" "targets_csv ?ts"] 2 by (simp only: event.case) metis
  next
    case (3 e)
    then show ?case by (cases e) auto
  qed
qed

definition demo_backend :: "string \<Rightarrow> DockerContainer" where
  "demo_backend ip = (plain_container ''web'')\<lparr>dc_Status := (dc_Status (plain_container ''web''))\<lparr>dct_IPv4 := ip\<rparr>\<rparr>"

lemma demo_backend_targets:
  "sort (service_targets 8080 [demo_backend ''10.0.0.2'', demo_backend [], demo_backend ''10.0.0.1'']) = [''10.0.0.1:8080'', ''10.0.0.2:8080'']"
  by (simp add: service_targets_def target_addr_def demo_backend_def plain_container_def show_int_def show_nat.simps
      digit_char_def less_eq_char_def char_of_def bit_0)

theorem service_targets_reach_server_witness:
  "emits (\<lambda>e. case e of
      EvApplyConfigMap cm r \<Rightarrow> (\<exists>data. map_of (cm_Data cm) ''targets'' = Some data \<and>
        srv_targets (loadTargetsFromFile (Inr data) 0 (NewServer '':80'' '':8081'' [] [])) = [''10.0.0.1:8080'', ''10.0.0.2:8080''])
    | EvPost url \<Rightarrow> (\<exists>u. Parse url = Inr u \<and> url_Host u = ''10.0.0.9:8081'' \<and> url_Path u = ''/reload'')
    | _ \<Rightarrow> True) (ds_proceed (demo_svc []) None (plain_service ''svc'' ''web'')
        [demo_backend ''10.0.0.2'', demo_backend [], demo_backend ''10.0.0.1''])"
proof -
  let ?tcs = "[demo_backend ''10.0.0.2'', demo_backend [], demo_backend ''10.0.0.1'']"
  have "\<forall>tc \<in> set ?tcs. \<forall>c \<in> set (dct_IPv4 (dc_Status tc)). addr_char c"
    by (simp add: demo_backend_def plain_container_def addr_char_def is_space_def)
  moreover have "dss_Ports (ds_Spec (plain_service ''svc'' ''web'')) = \<lparr>sp_Port = 80, sp_TargetPort = 8080, sp_Name = ''http''\<rparr> # []"
    by (simp add: plain_service_def)
  moreover have "\<not> recent_push (NewServer '':80'' '':8081'' [] []) 0" by (simp add: recent_push_def NewServer_def)
  moreover have "pod_IP pod = ''10.0.0.9''" "dns_name (pod_IP pod)" if "listed_pod (demo_svc []) ns app pod" for ns app pod
    using that by (auto simp: listed_pod_def demo_svc_def dns_name_def name_char_def is_alnum_def less_eq_char_def)
  moreover have "service_targets 8080 ?tcs \<noteq> []" using demo_backend_targets by fastforce
  ultimately show ?thesis
    by (intro emits_mono [OF service_targets_reach_server [of "plain_service ''svc'' ''web''" _ _ ?tcs "demo_svc []"]])
      (fastforce simp: demo_backend_targets split: event.splits)+
qed

end
